(* ===== verification/Prelude.thy ===== *)
theory Prelude
  imports Main "HOL-Library.Word" "HOL-Library.Multiset" "HOL-Library.AList"
begin

text \<open>
  The prelude of the development: the Rust scalar types and the casts between them, the string
  operations the sources call, SQL's three-valued logic, the \<open>INSERT .. ON CONFLICT\<close> statement
  on one table, and the locale \<open>gated_upsert\<close>, the contract that every sequence-guarded or
  slot-guarded write of the indexer meets.  The locale carries the lemmas on stale writes,
  redelivery, reordering and last-writer-wins that the component theories interpret.
\<close>

named_theorems sql_simps \<open>evaluation of the WHERE clauses\<close>
named_theorems row_simps \<open>unfolding of the column assignments of one statement\<close>
named_theorems db_simps \<open>evaluation of database actions\<close>

section \<open>Scalars\<close>

type_synonym u8 = "8 word"
type_synonym u16 = "16 word"
type_synonym u32 = "32 word"
type_synonym u64 = "64 word"
type_synonym bytes = "u8 list"
type_synonym pubkey = bytes

text \<open>
  Signed columns (\<open>i64\<close>, \<open>i32\<close>, \<open>i16\<close>) are integers; a Rust \<open>as\<close> cast into one of them is
  written out.  \<open>u64 as i64\<close> reinterprets the bits, the narrower unsigned types are extended.
\<close>

definition as_i64 :: "u64 \<Rightarrow> int" where
  "as_i64 x = sint x"

definition u32_as_i64 :: "u32 \<Rightarrow> int" where
  "u32_as_i64 x = uint x"

definition u16_as_i32 :: "u16 \<Rightarrow> int" where
  "u16_as_i32 x = uint x"

definition u8_as_i32 :: "u8 \<Rightarrow> int" where
  "u8_as_i32 x = uint x"

definition wrap_i64 :: "int \<Rightarrow> int" where
  "wrap_i64 x = sint (word_of_int x :: u64)"

definition i16_of_nat :: "nat \<Rightarrow> int" where
  "i16_of_nat n = sint (word_of_nat n :: u16)"

lemma wrap_i64_small: "- (2 ^ 63) \<le> x \<Longrightarrow> x < 2 ^ 63 \<Longrightarrow> wrap_i64 x = x"
  unfolding wrap_i64_def by (simp add: sint_sbintrunc' signed_take_bit_int_eq_self)

lemma as_i64_small:
  assumes "unat x < 2 ^ 63"
  shows "as_i64 x = uint x"
proof -
  have "int (unat x) < 2 ^ 63"
    using assms by (metis of_nat_less_iff of_nat_numeral of_nat_power)
  then have "uint x < 2 ^ 63"
    by (simp only: of_nat_unat)
  moreover have "- (2 ^ 63) \<le> uint x"
    by (rule order_trans[OF _ uint_ge_0]) simp
  ultimately have "wrap_i64 (uint x) = uint x"
    by (intro wrap_i64_small)
  then show ?thesis
    by (simp add: wrap_i64_def as_i64_def)
qed

lemma as_i64_inj: "as_i64 x = as_i64 y \<longleftrightarrow> x = y"
  unfolding as_i64_def by (metis uint_sint word_uint_eq_iff)

lemma as_i64_0 [simp]: "as_i64 x = 0 \<longleftrightarrow> x = 0"
  using as_i64_inj[of x 0] by (simp add: as_i64_def)

lemma as_i64_less:
  "unat x < 2 ^ 63 \<Longrightarrow> unat y < 2 ^ 63 \<Longrightarrow> as_i64 x < as_i64 y \<longleftrightarrow> x < y"
  by (simp only: as_i64_small word_less_def)

section \<open>Strings\<close>

text \<open>
  A Rust \<open>String\<close> is its UTF-8 bytes.  \<open>str::trim\<close> drops leading and trailing characters with
  the Unicode property White\_Space; \<open>whitespace\<close> lists their encodings.
\<close>

definition ws1 :: "string list" where
  "ws1 = map (\<lambda>n. [char_of (n::nat)]) [9, 10, 11, 12, 13, 32]"

definition ws_multi :: "string list" where
  "ws_multi = map (map char_of)
     ([[194, 133], [194, 160], [225, 154, 128], [226, 128, 168], [226, 128, 169],
       [226, 128, 175], [226, 129, 159], [227, 128, 128]]
      @ map (\<lambda>n. [226, 128, n]) [128 ..< (139::nat)])"

definition whitespace :: "string list" where
  "whitespace = ws1 @ ws_multi"

fun drop_prefix :: "string \<Rightarrow> string \<Rightarrow> string option" where
  "drop_prefix [] s = Some s"
| "drop_prefix (p # ps) [] = None"
| "drop_prefix (p # ps) (c # s) = (if p = c then drop_prefix ps s else None)"

fun drop_any :: "string list \<Rightarrow> string \<Rightarrow> string option" where
  "drop_any [] s = None"
| "drop_any (w # ws) s = (case drop_prefix w s of Some r \<Rightarrow> Some r | None \<Rightarrow> drop_any ws s)"

lemma drop_prefix_length: "drop_prefix p s = Some r \<Longrightarrow> length s = length p + length r"
  by (induction p s rule: drop_prefix.induct) (auto split: if_splits)

lemma drop_any_length:
  "drop_any ws s = Some r \<Longrightarrow> [] \<notin> set ws \<Longrightarrow> length r < length s"
proof (induction ws)
  case (Cons w ws)
  then show ?case by (cases w) (auto split: option.splits dest!: drop_prefix_length)
qed simp

function strip :: "string list \<Rightarrow> string \<Rightarrow> string" where
  "strip ws s = (if [] \<in> set ws then s else
     case drop_any ws s of None \<Rightarrow> s | Some r \<Rightarrow> strip ws r)"
  by pat_completeness auto
termination
  by (relation "measure (\<lambda>(ws, s). length s)") (auto dest: drop_any_length)

declare strip.simps [simp del]

definition trim :: "string \<Rightarrow> string" where
  "trim s = rev (strip (map rev whitespace) (rev (strip whitespace s)))"

definition remove_nul :: "string \<Rightarrow> string" where
  "remove_nul s = filter (\<lambda>c. c \<noteq> char_of (0::nat)) s"

lemma remove_nul_idem [simp]: "remove_nul (remove_nul s) = remove_nul s"
  by (simp add: remove_nul_def)

lemma remove_nul_no_nul: "char_of (0::nat) \<notin> set (remove_nul s)"
  by (simp add: remove_nul_def)

definition string_bytes :: "string \<Rightarrow> bytes" where
  "string_bytes s = map (\<lambda>c. of_char c) s"

section \<open>SQL conditions\<close>

text \<open>A condition is true, false or unknown; a nullable column is an \<open>option\<close>.\<close>

type_synonym sql_bool = "bool option"

definition sql_cmp :: "('a \<Rightarrow> 'a \<Rightarrow> bool) \<Rightarrow> 'a option \<Rightarrow> 'a option \<Rightarrow> sql_bool" where
  "sql_cmp f x y = (case (x, y) of (Some a, Some b) \<Rightarrow> Some (f a b) | _ \<Rightarrow> None)"

definition sql_gt :: "int option \<Rightarrow> int option \<Rightarrow> sql_bool" where
  "sql_gt = sql_cmp (>)"

definition sql_ge :: "int option \<Rightarrow> int option \<Rightarrow> sql_bool" where
  "sql_ge = sql_cmp (\<ge>)"

definition sql_ne :: "int option \<Rightarrow> int option \<Rightarrow> sql_bool" where
  "sql_ne = sql_cmp (\<noteq>)"

definition sql_is_null :: "'a option \<Rightarrow> sql_bool" where
  "sql_is_null x = Some (x = None)"

fun sql_and :: "sql_bool \<Rightarrow> sql_bool \<Rightarrow> sql_bool" where
  "sql_and (Some False) _ = Some False"
| "sql_and _ (Some False) = Some False"
| "sql_and (Some True) (Some True) = Some True"
| "sql_and _ _ = None"

fun sql_or :: "sql_bool \<Rightarrow> sql_bool \<Rightarrow> sql_bool" where
  "sql_or (Some True) _ = Some True"
| "sql_or _ (Some True) = Some True"
| "sql_or (Some False) (Some False) = Some False"
| "sql_or _ _ = None"

definition sql_holds :: "sql_bool \<Rightarrow> bool" where
  "sql_holds c \<longleftrightarrow> c = Some True"

lemma sql_holds_or [sql_simps]: "sql_holds (sql_or a b) \<longleftrightarrow> sql_holds a \<or> sql_holds b"
  by (cases "(a, b)" rule: sql_or.cases) (auto simp: sql_holds_def)

lemma sql_holds_and [sql_simps]: "sql_holds (sql_and a b) \<longleftrightarrow> sql_holds a \<and> sql_holds b"
  by (cases "(a, b)" rule: sql_and.cases) (auto simp: sql_holds_def)

lemma sql_holds_is_null [sql_simps]: "sql_holds (sql_is_null x) \<longleftrightarrow> x = None"
  by (simp add: sql_holds_def sql_is_null_def)

lemma sql_holds_gt [sql_simps]:
  "sql_holds (sql_gt x y) \<longleftrightarrow> (\<exists>a b. x = Some a \<and> y = Some b \<and> b < a)"
  by (auto simp: sql_holds_def sql_gt_def sql_cmp_def split: option.splits)

lemma sql_holds_ge [sql_simps]:
  "sql_holds (sql_ge x y) \<longleftrightarrow> (\<exists>a b. x = Some a \<and> y = Some b \<and> b \<le> a)"
  by (auto simp: sql_holds_def sql_ge_def sql_cmp_def split: option.splits)

lemma sql_holds_ne [sql_simps]:
  "sql_holds (sql_ne x y) \<longleftrightarrow> (\<exists>a b. x = Some a \<and> y = Some b \<and> a \<noteq> b)"
  by (auto simp: sql_holds_def sql_ne_def sql_cmp_def split: option.splits)

text \<open>The two shapes of guard: \<open>new >= old OR old IS NULL\<close>, and the same on rows not marked 0.\<close>

lemma null_or_ge:
  "sql_holds (sql_or (sql_ge (Some s) v) (sql_is_null v)) \<longleftrightarrow>
     (case v of None \<Rightarrow> True | Some w \<Rightarrow> w \<le> s)"
  by (cases v) (simp_all add: sql_simps)

lemma open_and_ge:
  "sql_holds (sql_or (sql_and (sql_ne v (Some 0)) (sql_ge (Some s) v)) (sql_is_null v)) \<longleftrightarrow>
     v \<noteq> Some 0 \<and> (case v of None \<Rightarrow> True | Some w \<Rightarrow> w \<le> s)"
  by (cases v) (auto simp: sql_simps)

section \<open>Upserts\<close>

text \<open>
  \<open>INSERT INTO t VALUES new ON CONFLICT (k) DO UPDATE SET cols = excluded.cols WHERE whr\<close>:
  \<open>new\<close> is the row proposed for insertion (SQL's \<open>excluded\<close>), \<open>cols new old\<close> the stored row
  with the listed columns taken from \<open>new\<close>, \<open>whr new old\<close> the condition.
\<close>

definition upsert ::
  "'k \<Rightarrow> 'r \<Rightarrow> ('r \<Rightarrow> 'r \<Rightarrow> 'r) \<Rightarrow> ('r \<Rightarrow> 'r \<Rightarrow> sql_bool) \<Rightarrow> ('k \<rightharpoonup> 'r) \<Rightarrow> ('k \<rightharpoonup> 'r)" where
  "upsert k new cols whr t =
     (case t k of
        None \<Rightarrow> t(k \<mapsto> new)
      | Some old \<Rightarrow> if sql_holds (whr new old) then t(k \<mapsto> cols new old) else t)"

definition insert_do_nothing :: "'k \<Rightarrow> 'r \<Rightarrow> ('k \<rightharpoonup> 'r) \<Rightarrow> ('k \<rightharpoonup> 'r)" where
  "insert_do_nothing k new t = (case t k of None \<Rightarrow> t(k \<mapsto> new) | Some _ \<Rightarrow> t)"

text \<open>The same statement seen from the one row it concerns.\<close>

definition row_upsert ::
  "'r \<Rightarrow> ('r \<Rightarrow> 'r \<Rightarrow> 'r) \<Rightarrow> ('r \<Rightarrow> 'r \<Rightarrow> sql_bool) \<Rightarrow> 'r option \<Rightarrow> 'r" where
  "row_upsert new cols whr ro =
     (case ro of None \<Rightarrow> new | Some old \<Rightarrow> if sql_holds (whr new old) then cols new old else old)"

lemma upsert_eq: "upsert k new cols whr t = t(k \<mapsto> row_upsert new cols whr (t k))"
  by (auto simp: upsert_def row_upsert_def map_upd_triv split: option.split)

lemma row_upsert_None [simp]: "row_upsert new cols whr None = new"
  by (simp add: row_upsert_def)

lemma row_upsert_Some:
  "row_upsert new cols whr (Some old) = (if sql_holds (whr new old) then cols new old else old)"
  by (simp add: row_upsert_def)

lemma upsert_other: "k' \<noteq> k \<Longrightarrow> upsert k new cols whr t k' = t k'"
  by (simp add: upsert_def split: option.split)

lemma upsert_row: "upsert k new cols whr t k = Some
   (case t k of None \<Rightarrow> new | Some old \<Rightarrow> if sql_holds (whr new old) then cols new old else old)"
  by (simp add: upsert_def split: option.split)

lemma dom_upsert [simp]: "dom (upsert k new cols whr t) = insert k (dom t)"
  by (auto simp: upsert_def split: option.splits)

lemma insert_do_nothing_other: "k' \<noteq> k \<Longrightarrow> insert_do_nothing k new t k' = t k'"
  by (simp add: insert_do_nothing_def split: option.split)

lemma insert_do_nothing_row:
  "insert_do_nothing k new t k = Some (case t k of None \<Rightarrow> new | Some old \<Rightarrow> old)"
  by (simp add: insert_do_nothing_def split: option.split)

text \<open>The statement on a table kept as a list of keys and rows.\<close>

definition list_upsert ::
  "'k \<Rightarrow> 'r \<Rightarrow> ('r \<Rightarrow> 'r \<Rightarrow> 'r) \<Rightarrow> ('r \<Rightarrow> 'r \<Rightarrow> sql_bool) \<Rightarrow> ('k \<times> 'r) list \<Rightarrow> ('k \<times> 'r) list" where
  "list_upsert k new cols whr t = AList.update k (row_upsert new cols whr (map_of t k)) t"

lemma map_of_list_upsert: "map_of (list_upsert k new cols whr t) = upsert k new cols whr (map_of t)"
  by (simp add: list_upsert_def update_conv' upsert_eq)

lemma distinct_list_upsert: "distinct (map fst t) \<Longrightarrow> distinct (map fst (list_upsert k new cols whr t))"
  by (simp add: list_upsert_def distinct_update)

section \<open>Guarded writes\<close>

text \<open>
  Every write of the indexer that can arrive late is guarded by a version column: a sequence
  number of the Merkle tree or a slot.  \<open>gated_upsert\<close> is the contract of such a write on one
  row.  \<open>cols a r\<close> assigns the statement's columns; a row that does not exist yet is created
  from \<open>base a\<close>, the column defaults.  \<open>ver\<close> reads the version column, \<open>stamp\<close> the version the
  write carries, \<open>accepts\<close> is the comparison of the WHERE clause, \<open>null_ok\<close> whether it lets a
  row with a NULL version through, and \<open>open_row\<close> the rest of the clause (a decompressed asset
  is not open for Bubblegum writes).  \<open>compat\<close> relates writes that assign the same columns.
\<close>

locale gated_upsert =
  fixes cols :: "'a \<Rightarrow> 'r \<Rightarrow> 'r"
    and base :: "'a \<Rightarrow> 'r"
    and ver :: "'r \<Rightarrow> int option"
    and stamp :: "'a \<Rightarrow> int"
    and accepts :: "int \<Rightarrow> int \<Rightarrow> bool"
    and null_ok :: bool
    and open_row :: "'r \<Rightarrow> bool"
    and compat :: "'a \<Rightarrow> 'a \<Rightarrow> bool"
    and step :: "'a \<Rightarrow> 'r option \<Rightarrow> 'r"
  assumes step_None: "step a None = cols a (base a)"
    and step_Some: "step a (Some r) =
      (if open_row r \<and> (case ver r of None \<Rightarrow> null_ok | Some v \<Rightarrow> accepts (stamp a) v)
       then cols a r else r)"
    and ver_cols: "ver (cols a r) = Some (stamp a)"
    and accepts_newer: "v < s \<Longrightarrow> accepts s v"
    and rejects_older: "s < v \<Longrightarrow> \<not> accepts s v"
    and open_cols: "compat a a \<Longrightarrow> open_row r \<Longrightarrow> open_row (cols a r)"
    and open_base: "open_row (base a)"
    and compat_refl: "compat a b \<Longrightarrow> compat a a \<and> compat b b"
    and base_compat: "compat a b \<Longrightarrow> cols a (base b) = cols a (base a)"
    and cols_cols: "compat a b \<Longrightarrow> cols a (cols b r) = cols a r"
begin

definition lift :: "'a \<Rightarrow> 'r option \<Rightarrow> 'r option" where
  "lift a ro = Some (step a ro)"

definition run :: "'a list \<Rightarrow> 'r option \<Rightarrow> 'r option" where
  "run as ro = fold lift as ro"

text \<open>A write older than the row, or to a closed row, changes nothing.\<close>

lemma step_stale: "ver r = Some v \<Longrightarrow> stamp a < v \<Longrightarrow> step a (Some r) = r"
  by (simp add: step_Some rejects_older)

lemma step_closed: "\<not> open_row r \<Longrightarrow> step a (Some r) = r"
  by (simp add: step_Some)

lemma step_fresh: "open_row r \<Longrightarrow> ver r = Some v \<Longrightarrow> v < stamp a \<Longrightarrow> step a (Some r) = cols a r"
  by (simp add: step_Some accepts_newer)

text \<open>The version of a row never decreases.\<close>

lemma step_ver_mono:
  assumes "ver r = Some v"
  shows "\<exists>v'. ver (step a (Some r)) = Some v' \<and> v \<le> v'"
proof (cases "open_row r \<and> accepts (stamp a) v")
  case True
  then have "v \<le> stamp a"
    using rejects_older linorder_not_less by blast
  with True assms show ?thesis
    by (simp add: step_Some ver_cols)
next
  case False
  with assms show ?thesis by (auto simp: step_Some)
qed

text \<open>Redelivery of the last write changes nothing.\<close>

lemma step_idem:
  assumes "compat a a"
  shows "step a (Some (step a ro)) = step a ro"
proof (cases ro)
  case None
  then show ?thesis
    using cols_cols[OF assms] by (simp add: step_None step_Some)
next
  case (Some r)
  then show ?thesis
    using cols_cols[OF assms] by (simp add: step_Some)
qed

text \<open>Two writes with different versions commute.\<close>

lemma step_commute_less:
  assumes c: "compat a b" "compat b a" and lt: "stamp a < stamp b"
  shows "step a (Some (step b ro)) = step b (Some (step a ro))"
proof (cases ro)
  case None
  have "open_row (cols a (base a))"
    using open_cols open_base compat_refl[OF c(1)] by blast
  then have "step b (Some (cols a (base a))) = cols b (base a)"
    using lt c by (simp add: step_Some ver_cols accepts_newer cols_cols)
  with None lt show ?thesis
    by (simp add: step_None step_Some[of a] ver_cols rejects_older base_compat[OF c(2)])
next
  case (Some r)
  show ?thesis
  proof (cases "open_row r")
    case False
    with Some show ?thesis by (simp add: step_closed)
  next
    case True
    have oa: "open_row (cols a r)"
      using open_cols True compat_refl[OF c(1)] by blast
    show ?thesis
    proof (cases "ver r")
      case None
      with Some True oa lt c show ?thesis
        by (simp add: step_Some ver_cols accepts_newer rejects_older cols_cols)
    next
      case ver: (Some v)
      show ?thesis
      proof (cases "accepts (stamp a) v")
        case acc: True
        then have "v < stamp b"
          using rejects_older lt by (meson linorder_not_less order_le_less_trans)
        with Some True oa lt c acc ver show ?thesis
          by (simp add: step_Some ver_cols accepts_newer rejects_older cols_cols)
      next
        case rej: False
        with Some True ver lt show ?thesis
          by (simp add: step_Some ver_cols rejects_older)
      qed
    qed
  qed
qed

lemma step_commute:
  assumes "compat a b" "compat b a" and "stamp a \<noteq> stamp b"
  shows "step a (Some (step b ro)) = step b (Some (step a ro))"
  using assms step_commute_less[of a b ro] step_commute_less[of b a ro]
  by (metis linorder_neqE)

text \<open>
  Delivery order does not matter: any two orders of a batch whose versions differ leave the
  same row, and it is the row the newest write leaves.
\<close>

lemma run_permute:
  assumes "mset as = mset bs" and "distinct (map stamp as)"
    and "\<forall>a \<in> set as. \<forall>b \<in> set as. compat a b"
  shows "run as ro = run bs ro"
proof -
  have "fold lift as = fold lift bs"
  proof (rule fold_multiset_equiv)
    fix x y assume xy: "x \<in> set as" "y \<in> set as"
    show "lift x \<circ> lift y = lift y \<circ> lift x"
    proof (cases "stamp x = stamp y")
      case True
      with xy assms(2) have "x = y"
        by (auto simp: distinct_map inj_on_def)
      then show ?thesis by simp
    next
      case False
      with xy assms(3) show ?thesis
        by (auto simp: lift_def fun_eq_iff intro!: step_commute)
    qed
  qed (use assms(1) in simp)
  then show ?thesis by (simp add: run_def)
qed

lemma run_older:
  assumes "ver r = Some v" and "\<forall>a \<in> set as. stamp a < v"
  shows "run as (Some r) = Some r"
  using assms by (induction as) (simp_all add: run_def lift_def step_stale)

lemma run_newest:
  assumes "m \<in> set as" and "distinct (map stamp as)"
    and newest: "\<forall>a \<in> set as. a \<noteq> m \<longrightarrow> stamp a < stamp m"
    and "\<forall>a \<in> set as. \<forall>b \<in> set as. compat a b"
    and "ver (step m ro) = Some (stamp m)"
  shows "run as ro = Some (step m ro)"
proof -
  let ?rest = "remove1 m as"
  have "distinct as"
    using assms(2) by (simp add: distinct_map)
  then have "\<forall>a \<in> set ?rest. stamp a < stamp m"
    using newest by simp
  then have "run ?rest (Some (step m ro)) = Some (step m ro)"
    using assms(5) by (rule run_older[rotated])
  moreover have "run as ro = run (m # ?rest) ro"
    using assms(1,2,4) by (intro run_permute) simp_all
  ultimately show ?thesis
    by (simp add: run_def lift_def)
qed

end

end
