(* ===== verification/Schema.thy ===== *)
theory Schema
  imports Prelude
begin

text \<open>
  The database schema (\<open>digital_asset_types/src/dao/generated\<close>): the enumerations, one record per
  table row with the columns of its \<open>Model\<close>, the column defaults a partial \<open>INSERT\<close> leaves behind
  (\<open>init.sql\<close> and the migrations), and the record \<open>db\<close> of all tables.  A table is a map from its
  unique key.  Two tables are lists: \<open>backfill_items\<close> has no unique key, and \<open>token_accounts\<close> is
  searched by other columns (a list of key and row, at most one row per key).  The generated surrogate keys
  and the \<open>created_at\<close> timestamps are not columns of the model: no guard reads them.
  \<open>faults\<close> is the schedule of statement outcomes of the connection, see theory \<open>Db\<close>.
\<close>

section \<open>JSON\<close>

text \<open>\<open>serde_json::Value\<close>; an object keeps its insertion order (feature \<open>preserve_order\<close>).\<close>

datatype json =
    JNull
  | JBool bool
  | JNumber int
  | JString string
  | JArray "json list"
  | JObject "(string \<times> json) list"

section \<open>Enumerations\<close>

datatype SpecificationAssetClass =
    Class_FungibleAsset | Class_FungibleToken | Class_IdentityNft | Class_MplCoreAsset
  | Class_MplCoreCollection | Class_Nft | Class_NonTransferableNft | Class_Print
  | Class_PrintableNft | Class_ProgrammableNft | Class_TransferRestrictedNft | Class_Unknown

datatype RoyaltyTargetType =
    Royalty_Creators | Royalty_Fanout | Royalty_Single | Royalty_Unknown

datatype OwnerType = Owner_Single | Owner_Token | Owner_Unknown

datatype SpecificationVersions = Spec_Unknown | Spec_V0 | Spec_V1 | Spec_V2

datatype Mutability = Mut_Immutable | Mut_Mutable | Mut_Unknown

datatype ChainMutability = Chain_Immutable | Chain_Mutable | Chain_Unknown

datatype V1AccountAttachments =
    Att_Edition | Att_EditionMarker | Att_MasterEditionV1 | Att_MasterEditionV2
  | Att_TokenInscription | Att_Unknown

datatype Instruction =
    Ix_Burn | Ix_BurnV2 | Ix_CancelRedeem | Ix_Compress | Ix_DecompressV1 | Ix_Delegate
  | Ix_DelegateAndFreezeV2 | Ix_DelegateV2 | Ix_FreezeV2 | Ix_MintToCollectionV1 | Ix_MintV1
  | Ix_MintV2 | Ix_Redeem | Ix_SetAndVerifyCollection | Ix_SetCollectionV2
  | Ix_SetNonTransferableV2 | Ix_ThawAndRevokeV2 | Ix_ThawV2 | Ix_Transfer | Ix_TransferV2
  | Ix_Unknown | Ix_UnverifyCollection | Ix_UnverifyCreator | Ix_UnverifyCreatorV2
  | Ix_UpdateAssetDataV2 | Ix_UpdateMetadata | Ix_UpdateMetadataV2 | Ix_VerifyCollection
  | Ix_VerifyCreator | Ix_VerifyCreatorV2

section \<open>Rows\<close>

record asset_row =
  a_id :: bytes
  a_alt_id :: "bytes option"
  a_specification_version :: "SpecificationVersions option"
  a_specification_asset_class :: "SpecificationAssetClass option"
  a_owner :: "bytes option"
  a_owner_type :: OwnerType
  a_delegate :: "bytes option"
  a_frozen :: bool
  a_supply :: int
  a_supply_mint :: "bytes option"
  a_compressed :: bool
  a_compressible :: bool
  a_seq :: "int option"
  a_tree_id :: "bytes option"
  a_leaf :: "bytes option"
  a_nonce :: "int option"
  a_royalty_target_type :: RoyaltyTargetType
  a_royalty_target :: "bytes option"
  a_royalty_amount :: int
  a_asset_data :: "bytes option"
  a_burnt :: bool
  a_slot_updated :: "int option"
  a_slot_updated_metadata_account :: "int option"
  a_slot_updated_mint_account :: "int option"
  a_slot_updated_token_account :: "int option"
  a_slot_updated_cnft_transaction :: "int option"
  a_data_hash :: "string option"
  a_creator_hash :: "string option"
  a_owner_delegate_seq :: "int option"
  a_leaf_seq :: "int option"
  a_base_info_seq :: "int option"
  a_mint_extensions :: "json option"
  a_mpl_core_plugins :: "json option"
  a_mpl_core_unknown_plugins :: "json option"
  a_mpl_core_collection_num_minted :: "int option"
  a_mpl_core_collection_current_size :: "int option"
  a_mpl_core_plugins_json_version :: "int option"
  a_mpl_core_external_plugins :: "json option"
  a_mpl_core_unknown_external_plugins :: "json option"
  a_collection_hash :: "string option"
  a_asset_data_hash :: "string option"
  a_bubblegum_flags :: "int option"
  a_non_transferable :: "bool option"

text \<open>The row a partial insert starts from: the column defaults of \<open>init.sql\<close>, else NULL.\<close>

definition asset_defaults :: "bytes \<Rightarrow> asset_row" where
  "asset_defaults k = \<lparr>a_id = k, a_alt_id = None, a_specification_version = None,
     a_specification_asset_class = None, a_owner = None, a_owner_type = Owner_Single,
     a_delegate = None, a_frozen = False, a_supply = 1, a_supply_mint = None,
     a_compressed = False, a_compressible = False, a_seq = None, a_tree_id = None,
     a_leaf = None, a_nonce = None, a_royalty_target_type = Royalty_Creators,
     a_royalty_target = None, a_royalty_amount = 0, a_asset_data = None, a_burnt = False,
     a_slot_updated = None, a_slot_updated_metadata_account = None,
     a_slot_updated_mint_account = None, a_slot_updated_token_account = None,
     a_slot_updated_cnft_transaction = None, a_data_hash = None, a_creator_hash = None,
     a_owner_delegate_seq = None, a_leaf_seq = None, a_base_info_seq = None,
     a_mint_extensions = None, a_mpl_core_plugins = None, a_mpl_core_unknown_plugins = None,
     a_mpl_core_collection_num_minted = None, a_mpl_core_collection_current_size = None,
     a_mpl_core_plugins_json_version = None, a_mpl_core_external_plugins = None,
     a_mpl_core_unknown_external_plugins = None, a_collection_hash = None,
     a_asset_data_hash = None, a_bubblegum_flags = None, a_non_transferable = None\<rparr>"

record asset_data_row =
  ad_id :: bytes
  ad_chain_data_mutability :: ChainMutability
  ad_chain_data :: json
  ad_metadata_url :: string
  ad_metadata_mutability :: Mutability
  ad_metadata :: json
  ad_slot_updated :: int
  ad_reindex :: "bool option"
  ad_raw_name :: "bytes option"
  ad_raw_symbol :: "bytes option"
  ad_base_info_seq :: "int option"

record asset_creators_row =
  ac_asset_id :: bytes
  ac_creator :: bytes
  ac_share :: int
  ac_verified :: bool
  ac_seq :: "int option"
  ac_slot_updated :: "int option"
  ac_position :: int

record asset_grouping_row =
  ag_asset_id :: bytes
  ag_group_key :: string
  ag_group_value :: "string option"
  ag_seq :: "int option"
  ag_slot_updated :: "int option"
  ag_verified :: bool
  ag_group_info_seq :: "int option"

record asset_authority_row =
  aa_asset_id :: bytes
  aa_scopes :: "string option"
  aa_authority :: bytes
  aa_seq :: int
  aa_slot_updated :: int

record attachment_row =
  att_id :: bytes
  att_asset_id :: "bytes option"
  att_attachment_type :: V1AccountAttachments
  att_initialized :: bool
  att_data :: "json option"
  att_slot_updated :: int

record tokens_row =
  t_mint :: bytes
  t_supply :: int
  t_decimals :: int
  t_token_program :: bytes
  t_mint_authority :: "bytes option"
  t_freeze_authority :: "bytes option"
  t_close_authority :: "bytes option"
  t_extension_data :: "bytes option"
  t_slot_updated :: int
  t_extensions :: "json option"

record token_accounts_row =
  ta_pubkey :: bytes
  ta_mint :: bytes
  ta_amount :: int
  ta_owner :: bytes
  ta_frozen :: bool
  ta_close_authority :: "bytes option"
  ta_delegate :: "bytes option"
  ta_delegated_amount :: int
  ta_slot_updated :: int
  ta_token_program :: bytes
  ta_extensions :: "json option"

record cl_items_row =
  cl_tree :: bytes
  cl_node_idx :: int
  cl_leaf_idx :: "int option"
  cl_seq :: int
  cl_level :: int
  cl_hash :: bytes

record cl_audits_row =
  cla_tree :: bytes
  cla_leaf_idx :: int
  cla_seq :: int
  cla_tx :: bytes
  cla_instruction :: Instruction

record backfill_items_row =
  bf_tree :: bytes
  bf_seq :: int
  bf_slot :: int
  bf_force_chk :: bool
  bf_backfilled :: bool
  bf_failed :: bool
  bf_locked :: bool

text \<open>
  \<open>IsNonFungible\<close> of \<open>tokens::Model\<close>.  The \<open>Decimal\<close> supply columns hold integers
  (\<open>numeric(20, 0)\<close>).
\<close>

definition is_non_fungible :: "tokens_row \<Rightarrow> bool" where
  "is_non_fungible t \<longleftrightarrow> t_decimals t = 0 \<and> t_supply t = 1"

section \<open>The database\<close>

type_synonym asset_table = "bytes \<rightharpoonup> asset_row"
type_synonym asset_data_table = "bytes \<rightharpoonup> asset_data_row"
type_synonym asset_creators_table = "bytes \<times> int \<rightharpoonup> asset_creators_row"
type_synonym asset_grouping_table = "bytes \<times> string \<rightharpoonup> asset_grouping_row"
type_synonym asset_authority_table = "bytes \<rightharpoonup> asset_authority_row"
type_synonym attachment_table = "bytes \<rightharpoonup> attachment_row"
type_synonym tokens_table = "bytes \<rightharpoonup> tokens_row"
type_synonym token_accounts_table = "(bytes \<times> token_accounts_row) list"
type_synonym cl_items_table = "bytes \<times> int \<rightharpoonup> cl_items_row"
type_synonym cl_audits_table = "bytes \<times> int \<times> int \<rightharpoonup> cl_audits_row"

record db =
  asset :: asset_table
  asset_data :: asset_data_table
  asset_creators :: asset_creators_table
  asset_grouping :: "((bytes \<times> string) \<times> asset_grouping_row) list"
  asset_authority :: asset_authority_table
  asset_v1_account_attachments :: attachment_table
  tokens :: tokens_table
  token_accounts :: token_accounts_table
  cl_items :: cl_items_table
  cl_audits_v2 :: cl_audits_table
  backfill_items :: "backfill_items_row list"
  faults :: "string option list"

definition empty_db :: db where
  "empty_db = \<lparr>asset = Map.empty, asset_data = Map.empty, asset_creators = Map.empty,
     asset_grouping = [], asset_authority = Map.empty,
     asset_v1_account_attachments = Map.empty, tokens = Map.empty, token_accounts = [],
     cl_items = Map.empty, cl_audits_v2 = Map.empty, backfill_items = [], faults = []\<rparr>"

end
