(* ===== verification/Db.thy ===== *)
theory Db
  imports Schema
begin

text \<open>
  Database actions.  A Rust \<open>async fn\<close> over a connection that returns \<open>Result<'a, 'e>\<close> is a function
  from the database to the result and the database it leaves; \<open>db_bind\<close> is the sequencing the
  \<open>?\<close> operator gives.  Every statement, \<open>BEGIN\<close> and \<open>COMMIT\<close> included, takes the next entry of
  \<open>faults\<close>: \<open>Some msg\<close> makes it fail with that error and change nothing, \<open>None\<close> (or an
  exhausted schedule) lets it succeed, so a theorem about all databases covers every pattern of
  failing statements.  \<open>with_txn\<close> is \<open>begin\<close> .. \<open>commit\<close> with the rollback that dropping an
  uncommitted transaction performs.
\<close>

section \<open>Errors\<close>

text \<open>\<open>program_transformers/src/error.rs\<close>; \<open>DbErr\<close> is its message.\<close>

datatype ProgramTransformerError =
    ChangeLogEventMalformed
  | StorageWriteError string
  | NotImplemented
  | DeserializationError string
  | SerializatonError string
  | ParsingError string
  | DatabaseError string
  | AssetIndexError string
  | DownloadMetadataNotify string

type_synonym DbErr = string
type_synonym ('e, 'a) dbm = "db \<Rightarrow> ('e + 'a) \<times> db"
type_synonym 'a handler = "(ProgramTransformerError, 'a) dbm"

definition from_DbErr :: "DbErr \<Rightarrow> ProgramTransformerError" where
  "from_DbErr e = StorageWriteError e"

section \<open>Actions\<close>

definition db_return :: "'a \<Rightarrow> ('e, 'a) dbm" where
  "db_return x s = (Inr x, s)"

definition db_fail :: "'e \<Rightarrow> ('e, 'a) dbm" where
  "db_fail e s = (Inl e, s)"

definition db_bind :: "('e, 'a) dbm \<Rightarrow> ('a \<Rightarrow> ('e, 'b) dbm) \<Rightarrow> ('e, 'b) dbm" where
  "db_bind m f s = (case m s of (Inl e, s') \<Rightarrow> (Inl e, s') | (Inr x, s') \<Rightarrow> f x s')"

definition db_then :: "('e, 'a) dbm \<Rightarrow> ('e, 'b) dbm \<Rightarrow> ('e, 'b) dbm" where
  "db_then m n = db_bind m (\<lambda>_. n)"

definition map_err :: "('e \<Rightarrow> 'f) \<Rightarrow> ('e, 'a) dbm \<Rightarrow> ('f, 'a) dbm" where
  "map_err g m s = (case m s of (Inl e, s') \<Rightarrow> (Inl (g e), s') | (Inr x, s') \<Rightarrow> (Inr x, s'))"

definition db_ok :: "('e, 'a) dbm \<Rightarrow> ('f, 'a option) dbm" where
  "db_ok m s = (case m s of (Inl e, s') \<Rightarrow> (Inr None, s') | (Inr x, s') \<Rightarrow> (Inr (Some x), s'))"

fun db_seq :: "('e, unit) dbm list \<Rightarrow> ('e, unit) dbm" where
  "db_seq [] = db_return ()"
| "db_seq (m # ms) = db_then m (db_seq ms)"

definition lift_result :: "'e + 'a \<Rightarrow> ('e, 'a) dbm" where
  "lift_result r s = (r, s)"

text \<open>One statement: its outcome is the head of the fault schedule.\<close>

definition statement :: "(db \<Rightarrow> 'a \<times> db) \<Rightarrow> (DbErr, 'a) dbm" where
  "statement f s =
     (case faults s of
        [] \<Rightarrow> (case f s of (x, s') \<Rightarrow> (Inr x, s'))
      | None # fs \<Rightarrow> (case f (s\<lparr>faults := fs\<rparr>) of (x, s') \<Rightarrow> (Inr x, s'))
      | Some e # fs \<Rightarrow> (Inl e, s\<lparr>faults := fs\<rparr>))"

definition execute :: "(db \<Rightarrow> db) \<Rightarrow> (DbErr, unit) dbm" where
  "execute f = statement (\<lambda>s. ((), f s))"

definition query :: "(db \<Rightarrow> 'a) \<Rightarrow> (DbErr, 'a) dbm" where
  "query f = statement (\<lambda>s. (f s, s))"

definition with_txn :: "'a handler \<Rightarrow> 'a handler" where
  "with_txn m s =
     (case map_err from_DbErr (execute (\<lambda>s. s)) s of
        (Inl e, s1) \<Rightarrow> (Inl e, s1)
      | (Inr _, s1) \<Rightarrow>
          (case m s1 of
             (Inl e, s2) \<Rightarrow> (Inl e, s1\<lparr>faults := faults s2\<rparr>)
           | (Inr x, s2) \<Rightarrow>
               (case map_err from_DbErr (execute (\<lambda>s. s)) s2 of
                  (Inl e, s3) \<Rightarrow> (Inl e, s1\<lparr>faults := faults s3\<rparr>)
                | (Inr _, s3) \<Rightarrow> (Inr x, s3))))"

section \<open>Reasoning about actions\<close>

text \<open>Actions of a healthy connection (\<open>faults s = []\<close>) evaluate by simplification.\<close>

lemma statement_ok [db_simps]:
  "faults s = [] \<Longrightarrow> statement f s = (case f s of (x, s') \<Rightarrow> (Inr x, s'))"
  by (simp add: statement_def)

lemma execute_ok [db_simps]: "faults s = [] \<Longrightarrow> execute f s = (Inr (), f s)"
  by (simp add: execute_def statement_ok)

lemma query_ok [db_simps]: "faults s = [] \<Longrightarrow> query f s = (Inr (f s), s)"
  by (simp add: query_def statement_ok)

lemma execute_cases:
  "execute f s = (r, s') \<Longrightarrow>
     (r = Inr () \<and> (\<exists>fs. s' = f (s\<lparr>faults := fs\<rparr>))) \<or> (\<exists>e fs. r = Inl e \<and> s' = s\<lparr>faults := fs\<rparr>)"
proof (cases "faults s")
  case Nil
  assume "execute f s = (r, s')"
  then have "r = Inr ()" and "s' = f s"
    using Nil by (simp_all add: execute_ok)
  moreover have "s\<lparr>faults := []\<rparr> = s"
    using Nil by (cases s) simp
  ultimately show ?thesis by metis
next
  case (Cons o' fs)
  assume "execute f s = (r, s')"
  with Cons show ?thesis
    by (cases o') (auto simp: execute_def statement_def)
qed

lemma query_state: "query f s = (r, s') \<Longrightarrow> \<exists>fs. s' = s\<lparr>faults := fs\<rparr>"
  unfolding query_def statement_def
  by (cases s) (auto split: list.splits option.splits)

lemma query_cases:
  "query f s = (r, s') \<Longrightarrow> \<exists>fs. s' = s\<lparr>faults := fs\<rparr> \<and> (r = Inr (f s') \<or> (\<exists>e. r = Inl e))"
  unfolding query_def statement_def
  by (cases s) (auto split: list.splits option.splits)

lemma db_return_eq [db_simps]: "db_return x s = (Inr x, s)"
  by (simp add: db_return_def)

lemma db_fail_eq [db_simps]: "db_fail e s = (Inl e, s)"
  by (simp add: db_fail_def)

lemma lift_result_eq [db_simps]: "lift_result r s = (r, s)"
  by (simp add: lift_result_def)

lemma db_bind_ok [db_simps]: "m s = (Inr x, s') \<Longrightarrow> db_bind m f s = f x s'"
  by (simp add: db_bind_def)

lemma db_bind_err [db_simps]: "m s = (Inl e, s') \<Longrightarrow> db_bind m f s = (Inl e, s')"
  by (simp add: db_bind_def)

lemma db_then_ok [db_simps]: "m s = (Inr x, s') \<Longrightarrow> db_then m n s = n s'"
  by (simp add: db_then_def db_bind_ok)

lemma map_err_ok [db_simps]: "m s = (Inr x, s') \<Longrightarrow> map_err g m s = (Inr x, s')"
  by (simp add: map_err_def)

lemma map_err_err [db_simps]: "m s = (Inl e, s') \<Longrightarrow> map_err g m s = (Inl (g e), s')"
  by (simp add: map_err_def)

lemma db_ok_ok [db_simps]: "m s = (Inr x, s') \<Longrightarrow> db_ok m s = (Inr (Some x), s')"
  by (simp add: db_ok_def)

lemma with_txn_ok [db_simps]:
  "faults s = [] \<Longrightarrow> m s = (Inr x, s') \<Longrightarrow> faults s' = [] \<Longrightarrow> with_txn m s = (Inr x, s')"
  by (simp add: with_txn_def db_simps)

lemma db_bind_result:
  "db_bind m f s = (r, s') \<Longrightarrow>
     (\<exists>e. m s = (Inl e, s') \<and> r = Inl e) \<or> (\<exists>x s1. m s = (Inr x, s1) \<and> f x s1 = (r, s'))"
  by (auto simp: db_bind_def split: prod.splits sum.splits)

text \<open>
  A transaction that fails leaves every table as it was; one that succeeds leaves what its body
  left.
\<close>

lemma with_txn_rollback:
  assumes "with_txn m s = (Inl e, s')"
  shows "\<exists>fs. s' = s\<lparr>faults := fs\<rparr>"
proof -
  obtain r1 s1 where begin_txn: "execute (\<lambda>s. s) s = (r1, s1)"
    by (cases "execute (\<lambda>s. s) s")
  then obtain fs1 where s1: "s1 = s\<lparr>faults := fs1\<rparr>"
    using execute_cases[OF begin_txn] by blast
  show ?thesis
    using assms begin_txn s1
    by (auto simp: with_txn_def map_err_def split: prod.splits sum.splits)
qed

lemma with_txn_commit:
  assumes "with_txn m s = (Inr x, s')"
  shows "\<exists>fs s2 fs'. m (s\<lparr>faults := fs\<rparr>) = (Inr x, s2) \<and> s' = s2\<lparr>faults := fs'\<rparr>"
proof -
  obtain r1 s1 where b: "execute (\<lambda>s. s) s = (r1, s1)"
    by (cases "execute (\<lambda>s. s) s")
  obtain r2 s2 where m: "m s1 = (r2, s2)"
    by (cases "m s1")
  obtain r3 s3 where c: "execute (\<lambda>s. s) s2 = (r3, s3)"
    by (cases "execute (\<lambda>s. s) s2")
  obtain fs fs' where "s1 = s\<lparr>faults := fs\<rparr>" and "s3 = s2\<lparr>faults := fs'\<rparr>"
    using execute_cases[OF b] execute_cases[OF c] by blast
  moreover have "r2 = Inr x \<and> s' = s3"
    using assms
    by (cases r1; cases r2; cases r3) (simp_all add: with_txn_def map_err_def b m c)
  ultimately show ?thesis
    using m by blast
qed

section \<open>Frames\<close>

text \<open>
  \<open>keeps f m\<close>: the action \<open>m\<close> leaves the part \<open>f\<close> of the database as it was, whatever its outcome.
  \<open>fails_clean f m\<close>: it does so when it fails.
\<close>

definition blind :: "(db \<Rightarrow> 'x) \<Rightarrow> bool" where
  "blind f \<longleftrightarrow> (\<forall>s fs. f (s\<lparr>faults := fs\<rparr>) = f s)"

definition keeps :: "(db \<Rightarrow> 'x) \<Rightarrow> ('e, 'a) dbm \<Rightarrow> bool" where
  "keeps f m \<longleftrightarrow> (\<forall>s r s'. m s = (r, s') \<longrightarrow> f s' = f s)"

definition fails_clean :: "(db \<Rightarrow> 'x) \<Rightarrow> ('e, 'a) dbm \<Rightarrow> bool" where
  "fails_clean f m \<longleftrightarrow> (\<forall>s e s'. m s = (Inl e, s') \<longrightarrow> f s' = f s)"

lemma keepsD: "keeps f m \<Longrightarrow> m s = (r, s') \<Longrightarrow> f s' = f s"
  by (simp add: keeps_def)

lemma keeps_return [intro]: "keeps f (db_return x)"
  by (simp add: keeps_def db_return_def)

lemma keeps_fail [intro]: "keeps f (db_fail e)"
  by (simp add: keeps_def db_fail_def)

lemma keeps_execute: "blind f \<Longrightarrow> (\<And>s. f (g s) = f s) \<Longrightarrow> keeps f (execute g)"
  unfolding keeps_def blind_def using execute_cases by metis

lemma keeps_query: "blind f \<Longrightarrow> keeps f (query g)"
  unfolding keeps_def blind_def using query_state by metis

lemma keeps_map_err: "keeps f m \<Longrightarrow> keeps f (map_err g m)"
  by (fastforce simp: keeps_def map_err_def split: prod.splits sum.splits)

lemma keeps_db_ok: "keeps f m \<Longrightarrow> keeps f (db_ok m)"
  by (fastforce simp: keeps_def db_ok_def split: prod.splits sum.splits)

lemma keeps_bind: "keeps f m \<Longrightarrow> (\<And>x. keeps f (g x)) \<Longrightarrow> keeps f (db_bind m g)"
  unfolding keeps_def using db_bind_result by metis

lemma keeps_then: "keeps f m \<Longrightarrow> keeps f n \<Longrightarrow> keeps f (db_then m n)"
  unfolding db_then_def by (rule keeps_bind)

lemma keeps_fails_clean: "keeps f m \<Longrightarrow> fails_clean f m"
  by (simp add: keeps_def fails_clean_def)

lemma fails_clean_fail: "fails_clean f (db_fail e)"
  by (rule keeps_fails_clean) (rule keeps_fail)

lemma fails_clean_with_txn: "blind f \<Longrightarrow> fails_clean f (with_txn m)"
  unfolding fails_clean_def blind_def using with_txn_rollback by metis

lemma fails_clean_bind:
  "keeps f m \<Longrightarrow> (\<And>x. fails_clean f (g x)) \<Longrightarrow> fails_clean f (db_bind m g)"
  unfolding fails_clean_def keeps_def using db_bind_result by (metis old.sum.inject(1))

lemma fails_clean_then_return:
  "fails_clean f m \<Longrightarrow> fails_clean f (db_then m (db_return x))"
  by (fastforce simp: fails_clean_def db_then_def db_bind_def db_return_def split: prod.splits sum.splits)

section \<open>Triples\<close>

text \<open>\<open>triple P m Q\<close>: started where \<open>P\<close> holds, \<open>m\<close> ends where \<open>Q\<close> holds if it succeeds.\<close>

definition triple :: "(db \<Rightarrow> bool) \<Rightarrow> ('e, 'a) dbm \<Rightarrow> (db \<Rightarrow> bool) \<Rightarrow> bool" where
  "triple P m Q \<longleftrightarrow> (\<forall>s x s'. P s \<longrightarrow> m s = (Inr x, s') \<longrightarrow> Q s')"

lemma tripleD: "triple P m Q \<Longrightarrow> P s \<Longrightarrow> m s = (Inr x, s') \<Longrightarrow> Q s'"
  by (simp add: triple_def)

lemma triple_return: "triple P (db_return x) P"
  by (simp add: triple_def db_return_def)

lemma triple_fail: "triple P (db_fail e) Q"
  by (simp add: triple_def db_fail_def)

lemma triple_execute: "blind P \<Longrightarrow> (\<And>s. P s \<Longrightarrow> Q (f s)) \<Longrightarrow> triple P (execute f) Q"
  unfolding triple_def blind_def using execute_cases by (metis Inr_not_Inl)

lemma triple_query: "blind P \<Longrightarrow> triple P (query f) P"
  unfolding triple_def blind_def using query_state by metis

lemma triple_map_err: "triple P m Q \<Longrightarrow> triple P (map_err g m) Q"
  by (fastforce simp: triple_def map_err_def split: prod.splits sum.splits)

lemma triple_bind: "triple P m R \<Longrightarrow> (\<And>x. triple R (f x) Q) \<Longrightarrow> triple P (db_bind m f) Q"
  unfolding triple_def using db_bind_result by (metis Inr_not_Inl)

lemma triple_then: "triple P m R \<Longrightarrow> triple R n Q \<Longrightarrow> triple P (db_then m n) Q"
  unfolding db_then_def by (rule triple_bind)

lemma triple_seq_Nil: "triple P (db_seq []) P"
  by (simp add: triple_return)

lemma triple_seq_Cons: "triple P m R \<Longrightarrow> triple R (db_seq ms) Q \<Longrightarrow> triple P (db_seq (m # ms)) Q"
  by (simp add: triple_then)

lemma triple_with_txn: "blind P \<Longrightarrow> blind Q \<Longrightarrow> triple P m Q \<Longrightarrow> triple P (with_txn m) Q"
  unfolding triple_def blind_def using with_txn_commit by metis

lemma triple_if: "triple P m Q \<Longrightarrow> triple P n Q \<Longrightarrow> triple P (if b then m else n) Q"
  by simp

end
