(* ===== verification/Chain.thy ===== *)
theory Chain
  imports Schema
begin

text \<open>
  What the sources take from other crates.  The records are the structures of the on-chain
  programs (\<open>mpl_bubblegum\<close>, \<open>spl_account_compression\<close>, \<open>mpl_token_metadata\<close>) with the fields the
  sources read.  \<open>env\<close> collects the foreign functions the sources call; every definition that
  uses one takes an \<open>env\<close> argument.  The remaining types are those of \<open>blockbuster\<close> and
  \<open>program_transformers\<close> that pass between the parser and the handlers.
\<close>

section \<open>On-chain structures\<close>

record path_node =
  pn_node :: bytes
  pn_index :: u32

record ChangeLogEventV1 =
  cle_id :: pubkey
  cle_path :: "path_node list"
  cle_seq :: u64
  cle_index :: u32

datatype LeafSchema =
    LeafSchema_V1 (ls_id: pubkey) (ls_owner: pubkey) (ls_delegate: pubkey) (ls_nonce: u64)
      (ls_data_hash: bytes) (ls_creator_hash: bytes)
  | LeafSchema_V2 (ls_id: pubkey) (ls_owner: pubkey) (ls_delegate: pubkey) (ls_nonce: u64)
      (ls_data_hash: bytes) (ls_creator_hash: bytes) (ls_collection_hash: bytes)
      (ls_asset_data_hash: bytes) (ls_flags: u8)

record LeafSchemaEvent =
  lse_schema :: LeafSchema
  lse_leaf_hash :: bytes

record Creator =
  cr_address :: pubkey
  cr_verified :: bool
  cr_share :: u8

record Collection =
  col_verified :: bool
  col_key :: pubkey

datatype UseMethod = Use_Burn | Use_Multiple | Use_Single

record Uses =
  uses_use_method :: UseMethod
  uses_remaining :: u64
  uses_total :: u64

datatype TokenStandard =
    Std_NonFungible | Std_FungibleAsset | Std_Fungible | Std_NonFungibleEdition
  | Std_ProgrammableNonFungible | Std_ProgrammableNonFungibleEdition

record MetadataArgs =
  ma_name :: string
  ma_symbol :: string
  ma_uri :: string
  ma_seller_fee_basis_points :: u16
  ma_primary_sale_happened :: bool
  ma_is_mutable :: bool
  ma_edition_nonce :: "u8 option"
  ma_collection :: "Collection option"
  ma_uses :: "Uses option"
  ma_creators :: "Creator list"

record UpdateArgs =
  ua_name :: "string option"
  ua_symbol :: "string option"
  ua_uri :: "string option"
  ua_creators :: "Creator list option"
  ua_seller_fee_basis_points :: "u16 option"
  ua_primary_sale_happened :: "bool option"
  ua_is_mutable :: "bool option"

datatype Key =
    Key_Uninitialized | Key_EditionV1 | Key_MasterEditionV1 | Key_ReservationListV1
  | Key_MetadataV1 | Key_ReservationListV2 | Key_MasterEditionV2 | Key_EditionMarker
  | Key_UseAuthorityRecord | Key_CollectionAuthorityRecord | Key_TokenOwnedEscrow
  | Key_TokenRecord | Key_MetadataDelegate | Key_EditionMarkerV2 | Key_HolderDelegate

record MasterEdition =
  me_key :: Key
  me_supply :: u64
  me_max_supply :: "u64 option"

record DeprecatedMasterEditionV1 =
  dme_key :: Key
  dme_supply :: u64
  dme_max_supply :: "u64 option"
  dme_printing_mint :: pubkey
  dme_one_time_printing_authorization_mint :: pubkey

record Edition =
  ed_key :: Key
  ed_parent :: pubkey
  ed_edition :: u64

record Metadata =
  md_update_authority :: pubkey
  md_mint :: pubkey
  md_name :: string
  md_symbol :: string
  md_uri :: string
  md_seller_fee_basis_points :: u16
  md_creators :: "Creator list option"
  md_primary_sale_happened :: bool
  md_is_mutable :: bool
  md_edition_nonce :: "u8 option"
  md_token_standard :: "TokenStandard option"
  md_collection :: "Collection option"
  md_uses :: "Uses option"

text \<open>\<open>spl_token\<close>\<close>

datatype AccountState = State_Uninitialized | State_Initialized | State_Frozen

record TokenAccount =
  tk_mint :: pubkey
  tk_owner :: pubkey
  tk_amount :: u64
  tk_delegate :: "pubkey option"
  tk_state :: AccountState
  tk_delegated_amount :: u64

record Mint =
  mt_mint_authority :: "pubkey option"
  mt_supply :: u64
  mt_decimals :: u8
  mt_freeze_authority :: "pubkey option"

datatype InstructionName =
    IN_Unknown | IN_MintV1 | IN_MintToCollectionV1 | IN_Redeem | IN_CancelRedeem | IN_Transfer
  | IN_Delegate | IN_DecompressV1 | IN_Compress | IN_Burn | IN_CreateTree | IN_VerifyCreator
  | IN_UnverifyCreator | IN_VerifyCollection | IN_UnverifyCollection
  | IN_SetAndVerifyCollection | IN_SetDecompressibleState | IN_UpdateMetadata | IN_BurnV2
  | IN_CollectV2 | IN_CreateTreeV2 | IN_DelegateAndFreezeV2 | IN_DelegateV2 | IN_FreezeV2
  | IN_MintV2 | IN_SetCollectionV2 | IN_SetNonTransferableV2 | IN_ThawAndRevokeV2 | IN_ThawV2
  | IN_TransferV2 | IN_UnverifyCreatorV2 | IN_UpdateAssetDataV2 | IN_UpdateMetadataV2
  | IN_VerifyCreatorV2

section \<open>Foreign functions\<close>

record env =
  bs58_encode :: "bytes \<Rightarrow> string"
  bs58_decode :: "string \<Rightarrow> bytes option"
  find_program_address :: "bytes list \<Rightarrow> pubkey \<Rightarrow> pubkey"
  pubkey_to_string :: "pubkey \<Rightarrow> string"
  mpl_bubblegum_ID :: pubkey
  flags_non_transferable :: "u8 \<Rightarrow> bool"
  flags_asset_lvl_frozen :: "u8 \<Rightarrow> bool"
  flags_permanent_lvl_frozen :: "u8 \<Rightarrow> bool"
  token_standard_to_json :: "TokenStandard \<Rightarrow> string + json"
  uses_to_json :: "Uses \<Rightarrow> string + json"
  master_edition_to_json :: "MasterEdition \<Rightarrow> string + json"
  edition_to_json :: "Edition \<Rightarrow> string + json"
  pubkey_from_str :: "string \<Rightarrow> string + pubkey"
  master_edition_pda :: "pubkey \<Rightarrow> pubkey"

section \<open>Parser errors\<close>

text \<open>\<open>blockbuster/src/error.rs\<close>, with the messages of \<open>Display\<close>.\<close>

datatype BlockbusterError =
    BBE_InstructionParsingError
  | BBE_IOError string
  | BBE_DeserializationError
  | BBE_MissingBubblegumEventData
  | BBE_InvalidDataLength
  | BBE_UnknownAccountDiscriminator
  | BBE_InvalidAccountType
  | BBE_FailedToDeserializeToMasterEdition
  | BBE_UninitializedAccount
  | BBE_AccountTypeNotImplemented
  | BBE_InstructionTypeNotImplemented
  | BBE_CustomDeserializationError string

fun BlockbusterError_to_string :: "BlockbusterError \<Rightarrow> string" where
  "BlockbusterError_to_string BBE_InstructionParsingError = ''Instruction Data Parsing Error''"
| "BlockbusterError_to_string (BBE_IOError e) = ''IO Error '' @ e"
| "BlockbusterError_to_string BBE_DeserializationError = ''Could not deserialize data''"
| "BlockbusterError_to_string BBE_MissingBubblegumEventData = ''Missing Bubblegum event data''"
| "BlockbusterError_to_string BBE_InvalidDataLength = ''Data length is invalid.''"
| "BlockbusterError_to_string BBE_UnknownAccountDiscriminator =
     ''Unknown anchor account discriminator.''"
| "BlockbusterError_to_string BBE_InvalidAccountType = ''Account type is not valid''"
| "BlockbusterError_to_string BBE_FailedToDeserializeToMasterEdition =
     ''Master edition version is invalid''"
| "BlockbusterError_to_string BBE_UninitializedAccount = ''Uninitialized account type''"
| "BlockbusterError_to_string BBE_AccountTypeNotImplemented = ''Account Type Not implemented''"
| "BlockbusterError_to_string BBE_InstructionTypeNotImplemented =
     ''Instruction Type Not implemented''"
| "BlockbusterError_to_string (BBE_CustomDeserializationError e) =
     ''Could not deserialize data: '' @ e"

section \<open>Parsed instructions\<close>

text \<open>\<open>blockbuster/src/programs/bubblegum/mod.rs\<close>\<close>

datatype Payload =
    Payload_Unknown
  | Payload_Mint (pl_args: MetadataArgs) (pl_authority: pubkey) (pl_tree_id: pubkey)
  | Payload_Decompress (pl_args: MetadataArgs)
  | Payload_CancelRedeem (pl_root: pubkey)
  | Payload_CreatorVerification (pl_metadata: MetadataArgs) (pl_creator: pubkey) (pl_verify: bool)
  | Payload_CollectionVerification (pl_collection: pubkey) (pl_verify: bool)
  | Payload_UpdateMetadata (pl_current_metadata: MetadataArgs) (pl_update_args: UpdateArgs)
      (pl_tree_id: pubkey)

record BubblegumInstruction =
  bi_instruction :: InstructionName
  bi_tree_update :: "ChangeLogEventV1 option"
  bi_leaf_update :: "LeafSchemaEvent option"
  bi_payload :: "Payload option"

text \<open>\<open>blockbuster/src/instruction.rs\<close>\<close>

record CompiledInstruction =
  ci_program_id_index :: u8
  ci_accounts :: "u8 list"
  ci_data :: bytes

type_synonym IxPair = "pubkey \<times> CompiledInstruction"

record InstructionBundle =
  ib_txn_id :: string
  ib_program :: pubkey
  ib_instruction :: "CompiledInstruction option"
  ib_inner_ix :: "IxPair list option"
  ib_keys :: "pubkey list"
  ib_slot :: u64

text \<open>\<open>program_transformers/src/lib.rs\<close>\<close>

record DownloadMetadataInfo =
  dmi_asset_data_id :: bytes
  dmi_uri :: string

definition DownloadMetadataInfo_new :: "bytes \<Rightarrow> string \<Rightarrow> DownloadMetadataInfo" where
  "DownloadMetadataInfo_new k uri = \<lparr>dmi_asset_data_id = k, dmi_uri = remove_nul (trim uri)\<rparr>"

record AccountInfo =
  acc_slot :: u64
  acc_pubkey :: pubkey
  acc_owner :: pubkey
  acc_data :: bytes

section \<open>Parsed accounts\<close>

text \<open>\<open>blockbuster/src/programs\<close>: what the account parsers return.\<close>

record InscriptionData =
  ins_authority :: string
  ins_root :: string
  ins_content :: string
  ins_encoding :: string
  ins_inscription_data :: string
  ins_order :: u64
  ins_size :: u32
  ins_validation_hash :: "string option"

text \<open>
  Token 2022 extensions; an extension is its serialized form, except for the metadata, whose fields
  the handlers read.
\<close>

record ShadowMetadata =
  sm_update_authority :: json
  sm_mint :: string
  sm_name :: string
  sm_symbol :: string
  sm_uri :: string
  sm_additional_metadata :: "(string \<times> string) list"

record MintAccountExtensions =
  mx_default_account_state :: "json option"
  mx_confidential_transfer_mint :: "json option"
  mx_confidential_transfer_fee_config :: "json option"
  mx_interest_bearing_config :: "json option"
  mx_transfer_fee_config :: "json option"
  mx_mint_close_authority :: "json option"
  mx_permanent_delegate :: "json option"
  mx_metadata_pointer :: "json option"
  mx_metadata :: "ShadowMetadata option"
  mx_transfer_hook :: "json option"
  mx_group_pointer :: "json option"
  mx_token_group :: "json option"
  mx_group_member_pointer :: "json option"
  mx_token_group_member :: "json option"
  mx_non_transferable :: "bool option"
  mx_immutable_owner :: "bool option"

record TokenAccountExtensions =
  tx_confidential_transfer :: "json option"
  tx_cpi_guard :: "json option"
  tx_memo_transfer :: "json option"
  tx_transfer_fee_amount :: "json option"
  tx_immutable_owner :: "bool option"
  tx_non_transferable_account :: "bool option"

datatype TokenProgramEntity =
    TPE_Mint Mint
  | TPE_TokenAccount TokenAccount
  | TPE_CloseIx pubkey

datatype TokenExtensionsProgramEntity =
    TEE_TokenAccount TokenAccount TokenAccountExtensions
  | TEE_MintAccount Mint MintAccountExtensions
  | TEE_CloseIx pubkey

datatype TokenMetadataAccountData =
    TM_EditionV1 Edition
  | TM_MasterEditionV1 DeprecatedMasterEditionV1
  | TM_MetadataV1 Metadata
  | TM_MasterEditionV2 MasterEdition
  | TM_EditionMarker
  | TM_UseAuthorityRecord
  | TM_CollectionAuthorityRecord
  | TM_EmptyAccount

section \<open>Chain data\<close>

text \<open>\<open>digital_asset_types/src/json/chain_data.rs\<close>\<close>

record ChainDataV1 =
  cd_name :: string
  cd_symbol :: string
  cd_edition_nonce :: "u8 option"
  cd_primary_sale_happened :: bool
  cd_token_standard :: "TokenStandard option"
  cd_uses :: "Uses option"

definition ChainDataV1_sanitize :: "ChainDataV1 \<Rightarrow> ChainDataV1" where
  "ChainDataV1_sanitize c =
     c\<lparr>cd_name := remove_nul (cd_name c), cd_symbol := remove_nul (cd_symbol c)\<rparr>"

text \<open>
  \<open>#[derive(Serialize)]\<close> with \<open>skip_serializing_if = "Option::is_none"\<close> on the optional fields: the
  object lists the fields in declaration order, and fails when a field's serializer does.
\<close>

definition opt_field :: "string \<Rightarrow> ('a \<Rightarrow> string + json) \<Rightarrow> 'a option \<Rightarrow>
    string + (string \<times> json) list" where
  "opt_field k ser x = (case x of None \<Rightarrow> Inr []
     | Some v \<Rightarrow> (case ser v of Inl e \<Rightarrow> Inl e | Inr j \<Rightarrow> Inr [(k, j)]))"

definition ChainDataV1_to_value :: "env \<Rightarrow> ChainDataV1 \<Rightarrow> string + json" where
  "ChainDataV1_to_value E c =
     (case (opt_field ''edition_nonce'' (\<lambda>n. Inr (JNumber (uint n))) (cd_edition_nonce c),
            opt_field ''token_standard'' (token_standard_to_json E) (cd_token_standard c),
            opt_field ''uses'' (uses_to_json E) (cd_uses c)) of
        (Inr e, Inr t, Inr u) \<Rightarrow>
          Inr (JObject ([(''name'', JString (cd_name c)), (''symbol'', JString (cd_symbol c))] @ e @
                 [(''primary_sale_happened'', JBool (cd_primary_sale_happened c))] @ t @ u))
      | (Inl m, _, _) \<Rightarrow> Inl m
      | (_, Inl m, _) \<Rightarrow> Inl m
      | (_, _, Inl m) \<Rightarrow> Inl m)"

section \<open>Instruction names\<close>

text \<open>\<open>digital_asset_types/src/dao/extensions/instruction.rs\<close>\<close>

definition Instruction_from :: "string \<Rightarrow> Instruction" where
  "Instruction_from s =
     (if s = ''Burn'' then Ix_Burn
      else if s = ''CancelRedeem'' then Ix_CancelRedeem
      else if s = ''Compress'' then Ix_Compress
      else if s = ''DecompressV1'' then Ix_DecompressV1
      else if s = ''Delegate'' then Ix_Delegate
      else if s = ''MintToCollectionV1'' then Ix_MintToCollectionV1
      else if s = ''MintV1'' then Ix_MintV1
      else if s = ''Redeem'' then Ix_Redeem
      else if s = ''SetAndVerifyCollection'' then Ix_SetAndVerifyCollection
      else if s = ''Transfer'' then Ix_Transfer
      else if s = ''UnverifyCollection'' then Ix_UnverifyCollection
      else if s = ''UnverifyCreator'' then Ix_UnverifyCreator
      else if s = ''VerifyCollection'' then Ix_VerifyCollection
      else if s = ''VerifyCreator'' then Ix_VerifyCreator
      else if s = ''UpdateMetadata'' then Ix_UpdateMetadata
      else if s = ''BurnV2'' then Ix_BurnV2
      else if s = ''DelegateV2'' then Ix_DelegateV2
      else if s = ''DelegateAndFreezeV2'' then Ix_DelegateAndFreezeV2
      else if s = ''FreezeV2'' then Ix_FreezeV2
      else if s = ''MintV2'' then Ix_MintV2
      else if s = ''SetCollectionV2'' then Ix_SetCollectionV2
      else if s = ''SetNonTransferableV2'' then Ix_SetNonTransferableV2
      else if s = ''ThawV2'' then Ix_ThawV2
      else if s = ''ThawAndRevokeV2'' then Ix_ThawAndRevokeV2
      else if s = ''TransferV2'' then Ix_TransferV2
      else if s = ''UnverifyCreatorV2'' then Ix_UnverifyCreatorV2
      else if s = ''VerifyCreatorV2'' then Ix_VerifyCreatorV2
      else if s = ''UpdateMetadataV2'' then Ix_UpdateMetadataV2
      else if s = ''UpdateAssetDataV2'' then Ix_UpdateAssetDataV2
      else Ix_Unknown)"

fun to_pascal_case :: "Instruction \<Rightarrow> string" where
  "to_pascal_case Ix_Burn = ''Burn''"
| "to_pascal_case Ix_CancelRedeem = ''CancelRedeem''"
| "to_pascal_case Ix_Compress = ''Compress''"
| "to_pascal_case Ix_DecompressV1 = ''DecompressV1''"
| "to_pascal_case Ix_Delegate = ''Delegate''"
| "to_pascal_case Ix_MintToCollectionV1 = ''MintToCollectionV1''"
| "to_pascal_case Ix_MintV1 = ''MintV1''"
| "to_pascal_case Ix_Redeem = ''Redeem''"
| "to_pascal_case Ix_SetAndVerifyCollection = ''SetAndVerifyCollection''"
| "to_pascal_case Ix_Transfer = ''Transfer''"
| "to_pascal_case Ix_Unknown = ''Unknown''"
| "to_pascal_case Ix_UnverifyCollection = ''UnverifyCollection''"
| "to_pascal_case Ix_UnverifyCreator = ''UnverifyCreator''"
| "to_pascal_case Ix_VerifyCollection = ''VerifyCollection''"
| "to_pascal_case Ix_VerifyCreator = ''VerifyCreator''"
| "to_pascal_case Ix_UpdateMetadata = ''UpdateMetadata''"
| "to_pascal_case Ix_BurnV2 = ''BurnV2''"
| "to_pascal_case Ix_DelegateV2 = ''DelegateV2''"
| "to_pascal_case Ix_DelegateAndFreezeV2 = ''DelegateAndFreezeV2''"
| "to_pascal_case Ix_FreezeV2 = ''FreezeV2''"
| "to_pascal_case Ix_MintV2 = ''MintV2''"
| "to_pascal_case Ix_SetCollectionV2 = ''SetCollectionV2''"
| "to_pascal_case Ix_SetNonTransferableV2 = ''SetNonTransferableV2''"
| "to_pascal_case Ix_ThawV2 = ''ThawV2''"
| "to_pascal_case Ix_ThawAndRevokeV2 = ''ThawAndRevokeV2''"
| "to_pascal_case Ix_TransferV2 = ''TransferV2''"
| "to_pascal_case Ix_UnverifyCreatorV2 = ''UnverifyCreatorV2''"
| "to_pascal_case Ix_VerifyCreatorV2 = ''VerifyCreatorV2''"
| "to_pascal_case Ix_UpdateMetadataV2 = ''UpdateMetadataV2''"
| "to_pascal_case Ix_UpdateAssetDataV2 = ''UpdateAssetDataV2''"

text \<open>
  The names of the instructions round-trip: \<open>from\<close> reads back what \<open>to_pascal_case\<close> prints, and
  an unknown name is \<open>Unknown\<close>.
\<close>

lemma instruction_name_roundtrip:
  "Instruction_from (to_pascal_case ix) = ix"
  by (cases ix) (simp_all add: Instruction_from_def)

text \<open>A URL given to the metadata downloader contains no NUL character, which Postgres rejects.\<close>

lemma download_uri_has_no_nul:
  "char_of (0::nat) \<notin> set (dmi_uri (DownloadMetadataInfo_new k uri))"
  by (simp add: DownloadMetadataInfo_new_def remove_nul_def)

end
