(* ===== verification/BubblegumDb.thy ===== *)
theory BubblegumDb
  imports Db Chain
begin

text \<open>
  \<open>program_transformers/src/bubblegum/db.rs\<close>: the change log of a tree and the guarded writes of
  the Bubblegum handlers.  Each write is given by the row it proposes (\<open>.._model\<close>), the columns it
  assigns on conflict (\<open>.._columns\<close>), its WHERE clause (\<open>.._where\<close>) and the statement that puts
  them together under the name of the Rust function; the arguments of the longer functions
  are passed as a record.
\<close>

section \<open>Change log\<close>

definition node_idx_to_leaf_idx :: "int \<Rightarrow> nat \<Rightarrow> int" where
  "node_idx_to_leaf_idx index tree_height = wrap_i64 (index - wrap_i64 (2 ^ tree_height))"

text \<open>\<open>path.len() - 1\<close>, read back as \<open>i64\<close>; on an empty path the release build wraps to -1.\<close>

definition path_depth :: "path_node list \<Rightarrow> int" where
  "path_depth path = (if path = [] then -1 else int (length path) - 1)"

definition cl_item :: "bytes \<Rightarrow> int \<Rightarrow> nat \<Rightarrow> int \<Rightarrow> path_node \<Rightarrow> cl_items_row" where
  "cl_item tree sq depth i p =
     (let node_idx = u32_as_i64 (pn_index p) in
      \<lparr>cl_tree = tree, cl_node_idx = node_idx,
       cl_leaf_idx = (if i = 0 then Some (node_idx_to_leaf_idx node_idx depth) else None),
       cl_seq = sq, cl_level = i, cl_hash = pn_node p\<rparr>)"

definition cl_items_columns :: "cl_items_row \<Rightarrow> cl_items_row \<Rightarrow> cl_items_row" where
  "cl_items_columns new old =
     old\<lparr>cl_hash := cl_hash new, cl_seq := cl_seq new, cl_leaf_idx := cl_leaf_idx new,
         cl_level := cl_level new\<rparr>"

definition cl_items_where :: "cl_items_row \<Rightarrow> cl_items_row \<Rightarrow> sql_bool" where
  "cl_items_where new old = sql_gt (Some (cl_seq new)) (Some (cl_seq old))"

definition upsert_cl_item :: "cl_items_row \<Rightarrow> cl_items_table \<Rightarrow> cl_items_table" where
  "upsert_cl_item item = upsert (cl_tree item, cl_node_idx item) item cl_items_columns cl_items_where"

text \<open>The loop over the path; it returns the number of nodes written.\<close>

fun insert_path :: "bytes \<Rightarrow> int \<Rightarrow> nat \<Rightarrow> int \<Rightarrow> path_node list \<Rightarrow> int handler" where
  "insert_path tree sq depth i [] = db_return i"
| "insert_path tree sq depth i (p # ps) =
     db_then
       (map_err StorageWriteError (execute (\<lambda>s.
          s\<lparr>cl_items := upsert_cl_item (cl_item tree sq depth i p) (cl_items s)\<rparr>)))
       (insert_path tree sq depth (i + 1) ps)"

definition insert_audit :: "cl_audits_row \<Rightarrow> (DbErr, unit) dbm" where
  "insert_audit a = execute (\<lambda>s.
     s\<lparr>cl_audits_v2 := insert_do_nothing (cla_tree a, cla_leaf_idx a, cla_seq a) a (cl_audits_v2 s)\<rparr>)"

definition insert_backfill_item :: "backfill_items_row \<Rightarrow> (DbErr, unit) dbm" where
  "insert_backfill_item item = execute (\<lambda>s. s\<lparr>backfill_items := backfill_items s @ [item]\<rparr>)"

definition insert_change_log ::
  "env \<Rightarrow> ChangeLogEventV1 \<Rightarrow> u64 \<Rightarrow> string \<Rightarrow> string \<Rightarrow> unit handler" where
  "insert_change_log E ev slot txn_id instruction =
     (let depth = path_depth (cle_path ev); tree_id = cle_id ev; sq = as_i64 (cle_seq ev) in
      db_bind (insert_path tree_id sq (nat depth) 0 (cle_path ev)) (\<lambda>i.
      case bs58_decode E txn_id of
        None \<Rightarrow> db_fail ChangeLogEventMalformed
      | Some tx_id_bytes \<Rightarrow>
          db_bind (db_ok (insert_audit
             \<lparr>cla_tree = tree_id, cla_leaf_idx = u32_as_i64 (cle_index ev), cla_seq = sq,
              cla_tx = tx_id_bytes, cla_instruction = Instruction_from instruction\<rparr>)) (\<lambda>_.
          if i - 1 = depth then
            db_bind (map_err from_DbErr (query (\<lambda>s.
               filter (\<lambda>b. bf_tree b = tree_id) (backfill_items s)))) (\<lambda>rows.
            let force_chk = rows = [] \<and> 1 < cle_seq ev in
            map_err from_DbErr (insert_backfill_item
               \<lparr>bf_tree = tree_id, bf_seq = sq, bf_slot = as_i64 slot, bf_force_chk = force_chk,
                bf_backfilled = False, bf_failed = False, bf_locked = False\<rparr>))
          else db_return ())))"

definition save_changelog_event ::
  "env \<Rightarrow> ChangeLogEventV1 \<Rightarrow> u64 \<Rightarrow> string \<Rightarrow> string \<Rightarrow> u64 handler" where
  "save_changelog_event E ev slot txn_id instruction =
     db_bind (insert_change_log E ev slot txn_id instruction) (\<lambda>_. db_return (cle_seq ev))"

section \<open>Partial updates of the asset table\<close>

definition not_decompressed :: "asset_row \<Rightarrow> sql_bool" where
  "not_decompressed old = sql_or (sql_ne (a_seq old) (Some 0)) (sql_is_null (a_seq old))"

subsection \<open>Leaf\<close>

record leaf_info =
  li_id :: bytes
  li_nonce :: int
  li_tree_id :: bytes
  li_leaf :: bytes
  li_data_hash :: bytes
  li_creator_hash :: bytes
  li_collection_hash :: "bytes option"
  li_asset_data_hash :: "bytes option"
  li_flags :: "u8 option"
  li_seq :: int

definition hash_string :: "env \<Rightarrow> bytes \<Rightarrow> string" where
  "hash_string E h = trim (bs58_encode E h)"

definition leaf_info_model :: "env \<Rightarrow> leaf_info \<Rightarrow> asset_row" where
  "leaf_info_model E a =
     (let m = (asset_defaults (li_id a))\<lparr>a_nonce := Some (li_nonce a),
                a_tree_id := Some (li_tree_id a), a_leaf := Some (li_leaf a),
                a_data_hash := Some (hash_string E (li_data_hash a)),
                a_creator_hash := Some (hash_string E (li_creator_hash a)),
                a_leaf_seq := Some (li_seq a)\<rparr>
      in case li_flags a of
           Some flags \<Rightarrow>
             m\<lparr>a_collection_hash := map_option (hash_string E) (li_collection_hash a),
               a_asset_data_hash := map_option (hash_string E) (li_asset_data_hash a),
               a_bubblegum_flags := Some (uint flags),
               a_non_transferable := Some (flags_non_transferable E flags),
               a_frozen := flags_asset_lvl_frozen E flags \<or> flags_permanent_lvl_frozen E flags\<rparr>
         | None \<Rightarrow> m\<lparr>a_frozen := False\<rparr>)"

definition leaf_info_columns :: "leaf_info \<Rightarrow> asset_row \<Rightarrow> asset_row \<Rightarrow> asset_row" where
  "leaf_info_columns a new old =
     (let r = old\<lparr>a_nonce := a_nonce new, a_tree_id := a_tree_id new, a_leaf := a_leaf new,
                  a_data_hash := a_data_hash new, a_creator_hash := a_creator_hash new,
                  a_leaf_seq := a_leaf_seq new, a_frozen := a_frozen new\<rparr>
      in case li_flags a of
           Some _ \<Rightarrow>
             r\<lparr>a_collection_hash := a_collection_hash new, a_asset_data_hash := a_asset_data_hash new,
               a_bubblegum_flags := a_bubblegum_flags new, a_non_transferable := a_non_transferable new\<rparr>
         | None \<Rightarrow> r)"

definition leaf_info_where :: "asset_row \<Rightarrow> asset_row \<Rightarrow> sql_bool" where
  "leaf_info_where new old = sql_and (not_decompressed old)
     (sql_or (sql_ge (a_leaf_seq new) (a_leaf_seq old)) (sql_is_null (a_leaf_seq old)))"

definition upsert_asset_with_leaf_info :: "env \<Rightarrow> leaf_info \<Rightarrow> unit handler" where
  "upsert_asset_with_leaf_info E a = map_err StorageWriteError (execute (\<lambda>s.
     s\<lparr>asset := upsert (li_id a) (leaf_info_model E a) (leaf_info_columns a) leaf_info_where
                 (asset s)\<rparr>))"

subsection \<open>Owner and delegate\<close>

record owner_info =
  oi_id :: bytes
  oi_owner :: bytes
  oi_delegate :: "bytes option"
  oi_seq :: int

definition owner_info_model :: "owner_info \<Rightarrow> asset_row" where
  "owner_info_model a = (asset_defaults (oi_id a))\<lparr>a_owner := Some (oi_owner a),
     a_delegate := oi_delegate a, a_owner_delegate_seq := Some (oi_seq a)\<rparr>"

definition owner_info_columns :: "asset_row \<Rightarrow> asset_row \<Rightarrow> asset_row" where
  "owner_info_columns new old = old\<lparr>a_owner := a_owner new, a_delegate := a_delegate new,
     a_owner_delegate_seq := a_owner_delegate_seq new\<rparr>"

definition owner_info_where :: "asset_row \<Rightarrow> asset_row \<Rightarrow> sql_bool" where
  "owner_info_where new old = sql_and (not_decompressed old)
     (sql_or (sql_ge (a_owner_delegate_seq new) (a_owner_delegate_seq old))
             (sql_is_null (a_owner_delegate_seq old)))"

definition upsert_asset_with_owner_and_delegate_info :: "owner_info \<Rightarrow> unit handler" where
  "upsert_asset_with_owner_and_delegate_info a = map_err StorageWriteError (execute (\<lambda>s.
     s\<lparr>asset := upsert (oi_id a) (owner_info_model a) owner_info_columns owner_info_where
                 (asset s)\<rparr>))"

subsection \<open>Compression\<close>

record compression_info =
  cp_id :: bytes
  cp_compressed :: bool
  cp_compressible :: bool
  cp_supply :: u64
  cp_supply_mint :: "bytes option"

definition compression_info_model :: "compression_info \<Rightarrow> asset_row" where
  "compression_info_model a = (asset_defaults (cp_id a))\<lparr>a_compressed := cp_compressed a,
     a_compressible := cp_compressible a, a_supply := uint (cp_supply a),
     a_supply_mint := cp_supply_mint a\<rparr>"

definition compression_info_columns :: "asset_row \<Rightarrow> asset_row \<Rightarrow> asset_row" where
  "compression_info_columns new old = old\<lparr>a_compressed := a_compressed new,
     a_compressible := a_compressible new, a_supply := a_supply new,
     a_supply_mint := a_supply_mint new\<rparr>"

definition compression_info_where :: "asset_row \<Rightarrow> asset_row \<Rightarrow> sql_bool" where
  "compression_info_where new old = not_decompressed old"

definition upsert_asset_with_compression_info :: "compression_info \<Rightarrow> unit handler" where
  "upsert_asset_with_compression_info a = map_err from_DbErr (execute (\<lambda>s.
     s\<lparr>asset := upsert (cp_id a) (compression_info_model a) compression_info_columns
                 compression_info_where (asset s)\<rparr>))"

subsection \<open>Sequence number\<close>

definition seq_model :: "bytes \<Rightarrow> int \<Rightarrow> asset_row" where
  "seq_model k sq = (asset_defaults k)\<lparr>a_seq := Some sq\<rparr>"

definition seq_columns :: "asset_row \<Rightarrow> asset_row \<Rightarrow> asset_row" where
  "seq_columns new old = old\<lparr>a_seq := a_seq new\<rparr>"

definition seq_where :: "asset_row \<Rightarrow> asset_row \<Rightarrow> sql_bool" where
  "seq_where new old =
     sql_or (sql_and (sql_ne (a_seq old) (Some 0)) (sql_ge (a_seq new) (a_seq old)))
            (sql_is_null (a_seq old))"

definition upsert_asset_with_seq :: "bytes \<Rightarrow> int \<Rightarrow> unit handler" where
  "upsert_asset_with_seq k sq = map_err StorageWriteError (execute (\<lambda>s.
     s\<lparr>asset := upsert k (seq_model k sq) seq_columns seq_where (asset s)\<rparr>))"

subsection \<open>Base info\<close>

record base_info =
  bs_id :: bytes
  bs_owner_type :: OwnerType
  bs_specification_version :: SpecificationVersions
  bs_specification_asset_class :: SpecificationAssetClass
  bs_royalty_target_type :: RoyaltyTargetType
  bs_royalty_target :: "bytes option"
  bs_royalty_amount :: int
  bs_slot_updated :: int
  bs_seq :: int

definition base_info_model :: "base_info \<Rightarrow> asset_row" where
  "base_info_model a = (asset_defaults (bs_id a))\<lparr>a_owner_type := bs_owner_type a,
     a_specification_version := Some (bs_specification_version a),
     a_specification_asset_class := Some (bs_specification_asset_class a),
     a_royalty_target_type := bs_royalty_target_type a, a_royalty_target := bs_royalty_target a,
     a_royalty_amount := bs_royalty_amount a, a_asset_data := Some (bs_id a),
     a_slot_updated_cnft_transaction := Some (bs_slot_updated a),
     a_base_info_seq := Some (bs_seq a)\<rparr>"

definition base_info_columns :: "asset_row \<Rightarrow> asset_row \<Rightarrow> asset_row" where
  "base_info_columns new old = old\<lparr>a_owner_type := a_owner_type new,
     a_specification_version := a_specification_version new,
     a_specification_asset_class := a_specification_asset_class new,
     a_royalty_target_type := a_royalty_target_type new, a_royalty_target := a_royalty_target new,
     a_royalty_amount := a_royalty_amount new, a_asset_data := a_asset_data new,
     a_slot_updated_cnft_transaction := a_slot_updated_cnft_transaction new,
     a_base_info_seq := a_base_info_seq new\<rparr>"

definition base_info_where :: "asset_row \<Rightarrow> asset_row \<Rightarrow> sql_bool" where
  "base_info_where new old = sql_and (not_decompressed old)
     (sql_or (sql_ge (a_base_info_seq new) (a_base_info_seq old))
             (sql_is_null (a_base_info_seq old)))"

definition upsert_asset_base_info :: "base_info \<Rightarrow> unit handler" where
  "upsert_asset_base_info a = map_err AssetIndexError (execute (\<lambda>s.
     s\<lparr>asset := upsert (bs_id a) (base_info_model a) base_info_columns base_info_where
                 (asset s)\<rparr>))"

section \<open>The other tables\<close>

subsection \<open>Collection\<close>

definition collection_model :: "env \<Rightarrow> bytes \<Rightarrow> Collection option \<Rightarrow> int \<Rightarrow> int \<Rightarrow> asset_grouping_row" where
  "collection_model E asset_id collection slot_updated sq =
     (let (group_value, verified) = (case collection of
            Some c \<Rightarrow> (Some (pubkey_to_string E (col_key c)), col_verified c)
          | None \<Rightarrow> (None, False))
      in \<lparr>ag_asset_id = asset_id, ag_group_key = ''collection'', ag_group_value = group_value,
          ag_seq = None, ag_slot_updated = Some slot_updated, ag_verified = verified,
          ag_group_info_seq = Some sq\<rparr>)"

definition grouping_columns :: "asset_grouping_row \<Rightarrow> asset_grouping_row \<Rightarrow> asset_grouping_row" where
  "grouping_columns new old = old\<lparr>ag_group_value := ag_group_value new,
     ag_verified := ag_verified new, ag_slot_updated := ag_slot_updated new,
     ag_group_info_seq := ag_group_info_seq new\<rparr>"

definition collection_where :: "asset_grouping_row \<Rightarrow> asset_grouping_row \<Rightarrow> sql_bool" where
  "collection_where new old =
     sql_or (sql_and (sql_ne (ag_group_info_seq old) (Some 0))
                     (sql_ge (ag_group_info_seq new) (ag_group_info_seq old)))
            (sql_is_null (ag_group_info_seq old))"

definition upsert_collection_info ::
  "env \<Rightarrow> bytes \<Rightarrow> Collection option \<Rightarrow> int \<Rightarrow> int \<Rightarrow> unit handler" where
  "upsert_collection_info E asset_id collection slot_updated sq =
     map_err StorageWriteError (execute (\<lambda>s.
       s\<lparr>asset_grouping := list_upsert (asset_id, ''collection'')
            (collection_model E asset_id collection slot_updated sq)
            grouping_columns collection_where (asset_grouping s)\<rparr>))"

subsection \<open>Asset data\<close>

definition asset_data_columns :: "asset_data_row \<Rightarrow> asset_data_row \<Rightarrow> asset_data_row" where
  "asset_data_columns new old = old\<lparr>ad_chain_data_mutability := ad_chain_data_mutability new,
     ad_chain_data := ad_chain_data new, ad_metadata_url := ad_metadata_url new,
     ad_metadata_mutability := ad_metadata_mutability new, ad_slot_updated := ad_slot_updated new,
     ad_reindex := ad_reindex new, ad_raw_name := ad_raw_name new,
     ad_raw_symbol := ad_raw_symbol new, ad_base_info_seq := ad_base_info_seq new\<rparr>"

definition asset_data_where :: "asset_data_row \<Rightarrow> asset_data_row \<Rightarrow> sql_bool" where
  "asset_data_where new old =
     sql_or (sql_and (sql_ne (ad_base_info_seq old) (Some 0))
                     (sql_ge (ad_base_info_seq new) (ad_base_info_seq old)))
            (sql_is_null (ad_base_info_seq old))"

text \<open>The function's arguments are the columns of the proposed row, all of them set.\<close>

definition upsert_asset_data :: "asset_data_row \<Rightarrow> int \<Rightarrow> unit handler" where
  "upsert_asset_data args sq =
     (let model = args\<lparr>ad_base_info_seq := Some sq\<rparr> in
      map_err StorageWriteError (execute (\<lambda>s.
        s\<lparr>asset_data := upsert (ad_id model) model asset_data_columns asset_data_where
                         (asset_data s)\<rparr>)))"

subsection \<open>Creators\<close>

definition db_creators :: "bytes \<Rightarrow> Creator list \<Rightarrow> int \<Rightarrow> int \<Rightarrow> asset_creators_row list" where
  "db_creators k creators slot_updated sq =
     (if creators = [] then
        [\<lparr>ac_asset_id = k, ac_creator = [], ac_share = 100, ac_verified = False, ac_seq = Some sq,
          ac_slot_updated = Some slot_updated, ac_position = 0\<rparr>]
      else map (\<lambda>(i, c).
        \<lparr>ac_asset_id = k, ac_creator = cr_address c, ac_share = u8_as_i32 (cr_share c),
         ac_verified = cr_verified c, ac_seq = Some sq, ac_slot_updated = Some slot_updated,
         ac_position = i16_of_nat i\<rparr>) (enumerate 0 creators))"

definition creators_columns :: "asset_creators_row \<Rightarrow> asset_creators_row \<Rightarrow> asset_creators_row" where
  "creators_columns new old = old\<lparr>ac_creator := ac_creator new, ac_share := ac_share new,
     ac_verified := ac_verified new, ac_seq := ac_seq new, ac_slot_updated := ac_slot_updated new\<rparr>"

definition creators_where :: "asset_creators_row \<Rightarrow> asset_creators_row \<Rightarrow> sql_bool" where
  "creators_where new old =
     sql_or (sql_and (sql_ne (ac_seq old) (Some 0)) (sql_ge (ac_seq new) (ac_seq old)))
            (sql_is_null (ac_seq old))"

text \<open>A multi-row insert handles its rows one after the other, in one statement.\<close>

definition upsert_creator_rows ::
  "(asset_creators_row \<Rightarrow> asset_creators_row \<Rightarrow> sql_bool) \<Rightarrow> asset_creators_row list \<Rightarrow>
   asset_creators_table \<Rightarrow> asset_creators_table" where
  "upsert_creator_rows whr rows =
     fold (\<lambda>r. upsert (ac_asset_id r, ac_position r) r creators_columns whr) rows"

definition upsert_asset_creators :: "bytes \<Rightarrow> Creator list \<Rightarrow> int \<Rightarrow> int \<Rightarrow> unit handler" where
  "upsert_asset_creators k creators slot_updated sq = map_err from_DbErr (execute (\<lambda>s.
     s\<lparr>asset_creators := upsert_creator_rows creators_where
          (db_creators k creators slot_updated sq) (asset_creators s)\<rparr>))"

subsection \<open>Authority\<close>

definition upsert_asset_authority :: "bytes \<Rightarrow> bytes \<Rightarrow> int \<Rightarrow> int \<Rightarrow> unit handler" where
  "upsert_asset_authority asset_id authority slot_updated sq =
     map_err AssetIndexError (execute (\<lambda>s.
       s\<lparr>asset_authority := insert_do_nothing asset_id
            \<lparr>aa_asset_id = asset_id, aa_scopes = None, aa_authority = authority, aa_seq = sq,
             aa_slot_updated = slot_updated\<rparr> (asset_authority s)\<rparr>))"

section \<open>The writes are guarded\<close>

text \<open>Rows of the change log: newest sequence number wins, ties keep the stored row.\<close>

lemmas cl_defs [row_simps] = cl_items_columns_def cl_items_where_def

lemma cl_items_step: "row_upsert new cl_items_columns cl_items_where (Some r) =
   (if cl_seq r < cl_seq new then cl_items_columns new r else r)"
  by (simp add: row_upsert_Some cl_items_where_def sql_simps)

interpretation cl: gated_upsert
  cl_items_columns "\<lambda>a. a" "\<lambda>r. Some (cl_seq r)" cl_seq "\<lambda>s v. v < s" False "\<lambda>r. True"
  "\<lambda>a b. cl_tree a = cl_tree b \<and> cl_node_idx a = cl_node_idx b"
  "\<lambda>a. row_upsert a cl_items_columns cl_items_where"
  by unfold_locales (simp_all add: cl_items_columns_def cl_items_step)

text \<open>The column groups of the asset table.\<close>

lemma not_decompressed_iff [sql_simps]: "sql_holds (not_decompressed old) \<longleftrightarrow> a_seq old \<noteq> Some 0"
  by (cases "a_seq old") (auto simp: not_decompressed_def sql_simps)

definition ge_or_null :: "int \<Rightarrow> int option \<Rightarrow> bool" where
  "ge_or_null s v = (case v of None \<Rightarrow> True | Some w \<Rightarrow> w \<le> s)"

text \<open>
  The rows the partial inserts propose, column by column: each one carries its own sequence
  number and leaves \<open>seq\<close> NULL unless it is the sequence number write itself.
\<close>

lemma asset_defaults_cols [simp]:
  "a_seq (asset_defaults k) = None" "a_id (asset_defaults k) = k"
  "a_leaf_seq (asset_defaults k) = None" "a_owner_delegate_seq (asset_defaults k) = None"
  "a_base_info_seq (asset_defaults k) = None"
  by (simp_all add: asset_defaults_def)

lemma leaf_info_model_seq [simp]: "a_leaf_seq (leaf_info_model E a) = Some (li_seq a)"
  by (cases "li_flags a") (simp_all add: leaf_info_model_def)

lemma owner_info_model_seq [simp]: "a_owner_delegate_seq (owner_info_model a) = Some (oi_seq a)"
  by (simp add: owner_info_model_def)

lemma base_info_model_seq [simp]: "a_base_info_seq (base_info_model a) = Some (bs_seq a)"
  by (simp add: base_info_model_def)

lemma seq_model_seq [simp]: "a_seq (seq_model k sq) = Some sq"
  by (simp add: seq_model_def)

lemmas guard_simps = row_upsert_Some sql_holds_and not_decompressed_iff null_or_ge open_and_ge

abbreviation same_leaf :: "leaf_info \<Rightarrow> leaf_info \<Rightarrow> bool" where
  "same_leaf a b \<equiv> li_id a = li_id b \<and> (li_flags a = None \<longleftrightarrow> li_flags b = None)"

lemma leaf_info_model_new: "leaf_info_model E a =
   leaf_info_columns a (leaf_info_model E a) (asset_defaults (li_id a))"
  by (cases "li_flags a")
    (rule asset_row.equality; simp add: leaf_info_model_def leaf_info_columns_def asset_defaults_def)+

lemma leaf_info_columns_seq [simp]:
  "a_leaf_seq (leaf_info_columns a new r) = a_leaf_seq new"
  "a_seq (leaf_info_columns a new r) = a_seq r"
  by (cases "li_flags a"; simp add: leaf_info_columns_def)+

lemma leaf_info_columns_twice: "same_leaf a b \<Longrightarrow>
   leaf_info_columns a new (leaf_info_columns b new' r) = leaf_info_columns a new r"
  by (cases "li_flags a"; cases "li_flags b"; simp add: leaf_info_columns_def)

interpretation leaf: gated_upsert
  "\<lambda>a. leaf_info_columns a (leaf_info_model E a)" "\<lambda>a. asset_defaults (li_id a)"
  a_leaf_seq li_seq "\<lambda>s v. v \<le> s" True "\<lambda>r. a_seq r \<noteq> Some 0" same_leaf
  "\<lambda>a. row_upsert (leaf_info_model E a) (leaf_info_columns a) leaf_info_where" for E
  by unfold_locales
    (simp_all add: leaf_info_model_new[symmetric] leaf_info_columns_twice guard_simps leaf_info_where_def)

lemma owner_info_model_new:
  "owner_info_model a = owner_info_columns (owner_info_model a) (asset_defaults (oi_id a))"
  by (simp add: owner_info_model_def owner_info_columns_def)

interpretation owner: gated_upsert
  "\<lambda>a. owner_info_columns (owner_info_model a)" "\<lambda>a. asset_defaults (oi_id a)"
  a_owner_delegate_seq oi_seq "\<lambda>s v. v \<le> s" True "\<lambda>r. a_seq r \<noteq> Some 0"
  "\<lambda>a b. oi_id a = oi_id b"
  "\<lambda>a. row_upsert (owner_info_model a) owner_info_columns owner_info_where"
  by unfold_locales
    (simp_all add: owner_info_model_new[symmetric] guard_simps owner_info_where_def,
     simp_all add: owner_info_columns_def)

lemma base_info_model_new:
  "base_info_model a = base_info_columns (base_info_model a) (asset_defaults (bs_id a))"
  by (simp add: base_info_model_def base_info_columns_def)

interpretation base_info: gated_upsert
  "\<lambda>a. base_info_columns (base_info_model a)" "\<lambda>a. asset_defaults (bs_id a)"
  a_base_info_seq bs_seq "\<lambda>s v. v \<le> s" True "\<lambda>r. a_seq r \<noteq> Some 0"
  "\<lambda>a b. bs_id a = bs_id b"
  "\<lambda>a. row_upsert (base_info_model a) base_info_columns base_info_where"
  by unfold_locales
    (simp_all add: base_info_model_new[symmetric] guard_simps base_info_where_def,
     simp_all add: base_info_columns_def)

lemma seq_model_new:
  "seq_model k sq = seq_columns (seq_model k sq) (asset_defaults k)"
  by (simp add: seq_model_def seq_columns_def)

interpretation seq: gated_upsert
  "\<lambda>a. seq_columns (seq_model (fst a) (snd a))" "\<lambda>a. asset_defaults (fst a)"
  a_seq snd "\<lambda>s v. v \<le> s" True "\<lambda>r. a_seq r \<noteq> Some 0"
  "\<lambda>a b. fst a = fst b \<and> snd a \<noteq> 0 \<and> snd b \<noteq> 0"
  "\<lambda>a. row_upsert (seq_model (fst a) (snd a)) seq_columns seq_where"
  by unfold_locales
    (simp_all add: seq_model_new[symmetric] guard_simps seq_where_def,
     simp_all add: seq_columns_def)

text \<open>
  The other tables; here the \<open>seq <> 0\<close> test is on the version column itself.  The writes are
  identified with the rows they propose.
\<close>

definition stamped_group :: "asset_grouping_row \<Rightarrow> int \<Rightarrow> asset_grouping_row" where
  "stamped_group r sq = r\<lparr>ag_group_info_seq := Some sq\<rparr>"

definition stamped_data :: "asset_data_row \<Rightarrow> int \<Rightarrow> asset_data_row" where
  "stamped_data r sq = r\<lparr>ad_base_info_seq := Some sq\<rparr>"

definition stamped_creator :: "asset_creators_row \<Rightarrow> int \<Rightarrow> asset_creators_row" where
  "stamped_creator r sq = r\<lparr>ac_seq := Some sq\<rparr>"

interpretation grouping: gated_upsert
  "\<lambda>(m, sq). grouping_columns (stamped_group m sq)" "\<lambda>(m, sq). m\<lparr>ag_group_info_seq := None\<rparr>"
  ag_group_info_seq snd "\<lambda>s v. v \<le> s" True "\<lambda>r. ag_group_info_seq r \<noteq> Some 0"
  "\<lambda>(m, sq) (m', sq'). ag_asset_id m = ag_asset_id m' \<and> ag_group_key m = ag_group_key m' \<and>
     ag_seq m = ag_seq m' \<and> sq \<noteq> 0 \<and> sq' \<noteq> 0"
  "\<lambda>(m, sq). row_upsert (stamped_group m sq) grouping_columns collection_where"
  by unfold_locales
    (auto simp: guard_simps collection_where_def stamped_group_def grouping_columns_def split: option.splits)

interpretation data: gated_upsert
  "\<lambda>(m, sq). asset_data_columns (stamped_data m sq)" "\<lambda>(m, sq). m\<lparr>ad_base_info_seq := None\<rparr>"
  ad_base_info_seq snd "\<lambda>s v. v \<le> s" True "\<lambda>r. ad_base_info_seq r \<noteq> Some 0"
  "\<lambda>(m, sq) (m', sq'). ad_id m = ad_id m' \<and> ad_metadata m = ad_metadata m' \<and> sq \<noteq> 0 \<and> sq' \<noteq> 0"
  "\<lambda>(m, sq). row_upsert (stamped_data m sq) asset_data_columns asset_data_where"
  by unfold_locales
    (auto simp: guard_simps asset_data_where_def stamped_data_def asset_data_columns_def split: option.splits)

interpretation creators: gated_upsert
  "\<lambda>(m, sq). creators_columns (stamped_creator m sq)" "\<lambda>(m, sq). m\<lparr>ac_seq := None\<rparr>"
  ac_seq snd "\<lambda>s v. v \<le> s" True "\<lambda>r. ac_seq r \<noteq> Some 0"
  "\<lambda>(m, sq) (m', sq'). ac_asset_id m = ac_asset_id m' \<and> ac_position m = ac_position m' \<and>
     sq \<noteq> 0 \<and> sq' \<noteq> 0"
  "\<lambda>(m, sq). row_upsert (stamped_creator m sq) creators_columns creators_where"
  by unfold_locales
    (auto simp: guard_simps creators_where_def stamped_creator_def creators_columns_def split: option.splits)

end
