(* ===== verification/Samples.thy ===== *)
theory Samples
  imports Chain
begin

text \<open>
  Concrete inputs for the witnesses: an environment whose foreign functions are simple executable
  functions with the documented behaviour the theorems ask for, and a few instructions.
\<close>

definition demo_env :: env where
  "demo_env = \<lparr>bs58_encode = (\<lambda>bs. map (\<lambda>b. char_of (unat b)) bs), bs58_decode = (\<lambda>_. Some []),
     find_program_address = (\<lambda>seeds _. concat seeds), pubkey_to_string = (\<lambda>k. map (\<lambda>b. char_of (unat b)) k),
     mpl_bubblegum_ID = [0], flags_non_transferable = (\<lambda>f. f = 1),
     flags_asset_lvl_frozen = (\<lambda>f. f = 2), flags_permanent_lvl_frozen = (\<lambda>f. f = 4),
     token_standard_to_json = (\<lambda>_. Inr (JString ''NonFungible'')), uses_to_json = (\<lambda>_. Inr JNull),
     master_edition_to_json = (\<lambda>_. Inr JNull), edition_to_json = (\<lambda>_. Inr JNull),
     pubkey_from_str = (\<lambda>s. Inr (map of_char s)), master_edition_pda = (\<lambda>k. k @ [1])\<rparr>"

definition demo_bundle :: InstructionBundle where
  "demo_bundle = \<lparr>ib_txn_id = ''tx'', ib_program = [0], ib_instruction = None, ib_inner_ix = None,
     ib_keys = [], ib_slot = 5\<rparr>"

definition demo_change :: "u64 \<Rightarrow> u8 \<Rightarrow> ChangeLogEventV1" where
  "demo_change sq h =
     \<lparr>cle_id = [1], cle_path = [\<lparr>pn_node = [h], pn_index = 2\<rparr>, \<lparr>pn_node = [7], pn_index = 1\<rparr>],
      cle_seq = sq, cle_index = 0\<rparr>"

definition demo_leaf :: "u8 \<Rightarrow> LeafSchemaEvent" where
  "demo_leaf owner = \<lparr>lse_schema = LeafSchema_V1 [9] [owner] [owner] 0 [] [], lse_leaf_hash = [owner]\<rparr>"

definition demo_transfer :: "u64 \<Rightarrow> u8 \<Rightarrow> BubblegumInstruction \<times> InstructionBundle" where
  "demo_transfer sq owner =
     (\<lparr>bi_instruction = IN_Transfer, bi_tree_update = Some (demo_change sq owner),
       bi_leaf_update = Some (demo_leaf owner), bi_payload = None\<rparr>, demo_bundle)"

definition demo_metadata_args :: MetadataArgs where
  "demo_metadata_args = \<lparr>ma_name = ''N'', ma_symbol = ''S'', ma_uri = ''u'',
     ma_seller_fee_basis_points = 500, ma_primary_sale_happened = False, ma_is_mutable = True,
     ma_edition_nonce = None, ma_collection = None, ma_uses = None,
     ma_creators = [\<lparr>cr_address = [3], cr_verified = True, cr_share = 100\<rparr>]\<rparr>"

definition demo_mint :: "u64 \<Rightarrow> u8 \<Rightarrow> BubblegumInstruction \<times> InstructionBundle" where
  "demo_mint sq owner =
     (\<lparr>bi_instruction = IN_MintV1, bi_tree_update = Some (demo_change sq owner),
       bi_leaf_update = Some (demo_leaf owner),
       bi_payload = Some (Payload_Mint demo_metadata_args [4] [1])\<rparr>, demo_bundle)"

definition demo_metadata :: Metadata where
  "demo_metadata = \<lparr>md_update_authority = [4], md_mint = [9], md_name = ''N'', md_symbol = ''S'',
     md_uri = ''u'', md_seller_fee_basis_points = 500, md_creators = None,
     md_primary_sale_happened = False, md_is_mutable = True, md_edition_nonce = None,
     md_token_standard = Some Std_NonFungible, md_collection = None, md_uses = None\<rparr>"

definition demo_account :: AccountInfo where
  "demo_account = \<lparr>acc_slot = 8, acc_pubkey = [5], acc_owner = [6], acc_data = []\<rparr>"

lemmas demo_defs = demo_env_def demo_bundle_def demo_change_def demo_leaf_def demo_transfer_def
  demo_metadata_args_def demo_mint_def demo_metadata_def demo_account_def

end
