(* ===== verification/BubblegumHandlers.thy ===== *)
theory BubblegumHandlers
  imports BubblegumDb Samples
begin

text \<open>
  The handlers of \<open>program_transformers/src/bubblegum\<close>, one per file, and their dispatcher
  \<open>handle_bubblegum_instruction\<close>.  A handler first saves the change log with the connection it is
  given (every statement commits on its own) and then writes the asset tables inside one
  transaction.  \<open>txn\<close> of the sources is the database argument of the action.  The metadata notifier
  is a parameter: it gets the download request and may fail with a message.
\<close>

section \<open>Shared helpers\<close>

fun ix_str :: "InstructionName \<Rightarrow> string" where
  "ix_str IN_Unknown = ''Unknown''"
| "ix_str IN_MintV1 = ''MintV1''"
| "ix_str IN_MintToCollectionV1 = ''MintToCollectionV1''"
| "ix_str IN_Redeem = ''Redeem''"
| "ix_str IN_CancelRedeem = ''CancelRedeem''"
| "ix_str IN_Transfer = ''Transfer''"
| "ix_str IN_Delegate = ''Delegate''"
| "ix_str IN_DecompressV1 = ''DecompressV1''"
| "ix_str IN_Compress = ''Compress''"
| "ix_str IN_Burn = ''Burn''"
| "ix_str IN_CreateTree = ''CreateTree''"
| "ix_str IN_VerifyCreator = ''VerifyCreator''"
| "ix_str IN_UnverifyCreator = ''UnverifyCreator''"
| "ix_str IN_VerifyCollection = ''VerifyCollection''"
| "ix_str IN_UnverifyCollection = ''UnverifyCollection''"
| "ix_str IN_SetAndVerifyCollection = ''SetAndVerifyCollection''"
| "ix_str IN_SetDecompressibleState = ''SetDecompressibleState''"
| "ix_str IN_UpdateMetadata = ''UpdateMetadata''"
| "ix_str IN_BurnV2 = ''BurnV2''"
| "ix_str IN_CollectV2 = ''CollectV2''"
| "ix_str IN_CreateTreeV2 = ''CreateTreeV2''"
| "ix_str IN_DelegateAndFreezeV2 = ''DelegateAndFreezeV2''"
| "ix_str IN_DelegateV2 = ''DelegateV2''"
| "ix_str IN_FreezeV2 = ''FreezeV2''"
| "ix_str IN_MintV2 = ''MintV2''"
| "ix_str IN_SetCollectionV2 = ''SetCollectionV2''"
| "ix_str IN_SetNonTransferableV2 = ''SetNonTransferableV2''"
| "ix_str IN_ThawAndRevokeV2 = ''ThawAndRevokeV2''"
| "ix_str IN_ThawV2 = ''ThawV2''"
| "ix_str IN_TransferV2 = ''TransferV2''"
| "ix_str IN_UnverifyCreatorV2 = ''UnverifyCreatorV2''"
| "ix_str IN_UpdateAssetDataV2 = ''UpdateAssetDataV2''"
| "ix_str IN_UpdateMetadataV2 = ''UpdateMetadataV2''"
| "ix_str IN_VerifyCreatorV2 = ''VerifyCreatorV2''"

definition u32_to_u8_array :: "u32 \<Rightarrow> bytes" where
  "u32_to_u8_array value = map (\<lambda>i. ucast (drop_bit (8 * i) value)) [0, 1, 2, 3] @ replicate 4 0"

fun bgum_use_method_to_token_metadata_use_method :: "UseMethod \<Rightarrow> UseMethod" where
  "bgum_use_method_to_token_metadata_use_method Use_Burn = Use_Burn"
| "bgum_use_method_to_token_metadata_use_method Use_Multiple = Use_Multiple"
| "bgum_use_method_to_token_metadata_use_method Use_Single = Use_Single"

record NormalizedLeafFields =
  nl_id :: pubkey
  nl_owner :: pubkey
  nl_delegate :: pubkey
  nl_nonce :: u64
  nl_data_hash :: bytes
  nl_creator_hash :: bytes
  nl_collection_hash :: "bytes option"
  nl_asset_data_hash :: "bytes option"
  nl_flags :: "u8 option"

fun NormalizedLeafFields_from :: "LeafSchema \<Rightarrow> NormalizedLeafFields" where
  "NormalizedLeafFields_from (LeafSchema_V1 k owner delegate nonce data_hash creator_hash) =
     \<lparr>nl_id = k, nl_owner = owner, nl_delegate = delegate, nl_nonce = nonce,
      nl_data_hash = data_hash, nl_creator_hash = creator_hash, nl_collection_hash = None,
      nl_asset_data_hash = None, nl_flags = None\<rparr>"
| "NormalizedLeafFields_from (LeafSchema_V2 k owner delegate nonce data_hash creator_hash
       collection_hash asset_data_hash flags) =
     \<lparr>nl_id = k, nl_owner = owner, nl_delegate = delegate, nl_nonce = nonce,
      nl_data_hash = data_hash, nl_creator_hash = creator_hash,
      nl_collection_hash = Some collection_hash, nl_asset_data_hash = Some asset_data_hash,
      nl_flags = Some flags\<rparr>"

text \<open>
  The expressions every handler repeats: the delegate column (the owner or the default key means
  no delegate), the PDA of a leaf, the leaf columns from a leaf schema event, the rejection of
  an instruction whose parts are missing.
\<close>

definition delegate_column :: "pubkey \<Rightarrow> pubkey \<Rightarrow> bytes option" where
  "delegate_column owner delegate =
     (if owner = delegate \<or> delegate = replicate 32 0 then None else Some delegate)"

definition asset_pda :: "env \<Rightarrow> ChangeLogEventV1 \<Rightarrow> pubkey" where
  "asset_pda E cl = find_program_address E
     [string_bytes ''asset'', cle_id cl, u32_to_u8_array (cle_index cl)] (mpl_bubblegum_ID E)"

definition leaf_columns ::
  "NormalizedLeafFields \<Rightarrow> int \<Rightarrow> bytes \<Rightarrow> bytes \<Rightarrow> u64 \<Rightarrow> leaf_info" where
  "leaf_columns leaf nonce tree_id leaf_hash sq =
     \<lparr>li_id = nl_id leaf, li_nonce = nonce, li_tree_id = tree_id, li_leaf = leaf_hash,
      li_data_hash = nl_data_hash leaf, li_creator_hash = nl_creator_hash leaf,
      li_collection_hash = nl_collection_hash leaf, li_asset_data_hash = nl_asset_data_hash leaf,
      li_flags = nl_flags leaf, li_seq = as_i64 sq\<rparr>"

definition owner_columns :: "NormalizedLeafFields \<Rightarrow> u64 \<Rightarrow> owner_info" where
  "owner_columns leaf sq =
     \<lparr>oi_id = nl_id leaf, oi_owner = nl_owner leaf,
      oi_delegate = delegate_column (nl_owner leaf) (nl_delegate leaf), oi_seq = as_i64 sq\<rparr>"

definition parsing_error :: "ProgramTransformerError" where
  "parsing_error = ParsingError ''Ix not parsed correctly''"

definition save_cl ::
  "env \<Rightarrow> InstructionBundle \<Rightarrow> string \<Rightarrow> ChangeLogEventV1 \<Rightarrow> u64 handler" where
  "save_cl E bundle instruction cl =
     save_changelog_event E cl (ib_slot bundle) (ib_txn_id bundle) instruction"

section \<open>Transfer, delegation, burn and redemption\<close>

definition transfer ::
  "env \<Rightarrow> BubblegumInstruction \<Rightarrow> InstructionBundle \<Rightarrow> string \<Rightarrow> unit handler" where
  "transfer E parsing_result bundle instruction =
     (case (bi_leaf_update parsing_result, bi_tree_update parsing_result) of
        (Some le, Some cl) \<Rightarrow>
          db_bind (save_cl E bundle instruction cl) (\<lambda>sq.
          let leaf = NormalizedLeafFields_from (lse_schema le);
              nonce = u32_as_i64 (cle_index cl) in
          with_txn (db_seq
            [upsert_asset_with_leaf_info E (leaf_columns leaf nonce (cle_id cl) (lse_leaf_hash le) sq),
             upsert_asset_with_owner_and_delegate_info (owner_columns leaf sq),
             upsert_asset_with_seq (nl_id leaf) (as_i64 sq)]))
      | _ \<Rightarrow> db_fail parsing_error)"

definition delegation_freezing_nontransferability ::
  "env \<Rightarrow> BubblegumInstruction \<Rightarrow> InstructionBundle \<Rightarrow> string \<Rightarrow> unit handler" where
  "delegation_freezing_nontransferability E parsing_result bundle instruction =
     (case (bi_leaf_update parsing_result, bi_tree_update parsing_result) of
        (Some le, Some cl) \<Rightarrow>
          db_bind (save_cl E bundle instruction cl) (\<lambda>sq.
          let leaf = NormalizedLeafFields_from (lse_schema le) in
          with_txn (db_seq
            [upsert_asset_with_leaf_info E (leaf_columns leaf (u32_as_i64 (cle_index cl)) (cle_id cl)
               (lse_leaf_hash le) sq),
             upsert_asset_with_owner_and_delegate_info (owner_columns leaf sq),
             upsert_asset_with_seq (nl_id leaf) (as_i64 sq)]))
      | _ \<Rightarrow> db_fail parsing_error)"

definition burnt_model :: "bytes \<Rightarrow> asset_row" where
  "burnt_model k = (asset_defaults k)\<lparr>a_burnt := True\<rparr>"

definition burnt_columns :: "asset_row \<Rightarrow> asset_row \<Rightarrow> asset_row" where
  "burnt_columns new old = old\<lparr>a_burnt := a_burnt new\<rparr>"

definition upsert_burnt :: "bytes \<Rightarrow> unit handler" where
  "upsert_burnt k = map_err from_DbErr (execute (\<lambda>s.
     s\<lparr>asset := upsert k (burnt_model k) burnt_columns (\<lambda>_ _. Some True) (asset s)\<rparr>))"

definition burn ::
  "env \<Rightarrow> BubblegumInstruction \<Rightarrow> InstructionBundle \<Rightarrow> string \<Rightarrow> unit handler" where
  "burn E parsing_result bundle instruction =
     (case bi_tree_update parsing_result of
        Some cl \<Rightarrow>
          db_bind (save_cl E bundle instruction cl) (\<lambda>sq.
          let asset_id = asset_pda E cl in
          with_txn (db_seq [upsert_burnt asset_id, upsert_asset_with_seq asset_id (as_i64 sq)]))
      | None \<Rightarrow> db_fail parsing_error)"

definition redeemed_leaf :: "bytes \<Rightarrow> int \<Rightarrow> bytes \<Rightarrow> u64 \<Rightarrow> leaf_info" where
  "redeemed_leaf asset_id nonce tree_id sq =
     \<lparr>li_id = asset_id, li_nonce = nonce, li_tree_id = tree_id, li_leaf = replicate 32 0,
      li_data_hash = replicate 32 0, li_creator_hash = replicate 32 0, li_collection_hash = None,
      li_asset_data_hash = None, li_flags = None, li_seq = as_i64 sq\<rparr>"

definition redeem ::
  "env \<Rightarrow> BubblegumInstruction \<Rightarrow> InstructionBundle \<Rightarrow> string \<Rightarrow> unit handler" where
  "redeem E parsing_result bundle instruction =
     (case bi_tree_update parsing_result of
        Some cl \<Rightarrow>
          db_bind (save_cl E bundle instruction cl) (\<lambda>sq.
          let asset_id = asset_pda E cl; nonce = u32_as_i64 (cle_index cl) in
          with_txn (db_seq
            [upsert_asset_with_leaf_info E (redeemed_leaf asset_id nonce (cle_id cl) sq),
             upsert_asset_with_seq asset_id (as_i64 sq)]))
      | None \<Rightarrow> db_fail parsing_error)"

definition cancel_redeem ::
  "env \<Rightarrow> BubblegumInstruction \<Rightarrow> InstructionBundle \<Rightarrow> string \<Rightarrow> unit handler" where
  "cancel_redeem E parsing_result bundle instruction =
     (case (bi_leaf_update parsing_result, bi_tree_update parsing_result) of
        (Some le, Some cl) \<Rightarrow>
          db_bind (save_cl E bundle instruction cl) (\<lambda>sq.
          case lse_schema le of
            LeafSchema_V1 k owner delegate _ data_hash creator_hash \<Rightarrow>
              with_txn (db_seq
                [upsert_asset_with_leaf_info E
                   \<lparr>li_id = k, li_nonce = u32_as_i64 (cle_index cl), li_tree_id = cle_id cl,
                    li_leaf = lse_leaf_hash le, li_data_hash = data_hash,
                    li_creator_hash = creator_hash, li_collection_hash = None,
                    li_asset_data_hash = None, li_flags = None, li_seq = as_i64 sq\<rparr>,
                 upsert_asset_with_owner_and_delegate_info
                   \<lparr>oi_id = k, oi_owner = owner, oi_delegate = delegate_column owner delegate,
                    oi_seq = as_i64 sq\<rparr>,
                 upsert_asset_with_seq k (as_i64 sq)])
          | LeafSchema_V2 _ _ _ _ _ _ _ _ _ \<Rightarrow>
              db_fail (ParsingError ''LeafSchema V2 not possible for ix''))
      | _ \<Rightarrow> db_fail parsing_error)"

section \<open>Verification\<close>

definition updated_creators :: "MetadataArgs \<Rightarrow> pubkey \<Rightarrow> bool \<Rightarrow> Creator list" where
  "updated_creators metadata creator verify =
     map (\<lambda>c. if cr_address c = creator then c\<lparr>cr_verified := verify\<rparr> else c) (ma_creators metadata)"

definition creator_verification ::
  "env \<Rightarrow> BubblegumInstruction \<Rightarrow> InstructionBundle \<Rightarrow> string \<Rightarrow> unit handler" where
  "creator_verification E parsing_result bundle instruction =
     (case (bi_leaf_update parsing_result, bi_tree_update parsing_result,
            bi_payload parsing_result) of
        (Some le, Some cl, Some payload) \<Rightarrow>
          (case payload of
             Payload_CreatorVerification metadata creator verify \<Rightarrow>
               db_bind (save_cl E bundle instruction cl) (\<lambda>sq.
               let leaf = NormalizedLeafFields_from (lse_schema le);
                   nonce = u32_as_i64 (cle_index cl) in
               with_txn (db_seq
                 [upsert_asset_with_leaf_info E
                    (leaf_columns leaf nonce (cle_id cl) (lse_leaf_hash le) sq),
                  upsert_asset_with_owner_and_delegate_info (owner_columns leaf sq),
                  upsert_asset_with_seq (nl_id leaf) (as_i64 sq),
                  upsert_asset_creators (nl_id leaf) (updated_creators metadata creator verify)
                    (as_i64 (ib_slot bundle)) (as_i64 sq)]))
           | _ \<Rightarrow> db_fail parsing_error)
      | _ \<Rightarrow> db_fail parsing_error)"

text \<open>The Bubblegum program as collection means that the asset left its collection.\<close>

definition new_collection :: "env \<Rightarrow> pubkey \<Rightarrow> bool \<Rightarrow> Collection option" where
  "new_collection E collection verify =
     (if collection = mpl_bubblegum_ID E then None
      else Some \<lparr>col_verified = verify, col_key = collection\<rparr>)"

definition collection_verification ::
  "env \<Rightarrow> BubblegumInstruction \<Rightarrow> InstructionBundle \<Rightarrow> string \<Rightarrow> unit handler" where
  "collection_verification E parsing_result bundle instruction =
     (case (bi_leaf_update parsing_result, bi_tree_update parsing_result,
            bi_payload parsing_result) of
        (Some le, Some cl, Some payload) \<Rightarrow>
          (case payload of
             Payload_CollectionVerification collection verify \<Rightarrow>
               db_bind (save_cl E bundle instruction cl) (\<lambda>sq.
               let leaf = NormalizedLeafFields_from (lse_schema le);
                   nonce = u32_as_i64 (cle_index cl) in
               with_txn (db_seq
                 [upsert_asset_with_leaf_info E
                    (leaf_columns leaf nonce (cle_id cl) (lse_leaf_hash le) sq),
                  upsert_asset_with_seq (nl_id leaf) (as_i64 sq),
                  upsert_collection_info E (nl_id leaf) (new_collection E collection verify)
                    (as_i64 (ib_slot bundle)) (as_i64 sq)]))
           | _ \<Rightarrow> db_fail parsing_error)
      | _ \<Rightarrow> db_fail parsing_error)"

section \<open>Mint and metadata updates\<close>

definition bubblegum_chain_data ::
  "string \<Rightarrow> string \<Rightarrow> u8 option \<Rightarrow> bool \<Rightarrow> Uses option \<Rightarrow> ChainDataV1" where
  "bubblegum_chain_data name symbol edition_nonce primary_sale_happened uses =
     ChainDataV1_sanitize
       \<lparr>cd_name = name, cd_symbol = symbol, cd_edition_nonce = edition_nonce,
        cd_primary_sale_happened = primary_sale_happened,
        cd_token_standard = Some Std_NonFungible,
        cd_uses = map_option (\<lambda>u.
          u\<lparr>uses_use_method := bgum_use_method_to_token_metadata_use_method (uses_use_method u)\<rparr>) uses\<rparr>"

definition bubblegum_asset_data ::
  "bytes \<Rightarrow> bool \<Rightarrow> json \<Rightarrow> string \<Rightarrow> int \<Rightarrow> string \<Rightarrow> string \<Rightarrow> asset_data_row" where
  "bubblegum_asset_data k is_mutable chain_data uri slot_i name symbol =
     \<lparr>ad_id = k, ad_chain_data_mutability = (if is_mutable then Chain_Mutable else Chain_Immutable),
      ad_chain_data = chain_data, ad_metadata_url = uri, ad_metadata_mutability = Mut_Mutable,
      ad_metadata = JString ''processing'', ad_slot_updated = slot_i, ad_reindex = Some True,
      ad_raw_name = Some (string_bytes name), ad_raw_symbol = Some (string_bytes symbol),
      ad_base_info_seq = None\<rparr>"

definition bubblegum_base_info :: "bytes \<Rightarrow> u16 \<Rightarrow> int \<Rightarrow> u64 \<Rightarrow> base_info" where
  "bubblegum_base_info k seller_fee_basis_points slot_i sq =
     \<lparr>bs_id = k, bs_owner_type = Owner_Single, bs_specification_version = Spec_V1,
      bs_specification_asset_class = Class_Nft, bs_royalty_target_type = Royalty_Creators,
      bs_royalty_target = None, bs_royalty_amount = u16_as_i32 seller_fee_basis_points,
      bs_slot_updated = slot_i, bs_seq = as_i64 sq\<rparr>"

text \<open>The task for the metadata downloader; an empty URI has nothing to download.\<close>

definition download_info :: "bytes \<Rightarrow> string \<Rightarrow> DownloadMetadataInfo option" where
  "download_info k uri = (if uri = [] then None else Some (DownloadMetadataInfo_new k uri))"

text \<open>
  The authority call passes the sequence number and the slot in the order of the source, where
  the callee expects the slot first.
\<close>

definition mint ::
  "env \<Rightarrow> BubblegumInstruction \<Rightarrow> InstructionBundle \<Rightarrow> string \<Rightarrow>
   DownloadMetadataInfo option handler" where
  "mint E parsing_result bundle instruction =
     (case (bi_leaf_update parsing_result, bi_tree_update parsing_result,
            bi_payload parsing_result) of
        (Some le, Some cl, Some (Payload_Mint metadata authority tree_id)) \<Rightarrow>
          db_bind (save_cl E bundle instruction cl) (\<lambda>sq.
          let leaf = NormalizedLeafFields_from (lse_schema le);
              id_bytes = nl_id leaf;
              slot_i = as_i64 (ib_slot bundle);
              uri = remove_nul (ma_uri metadata);
              chain_data = bubblegum_chain_data (ma_name metadata) (ma_symbol metadata)
                (ma_edition_nonce metadata) (ma_primary_sale_happened metadata) (ma_uses metadata)
          in case ChainDataV1_to_value E chain_data of
               Inl e \<Rightarrow> db_fail (DeserializationError e)
             | Inr chain_data_json \<Rightarrow>
                 db_then (with_txn (db_seq
                   [upsert_asset_data (bubblegum_asset_data id_bytes (ma_is_mutable metadata)
                      chain_data_json uri slot_i (ma_name metadata) (ma_symbol metadata)) (as_i64 sq),
                    upsert_asset_base_info (bubblegum_base_info id_bytes
                      (ma_seller_fee_basis_points metadata) slot_i sq),
                    upsert_asset_with_compression_info \<lparr>cp_id = id_bytes, cp_compressed = True,
                      cp_compressible = False, cp_supply = 1, cp_supply_mint = None\<rparr>,
                    upsert_asset_with_leaf_info E (leaf_columns leaf (as_i64 (nl_nonce leaf)) tree_id
                      (lse_leaf_hash le) sq),
                    upsert_asset_with_owner_and_delegate_info (owner_columns leaf sq),
                    upsert_asset_with_seq id_bytes (as_i64 sq),
                    upsert_asset_creators id_bytes (ma_creators metadata) slot_i (as_i64 sq),
                    upsert_asset_authority id_bytes authority (as_i64 sq) slot_i,
                    upsert_collection_info E id_bytes (ma_collection metadata) slot_i (as_i64 sq)]))
                 (db_return (download_info id_bytes uri)))
      | _ \<Rightarrow> db_fail parsing_error)"

definition opt_or :: "'a option \<Rightarrow> 'a \<Rightarrow> 'a" where
  "opt_or x d = (case x of Some v \<Rightarrow> v | None \<Rightarrow> d)"

definition update_metadata ::
  "env \<Rightarrow> BubblegumInstruction \<Rightarrow> InstructionBundle \<Rightarrow> string \<Rightarrow>
   DownloadMetadataInfo option handler" where
  "update_metadata E parsing_result bundle instruction =
     (case (bi_leaf_update parsing_result, bi_tree_update parsing_result,
            bi_payload parsing_result) of
        (Some le, Some cl, Some (Payload_UpdateMetadata current_metadata update_args tree_id)) \<Rightarrow>
          db_bind (save_cl E bundle instruction cl) (\<lambda>sq.
          let leaf = NormalizedLeafFields_from (lse_schema le);
              id_bytes = nl_id leaf;
              slot_i = as_i64 (ib_slot bundle);
              uri = remove_nul (opt_or (ua_uri update_args) (ma_uri current_metadata));
              name = opt_or (ua_name update_args) (ma_name current_metadata);
              symbol = opt_or (ua_symbol update_args) (ma_symbol current_metadata);
              primary_sale_happened = opt_or (ua_primary_sale_happened update_args)
                (ma_primary_sale_happened current_metadata);
              chain_data = bubblegum_chain_data name symbol (ma_edition_nonce current_metadata)
                primary_sale_happened (ma_uses current_metadata)
          in case ChainDataV1_to_value E chain_data of
               Inl e \<Rightarrow> db_fail (DeserializationError e)
             | Inr chain_data_json \<Rightarrow>
                 let is_mutable = opt_or (ua_is_mutable update_args) (ma_is_mutable current_metadata);
                     seller_fee_basis_points = opt_or (ua_seller_fee_basis_points update_args)
                       (ma_seller_fee_basis_points current_metadata);
                     creators = opt_or (ua_creators update_args) (ma_creators current_metadata)
                 in db_then (with_txn (db_seq
                   [upsert_asset_data (bubblegum_asset_data id_bytes is_mutable chain_data_json uri
                      slot_i name symbol) (as_i64 sq),
                    upsert_asset_base_info (bubblegum_base_info id_bytes seller_fee_basis_points
                      slot_i sq),
                    upsert_asset_with_leaf_info E (leaf_columns leaf (as_i64 (nl_nonce leaf)) tree_id
                      (lse_leaf_hash le) sq),
                    upsert_asset_with_seq id_bytes (as_i64 sq),
                    upsert_asset_creators id_bytes creators slot_i (as_i64 sq)]))
                 (db_return (download_info id_bytes uri)))
      | _ \<Rightarrow> db_fail parsing_error)"

section \<open>Dispatch\<close>

type_synonym notifier = "DownloadMetadataInfo \<Rightarrow> string + unit"

definition notify :: "notifier \<Rightarrow> DownloadMetadataInfo option \<Rightarrow> unit handler" where
  "notify nt info = (case info of
     None \<Rightarrow> db_return ()
   | Some i \<Rightarrow> (case nt i of Inl e \<Rightarrow> db_fail (DownloadMetadataNotify e) | Inr _ \<Rightarrow> db_return ()))"

definition handle_bubblegum_instruction ::
  "env \<Rightarrow> notifier \<Rightarrow> BubblegumInstruction \<Rightarrow> InstructionBundle \<Rightarrow> unit handler" where
  "handle_bubblegum_instruction E nt parsing_result bundle =
     (let ix_type = bi_instruction parsing_result; ix = ix_str ix_type in
      if ix_type \<in> {IN_Transfer, IN_TransferV2} then transfer E parsing_result bundle ix
      else if ix_type \<in> {IN_Burn, IN_BurnV2} then burn E parsing_result bundle ix
      else if ix_type \<in> {IN_Delegate, IN_DelegateV2, IN_DelegateAndFreezeV2, IN_FreezeV2,
                          IN_SetNonTransferableV2, IN_ThawV2, IN_ThawAndRevokeV2}
      then delegation_freezing_nontransferability E parsing_result bundle ix
      else if ix_type \<in> {IN_MintV1, IN_MintToCollectionV1, IN_MintV2}
      then db_bind (mint E parsing_result bundle ix) (notify nt)
      else if ix_type = IN_Redeem then redeem E parsing_result bundle ix
      else if ix_type = IN_CancelRedeem then cancel_redeem E parsing_result bundle ix
      else if ix_type = IN_DecompressV1 then db_return ()
      else if ix_type \<in> {IN_VerifyCreator, IN_UnverifyCreator, IN_VerifyCreatorV2,
                          IN_UnverifyCreatorV2}
      then creator_verification E parsing_result bundle ix
      else if ix_type \<in> {IN_VerifyCollection, IN_UnverifyCollection, IN_SetAndVerifyCollection,
                          IN_SetCollectionV2}
      then collection_verification E parsing_result bundle ix
      else if ix_type = IN_SetDecompressibleState then db_return ()
      else if ix_type \<in> {IN_UpdateMetadata, IN_UpdateMetadataV2}
      then db_bind (update_metadata E parsing_result bundle ix) (notify nt)
      else db_return ())"

text \<open>
  Creator verification changes the flag of the given creator only: the list keeps its length,
  its addresses and shares, and every other creator keeps its flag.
\<close>

lemma updated_creators_flips_one:
  "length (updated_creators m c v) = length (ma_creators m) \<and>
   (\<forall>i < length (ma_creators m).
      cr_address (updated_creators m c v ! i) = cr_address (ma_creators m ! i) \<and>
      cr_share (updated_creators m c v ! i) = cr_share (ma_creators m ! i) \<and>
      cr_verified (updated_creators m c v ! i) =
        (if cr_address (ma_creators m ! i) = c then v else cr_verified (ma_creators m ! i)))"
  by (simp add: updated_creators_def)

end
