(* ===== verification/BubblegumSpec.thy ===== *)
theory BubblegumSpec
  imports BubblegumHandlers
begin

text \<open>
  The abstract specification of the Bubblegum part.  An instruction stands for a set of guarded
  writes, \<open>bg_writes\<close>; the state is the five tables they write, \<open>core\<close>.  Writes of different
  instructions commute and every write can be repeated, so the final tables depend only on the
  set of writes performed.
\<close>

section \<open>Abstract writes\<close>

record core =
  c_asset :: asset_table
  c_data :: asset_data_table
  c_creators :: asset_creators_table
  c_grouping :: asset_grouping_table
  c_cl :: cl_items_table

definition core_of :: "db \<Rightarrow> core" where
  "core_of s = \<lparr>c_asset = asset s, c_data = asset_data s, c_creators = asset_creators s,
     c_grouping = map_of (asset_grouping s), c_cl = cl_items s\<rparr>"

datatype asset_write =
    A_base base_info
  | A_comp bytes
  | A_leaf leaf_info
  | A_owner owner_info
  | A_seq bytes int
  | A_burn bytes

datatype bg_write =
    W_asset asset_write
  | W_data asset_data_row int
  | W_creator asset_creators_row int
  | W_group asset_grouping_row int
  | W_cl cl_items_row

definition minted_compression :: "bytes \<Rightarrow> compression_info" where
  "minted_compression k = \<lparr>cp_id = k, cp_compressed = True, cp_compressible = False,
     cp_supply = 1, cp_supply_mint = None\<rparr>"

fun aw_id :: "asset_write \<Rightarrow> bytes" where
  "aw_id (A_base a) = bs_id a"
| "aw_id (A_comp k) = k"
| "aw_id (A_leaf a) = li_id a"
| "aw_id (A_owner a) = oi_id a"
| "aw_id (A_seq k sq) = k"
| "aw_id (A_burn k) = k"

fun aw_step :: "env \<Rightarrow> asset_write \<Rightarrow> asset_row option \<Rightarrow> asset_row" where
  "aw_step E (A_base a) = row_upsert (base_info_model a) base_info_columns base_info_where"
| "aw_step E (A_comp k) = row_upsert (compression_info_model (minted_compression k))
     compression_info_columns compression_info_where"
| "aw_step E (A_leaf a) = row_upsert (leaf_info_model E a) (leaf_info_columns a) leaf_info_where"
| "aw_step E (A_owner a) = row_upsert (owner_info_model a) owner_info_columns owner_info_where"
| "aw_step E (A_seq k sq) = row_upsert (seq_model k sq) seq_columns seq_where"
| "aw_step E (A_burn k) = row_upsert (burnt_model k) burnt_columns (\<lambda>_ _. Some True)"

definition put_row :: "'k \<Rightarrow> ('r option \<Rightarrow> 'r) \<Rightarrow> ('k \<rightharpoonup> 'r) \<Rightarrow> ('k \<rightharpoonup> 'r)" where
  "put_row k f t = t(k \<mapsto> f (t k))"

lemma upsert_put_row: "upsert k new cols whr = put_row k (row_upsert new cols whr)"
  by (simp add: fun_eq_iff put_row_def upsert_eq)

definition data_step :: "asset_data_row \<Rightarrow> int \<Rightarrow> asset_data_row option \<Rightarrow> asset_data_row" where
  "data_step m sq = row_upsert (stamped_data m sq) asset_data_columns asset_data_where"

definition creator_step ::
  "asset_creators_row \<Rightarrow> int \<Rightarrow> asset_creators_row option \<Rightarrow> asset_creators_row" where
  "creator_step m sq = row_upsert (stamped_creator m sq) creators_columns creators_where"

definition group_step ::
  "asset_grouping_row \<Rightarrow> int \<Rightarrow> asset_grouping_row option \<Rightarrow> asset_grouping_row" where
  "group_step m sq = row_upsert (stamped_group m sq) grouping_columns collection_where"

definition cl_step :: "cl_items_row \<Rightarrow> cl_items_row option \<Rightarrow> cl_items_row" where
  "cl_step a = row_upsert a cl_items_columns cl_items_where"

fun apply_write :: "env \<Rightarrow> bg_write \<Rightarrow> core \<Rightarrow> core" where
  "apply_write E (W_asset w) c = c\<lparr>c_asset := put_row (aw_id w) (aw_step E w) (c_asset c)\<rparr>"
| "apply_write E (W_data m sq) c = c\<lparr>c_data := put_row (ad_id m) (data_step m sq) (c_data c)\<rparr>"
| "apply_write E (W_creator m sq) c =
     c\<lparr>c_creators := put_row (ac_asset_id m, ac_position m) (creator_step m sq) (c_creators c)\<rparr>"
| "apply_write E (W_group m sq) c =
     c\<lparr>c_grouping := put_row (ag_asset_id m, ag_group_key m) (group_step m sq) (c_grouping c)\<rparr>"
| "apply_write E (W_cl a) c =
     c\<lparr>c_cl := put_row (cl_tree a, cl_node_idx a) (cl_step a) (c_cl c)\<rparr>"

text \<open>The column group and row a write assigns, and the sequence number it carries.\<close>

datatype write_key =
    K_base bytes | K_comp bytes | K_leaf bytes | K_owner bytes | K_seq bytes | K_burn bytes
  | K_data bytes | K_creator bytes int | K_group bytes string | K_cl bytes int

fun w_key :: "bg_write \<Rightarrow> write_key" where
  "w_key (W_asset (A_base a)) = K_base (bs_id a)"
| "w_key (W_asset (A_comp k)) = K_comp k"
| "w_key (W_asset (A_leaf a)) = K_leaf (li_id a)"
| "w_key (W_asset (A_owner a)) = K_owner (oi_id a)"
| "w_key (W_asset (A_seq k sq)) = K_seq k"
| "w_key (W_asset (A_burn k)) = K_burn k"
| "w_key (W_data m sq) = K_data (ad_id m)"
| "w_key (W_creator m sq) = K_creator (ac_asset_id m) (ac_position m)"
| "w_key (W_group m sq) = K_group (ag_asset_id m) (ag_group_key m)"
| "w_key (W_cl a) = K_cl (cl_tree a) (cl_node_idx a)"

fun w_seq :: "bg_write \<Rightarrow> int option" where
  "w_seq (W_asset (A_base a)) = Some (bs_seq a)"
| "w_seq (W_asset (A_comp k)) = None"
| "w_seq (W_asset (A_leaf a)) = Some (li_seq a)"
| "w_seq (W_asset (A_owner a)) = Some (oi_seq a)"
| "w_seq (W_asset (A_seq k sq)) = Some sq"
| "w_seq (W_asset (A_burn k)) = None"
| "w_seq (W_data m sq) = Some sq"
| "w_seq (W_creator m sq) = Some sq"
| "w_seq (W_group m sq) = Some sq"
| "w_seq (W_cl a) = Some (cl_seq a)"

text \<open>
  The columns a write leaves alone that its table also takes from the row it proposes: writes to
  the same row have to agree on them.
\<close>

fun same_shape :: "bg_write \<Rightarrow> bg_write \<Rightarrow> bool" where
  "same_shape (W_asset (A_leaf a)) (W_asset (A_leaf b)) \<longleftrightarrow> (li_flags a = None \<longleftrightarrow> li_flags b = None)"
| "same_shape (W_data m _) (W_data m' _) \<longleftrightarrow> ad_metadata m = ad_metadata m'"
| "same_shape (W_group m _) (W_group m' _) \<longleftrightarrow> ag_seq m = ag_seq m'"
| "same_shape _ _ \<longleftrightarrow> True"

definition indep :: "bg_write \<Rightarrow> bg_write \<Rightarrow> bool" where
  "indep w w' \<longleftrightarrow> w_seq w \<noteq> Some 0 \<and> w_seq w' \<noteq> Some 0 \<and>
     (w_key w = w_key w' \<longrightarrow> w = w' \<or> w_seq w \<noteq> w_seq w' \<and> same_shape w w')"

section \<open>Writes commute and can be repeated\<close>

lemma put_row_commute:
  assumes "k = k' \<Longrightarrow> \<forall>ro. f (Some (g ro)) = g (Some (f ro))"
  shows "put_row k f (put_row k' g t) = put_row k' g (put_row k f t)"
  using assms by (cases "k = k'") (auto simp: put_row_def fun_upd_twist)

lemma put_row_idem:
  assumes "\<forall>ro. f (Some (f ro)) = f ro"
  shows "put_row k f (put_row k f t) = put_row k f t"
  using assms by (simp add: put_row_def)

text \<open>
  The asset table has six column groups.  A write assigns its columns where its gate is open;
  assignments to different groups commute and do not move each other's gates.
\<close>

fun aw_assign :: "env \<Rightarrow> asset_write \<Rightarrow> asset_row \<Rightarrow> asset_row" where
  "aw_assign E (A_base a) r = base_info_columns (base_info_model a) r"
| "aw_assign E (A_comp k) r =
     compression_info_columns (compression_info_model (minted_compression k)) r"
| "aw_assign E (A_leaf a) r = leaf_info_columns a (leaf_info_model E a) r"
| "aw_assign E (A_owner a) r = owner_info_columns (owner_info_model a) r"
| "aw_assign E (A_seq k sq) r = seq_columns (seq_model k sq) r"
| "aw_assign E (A_burn k) r = burnt_columns (burnt_model k) r"

definition null_or_le :: "int option \<Rightarrow> int \<Rightarrow> bool" where
  "null_or_le v s = (case v of None \<Rightarrow> True | Some w \<Rightarrow> w \<le> s)"

fun aw_gate :: "asset_write \<Rightarrow> asset_row \<Rightarrow> bool" where
  "aw_gate (A_base a) r \<longleftrightarrow> a_seq r \<noteq> Some 0 \<and> null_or_le (a_base_info_seq r) (bs_seq a)"
| "aw_gate (A_comp k) r \<longleftrightarrow> a_seq r \<noteq> Some 0"
| "aw_gate (A_leaf a) r \<longleftrightarrow> a_seq r \<noteq> Some 0 \<and> null_or_le (a_leaf_seq r) (li_seq a)"
| "aw_gate (A_owner a) r \<longleftrightarrow> a_seq r \<noteq> Some 0 \<and> null_or_le (a_owner_delegate_seq r) (oi_seq a)"
| "aw_gate (A_seq k sq) r \<longleftrightarrow> a_seq r \<noteq> Some 0 \<and> null_or_le (a_seq r) sq"
| "aw_gate (A_burn k) r \<longleftrightarrow> True"

lemma aw_step_Some: "aw_step E w (Some r) = (if aw_gate w r then aw_assign E w r else r)"
  by (cases w)
    (simp_all add: guard_simps null_or_le_def base_info_where_def leaf_info_where_def
      owner_info_where_def seq_where_def compression_info_where_def sql_holds_def[of "Some True"])

lemma aw_step_None: "aw_step E w None = aw_assign E w (asset_defaults (aw_id w))"
proof (cases w)
  case (A_leaf a)
  then show ?thesis using leaf_info_model_new by simp
qed (simp_all add: base_info_model_new[symmetric] owner_info_model_new[symmetric]
      seq_model_new[symmetric] compression_info_columns_def compression_info_model_def
      minted_compression_def burnt_columns_def burnt_model_def)

lemma aw_gate_defaults [simp]: "aw_gate w (asset_defaults k)"
  by (cases w) (simp_all add: null_or_le_def)

fun aw_group :: "asset_write \<Rightarrow> nat" where
  "aw_group (A_base _) = 0"
| "aw_group (A_comp _) = 1"
| "aw_group (A_leaf _) = 2"
| "aw_group (A_owner _) = 3"
| "aw_group (A_seq _ _) = 4"
| "aw_group (A_burn _) = 5"

lemmas column_defs = base_info_columns_def compression_info_columns_def leaf_info_columns_def
  owner_info_columns_def seq_columns_def burnt_columns_def

lemma aw_assign_commute: "aw_group v \<noteq> aw_group w \<Longrightarrow>
   aw_assign E v (aw_assign E w r) = aw_assign E w (aw_assign E v r)"
  by (cases v; cases w) (simp_all add: column_defs Let_def split: option.split)

lemma aw_gate_frame: "aw_group v \<noteq> aw_group w \<Longrightarrow> w_seq (W_asset w) \<noteq> Some 0 \<Longrightarrow>
   aw_gate w r \<Longrightarrow> aw_gate v (aw_assign E w r) = aw_gate v r"
  by (cases v; cases w) (simp_all add: column_defs Let_def split: option.split)

lemma aw_step_cross:
  assumes g: "aw_group v \<noteq> aw_group w" and k: "aw_id v = aw_id w"
    and z: "w_seq (W_asset v) \<noteq> Some 0" "w_seq (W_asset w) \<noteq> Some 0"
  shows "aw_step E v (Some (aw_step E w ro)) = aw_step E w (Some (aw_step E v ro))"
proof (cases ro)
  case None
  then show ?thesis
    using g k z aw_assign_commute[OF g]
    by (simp add: aw_step_None aw_step_Some aw_gate_frame aw_gate_frame[OF g[symmetric]])
next
  case (Some r)
  then show ?thesis
    using g z aw_assign_commute[OF g]
    by (auto simp: aw_step_Some aw_gate_frame aw_gate_frame[OF g[symmetric]])
qed

lemma asset_write_commute:
  assumes "indep (W_asset v) (W_asset w)" and k: "aw_id v = aw_id w"
  shows "aw_step E v (Some (aw_step E w ro)) = aw_step E w (Some (aw_step E v ro))"
proof (cases "aw_group v = aw_group w")
  case False
  with assms show ?thesis by (auto simp: indep_def intro!: aw_step_cross)
next
  case True
  show ?thesis
  proof (cases v)
    case (A_base a)
    with True k assms(1) show ?thesis
      by (cases w) (auto simp: indep_def intro!: base_info.step_commute)
  next
    case (A_comp k)
    with True assms(2) show ?thesis by (cases w) auto
  next
    case (A_leaf a)
    with True k assms(1) show ?thesis
      by (cases w) (auto simp: indep_def intro!: leaf.step_commute)
  next
    case (A_owner a)
    with True k assms(1) show ?thesis
      by (cases w) (auto simp: indep_def intro!: owner.step_commute)
  next
    case (A_seq k sq)
    with True assms show ?thesis
      using seq.step_commute[of "(k, sq)" "(k, n)" ro for n]
      by (cases w) (auto simp: indep_def)
  next
    case (A_burn k)
    with True assms(2) show ?thesis by (cases w) auto
  qed
qed

lemma asset_write_idem:
  assumes "w_seq (W_asset w) \<noteq> Some 0"
  shows "aw_step E w (Some (aw_step E w ro)) = aw_step E w ro"
proof (cases w)
  case (A_base a)
  then show ?thesis using base_info.step_idem by simp
next
  case (A_comp k)
  then show ?thesis
    by (cases ro) (simp_all add: row_upsert_Some compression_info_where_def guard_simps
      compression_info_columns_def)
next
  case (A_leaf a)
  then show ?thesis using leaf.step_idem by simp
next
  case (A_owner a)
  then show ?thesis using owner.step_idem by simp
next
  case (A_seq k sq)
  with assms show ?thesis using seq.step_idem[of "(k, sq)"] by simp
next
  case (A_burn k)
  then show ?thesis
    by (cases ro) (simp_all add: row_upsert_Some burnt_columns_def)
qed

lemma apply_write_commute:
  assumes "indep w w'"
  shows "apply_write E w (apply_write E w' c) = apply_write E w' (apply_write E w c)"
proof -
  have data: "put_row (ad_id m) (data_step m a) (put_row (ad_id m') (data_step m' b) t) =
      put_row (ad_id m') (data_step m' b) (put_row (ad_id m) (data_step m a) t)"
    if "indep (W_data m a) (W_data m' b)" for m m' a b t
    using that data.step_commute[of "(m, a)" "(m', b)"]
    by (intro put_row_commute) (auto simp: indep_def data_step_def)
  have creator: "put_row (ac_asset_id m, ac_position m) (creator_step m a)
        (put_row (ac_asset_id m', ac_position m') (creator_step m' b) t) =
      put_row (ac_asset_id m', ac_position m') (creator_step m' b)
        (put_row (ac_asset_id m, ac_position m) (creator_step m a) t)"
    if "indep (W_creator m a) (W_creator m' b)" for m m' a b t
    using that creators.step_commute[of "(m, a)" "(m', b)"]
    by (intro put_row_commute) (auto simp: indep_def creator_step_def)
  have group: "put_row (ag_asset_id m, ag_group_key m) (group_step m a)
        (put_row (ag_asset_id m', ag_group_key m') (group_step m' b) t) =
      put_row (ag_asset_id m', ag_group_key m') (group_step m' b)
        (put_row (ag_asset_id m, ag_group_key m) (group_step m a) t)"
    if "indep (W_group m a) (W_group m' b)" for m m' a b t
    using that grouping.step_commute[of "(m, a)" "(m', b)"]
    by (intro put_row_commute) (auto simp: indep_def group_step_def)
  have cl: "put_row (cl_tree a, cl_node_idx a) (cl_step a)
        (put_row (cl_tree b, cl_node_idx b) (cl_step b) t) =
      put_row (cl_tree b, cl_node_idx b) (cl_step b)
        (put_row (cl_tree a, cl_node_idx a) (cl_step a) t)"
    if "indep (W_cl a) (W_cl b)" for a b t
    using that cl.step_commute[of a b]
    by (intro put_row_commute) (auto simp: indep_def cl_step_def)
  have asset: "put_row (aw_id v) (aw_step E v) (put_row (aw_id u) (aw_step E u) t) =
      put_row (aw_id u) (aw_step E u) (put_row (aw_id v) (aw_step E v) t)"
    if "indep (W_asset v) (W_asset u)" for v u t
    using that asset_write_commute[of v u E]
    by (intro put_row_commute) auto
  show ?thesis
    using assms by (cases w; cases w')
      (auto intro!: core.equality intro: data creator group cl asset)
qed

lemma apply_write_idem:
  assumes "w_seq w \<noteq> Some 0"
  shows "apply_write E w (apply_write E w c) = apply_write E w c"
proof (cases w)
  case (W_data m sq)
  with assms show ?thesis
    using data.step_idem[of "(m, sq)"] by (simp add: put_row_idem data_step_def)
next
  case (W_creator m sq)
  with assms show ?thesis
    using creators.step_idem[of "(m, sq)"] by (simp add: put_row_idem creator_step_def)
next
  case (W_group m sq)
  with assms show ?thesis
    using grouping.step_idem[of "(m, sq)"] by (simp add: put_row_idem group_step_def)
next
  case (W_cl a)
  with assms show ?thesis
    using cl.step_idem[of a] by (simp add: put_row_idem cl_step_def)
next
  case (W_asset w)
  with assms show ?thesis by (simp add: put_row_idem asset_write_idem)
qed

text \<open>The tables after a run depend on the set of writes only.\<close>

definition apply_writes :: "env \<Rightarrow> bg_write list \<Rightarrow> core \<Rightarrow> core" where
  "apply_writes E ws c = fold (apply_write E) ws c"

definition independent :: "bg_write set \<Rightarrow> bool" where
  "independent W \<longleftrightarrow> (\<forall>w \<in> W. \<forall>w' \<in> W. indep w w')"

lemma apply_writes_append:
  "apply_writes E (ws @ ws') c = apply_writes E ws' (apply_writes E ws c)"
  by (simp add: apply_writes_def)

lemma apply_writes_set:
  assumes "independent W" and "set ws = W" and "set ws' = W"
  shows "apply_writes E ws c = apply_writes E ws' c"
proof -
  have "comp_fun_idem_on W (apply_write E)"
  proof
    fix x y assume "x \<in> W" "y \<in> W"
    with assms(1) have "indep x y" by (simp add: independent_def)
    then show "apply_write E y \<circ> apply_write E x = apply_write E x \<circ> apply_write E y"
      using apply_write_commute[of x y E] by (simp add: fun_eq_iff)
  next
    fix x assume "x \<in> W"
    with assms(1) have "w_seq x \<noteq> Some 0" by (auto simp: independent_def indep_def)
    then show "apply_write E x \<circ> apply_write E x = apply_write E x"
      by (simp add: fun_eq_iff apply_write_idem)
  qed
  then have "fold (apply_write E) zs c = Finite_Set.fold (apply_write E) c (set zs)"
    if "set zs \<subseteq> W" for zs
    using comp_fun_idem_on.fold_set_fold that by metis
  then show ?thesis
    using assms(2,3) by (simp add: apply_writes_def)
qed

section \<open>The writes of an instruction\<close>

type_synonym bg_event = "BubblegumInstruction \<times> InstructionBundle"

fun cl_rows :: "bytes \<Rightarrow> int \<Rightarrow> nat \<Rightarrow> int \<Rightarrow> path_node list \<Rightarrow> cl_items_row list" where
  "cl_rows tree sq depth i [] = []"
| "cl_rows tree sq depth i (p # ps) =
     cl_item tree sq depth i p # cl_rows tree sq depth (i + 1) ps"

definition cl_writes :: "ChangeLogEventV1 \<Rightarrow> bg_write list" where
  "cl_writes cl = map W_cl (cl_rows (cle_id cl) (as_i64 (cle_seq cl))
     (nat (path_depth (cle_path cl))) 0 (cle_path cl))"

definition creator_writes :: "bytes \<Rightarrow> Creator list \<Rightarrow> int \<Rightarrow> int \<Rightarrow> bg_write list" where
  "creator_writes k creators slot sq = map (\<lambda>r. W_creator r sq) (db_creators k creators slot sq)"

definition data_write ::
  "env \<Rightarrow> bytes \<Rightarrow> bool \<Rightarrow> ChainDataV1 \<Rightarrow> string \<Rightarrow> int \<Rightarrow> string \<Rightarrow> string \<Rightarrow> int \<Rightarrow> bg_write list" where
  "data_write E k mutable cd uri slot name symbol sq =
     (case ChainDataV1_to_value E cd of
        Inl e \<Rightarrow> []
      | Inr j \<Rightarrow> [W_data (bubblegum_asset_data k mutable j uri slot name symbol) sq])"

definition leaf_write :: "LeafSchemaEvent \<Rightarrow> ChangeLogEventV1 \<Rightarrow> bg_write" where
  "leaf_write le cl = W_asset (A_leaf (leaf_columns (NormalizedLeafFields_from (lse_schema le))
     (u32_as_i64 (cle_index cl)) (cle_id cl) (lse_leaf_hash le) (cle_seq cl)))"

definition owner_write :: "LeafSchemaEvent \<Rightarrow> ChangeLogEventV1 \<Rightarrow> bg_write" where
  "owner_write le cl =
     W_asset (A_owner (owner_columns (NormalizedLeafFields_from (lse_schema le)) (cle_seq cl)))"

definition seq_write :: "bytes \<Rightarrow> ChangeLogEventV1 \<Rightarrow> bg_write" where
  "seq_write k cl = W_asset (A_seq k (as_i64 (cle_seq cl)))"

definition leaf_id :: "LeafSchemaEvent \<Rightarrow> bytes" where
  "leaf_id le = nl_id (NormalizedLeafFields_from (lse_schema le))"

definition mint_writes ::
  "env \<Rightarrow> LeafSchemaEvent \<Rightarrow> ChangeLogEventV1 \<Rightarrow> u64 \<Rightarrow> MetadataArgs \<Rightarrow> pubkey \<Rightarrow> bg_write list" where
  "mint_writes E le cl slot m tree_id =
     (let leaf = NormalizedLeafFields_from (lse_schema le); k = leaf_id le; sq = as_i64 (cle_seq cl) in
      data_write E k (ma_is_mutable m) (bubblegum_chain_data (ma_name m) (ma_symbol m)
        (ma_edition_nonce m) (ma_primary_sale_happened m) (ma_uses m)) (remove_nul (ma_uri m))
        (as_i64 slot) (ma_name m) (ma_symbol m) sq @
      [W_asset (A_base (bubblegum_base_info k (ma_seller_fee_basis_points m) (as_i64 slot) (cle_seq cl))),
       W_asset (A_comp k),
       W_asset (A_leaf (leaf_columns leaf (as_i64 (nl_nonce leaf)) tree_id (lse_leaf_hash le) (cle_seq cl))),
       owner_write le cl, seq_write k cl] @
      creator_writes k (ma_creators m) (as_i64 slot) sq @
      [W_group (collection_model E k (ma_collection m) (as_i64 slot) sq) sq])"

definition update_writes ::
  "env \<Rightarrow> LeafSchemaEvent \<Rightarrow> ChangeLogEventV1 \<Rightarrow> u64 \<Rightarrow> MetadataArgs \<Rightarrow> UpdateArgs \<Rightarrow> pubkey \<Rightarrow>
   bg_write list" where
  "update_writes E le cl slot m u tree_id =
     (let leaf = NormalizedLeafFields_from (lse_schema le); k = leaf_id le; sq = as_i64 (cle_seq cl);
          name = opt_or (ua_name u) (ma_name m); symbol = opt_or (ua_symbol u) (ma_symbol m) in
      data_write E k (opt_or (ua_is_mutable u) (ma_is_mutable m))
        (bubblegum_chain_data name symbol (ma_edition_nonce m)
          (opt_or (ua_primary_sale_happened u) (ma_primary_sale_happened m)) (ma_uses m))
        (remove_nul (opt_or (ua_uri u) (ma_uri m))) (as_i64 slot) name symbol sq @
      [W_asset (A_base (bubblegum_base_info k
         (opt_or (ua_seller_fee_basis_points u) (ma_seller_fee_basis_points m)) (as_i64 slot)
         (cle_seq cl))),
       W_asset (A_leaf (leaf_columns leaf (as_i64 (nl_nonce leaf)) tree_id (lse_leaf_hash le) (cle_seq cl))),
       seq_write k cl] @
      creator_writes k (opt_or (ua_creators u) (ma_creators m)) (as_i64 slot) sq)"

definition mint_event_writes ::
  "env \<Rightarrow> LeafSchemaEvent \<Rightarrow> ChangeLogEventV1 \<Rightarrow> u64 \<Rightarrow> Payload option \<Rightarrow> bg_write list" where
  "mint_event_writes E le cl slot payload =
     (case payload of
        Some (Payload_Mint m authority tree_id) \<Rightarrow> mint_writes E le cl slot m tree_id
      | _ \<Rightarrow> [])"

definition update_event_writes ::
  "env \<Rightarrow> LeafSchemaEvent \<Rightarrow> ChangeLogEventV1 \<Rightarrow> u64 \<Rightarrow> Payload option \<Rightarrow> bg_write list" where
  "update_event_writes E le cl slot payload =
     (case payload of
        Some (Payload_UpdateMetadata m u tree_id) \<Rightarrow> update_writes E le cl slot m u tree_id
      | _ \<Rightarrow> [])"

definition creator_event_writes ::
  "env \<Rightarrow> LeafSchemaEvent \<Rightarrow> ChangeLogEventV1 \<Rightarrow> u64 \<Rightarrow> Payload option \<Rightarrow> bg_write list" where
  "creator_event_writes E le cl slot payload =
     (case payload of
        Some (Payload_CreatorVerification m creator verify) \<Rightarrow> 
          [leaf_write le cl, owner_write le cl, seq_write (leaf_id le) cl] @
          creator_writes (leaf_id le) (updated_creators m creator verify) (as_i64 slot)
            (as_i64 (cle_seq cl))
      | _ \<Rightarrow> [])"

definition collection_event_writes ::
  "env \<Rightarrow> LeafSchemaEvent \<Rightarrow> ChangeLogEventV1 \<Rightarrow> u64 \<Rightarrow> Payload option \<Rightarrow> bg_write list" where
  "collection_event_writes E le cl slot payload =
     (case payload of
        Some (Payload_CollectionVerification c verify) \<Rightarrow> 
          [leaf_write le cl, seq_write (leaf_id le) cl,
           W_group (collection_model E (leaf_id le) (new_collection E c verify) (as_i64 slot)
             (as_i64 (cle_seq cl))) (as_i64 (cle_seq cl))]
      | _ \<Rightarrow> [])"

definition leaf_event_writes ::
  "env \<Rightarrow> InstructionName \<Rightarrow> LeafSchemaEvent \<Rightarrow> ChangeLogEventV1 \<Rightarrow> u64 \<Rightarrow> Payload option \<Rightarrow>
   bg_write list" where
  "leaf_event_writes E ix le cl slot payload =
     (if ix \<in> {IN_MintV1, IN_MintToCollectionV1, IN_MintV2} then
        mint_event_writes E le cl slot payload
      else if ix \<in> {IN_UpdateMetadata, IN_UpdateMetadataV2} then
        update_event_writes E le cl slot payload
      else if ix \<in> {IN_VerifyCreator, IN_UnverifyCreator, IN_VerifyCreatorV2, IN_UnverifyCreatorV2}
      then creator_event_writes E le cl slot payload
      else if ix \<in> {IN_VerifyCollection, IN_UnverifyCollection, IN_SetAndVerifyCollection,
                     IN_SetCollectionV2}
      then collection_event_writes E le cl slot payload
      else [leaf_write le cl, owner_write le cl, seq_write (leaf_id le) cl])"

definition pda_instructions :: "InstructionName set" where
  "pda_instructions = {IN_Burn, IN_BurnV2, IN_Redeem}"

definition indexed_instructions :: "InstructionName set" where
  "indexed_instructions = pda_instructions \<union>
     {IN_Transfer, IN_TransferV2, IN_Delegate, IN_DelegateV2, IN_DelegateAndFreezeV2, IN_FreezeV2,
      IN_SetNonTransferableV2, IN_ThawV2, IN_ThawAndRevokeV2, IN_MintV1, IN_MintToCollectionV1,
      IN_MintV2, IN_CancelRedeem, IN_VerifyCreator, IN_UnverifyCreator, IN_VerifyCreatorV2,
      IN_UnverifyCreatorV2, IN_VerifyCollection, IN_UnverifyCollection, IN_SetAndVerifyCollection,
      IN_SetCollectionV2, IN_UpdateMetadata, IN_UpdateMetadataV2}"

definition bg_writes :: "env \<Rightarrow> bg_event \<Rightarrow> bg_write list" where
  "bg_writes E e =
     (let ix = fst e; slot = ib_slot (snd e); name = bi_instruction ix in
      case bi_tree_update ix of
        None \<Rightarrow> []
      | Some cl \<Rightarrow>
          if name \<notin> indexed_instructions then []
          else cl_writes cl @
            (if name = IN_Redeem then
               [W_asset (A_leaf (redeemed_leaf (asset_pda E cl) (u32_as_i64 (cle_index cl))
                  (cle_id cl) (cle_seq cl))), seq_write (asset_pda E cl) cl]
             else if name \<in> pda_instructions then
               [W_asset (A_burn (asset_pda E cl)), seq_write (asset_pda E cl) cl]
             else case bi_leaf_update ix of None \<Rightarrow> []
                  | Some le \<Rightarrow> leaf_event_writes E name le cl slot (bi_payload ix)))"

end
