(* ===== verification/BubblegumRefine.thy ===== *)
theory BubblegumRefine
  imports BubblegumSpec
begin

text \<open>
  The refinement of the handlers to the abstract writes: \<open>performs E m W\<close> says that the action \<open>m\<close>
  performs all writes of \<open>W\<close> when it succeeds and a part of them when it fails, whatever the
  fault schedule.  The rules follow the structure of the actions; \<open>performs_event\<close> is the
  refinement of the dispatcher.
\<close>

section \<open>Handlers perform their writes\<close>

definition performs :: "env \<Rightarrow> ('e, 'a) dbm \<Rightarrow> bg_write set \<Rightarrow> bool" where
  "performs E m W \<longleftrightarrow> (\<forall>s r s'. m s = (r, s') \<longrightarrow>
     (\<exists>ws. set ws \<subseteq> W \<and> (\<not> isl r \<longrightarrow> set ws = W) \<and> core_of s' = apply_writes E ws (core_of s)))"

lemma performsI:
  assumes "\<And>s r s'. m s = (r, s') \<Longrightarrow>
    \<exists>ws. set ws \<subseteq> W \<and> (\<not> isl r \<longrightarrow> set ws = W) \<and> core_of s' = apply_writes E ws (core_of s)"
  shows "performs E m W"
  using assms by (simp add: performs_def)

lemma performsE:
  assumes "performs E m W" and "m s = (r, s')"
  obtains ws where "set ws \<subseteq> W" and "\<not> isl r \<Longrightarrow> set ws = W"
    and "core_of s' = apply_writes E ws (core_of s)"
  using assms unfolding performs_def by meson

lemma core_of_faults [simp]: "core_of (s\<lparr>faults := fs\<rparr>) = core_of s"
  by (simp add: core_of_def)

lemma apply_writes_Nil [simp]: "apply_writes E [] c = c"
  by (simp add: apply_writes_def)

lemma performs_return: "performs E (db_return x) {}"
  by (rule performsI) (auto simp: db_return_def)

lemma performs_fail: "performs E (db_fail e) W"
  by (rule performsI) (auto simp: db_fail_def intro: exI[of _ "[]"])

lemma performs_execute:
  assumes "\<And>s. core_of (f s) = apply_writes E ws (core_of s)"
  shows "performs E (execute f) (set ws)"
proof (rule performsI)
  fix s r s' assume "execute f s = (r, s')"
  from execute_cases[OF this] consider
    fs where "r = Inr ()" "s' = f (s\<lparr>faults := fs\<rparr>)" | e fs where "r = Inl e" "s' = s\<lparr>faults := fs\<rparr>"
    by blast
  then show "\<exists>vs. set vs \<subseteq> set ws \<and> (\<not> isl r \<longrightarrow> set vs = set ws) \<and>
      core_of s' = apply_writes E vs (core_of s)"
  proof cases
    case 1
    then show ?thesis by (intro exI[of _ ws]) (simp add: assms)
  next
    case 2
    then show ?thesis by (intro exI[of _ "[]"]) simp
  qed
qed

lemma performs_query: "performs E (query f) {}"
  by (rule performsI) (auto dest: query_state)

lemma performs_map_err: "performs E m W \<Longrightarrow> performs E (map_err g m) W"
  unfolding performs_def map_err_def by (fastforce split: prod.splits sum.splits)

lemma performs_db_ok: "performs E m {} \<Longrightarrow> performs E (db_ok m) {}"
  unfolding performs_def db_ok_def by (fastforce split: prod.splits sum.splits)

lemma performs_bind:
  assumes m: "performs E m V" and f: "\<And>s x s'. m s = (Inr x, s') \<Longrightarrow> performs E (f x) W"
  shows "performs E (db_bind m f) (V \<union> W)"
proof (rule performsI)
  fix s r s' assume "db_bind m f s = (r, s')"
  from db_bind_result[OF this] consider
    e where "m s = (Inl e, s')" "r = Inl e" | x s1 where "m s = (Inr x, s1)" "f x s1 = (r, s')"
    by blast
  then show "\<exists>ws. set ws \<subseteq> V \<union> W \<and> (\<not> isl r \<longrightarrow> set ws = V \<union> W) \<and>
      core_of s' = apply_writes E ws (core_of s)"
  proof cases
    case 1
    with m show ?thesis by (auto elim!: performsE)
  next
    case 2
    obtain vs where vs: "set vs = V" "core_of s1 = apply_writes E vs (core_of s)"
      using performsE[OF m 2(1)] by auto
    obtain ws where "set ws \<subseteq> W" "\<not> isl r \<Longrightarrow> set ws = W"
      "core_of s' = apply_writes E ws (core_of s1)"
      using performsE[OF f[OF 2(1)] 2(2)] by auto
    with vs show ?thesis
      by (intro exI[of _ "vs @ ws"]) (auto simp: apply_writes_append)
  qed
qed

lemma performs_bind_pure:
  assumes "performs E m {}" and "\<And>x. performs E (f x) W"
  shows "performs E (db_bind m f) W"
  using performs_bind[OF assms(1), of f W] assms(2) by simp

lemma performs_then:
  assumes "performs E m V" and "performs E n W"
  shows "performs E (db_then m n) (V \<union> W)"
  unfolding db_then_def by (rule performs_bind) (use assms in auto)

lemma performs_seq_Nil: "performs E (db_seq []) {}"
  by (simp add: performs_return)

lemma performs_seq_Cons:
  "performs E m V \<Longrightarrow> performs E (db_seq ms) W \<Longrightarrow> performs E (db_seq (m # ms)) (V \<union> W)"
  by (simp add: performs_then)

lemma performs_with_txn:
  assumes "performs E m W"
  shows "performs E (with_txn m) W"
proof (rule performsI)
  fix s r s' assume t: "with_txn m s = (r, s')"
  show "\<exists>ws. set ws \<subseteq> W \<and> (\<not> isl r \<longrightarrow> set ws = W) \<and> core_of s' = apply_writes E ws (core_of s)"
  proof (cases r)
    case (Inl e)
    with t obtain fs where "s' = s\<lparr>faults := fs\<rparr>" using with_txn_rollback by blast
    with Inl show ?thesis by (intro exI[of _ "[]"]) simp
  next
    case (Inr x)
    with t obtain fs s2 fs' where "m (s\<lparr>faults := fs\<rparr>) = (Inr x, s2)" "s' = s2\<lparr>faults := fs'\<rparr>"
      using with_txn_commit[of m s x s'] by blast
    with assms Inr show ?thesis by (auto elim!: performsE)
  qed
qed

lemma performs_eq: "performs E m V \<Longrightarrow> V = W \<Longrightarrow> performs E m W"
  by simp

text \<open>The statements of \<open>db.rs\<close>.\<close>

lemmas core_simps = core_of_def apply_writes_def upsert_put_row

lemma performs_leaf: "performs E (upsert_asset_with_leaf_info E a) {W_asset (A_leaf a)}"
  unfolding upsert_asset_with_leaf_info_def
  by (rule performs_map_err, rule performs_eq, rule performs_execute[where ws = "[W_asset (A_leaf a)]"])
     (simp_all add: core_simps)

lemma performs_owner:
  "performs E (upsert_asset_with_owner_and_delegate_info a) {W_asset (A_owner a)}"
  unfolding upsert_asset_with_owner_and_delegate_info_def
  by (rule performs_map_err, rule performs_eq, rule performs_execute[where ws = "[W_asset (A_owner a)]"])
     (simp_all add: core_simps)

lemma performs_base: "performs E (upsert_asset_base_info a) {W_asset (A_base a)}"
  unfolding upsert_asset_base_info_def
  by (rule performs_map_err, rule performs_eq, rule performs_execute[where ws = "[W_asset (A_base a)]"])
     (simp_all add: core_simps)

lemma performs_comp:
  "performs E (upsert_asset_with_compression_info (minted_compression k)) {W_asset (A_comp k)}"
  unfolding upsert_asset_with_compression_info_def
  by (rule performs_map_err, rule performs_eq, rule performs_execute[where ws = "[W_asset (A_comp k)]"])
     (simp_all add: core_simps minted_compression_def)

lemma performs_seq_write: "performs E (upsert_asset_with_seq k sq) {W_asset (A_seq k sq)}"
  unfolding upsert_asset_with_seq_def
  by (rule performs_map_err, rule performs_eq, rule performs_execute[where ws = "[W_asset (A_seq k sq)]"])
     (simp_all add: core_simps)

lemma performs_burnt: "performs E (upsert_burnt k) {W_asset (A_burn k)}"
  unfolding upsert_burnt_def
  by (rule performs_map_err, rule performs_eq, rule performs_execute[where ws = "[W_asset (A_burn k)]"])
     (simp_all add: core_simps)

lemma performs_data: "performs E (upsert_asset_data m sq) {W_data m sq}"
  unfolding upsert_asset_data_def Let_def
  by (rule performs_map_err, rule performs_eq, rule performs_execute[where ws = "[W_data m sq]"])
     (simp_all add: core_simps data_step_def stamped_data_def)

lemma performs_collection: "performs E (upsert_collection_info E k c slot sq)
   {W_group (collection_model E k c slot sq) sq}"
  unfolding upsert_collection_info_def
  by (rule performs_map_err, rule performs_eq,
      rule performs_execute[where ws = "[W_group (collection_model E k c slot sq) sq]"])
     (simp_all add: core_simps group_step_def stamped_group_def collection_model_def map_of_list_upsert
       split: option.split)

lemma performs_authority: "performs E (upsert_asset_authority k authority slot sq) {}"
  unfolding upsert_asset_authority_def
  by (rule performs_map_err, rule performs_eq, rule performs_execute[where ws = "[]"])
     (simp_all add: core_simps)

lemma creator_rows_apply:
  assumes "\<forall>r \<in> set rows. ac_seq r = Some sq"
  shows "apply_writes E (map (\<lambda>r. W_creator r sq) rows) c =
    c\<lparr>c_creators := upsert_creator_rows creators_where rows (c_creators c)\<rparr>"
  using assms
proof (induction rows arbitrary: c)
  case (Cons r rows)
  then have "stamped_creator r sq = r"
    by (simp add: stamped_creator_def)
  with Cons show ?case
    by (simp add: apply_writes_def upsert_creator_rows_def upsert_put_row creator_step_def)
qed (simp add: apply_writes_def upsert_creator_rows_def)

lemma db_creators_seq: "r \<in> set (db_creators k cs slot sq) \<Longrightarrow> ac_seq r = Some sq"
  by (auto simp: db_creators_def split: if_splits)

lemma performs_creators:
  "performs E (upsert_asset_creators k cs slot sq) (set (creator_writes k cs slot sq))"
  unfolding upsert_asset_creators_def creator_writes_def
  by (rule performs_map_err, rule performs_execute)
     (subst creator_rows_apply, simp_all add: db_creators_seq core_of_def)

lemma performs_path: "performs E (insert_path tree sq depth i ps) (W_cl ` set (cl_rows tree sq depth i ps))"
proof (induction ps arbitrary: i)
  case Nil
  then show ?case by (simp add: performs_return)
next
  case (Cons p ps)
  let ?w = "W_cl (cl_item tree sq depth i p)"
  have "performs E (map_err StorageWriteError (execute (\<lambda>s.
      s\<lparr>cl_items := upsert_cl_item (cl_item tree sq depth i p) (cl_items s)\<rparr>))) {?w}"
    by (rule performs_map_err, rule performs_eq, rule performs_execute[where ws = "[?w]"])
       (simp_all add: core_simps upsert_cl_item_def cl_step_def)
  from performs_then[OF this Cons.IH] show ?case by simp
qed

lemma performs_audit: "performs E (insert_audit a) {}"
  unfolding insert_audit_def
  by (rule performs_eq, rule performs_execute[where ws = "[]"]) (simp_all add: core_simps)

lemma performs_backfill: "performs E (insert_backfill_item b) {}"
  unfolding insert_backfill_item_def
  by (rule performs_eq, rule performs_execute[where ws = "[]"]) (simp_all add: core_simps)

lemma performs_change_log: "performs E (insert_change_log E cl slot txn ix) (set (cl_writes cl))"
proof -
  have tail: "performs E (db_bind (map_err from_DbErr (query q)) (\<lambda>rows.
      map_err from_DbErr (insert_backfill_item (b rows)))) {}" for q b
    using performs_bind[OF performs_map_err[OF performs_query] performs_map_err[OF performs_backfill]]
    by simp
  have rest: "performs E (case bs58_decode E txn of None \<Rightarrow> db_fail ChangeLogEventMalformed
      | Some tx \<Rightarrow> db_bind (db_ok (insert_audit (a tx))) (\<lambda>_. if i - 1 = d
          then db_bind (map_err from_DbErr (query q)) (\<lambda>rows.
            map_err from_DbErr (insert_backfill_item (b rows)))
          else db_return ())) {}" for a i d q b
    by (auto intro!: performs_bind_pure performs_db_ok performs_audit tail
      simp: performs_fail performs_return split: option.split)
  show ?thesis
    unfolding insert_change_log_def cl_writes_def Let_def
    using performs_bind[OF performs_path rest] by simp
qed

lemma performs_save_cl: "performs E (save_cl E bundle ix cl) (set (cl_writes cl))"
  unfolding save_cl_def save_changelog_event_def
  using performs_bind[OF performs_change_log performs_return] by simp

lemma save_cl_value: "save_cl E bundle ix cl s = (Inr x, s') \<Longrightarrow> x = cle_seq cl"
  unfolding save_cl_def save_changelog_event_def
  by (auto simp: db_bind_def db_return_def split: prod.splits sum.splits)

lemma performs_handler:
  assumes "performs E (f (cle_seq cl)) W"
  shows "performs E (db_bind (save_cl E bundle ix cl) f) (set (cl_writes cl) \<union> W)"
  using assms save_cl_value by (intro performs_bind performs_save_cl) blast

lemmas performs_rules = performs_with_txn performs_seq_Nil performs_seq_Cons performs_leaf
  performs_owner performs_base performs_comp performs_seq_write performs_burnt performs_data
  performs_collection performs_authority performs_creators

text \<open>The handlers.\<close>

lemmas branch_simps = prod.case option.case sum.case Payload.case LeafSchema.case Let_def

lemma performs_leaf_owner_seq:
  "performs E (with_txn (db_seq
     [upsert_asset_with_leaf_info E (leaf_columns (NormalizedLeafFields_from (lse_schema le))
        (u32_as_i64 (cle_index cl)) (cle_id cl) (lse_leaf_hash le) (cle_seq cl)),
      upsert_asset_with_owner_and_delegate_info
        (owner_columns (NormalizedLeafFields_from (lse_schema le)) (cle_seq cl)),
      upsert_asset_with_seq (nl_id (NormalizedLeafFields_from (lse_schema le))) (as_i64 (cle_seq cl))]))
   {leaf_write le cl, owner_write le cl, seq_write (leaf_id le) cl}"
  by (rule performs_eq, (rule performs_rules)+)
     (auto simp: leaf_write_def owner_write_def seq_write_def leaf_id_def)

lemma performs_transfer:
  "bi_leaf_update ix = Some le \<Longrightarrow> bi_tree_update ix = Some cl \<Longrightarrow>
   performs E (transfer E ix b i)
     (set (cl_writes cl) \<union> {leaf_write le cl, owner_write le cl, seq_write (leaf_id le) cl})"
  by (simp only: transfer_def branch_simps) (intro performs_handler performs_leaf_owner_seq)

lemma performs_delegation:
  "bi_leaf_update ix = Some le \<Longrightarrow> bi_tree_update ix = Some cl \<Longrightarrow>
   performs E (delegation_freezing_nontransferability E ix b i)
     (set (cl_writes cl) \<union> {leaf_write le cl, owner_write le cl, seq_write (leaf_id le) cl})"
  by (simp only: delegation_freezing_nontransferability_def branch_simps)
     (intro performs_handler performs_leaf_owner_seq)

lemma performs_cancel_redeem:
  assumes "bi_leaf_update ix = Some le" and "bi_tree_update ix = Some cl"
  shows "performs E (cancel_redeem E ix b i)
     (set (cl_writes cl) \<union> {leaf_write le cl, owner_write le cl, seq_write (leaf_id le) cl})"
proof (cases "lse_schema le")
  case (LeafSchema_V1 k owner delegate nonce dh ch)
  have "performs E (with_txn (db_seq
     [upsert_asset_with_leaf_info E \<lparr>li_id = k, li_nonce = u32_as_i64 (cle_index cl),
        li_tree_id = cle_id cl, li_leaf = lse_leaf_hash le, li_data_hash = dh,
        li_creator_hash = ch, li_collection_hash = None, li_asset_data_hash = None,
        li_flags = None, li_seq = as_i64 (cle_seq cl)\<rparr>,
      upsert_asset_with_owner_and_delegate_info \<lparr>oi_id = k, oi_owner = owner,
        oi_delegate = delegate_column owner delegate, oi_seq = as_i64 (cle_seq cl)\<rparr>,
      upsert_asset_with_seq k (as_i64 (cle_seq cl))]))
    {leaf_write le cl, owner_write le cl, seq_write (leaf_id le) cl}"
    using performs_leaf_owner_seq[of E le cl] LeafSchema_V1
    by (simp add: leaf_columns_def owner_columns_def del: db_seq.simps)
  with assms LeafSchema_V1 show ?thesis
    by (simp only: cancel_redeem_def branch_simps) (intro performs_handler, simp only: branch_simps)
next
  case (LeafSchema_V2 k owner delegate nonce dh ch colh adh fl)
  with assms show ?thesis
    by (simp only: cancel_redeem_def branch_simps)
       (intro performs_handler, simp only: branch_simps performs_fail)
qed

lemma performs_burn: "bi_tree_update ix = Some cl \<Longrightarrow>
   performs E (burn E ix b i)
     (set (cl_writes cl) \<union> {W_asset (A_burn (asset_pda E cl)), seq_write (asset_pda E cl) cl})"
  by (simp only: burn_def branch_simps, intro performs_handler, rule performs_eq, (rule performs_rules)+)
     (auto simp: seq_write_def)

lemma performs_redeem: "bi_tree_update ix = Some cl \<Longrightarrow>
   performs E (redeem E ix b i)
     (set (cl_writes cl) \<union> {W_asset (A_leaf (redeemed_leaf (asset_pda E cl)
        (u32_as_i64 (cle_index cl)) (cle_id cl) (cle_seq cl))), seq_write (asset_pda E cl) cl})"
  by (simp only: redeem_def branch_simps, intro performs_handler, rule performs_eq, (rule performs_rules)+)
     (auto simp: seq_write_def)

lemma performs_creator_verification:
  "bi_leaf_update ix = Some le \<Longrightarrow> bi_tree_update ix = Some cl \<Longrightarrow>
   bi_payload ix = Some (Payload_CreatorVerification m creator verify) \<Longrightarrow>
   performs E (creator_verification E ix b i)
     (set (cl_writes cl) \<union> ({leaf_write le cl, owner_write le cl, seq_write (leaf_id le) cl} \<union>
        set (creator_writes (leaf_id le) (updated_creators m creator verify) (as_i64 (ib_slot b))
          (as_i64 (cle_seq cl)))))"
  by (simp only: creator_verification_def branch_simps, rule performs_eq, rule performs_handler, (rule performs_rules)+)
     (auto simp: leaf_write_def owner_write_def seq_write_def leaf_id_def)

lemma performs_collection_verification:
  "bi_leaf_update ix = Some le \<Longrightarrow> bi_tree_update ix = Some cl \<Longrightarrow>
   bi_payload ix = Some (Payload_CollectionVerification c verify) \<Longrightarrow>
   performs E (collection_verification E ix b i)
     (set (cl_writes cl) \<union> {leaf_write le cl, seq_write (leaf_id le) cl,
        W_group (collection_model E (leaf_id le) (new_collection E c verify) (as_i64 (ib_slot b))
          (as_i64 (cle_seq cl))) (as_i64 (cle_seq cl))})"
  by (simp only: collection_verification_def branch_simps, rule performs_eq, rule performs_handler, (rule performs_rules)+)
     (auto simp: leaf_write_def owner_write_def seq_write_def leaf_id_def)

lemma performs_then_return: "performs E m W \<Longrightarrow> performs E (db_then m (db_return x)) W"
  using performs_then[OF _ performs_return] by fastforce

lemma performs_mint:
  assumes "bi_leaf_update ix = Some le" and "bi_tree_update ix = Some cl"
    and "bi_payload ix = Some (Payload_Mint m authority tree_id)"
  shows "performs E (mint E ix b i)
     (set (cl_writes cl) \<union> set (mint_writes E le cl (ib_slot b) m tree_id))"
proof (cases "ChainDataV1_to_value E (bubblegum_chain_data (ma_name m) (ma_symbol m)
    (ma_edition_nonce m) (ma_primary_sale_happened m) (ma_uses m))")
  case (Inl e)
  with assms show ?thesis
    by (simp only: mint_def branch_simps)
       (intro performs_handler, simp only: branch_simps performs_fail)
next
  case (Inr j)
  show ?thesis
    by (simp only: mint_def branch_simps assms Inr minted_compression_def[symmetric], rule performs_handler,
        rule performs_then_return,
        rule performs_eq, (rule performs_rules)+)
      (auto simp: Inr mint_writes_def data_write_def owner_write_def seq_write_def leaf_id_def Let_def)
qed

lemma performs_update_metadata:
  assumes "bi_leaf_update ix = Some le" and "bi_tree_update ix = Some cl"
    and "bi_payload ix = Some (Payload_UpdateMetadata m u tree_id)"
  shows "performs E (update_metadata E ix b i)
     (set (cl_writes cl) \<union> set (update_writes E le cl (ib_slot b) m u tree_id))"
proof (cases "ChainDataV1_to_value E (bubblegum_chain_data (opt_or (ua_name u) (ma_name m))
    (opt_or (ua_symbol u) (ma_symbol m)) (ma_edition_nonce m)
    (opt_or (ua_primary_sale_happened u) (ma_primary_sale_happened m)) (ma_uses m))")
  case (Inl e)
  with assms show ?thesis
    by (simp only: update_metadata_def branch_simps)
       (intro performs_handler, simp only: branch_simps performs_fail)
next
  case (Inr j)
  show ?thesis
    by (simp only: update_metadata_def branch_simps assms Inr, rule performs_handler,
        rule performs_then_return,
        rule performs_eq, (rule performs_rules)+)
      (auto simp: Inr update_writes_def data_write_def seq_write_def leaf_id_def Let_def)
qed

lemma performs_notify: "performs E (notify nt info) {}"
  by (auto simp: notify_def performs_return performs_fail split: option.split sum.split)

lemma performs_notified: "performs E m W \<Longrightarrow> performs E (db_bind m (notify nt)) W"
  using performs_bind[OF _ performs_notify, of E m W] by fastforce

text \<open>A handler whose parts are missing fails before it writes.\<close>

lemmas handler_defs = transfer_def burn_def delegation_freezing_nontransferability_def mint_def
  redeem_def cancel_redeem_def creator_verification_def collection_verification_def
  update_metadata_def

lemma performs_bind_fail: "performs E (db_bind (db_fail e) f) W"
  by (rule performsI) (auto simp: db_bind_def db_fail_def intro: exI[of _ "[]"])

lemma performs_no_tree:
  assumes "bi_tree_update ix = None" and "bi_instruction ix \<in> indexed_instructions"
  shows "performs E (handle_bubblegum_instruction E nt ix b) W"
  using assms unfolding handle_bubblegum_instruction_def indexed_instructions_def pda_instructions_def
  by (auto simp: handler_defs performs_fail performs_bind_fail split: option.splits)

lemma performs_no_leaf:
  assumes "bi_leaf_update ix = None"
    and "bi_instruction ix \<in> indexed_instructions - pda_instructions"
  shows "performs E (handle_bubblegum_instruction E nt ix b) W"
  using assms unfolding handle_bubblegum_instruction_def indexed_instructions_def pda_instructions_def
  by (auto simp: handler_defs performs_fail performs_bind_fail)

lemma performs_not_indexed:
  assumes "bi_instruction ix \<notin> indexed_instructions"
  shows "performs E (handle_bubblegum_instruction E nt ix b) {}"
  using assms unfolding handle_bubblegum_instruction_def indexed_instructions_def pda_instructions_def
  by (simp add: performs_return Let_def)

lemma performs_mint_event:
  assumes le: "bi_leaf_update ix = Some le" and cl: "bi_tree_update ix = Some cl"
  shows "performs E (mint E ix b i)
    (set (cl_writes cl) \<union> set (mint_event_writes E le cl (ib_slot b) (bi_payload ix)))"
proof (cases "\<exists>m authority tree_id. bi_payload ix = Some (Payload_Mint m authority tree_id)")
  case True
  then obtain m authority tree_id where p: "bi_payload ix = Some (Payload_Mint m authority tree_id)" by blast
  show ?thesis
    by (rule performs_eq, rule performs_mint[OF le cl p]) (simp add: p mint_event_writes_def)
next
  case False
  then have "mint E ix b i = db_fail parsing_error"
    by (auto simp: mint_def split: option.split Payload.split)
  then show ?thesis by (simp add: performs_fail)
qed

lemma performs_update_event:
  assumes le: "bi_leaf_update ix = Some le" and cl: "bi_tree_update ix = Some cl"
  shows "performs E (update_metadata E ix b i)
    (set (cl_writes cl) \<union> set (update_event_writes E le cl (ib_slot b) (bi_payload ix)))"
proof (cases "\<exists>m u tree_id. bi_payload ix = Some (Payload_UpdateMetadata m u tree_id)")
  case True
  then obtain m u tree_id where p: "bi_payload ix = Some (Payload_UpdateMetadata m u tree_id)" by blast
  show ?thesis
    by (rule performs_eq, rule performs_update_metadata[OF le cl p]) (simp add: p update_event_writes_def)
next
  case False
  then have "update_metadata E ix b i = db_fail parsing_error"
    by (auto simp: update_metadata_def split: option.split Payload.split)
  then show ?thesis by (simp add: performs_fail)
qed

lemma performs_creator_event:
  assumes le: "bi_leaf_update ix = Some le" and cl: "bi_tree_update ix = Some cl"
  shows "performs E (creator_verification E ix b i)
    (set (cl_writes cl) \<union> set (creator_event_writes E le cl (ib_slot b) (bi_payload ix)))"
proof (cases "\<exists>m creator verify. bi_payload ix = Some (Payload_CreatorVerification m creator verify)")
  case True
  then obtain m creator verify where p: "bi_payload ix = Some (Payload_CreatorVerification m creator verify)" by blast
  show ?thesis
    by (rule performs_eq, rule performs_creator_verification[OF le cl p]) (simp add: p creator_event_writes_def)
next
  case False
  then have "creator_verification E ix b i = db_fail parsing_error"
    by (auto simp: creator_verification_def split: option.split Payload.split)
  then show ?thesis by (simp add: performs_fail)
qed

lemma performs_collection_event:
  assumes le: "bi_leaf_update ix = Some le" and cl: "bi_tree_update ix = Some cl"
  shows "performs E (collection_verification E ix b i)
    (set (cl_writes cl) \<union> set (collection_event_writes E le cl (ib_slot b) (bi_payload ix)))"
proof (cases "\<exists>c verify. bi_payload ix = Some (Payload_CollectionVerification c verify)")
  case True
  then obtain c verify where p: "bi_payload ix = Some (Payload_CollectionVerification c verify)" by blast
  show ?thesis
    by (rule performs_eq, rule performs_collection_verification[OF le cl p]) (simp add: p collection_event_writes_def)
next
  case False
  then have "collection_verification E ix b i = db_fail parsing_error"
    by (auto simp: collection_verification_def split: option.split Payload.split)
  then show ?thesis by (simp add: performs_fail)
qed

lemma performs_leaf_event:
  assumes le: "bi_leaf_update ix = Some le" and cl: "bi_tree_update ix = Some cl"
    and ix: "bi_instruction ix \<in> indexed_instructions - pda_instructions"
  shows "performs E (handle_bubblegum_instruction E nt ix b)
    (set (cl_writes cl) \<union> set (leaf_event_writes E (bi_instruction ix) le cl (ib_slot b) (bi_payload ix)))"
  using ix unfolding indexed_instructions_def pda_instructions_def handle_bubblegum_instruction_def
    leaf_event_writes_def Let_def
  by (elim DiffE UnE insertE)
    (simp_all add: performs_notified performs_mint_event[OF le cl] performs_update_event[OF le cl]
      performs_creator_event[OF le cl] performs_collection_event[OF le cl]
      performs_transfer[OF le cl, simplified] performs_delegation[OF le cl, simplified]
      performs_cancel_redeem[OF le cl, simplified])

lemma performs_event:
  "performs E (handle_bubblegum_instruction E nt (fst e) (snd e)) (set (bg_writes E e))"
proof (cases "bi_instruction (fst e) \<in> indexed_instructions")
  case False
  then show ?thesis
    using performs_not_indexed[OF False] by (simp add: bg_writes_def Let_def split: option.split)
next
  case ix: True
  show ?thesis
  proof (cases "bi_tree_update (fst e)")
    case None
    with ix show ?thesis by (simp add: performs_no_tree)
  next
    case cl: (Some cl)
    show ?thesis
    proof (cases "bi_instruction (fst e) \<in> pda_instructions")
      case True
      with cl ix show ?thesis
        by (auto simp: bg_writes_def pda_instructions_def handle_bubblegum_instruction_def Let_def
          performs_burn[simplified] performs_redeem[simplified])
    next
      case False
      then have not_redeem: "bi_instruction (fst e) \<noteq> IN_Redeem"
        by (auto simp: pda_instructions_def)
      show ?thesis
      proof (cases "bi_leaf_update (fst e)")
        case None
        with ix False show ?thesis by (simp add: performs_no_leaf)
      next
        case (Some le)
        with cl ix False not_redeem show ?thesis
          using performs_leaf_event[OF Some cl] by (simp add: bg_writes_def Let_def)
      qed
    qed
  qed
qed

lemma event_writes:
  assumes "handle_bubblegum_instruction E nt ix b s = (r, s')"
  shows "\<exists>ws. set ws \<subseteq> set (bg_writes E (ix, b)) \<and> (\<not> isl r \<longrightarrow> set ws = set (bg_writes E (ix, b))) \<and>
    core_of s' = apply_writes E ws (core_of s)"
  using performs_event[of E nt "(ix, b)"] assms unfolding performs_def by auto

end
