(* ===== verification/BubblegumHistory.thy ===== *)
theory BubblegumHistory
  imports BubblegumRefine
begin

text \<open>
  Histories of Bubblegum instructions: when the writes of a set of instructions are independent,
  and the convergence of the tables under reordering, redelivery and failures.
\<close>

section \<open>Histories\<close>

text \<open>
  The asset, the leaf schema version (true for V2) and the creators an instruction is about.
\<close>

definition ev_asset :: "env \<Rightarrow> bg_event \<Rightarrow> bytes option" where
  "ev_asset E e =
     (if bi_instruction (fst e) \<in> pda_instructions
      then map_option (asset_pda E) (bi_tree_update (fst e))
      else map_option leaf_id (bi_leaf_update (fst e)))"

definition ev_leaf_v2 :: "bg_event \<Rightarrow> bool option" where
  "ev_leaf_v2 e =
     (if bi_instruction (fst e) = IN_Redeem then Some False
      else if bi_instruction (fst e) \<in> pda_instructions then None
      else map_option (\<lambda>le. nl_flags (NormalizedLeafFields_from (lse_schema le)) \<noteq> None)
             (bi_leaf_update (fst e)))"

definition ev_creators :: "bg_event \<Rightarrow> Creator list" where
  "ev_creators e = (case bi_payload (fst e) of
     Some (Payload_Mint m _ _) \<Rightarrow> ma_creators m
   | Some (Payload_UpdateMetadata m u _) \<Rightarrow> opt_or (ua_creators u) (ma_creators m)
   | Some (Payload_CreatorVerification m _ _) \<Rightarrow> ma_creators m
   | _ \<Rightarrow> [])"

text \<open>
  One instruction: it carries a sequence number, its path visits a node once, and its creators
  fit the \<open>smallint\<close> positions.
\<close>

definition event_ok :: "bg_event \<Rightarrow> bool" where
  "event_ok e = (case bi_tree_update (fst e) of None \<Rightarrow> True
     | Some cl \<Rightarrow> cle_seq cl \<noteq> 0 \<and> distinct (map pn_index (cle_path cl)) \<and>
                 length (ev_creators e) \<le> 2 ^ 15)"

text \<open>Two instructions: the tree numbers them, and an asset keeps its leaf schema version.\<close>

definition events_compatible :: "env \<Rightarrow> bg_event \<Rightarrow> bg_event \<Rightarrow> bool" where
  "events_compatible E e e' =
     (case (bi_tree_update (fst e), bi_tree_update (fst e')) of
        (Some cl, Some cl') \<Rightarrow>
          (cle_id cl = cle_id cl' \<or> ev_asset E e = ev_asset E e' \<longrightarrow> cle_seq cl \<noteq> cle_seq cl') \<and>
          (ev_asset E e = ev_asset E e' \<longrightarrow>
             ev_leaf_v2 e = None \<or> ev_leaf_v2 e' = None \<or> ev_leaf_v2 e = ev_leaf_v2 e')
      | _ \<Rightarrow> True)"

definition history_ok :: "env \<Rightarrow> bg_event list \<Rightarrow> bool" where
  "history_ok E es \<longleftrightarrow> (\<forall>e \<in> set es. event_ok e) \<and>
     (\<forall>e \<in> set es. \<forall>e' \<in> set es. e \<noteq> e' \<longrightarrow> events_compatible E e e')"

text \<open>What the writes of an instruction have in common.\<close>

fun key_asset :: "write_key \<Rightarrow> bytes option" where
  "key_asset (K_cl _ _) = None"
| "key_asset (K_base k) = Some k"
| "key_asset (K_comp k) = Some k"
| "key_asset (K_leaf k) = Some k"
| "key_asset (K_owner k) = Some k"
| "key_asset (K_seq k) = Some k"
| "key_asset (K_burn k) = Some k"
| "key_asset (K_data k) = Some k"
| "key_asset (K_creator k _) = Some k"
| "key_asset (K_group k _) = Some k"

definition belongs :: "env \<Rightarrow> bg_event \<Rightarrow> ChangeLogEventV1 \<Rightarrow> bg_write \<Rightarrow> bool" where
  "belongs E e cl w \<longleftrightarrow>
     (w_seq w = Some (as_i64 (cle_seq cl)) \<or> w_seq w = None) \<and>
     (\<forall>t i. w_key w = K_cl t i \<longrightarrow> t = cle_id cl) \<and>
     (\<forall>k. key_asset (w_key w) = Some k \<longrightarrow> ev_asset E e = Some k) \<and>
     (case w of W_asset (A_leaf a) \<Rightarrow> ev_leaf_v2 e = Some (li_flags a \<noteq> None)
      | W_data m _ \<Rightarrow> ad_metadata m = JString ''processing''
      | W_group m _ \<Rightarrow> ag_seq m = None
      | _ \<Rightarrow> True)"

lemma cl_rows_belong: "r \<in> set (cl_rows tree sq depth i ps) \<Longrightarrow> cl_tree r = tree \<and> cl_seq r = sq"
  by (induction ps arbitrary: i) (auto simp: cl_item_def Let_def)

lemma belongs_cl: "w \<in> set (cl_writes cl) \<Longrightarrow> belongs E e cl w"
  by (auto simp: cl_writes_def belongs_def dest: cl_rows_belong)

lemma belongs_creators:
  "w \<in> set (creator_writes k cs slot (as_i64 (cle_seq cl))) \<Longrightarrow> ev_asset E e = Some k \<Longrightarrow>
   belongs E e cl w"
  by (auto simp: creator_writes_def belongs_def db_creators_def split: if_splits)

lemma belongs_data:
  "w \<in> set (data_write E k mu cd uri slot name symbol (as_i64 (cle_seq cl))) \<Longrightarrow>
   ev_asset E e = Some k \<Longrightarrow> belongs E e cl w"
  by (auto simp: data_write_def belongs_def bubblegum_asset_data_def split: sum.splits)

lemmas write_defs = leaf_write_def owner_write_def seq_write_def leaf_columns_def
  owner_columns_def leaf_id_def bubblegum_base_info_def

lemma collection_model_cols [simp]:
  "ag_asset_id (collection_model E k c slot sq) = k"
  "ag_group_key (collection_model E k c slot sq) = ''collection''"
  "ag_seq (collection_model E k c slot sq) = None"
  by (simp_all add: collection_model_def split: option.split)

lemma belongs_leaf_event:
  assumes le: "bi_leaf_update (fst e) = Some le"
    and ix: "bi_instruction (fst e) \<notin> pda_instructions"
    and w: "w \<in> set (leaf_event_writes E (bi_instruction (fst e)) le cl slot p)"
  shows "belongs E e cl w"
proof -
  have a: "ev_asset E e = Some (leaf_id le)"
    and v: "ev_leaf_v2 e = Some (nl_flags (NormalizedLeafFields_from (lse_schema le)) \<noteq> None)"
    using le ix by (auto simp: ev_asset_def ev_leaf_v2_def pda_instructions_def)
  have "belongs E e cl w" if "w \<in> set (mint_event_writes E le cl slot p)"
    using that a v
    by (auto simp: mint_event_writes_def mint_writes_def Let_def
      dest: belongs_creators belongs_data split: option.splits Payload.splits)
      (auto simp: belongs_def write_defs)
  moreover have "belongs E e cl w" if "w \<in> set (update_event_writes E le cl slot p)"
    using that a v
    by (auto simp: update_event_writes_def update_writes_def Let_def
      dest: belongs_creators belongs_data split: option.splits Payload.splits)
      (auto simp: belongs_def write_defs)
  moreover have "belongs E e cl w" if "w \<in> set (creator_event_writes E le cl slot p)"
    using that a v
    by (auto simp: creator_event_writes_def dest: belongs_creators
      split: option.splits Payload.splits) (auto simp: belongs_def write_defs)
  moreover have "belongs E e cl w" if "w \<in> set (collection_event_writes E le cl slot p)"
    using that a v
    by (auto simp: collection_event_writes_def belongs_def write_defs
      split: option.splits Payload.splits)
  moreover have "belongs E e cl w"
    if "w \<in> {leaf_write le cl, owner_write le cl, seq_write (leaf_id le) cl}"
    using that a v by (auto simp: belongs_def write_defs)
  ultimately show ?thesis
    using w by (auto simp: leaf_event_writes_def split: if_splits)
qed

lemma belongs_event:
  assumes cl: "bi_tree_update (fst e) = Some cl" and w: "w \<in> set (bg_writes E e)"
  shows "belongs E e cl w"
proof -
  have "belongs E e cl w" if "bi_instruction (fst e) \<in> pda_instructions"
    using that w cl
    by (auto simp: bg_writes_def Let_def dest: belongs_cl split: if_splits)
      (auto simp: belongs_def ev_asset_def ev_leaf_v2_def seq_write_def redeemed_leaf_def)
  moreover have "belongs E e cl w" if "bi_instruction (fst e) \<notin> pda_instructions"
  proof -
    have "bi_instruction (fst e) \<noteq> IN_Redeem"
      using that by (auto simp: pda_instructions_def)
    with that w cl show ?thesis
      by (cases "bi_leaf_update (fst e)")
        (auto simp: bg_writes_def Let_def dest: belongs_cl intro: belongs_leaf_event split: if_splits)
  qed
  ultimately show ?thesis by blast
qed

text \<open>An instruction writes a column group of a row once.\<close>

lemma u32_as_i64_inj [simp]: "u32_as_i64 x = u32_as_i64 y \<longleftrightarrow> x = y"
  by (simp add: u32_as_i64_def word_uint_eq_iff)

lemma cl_writes_keys:
  "map w_key (cl_writes cl) = map (\<lambda>p. K_cl (cle_id cl) (u32_as_i64 (pn_index p))) (cle_path cl)"
proof -
  have "map (\<lambda>r. K_cl (cl_tree r) (cl_node_idx r)) (cl_rows tree sq depth i ps) =
      map (\<lambda>p. K_cl tree (u32_as_i64 (pn_index p))) ps" for tree sq depth i ps
    by (induction ps arbitrary: i) (simp_all add: cl_item_def Let_def)
  then show ?thesis by (simp add: cl_writes_def comp_def)
qed

lemma i16_of_nat_small:
  assumes "n < 2 ^ 15"
  shows "i16_of_nat n = int n"
proof -
  have "i16_of_nat n = sint (word_of_int (int n) :: u16)"
    by (simp add: i16_of_nat_def)
  also have "\<dots> = signed_take_bit 15 (int n)"
    by (simp only: sint_sbintrunc') simp
  also have "\<dots> = int n"
    using assms by (intro signed_take_bit_int_eq_self) simp_all
  finally show ?thesis .
qed

lemma creator_positions:
  "map ac_position (db_creators k cs slot sq) = map i16_of_nat [0..<max 1 (length cs)]"
proof (cases "cs = []")
  case True
  then show ?thesis by (simp add: db_creators_def i16_of_nat_small)
next
  case False
  then have "map ac_position (db_creators k cs slot sq) = map (i16_of_nat \<circ> fst) (enumerate 0 cs)"
    by (simp add: db_creators_def comp_def case_prod_beta)
  also have "\<dots> = map i16_of_nat [0..<length cs]"
    by (simp only: map_map[symmetric] map_fst_enumerate add_0)
  also have "length cs = max 1 (length cs)"
    using False by (cases cs) auto
  finally show ?thesis .
qed

lemma db_creators_asset: "r \<in> set (db_creators k cs slot sq) \<Longrightarrow> ac_asset_id r = k"
  by (auto simp: db_creators_def split: if_splits)

lemma creator_writes_keys:
  assumes "length cs \<le> 2 ^ 15"
  shows "distinct (map w_key (creator_writes k cs slot sq))"
proof -
  have "inj_on i16_of_nat (set [0..<max 1 (length cs)])"
    using assms by (auto intro!: inj_onI simp: i16_of_nat_small max_def split: if_splits)
  then have "distinct (map ac_position (db_creators k cs slot sq))"
    unfolding creator_positions by (simp add: distinct_map)
  then have "distinct (map (K_creator k) (map ac_position (db_creators k cs slot sq)))"
    by (subst distinct_map) (simp add: inj_on_def)
  moreover have "map w_key (creator_writes k cs slot sq) =
      map (K_creator k) (map ac_position (db_creators k cs slot sq))"
    by (simp add: creator_writes_def db_creators_asset)
  ultimately show ?thesis by simp
qed

lemma creator_writes_only: "w \<in> set (creator_writes k cs slot sq) \<Longrightarrow> \<exists>i. w_key w = K_creator k i"
  by (auto simp: creator_writes_def db_creators_asset)

lemma cl_writes_only: "w \<in> set (cl_writes cl) \<Longrightarrow> \<exists>t i. w_key w = K_cl t i"
  by (auto simp: cl_writes_def)

lemma data_write_keys:
  "map w_key (data_write E k mu cd uri slot name symbol sq) \<in> {[], [K_data k]}"
  by (simp add: data_write_def bubblegum_asset_data_def split: sum.split)

lemma distinct_creators_append:
  assumes "length cs \<le> 2 ^ 15" and "distinct xs" "distinct ys" "set xs \<inter> set ys = {}"
    and "\<forall>k i. K_creator k i \<notin> set xs \<union> set ys"
  shows "distinct (xs @ map w_key (creator_writes k cs slot sq) @ ys)"
  using assms creator_writes_keys[OF assms(1), of k slot sq] creator_writes_only[of _ k cs slot sq]
  by fastforce

lemma leaf_event_keys:
  assumes cs: "length (ev_creators e) \<le> 2 ^ 15"
  shows "distinct (map w_key (leaf_event_writes E ix le cl slot (bi_payload (fst e))))"
proof -
  let ?p = "bi_payload (fst e)"
  have "distinct (map w_key (mint_event_writes E le cl slot ?p))"
  proof (cases "\<exists>m a t. ?p = Some (Payload_Mint m a t)")
    case True
    then obtain m a t where p: "?p = Some (Payload_Mint m a t)" by blast
    let ?data = "data_write E (leaf_id le) (ma_is_mutable m) (bubblegum_chain_data (ma_name m)
        (ma_symbol m) (ma_edition_nonce m) (ma_primary_sale_happened m) (ma_uses m))
        (remove_nul (ma_uri m)) (as_i64 slot) (ma_name m) (ma_symbol m) (as_i64 (cle_seq cl))"
    have "map w_key ?data \<in> {[], [K_data (leaf_id le)]}" by (rule data_write_keys)
    then have "distinct ((map w_key ?data @ [K_base k, K_comp k, K_leaf k, K_owner k, K_seq k]) @
        map w_key (creator_writes (leaf_id le) (ma_creators m) (as_i64 slot) (as_i64 (cle_seq cl))) @
        [K_group k ''collection''])" for k
      using cs p by (intro distinct_creators_append) (auto simp: ev_creators_def)
    then show ?thesis
      by (simp add: p mint_event_writes_def mint_writes_def write_defs Let_def)
  qed (auto simp: mint_event_writes_def split: option.split Payload.split)
  moreover have "distinct (map w_key (update_event_writes E le cl slot ?p))"
  proof (cases "\<exists>m u t. ?p = Some (Payload_UpdateMetadata m u t)")
    case True
    then obtain m u t where p: "?p = Some (Payload_UpdateMetadata m u t)" by blast
    have "distinct ((map w_key (data_write E (leaf_id le) mu cd uri sl name symbol sq) @
          [K_base k, K_leaf k, K_seq k]) @
        map w_key (creator_writes (leaf_id le) (opt_or (ua_creators u) (ma_creators m)) sl' sq') @ [])"
      for mu cd uri sl name symbol sq k sl' sq'
      using cs p data_write_keys[of E "leaf_id le" mu cd uri sl name symbol sq]
      by (intro distinct_creators_append) (auto simp: ev_creators_def)
    then show ?thesis
      by (simp add: p update_event_writes_def update_writes_def write_defs Let_def)
  qed (auto simp: update_event_writes_def split: option.split Payload.split)
  moreover have "distinct (map w_key (creator_event_writes E le cl slot ?p))"
  proof (cases "\<exists>m c v. ?p = Some (Payload_CreatorVerification m c v)")
    case True
    then obtain m c v where p: "?p = Some (Payload_CreatorVerification m c v)" by blast
    have "distinct ([K_leaf k, K_owner k, K_seq k] @
        map w_key (creator_writes (leaf_id le) (updated_creators m c v) sl sq) @ [])" for k sl sq
      using cs p by (intro distinct_creators_append) (auto simp: ev_creators_def updated_creators_def)
    then show ?thesis
      by (simp add: p creator_event_writes_def write_defs)
  qed (auto simp: creator_event_writes_def split: option.split Payload.split)
  moreover have "distinct (map w_key (collection_event_writes E le cl slot ?p))"
    by (auto simp: collection_event_writes_def write_defs split: option.split Payload.split)
  ultimately show ?thesis
    by (auto simp: leaf_event_writes_def write_defs)
qed

lemma event_keys:
  assumes "event_ok e"
  shows "distinct (map w_key (bg_writes E e))"
proof (cases "bi_tree_update (fst e)")
  case None
  then show ?thesis by (simp add: bg_writes_def Let_def)
next
  case (Some cl)
  with assms have ok: "distinct (map pn_index (cle_path cl))" "length (ev_creators e) \<le> 2 ^ 15"
    by (simp_all add: event_ok_def)
  have cl: "distinct (map w_key (cl_writes cl))"
    using ok(1) by (simp add: cl_writes_keys distinct_map inj_on_def)
  have app: "distinct (map w_key (cl_writes cl @ ws))"
    if "distinct (map w_key ws)" "\<forall>w \<in> set ws. key_asset (w_key w) \<noteq> None" for ws
  proof -
    have "key_asset (w_key w) = None" if "w \<in> set (cl_writes cl)" for w
      using cl_writes_only[OF that] by auto
    with that(2) have "w_key ` set (cl_writes cl) \<inter> w_key ` set ws = {}" by fastforce
    with cl that(1) show ?thesis by simp
  qed
  have no_cl: "\<forall>w \<in> set (leaf_event_writes E ix le cl slot p). key_asset (w_key w) \<noteq> None"
    for ix le slot p
    by (auto simp: leaf_event_writes_def mint_event_writes_def update_event_writes_def
      creator_event_writes_def collection_event_writes_def mint_writes_def update_writes_def
      write_defs Let_def data_write_def split: if_splits option.splits Payload.splits sum.splits
      dest: creator_writes_only)
  show ?thesis
    using Some app[OF leaf_event_keys[OF ok(2)] no_cl] cl
    by (auto simp: bg_writes_def Let_def seq_write_def simp del: map_append split: option.split
      intro!: app)
qed

lemma history_independent:
  assumes h: "history_ok E es"
  shows "independent (\<Union>e \<in> set es. set (bg_writes E e))"
  unfolding independent_def
proof (intro ballI)
  fix w w' assume "w \<in> (\<Union>e \<in> set es. set (bg_writes E e))" "w' \<in> (\<Union>e \<in> set es. set (bg_writes E e))"
  then obtain e e' where e: "e \<in> set es" "w \<in> set (bg_writes E e)"
    and e': "e' \<in> set es" "w' \<in> set (bg_writes E e')" by auto
  from e obtain cl where cl: "bi_tree_update (fst e) = Some cl"
    by (cases "bi_tree_update (fst e)") (auto simp: bg_writes_def Let_def)
  from e' obtain cl' where cl': "bi_tree_update (fst e') = Some cl'"
    by (cases "bi_tree_update (fst e')") (auto simp: bg_writes_def Let_def)
  have b: "belongs E e cl w" "belongs E e' cl' w'"
    using belongs_event cl cl' e e' by blast+
  have ok: "event_ok e" "event_ok e'"
    using h e e' by (simp_all add: history_ok_def)
  then have nz: "w_seq w \<noteq> Some 0" "w_seq w' \<noteq> Some 0"
    using b cl cl' by (auto simp: event_ok_def belongs_def)
  have "w = w' \<or> w_seq w \<noteq> w_seq w' \<and> same_shape w w'" if k: "w_key w = w_key w'"
  proof (cases "e = e'")
    case True
    with e e' k event_keys[OF ok(1), of E] show ?thesis
      by (auto simp: distinct_map inj_on_def)
  next
    case False
    with h e e' have "events_compatible E e e'" by (simp add: history_ok_def)
    with b k cl cl' show ?thesis
      by (cases w rule: w_key.cases; cases w' rule: w_key.cases)
        (auto simp: events_compatible_def belongs_def as_i64_inj)
  qed
  with nz show "indep w w'" by (simp add: indep_def)
qed

text \<open>
  Deliveries: the handlers run one after the other on the same database, whose fault schedule
  decides which statements fail.
\<close>

fun deliver :: "env \<Rightarrow> notifier \<Rightarrow> bg_event list \<Rightarrow> db \<Rightarrow> (ProgramTransformerError + unit) list \<times> db" where
  "deliver E nt [] s = ([], s)"
| "deliver E nt (e # es) s =
     (case handle_bubblegum_instruction E nt (fst e) (snd e) s of (r, s1) \<Rightarrow>
        case deliver E nt es s1 of (rs, s2) \<Rightarrow> (r # rs, s2))"

definition indexed_events :: "bg_event list \<Rightarrow> (ProgramTransformerError + unit) list \<Rightarrow> bg_event set" where
  "indexed_events es rs = {e. (e, Inr ()) \<in> set (zip es rs)}"

lemma deliver_writes:
  assumes "deliver E nt es s = (rs, s')"
  shows "\<exists>ws. set ws \<subseteq> (\<Union>e \<in> set es. set (bg_writes E e)) \<and>
    (\<Union>e \<in> indexed_events es rs. set (bg_writes E e)) \<subseteq> set ws \<and>
    core_of s' = apply_writes E ws (core_of s)"
  using assms
proof (induction es arbitrary: s rs)
  case Nil
  then show ?case by (intro exI[of _ "[]"]) (auto simp: indexed_events_def)
next
  case (Cons e es)
  obtain r s1 where r: "handle_bubblegum_instruction E nt (fst e) (snd e) s = (r, s1)"
    by (cases "handle_bubblegum_instruction E nt (fst e) (snd e) s")
  obtain rs1 s2 where rs: "deliver E nt es s1 = (rs1, s2)"
    by (cases "deliver E nt es s1")
  have eq: "rs = r # rs1" "s' = s2"
    using Cons.prems r rs by auto
  obtain vs where vs: "set vs \<subseteq> set (bg_writes E e)" "\<not> isl r \<Longrightarrow> set vs = set (bg_writes E e)"
    "core_of s1 = apply_writes E vs (core_of s)"
    using performsE[OF performs_event r] by blast
  obtain ws where ws: "set ws \<subseteq> (\<Union>e \<in> set es. set (bg_writes E e))"
    "(\<Union>e \<in> indexed_events es rs1. set (bg_writes E e)) \<subseteq> set ws"
    "core_of s2 = apply_writes E ws (core_of s1)"
    using Cons.IH[of s1 rs1] rs eq by blast
  have "indexed_events (e # es) rs \<subseteq> indexed_events es rs1 \<union> (if isl r then {} else {e})"
    using eq by (auto simp: indexed_events_def)
  then have "set (bg_writes E e') \<subseteq> set vs \<union> set ws" if "e' \<in> indexed_events (e # es) rs" for e'
    using that vs(2) ws(2) by (cases r) auto
  then have "(\<Union>e' \<in> indexed_events (e # es) rs. set (bg_writes E e')) \<subseteq> set (vs @ ws)"
    by (simp add: UN_least)
  moreover have "set (vs @ ws) \<subseteq> (\<Union>e \<in> set (e # es). set (bg_writes E e))"
    using vs(1) ws(1) by auto
  ultimately show ?case
    using vs(3) ws(3) eq by (intro exI[of _ "vs @ ws"]) (simp add: apply_writes_append)
qed

lemma deliveries_converge:
  assumes h: "history_ok E es" and set: "set es = set es'"
    and d: "deliver E nt es s = (rs, s')" "deliver E nt' es' t = (rs', t')"
    and all: "indexed_events es rs = set es" "indexed_events es' rs' = set es'"
    and start: "core_of s = core_of t"
  shows "core_of s' = core_of t'"
proof -
  let ?W = "\<Union>e \<in> set es. set (bg_writes E e)"
  obtain ws where ws: "set ws = ?W" "core_of s' = apply_writes E ws (core_of s)"
    using deliver_writes[OF d(1)] all(1) by (metis subset_antisym)
  obtain ws' where ws': "set ws' = ?W" "core_of t' = apply_writes E ws' (core_of t)"
    using deliver_writes[OF d(2)] all(2) set by (metis subset_antisym)
  show ?thesis
    using apply_writes_set[OF history_independent[OF h] ws(1) ws'(1)] ws(2) ws'(2) start by simp
qed

end
