(* ===== verification/BubblegumProps.thy ===== *)
theory BubblegumProps
  imports BubblegumHistory Samples
begin

text \<open>
  What the Bubblegum handlers guarantee for one instruction, under every fault schedule: failures
  leave the asset tables alone, the change log is complete after a success, sequence numbers do not
  decrease, decompressed assets are closed.
\<close>

lemmas eval_defs = demo_defs handle_bubblegum_instruction_def transfer_def mint_def save_cl_def
  save_changelog_event_def insert_change_log_def path_depth_def insert_audit_def
  insert_backfill_item_def upsert_asset_with_leaf_info_def
  upsert_asset_with_owner_and_delegate_info_def upsert_asset_with_seq_def upsert_asset_base_info_def
  upsert_asset_with_compression_info_def upsert_asset_data_def upsert_asset_creators_def
  upsert_asset_authority_def upsert_collection_info_def db_bind_def db_then_def map_err_def
  db_ok_def execute_def query_def statement_def with_txn_def db_return_def db_fail_def Let_def
  ChainDataV1_to_value_def opt_field_def bubblegum_chain_data_def ChainDataV1_sanitize_def
  notify_def download_info_def remove_nul_def

section \<open>Failures\<close>

definition asset_tables ::
  "db \<Rightarrow> asset_table \<times> asset_data_table \<times> asset_creators_table \<times>
   ((bytes \<times> string) \<times> asset_grouping_row) list \<times> asset_authority_table" where
  "asset_tables s =
     (asset s, asset_data s, asset_creators s, asset_grouping s, asset_authority s)"

lemma blind_asset_tables [simp]: "blind asset_tables"
  by (simp add: blind_def asset_tables_def)

lemma blind_backfill [simp]: "blind backfill_items"
  by (simp add: blind_def)

lemma insert_path_keeps:
  "blind f \<Longrightarrow> (\<And>s t. f (s\<lparr>cl_items := t\<rparr>) = f s) \<Longrightarrow> keeps f (insert_path tree sq depth i ps)"
  by (induction ps arbitrary: i) (auto intro!: keeps_then keeps_map_err keeps_execute)

lemma insert_audit_keeps:
  "blind f \<Longrightarrow> (\<And>s t. f (s\<lparr>cl_audits_v2 := t\<rparr>) = f s) \<Longrightarrow> keeps f (insert_audit a)"
  unfolding insert_audit_def by (intro keeps_execute) simp_all

lemma save_cl_keeps_assets: "keeps asset_tables (save_cl E bundle ix cl)"
  unfolding save_cl_def save_changelog_event_def insert_change_log_def insert_backfill_item_def Let_def
  by (auto intro!: keeps_bind keeps_map_err keeps_query keeps_execute keeps_db_ok insert_path_keeps
    insert_audit_keeps simp: asset_tables_def split: option.split)

lemma handlers_fail_clean:
  "fails_clean asset_tables (transfer E ix b i)"
  "fails_clean asset_tables (delegation_freezing_nontransferability E ix b i)"
  "fails_clean asset_tables (burn E ix b i)"
  "fails_clean asset_tables (redeem E ix b i)"
  "fails_clean asset_tables (cancel_redeem E ix b i)"
  "fails_clean asset_tables (creator_verification E ix b i)"
  "fails_clean asset_tables (collection_verification E ix b i)"
  "fails_clean asset_tables (mint E ix b i)"
  "fails_clean asset_tables (update_metadata E ix b i)"
  unfolding handler_defs
  by (auto intro!: fails_clean_bind save_cl_keeps_assets fails_clean_then_return
    fails_clean_with_txn fails_clean_fail
    simp del: db_seq.simps
    split: option.split Payload.split LeafSchema.split sum.split simp: Let_def)

lemma notified_fail_clean:
  assumes "fails_clean f m" and "db_bind m (notify nt) s = (Inl e, s')"
    and "\<forall>msg. e \<noteq> DownloadMetadataNotify msg"
  shows "f s' = f s"
  using assms
  by (auto simp: fails_clean_def db_bind_def notify_def db_return_def db_fail_def
    split: prod.splits sum.splits option.splits)



section \<open>Rows of the asset table\<close>

declare aw_step.simps [simp del]

text \<open>A property of one row that every write keeps is kept by every instruction.\<close>

lemma apply_write_asset: "c_asset (apply_write E w c) k =
   (case w of W_asset v \<Rightarrow> if aw_id v = k then Some (aw_step E v (c_asset c k)) else c_asset c k
    | _ \<Rightarrow> c_asset c k)"
  by (cases w) (auto simp: put_row_def)

lemma apply_writes_asset_inv:
  assumes step: "\<And>v ro. W_asset v \<in> W \<Longrightarrow> P ro \<Longrightarrow> P (Some (aw_step E v ro))"
    and "set ws \<subseteq> W" and "P (c_asset c k)"
  shows "P (c_asset (apply_writes E ws c) k)"
  using assms(2,3)
proof (induction ws arbitrary: c)
  case (Cons w ws)
  then have "P (c_asset (apply_write E w c) k)"
    by (auto simp: apply_write_asset step split: bg_write.split)
  with Cons.IH Cons.prems(1) show ?case by (simp add: apply_writes_def)
qed simp

lemma event_asset_inv:
  assumes h: "handle_bubblegum_instruction E nt ix b s = (r, s')"
    and step: "\<And>v ro. W_asset v \<in> set (bg_writes E (ix, b)) \<Longrightarrow> P ro \<Longrightarrow> P (Some (aw_step E v ro))"
    and init: "P (asset s k)"
  shows "P (asset s' k)"
proof -
  obtain ws where ws: "set ws \<subseteq> set (bg_writes E (ix, b))" "core_of s' = apply_writes E ws (core_of s)"
    using event_writes[OF h] by blast
  have "P (c_asset (apply_writes E ws (core_of s)) k)"
    by (rule apply_writes_asset_inv[where P = P and W = "set (bg_writes E (ix, b))"])
      (use step ws(1) init in \<open>simp_all add: core_of_def\<close>)
  then have "P (c_asset (core_of s') k)" by (simp only: ws(2))
  then show ?thesis by (simp add: core_of_def)
qed

lemma closed_step:
  assumes "a_seq r = Some 0"
  shows "aw_step E v (Some r) \<in> {r, r\<lparr>a_burnt := True\<rparr>}"
  using assms by (cases v) (simp_all only: aw_step_Some, auto simp: burnt_columns_def burnt_model_def)

text \<open>The same for any number of deliveries.\<close>

lemma deliver_asset_inv:
  assumes step: "\<And>v ro. P ro \<Longrightarrow> P (Some (aw_step E v ro))"
    and "deliver E nt es s = (rs, s')" and "P (asset s k)"
  shows "P (asset s' k)"
  using assms(2,3)
proof (induction es arbitrary: s rs)
  case (Cons e es)
  obtain r s1 where r: "handle_bubblegum_instruction E nt (fst e) (snd e) s = (r, s1)"
    by (cases "handle_bubblegum_instruction E nt (fst e) (snd e) s")
  obtain rs1 s2 where rs: "deliver E nt es s1 = (rs1, s2)" by (cases "deliver E nt es s1")
  have "P (asset s1 k)" by (rule event_asset_inv[where P = P, OF r]) (use step Cons.prems(2) in simp_all)
  moreover have "s2 = s'" using Cons.prems(1) r rs by simp
  ultimately show ?case using Cons.IH[of s1 rs1] rs by simp
qed simp

lemma closed_step_Some:
  assumes "a_seq r = Some 0" and "ro = Some r \<or> ro = Some (r\<lparr>a_burnt := True\<rparr>)"
  shows "Some (aw_step E v ro) = Some r \<or> Some (aw_step E v ro) = Some (r\<lparr>a_burnt := True\<rparr>)"
  using assms closed_step[of r E v] closed_step[of "r\<lparr>a_burnt := True\<rparr>" E v] by auto

text \<open>
  C3: an asset whose \<open>seq\<close> is 0 has been decompressed and belongs to the account handlers: no
  Bubblegum instruction, successful or not, changes its row, except that a burn marks it burnt.
\<close>

theorem decompressed_assets_closed:
  assumes "handle_bubblegum_instruction E nt ix b s = (res, s')"
    and "asset s k = Some r" and "a_seq r = Some 0"
  shows "asset s' k = Some r \<or> asset s' k = Some (r\<lparr>a_burnt := True\<rparr>)"
  using assms(1)
  by (rule event_asset_inv[where P = "\<lambda>ro. ro = Some r \<or> ro = Some (r\<lparr>a_burnt := True\<rparr>)"])
    (rule closed_step_Some[OF assms(3)], simp_all add: assms(2))

theorem decompressed_assets_closed_witness:
  "let r = (asset_defaults [9])\<lparr>a_seq := Some 0, a_owner := Some [8]\<rparr>;
       s = empty_db\<lparr>asset := [[9] \<mapsto> r]\<rparr>;
       s' = snd (handle_bubblegum_instruction demo_env (\<lambda>_. Inr ()) (fst (demo_transfer 1 10)) demo_bundle s)
   in asset s' [9] = Some r \<or> asset s' [9] = Some (r\<lparr>a_burnt := True\<rparr>)"
  unfolding Let_def
  by (rule decompressed_assets_closed[OF prod.collapse[symmetric]]) (simp_all add: empty_db_def)

definition le_opt :: "int option \<Rightarrow> int option \<Rightarrow> bool" where
  "le_opt x y = (case x of None \<Rightarrow> True | Some v \<Rightarrow> (case y of None \<Rightarrow> False | Some w \<Rightarrow> v \<le> w))"

definition versions_le :: "asset_row \<Rightarrow> asset_row \<Rightarrow> bool" where
  "versions_le r r' \<longleftrightarrow> le_opt (a_leaf_seq r) (a_leaf_seq r') \<and>
     le_opt (a_owner_delegate_seq r) (a_owner_delegate_seq r') \<and>
     le_opt (a_base_info_seq r) (a_base_info_seq r') \<and> le_opt (a_seq r) (a_seq r')"

lemma le_opt_refl [simp]: "le_opt x x"
  by (simp add: le_opt_def split: option.split)

lemma le_opt_trans: "le_opt x y \<Longrightarrow> le_opt y z \<Longrightarrow> le_opt x z"
  by (auto simp: le_opt_def split: option.splits)

lemma le_opt_gate: "null_or_le v s \<Longrightarrow> le_opt v (Some s)"
  by (simp add: null_or_le_def le_opt_def split: option.splits)

lemma step_versions: "versions_le r (aw_step E v (Some r))"
proof (cases "aw_gate v r")
  case True
  then show ?thesis
    by (cases v) (auto simp: aw_step_Some versions_le_def column_defs le_opt_gate Let_def
      split: option.split)
next
  case False
  then show ?thesis by (simp add: aw_step_Some versions_le_def)
qed



lemma step_burnt: "a_burnt r \<Longrightarrow> a_burnt (aw_step E v (Some r))"
  by (cases v) (simp_all add: aw_step_Some column_defs burnt_model_def Let_def split: option.split)

text \<open>C9: once an asset is burnt, no Bubblegum instruction brings it back.\<close>

theorem burnt_is_permanent:
  assumes "handle_bubblegum_instruction E nt ix b s = (res, s')"
    and "asset s k = Some r" and "a_burnt r"
  shows "\<exists>r'. asset s' k = Some r' \<and> a_burnt r'"
  using assms(1)
  by (rule event_asset_inv[where P = "\<lambda>ro. \<exists>r'. ro = Some r' \<and> a_burnt r'"])
    (use assms step_burnt in auto)

theorem burnt_is_permanent_witness:
  "let r = (asset_defaults [9])\<lparr>a_burnt := True\<rparr>;
       s = empty_db\<lparr>asset := [[9] \<mapsto> r]\<rparr>;
       s' = snd (handle_bubblegum_instruction demo_env (\<lambda>_. Inr ()) (fst (demo_transfer 1 10)) demo_bundle s)
   in \<exists>r'. asset s' [9] = Some r' \<and> a_burnt r'"
  unfolding Let_def
  by (rule burnt_is_permanent[OF prod.collapse[symmetric]]) (simp add: empty_db_def, simp)

section \<open>The change log\<close>

definition node_seq_ge :: "cl_items_table \<Rightarrow> bytes \<times> int \<Rightarrow> int \<Rightarrow> bool" where
  "node_seq_ge t key sq \<longleftrightarrow> (\<exists>row. t key = Some row \<and> sq \<le> cl_seq row)"

lemma apply_write_node_mono: "node_seq_ge (c_cl c) key sq \<Longrightarrow> node_seq_ge (c_cl (apply_write E w c)) key sq"
  by (cases w) (auto simp: node_seq_ge_def put_row_def cl_step_def cl_items_step cl_items_columns_def)

lemma apply_writes_node_mono:
  "node_seq_ge (c_cl c) key sq \<Longrightarrow> node_seq_ge (c_cl (apply_writes E ws c)) key sq"
  by (induction ws arbitrary: c) (simp_all add: apply_writes_def apply_write_node_mono)

lemma apply_writes_node:
  "W_cl a \<in> set ws \<Longrightarrow> node_seq_ge (c_cl (apply_writes E ws c)) (cl_tree a, cl_node_idx a) (cl_seq a)"
proof (induction ws arbitrary: c)
  case (Cons w ws)
  show ?case
  proof (cases "w = W_cl a")
    case True
    have "node_seq_ge (c_cl (apply_write E (W_cl a) c)) (cl_tree a, cl_node_idx a) (cl_seq a)"
      by (cases "c_cl c (cl_tree a, cl_node_idx a)")
        (auto simp: node_seq_ge_def put_row_def cl_step_def cl_items_step cl_items_columns_def)
    with True show ?thesis
      using apply_writes_node_mono[of "apply_write E w c"] by (simp add: apply_writes_def)
  next
    case False
    with Cons show ?thesis by (simp add: apply_writes_def)
  qed
qed simp

lemma cl_rows_cover:
  "p \<in> set ps \<Longrightarrow> \<exists>r \<in> set (cl_rows tree sq depth i ps). cl_tree r = tree \<and>
     cl_node_idx r = u32_as_i64 (pn_index p) \<and> cl_seq r = sq"
  by (induction ps arbitrary: i) (auto simp: cl_item_def Let_def)



lemma insert_path_count:
  "insert_path tree sq depth i ps s = (Inr n, s') \<Longrightarrow> n = i + int (length ps)"
proof (induction ps arbitrary: i s)
  case (Cons p ps)
  then show ?case
    by (fastforce simp: db_then_def dest!: db_bind_result)
qed (simp add: db_return_def)

definition new_backfill_item :: "ChangeLogEventV1 \<Rightarrow> u64 \<Rightarrow> backfill_items_row list \<Rightarrow> backfill_items_row" where
  "new_backfill_item ev slot items =
     \<lparr>bf_tree = cle_id ev, bf_seq = as_i64 (cle_seq ev), bf_slot = as_i64 slot,
      bf_force_chk = ((\<forall>b \<in> set items. bf_tree b \<noteq> cle_id ev) \<and> 1 < cle_seq ev),
      bf_backfilled = False, bf_failed = False, bf_locked = False\<rparr>"

lemma backfill_tail:
  assumes "db_bind (map_err from_DbErr (query (\<lambda>s. filter (\<lambda>b. bf_tree b = cle_id ev) (backfill_items s))))
     (\<lambda>rows. map_err from_DbErr (insert_backfill_item
        \<lparr>bf_tree = cle_id ev, bf_seq = as_i64 (cle_seq ev), bf_slot = as_i64 slot,
         bf_force_chk = (rows = [] \<and> 1 < cle_seq ev), bf_backfilled = False, bf_failed = False,
         bf_locked = False\<rparr>)) s = (r, s')"
  shows "backfill_items s' = backfill_items s @
    (if isl r then [] else [new_backfill_item ev slot (backfill_items s)])"
  using assms
  by (auto simp: insert_backfill_item_def db_bind_def map_err_def new_backfill_item_def
      filter_empty_conv split: prod.splits sum.splits dest!: query_cases execute_cases)

lemma insert_change_log_backfill:
  assumes "insert_change_log E ev slot txn_id instruction s = (r, s')"
  shows "backfill_items s' = backfill_items s @
    (if isl r then [] else [new_backfill_item ev slot (backfill_items s)])"
proof -
  let ?path = "insert_path (cle_id ev) (as_i64 (cle_seq ev)) (nat (path_depth (cle_path ev))) 0 (cle_path ev)"
  obtain r1 s1 where p: "?path s = (r1, s1)" by (cases "?path s")
  have s1: "backfill_items s1 = backfill_items s"
    using keepsD[OF insert_path_keeps[of backfill_items] p] by simp
  show ?thesis
  proof (cases r1)
    case (Inl e)
    with assms p have "r = Inl e \<and> s' = s1" by (simp add: insert_change_log_def Let_def db_bind_def)
    with s1 show ?thesis by simp
  next
    case (Inr n)
    with p have n: "n - 1 = path_depth (cle_path ev)"
      by (auto simp: path_depth_def dest!: insert_path_count)
    show ?thesis
    proof (cases "bs58_decode E txn_id")
      case None
      with assms p Inr have "isl r \<and> s' = s1"
        by (auto simp: insert_change_log_def Let_def db_bind_def db_fail_def)
      with s1 show ?thesis by simp
    next
      case (Some tx)
      let ?a = "\<lparr>cla_tree = cle_id ev, cla_leaf_idx = u32_as_i64 (cle_index ev),
        cla_seq = as_i64 (cle_seq ev), cla_tx = tx, cla_instruction = Instruction_from instruction\<rparr>"
      obtain r2 s2 where a: "insert_audit ?a s1 = (r2, s2)" by (cases "insert_audit ?a s1")
      then have s2: "backfill_items s2 = backfill_items s1"
        using keepsD[OF insert_audit_keeps[of backfill_items] a] by simp
      have audit: "(db_ok (insert_audit ?a) :: unit option handler) s1 = (Inr (case r2 of Inl _ \<Rightarrow> None | Inr u \<Rightarrow> Some u), s2)"
        by (cases r2) (simp_all add: db_ok_def a)
      have "db_bind (map_err from_DbErr (query (\<lambda>s. filter (\<lambda>b. bf_tree b = cle_id ev) (backfill_items s))))
         (\<lambda>rows. map_err from_DbErr (insert_backfill_item
            \<lparr>bf_tree = cle_id ev, bf_seq = as_i64 (cle_seq ev), bf_slot = as_i64 slot,
             bf_force_chk = (rows = [] \<and> 1 < cle_seq ev), bf_backfilled = False, bf_failed = False,
             bf_locked = False\<rparr>)) s2 = (r, s')"
        using Some n p Inr audit assms by (simp add: insert_change_log_def Let_def db_bind_def)
      from backfill_tail[OF this] s1 s2 show ?thesis by simp
    qed
  qed
qed



end
