(* ===== verification/BubblegumLive.thy ===== *)
theory BubblegumLive
  imports BubblegumProps
begin

text \<open>
  Liveness of the Bubblegum handlers: on a connection whose statements succeed, every complete
  instruction is indexed, and what a mint leaves in the tables.
\<close>

section \<open>Actions that succeed on a healthy connection\<close>

definition runs_ok :: "('e, 'a) dbm \<Rightarrow> bool" where
  "runs_ok m \<longleftrightarrow> (\<forall>s. faults s = [] \<longrightarrow> (\<exists>x s'. m s = (Inr x, s') \<and> faults s' = []))"

lemma runs_okD: "runs_ok m \<Longrightarrow> faults s = [] \<Longrightarrow> \<exists>x s'. m s = (Inr x, s') \<and> faults s' = []"
  by (simp add: runs_ok_def)

lemma runs_ok_return: "runs_ok (db_return x)"
  by (simp add: runs_ok_def db_simps)

lemma runs_ok_execute: "(\<And>s. faults s = [] \<Longrightarrow> faults (f s) = []) \<Longrightarrow> runs_ok (execute f)"
  by (simp add: runs_ok_def db_simps)

lemma runs_ok_query: "runs_ok (query f)"
  by (simp add: runs_ok_def db_simps)

lemma runs_ok_bind:
  assumes "runs_ok m" and "\<And>x. runs_ok (f x)"
  shows "runs_ok (db_bind m f)"
  unfolding runs_ok_def
proof (intro allI impI)
  fix s :: db assume "faults s = []"
  then obtain x s1 where "m s = (Inr x, s1)" "faults s1 = []" using runs_okD[OF assms(1)] by blast
  with runs_okD[OF assms(2)[of x]] show "\<exists>y s'. db_bind m f s = (Inr y, s') \<and> faults s' = []"
    by (simp add: db_simps)
qed

lemma runs_ok_then: "runs_ok m \<Longrightarrow> runs_ok n \<Longrightarrow> runs_ok (db_then m n)"
  unfolding db_then_def by (rule runs_ok_bind)

lemma runs_ok_map_err: "runs_ok m \<Longrightarrow> runs_ok (map_err g m)"
  unfolding runs_ok_def by (metis map_err_ok)

lemma runs_ok_db_ok: "runs_ok m \<Longrightarrow> runs_ok (db_ok m)"
  unfolding runs_ok_def by (metis db_ok_ok)

lemma runs_ok_with_txn: "runs_ok m \<Longrightarrow> runs_ok (with_txn m)"
  unfolding runs_ok_def by (metis with_txn_ok)

lemma runs_ok_write:
  "(\<And>s. faults s = [] \<Longrightarrow> faults (f s) = []) \<Longrightarrow> runs_ok (map_err g (execute f))"
  by (intro runs_ok_map_err runs_ok_execute)

lemmas runs_ok_intros = runs_ok_return runs_ok_query runs_ok_bind runs_ok_then runs_ok_with_txn
  runs_ok_db_ok runs_ok_write

section \<open>The handlers\<close>

lemma insert_path_ok: "runs_ok (insert_path tree sq depth i ps)"
  by (induction ps arbitrary: i) (auto intro!: runs_ok_intros)

lemma save_cl_ok:
  assumes "bs58_decode E (ib_txn_id b) \<noteq> None"
  shows "runs_ok (save_cl E b ix cl)"
  using assms
  unfolding save_cl_def save_changelog_event_def insert_change_log_def insert_audit_def
    insert_backfill_item_def Let_def
  by (auto intro!: runs_ok_intros runs_ok_map_err runs_ok_execute insert_path_ok)

lemmas statement_defs = upsert_asset_with_leaf_info_def upsert_asset_with_owner_and_delegate_info_def
  upsert_asset_with_seq_def upsert_asset_base_info_def upsert_asset_with_compression_info_def
  upsert_asset_data_def upsert_asset_creators_def upsert_asset_authority_def
  upsert_collection_info_def upsert_burnt_def

lemma statements_ok:
  "runs_ok (upsert_asset_with_leaf_info E a)"
  "runs_ok (upsert_asset_with_owner_and_delegate_info w)"
  "runs_ok (upsert_asset_with_seq k sq)"
  "runs_ok (upsert_asset_base_info bi)"
  "runs_ok (upsert_asset_with_compression_info c)"
  "runs_ok (upsert_asset_data d sq)"
  "runs_ok (upsert_asset_creators k cs slot sq)"
  "runs_ok (upsert_asset_authority k au slot sq)"
  "runs_ok (upsert_collection_info E k co slot sq)"
  "runs_ok (upsert_burnt k)"
  by (auto simp: statement_defs intro!: runs_ok_write)

text \<open>
  A complete instruction: the transaction signature decodes, the parser found the events and the
  payload its handler needs, and the chain data can be serialised.
\<close>

definition payload_complete :: "env \<Rightarrow> InstructionName \<Rightarrow> Payload option \<Rightarrow> bool" where
  "payload_complete E ix payload \<longleftrightarrow>
     (if ix \<in> {IN_MintV1, IN_MintToCollectionV1, IN_MintV2} then
        (case payload of Some (Payload_Mint m _ _) \<Rightarrow>
           \<not> isl (ChainDataV1_to_value E (bubblegum_chain_data (ma_name m) (ma_symbol m)
             (ma_edition_nonce m) (ma_primary_sale_happened m) (ma_uses m))) | _ \<Rightarrow> False)
      else if ix \<in> {IN_UpdateMetadata, IN_UpdateMetadataV2} then
        (case payload of Some (Payload_UpdateMetadata m u _) \<Rightarrow>
           \<not> isl (ChainDataV1_to_value E (bubblegum_chain_data (opt_or (ua_name u) (ma_name m))
             (opt_or (ua_symbol u) (ma_symbol m)) (ma_edition_nonce m)
             (opt_or (ua_primary_sale_happened u) (ma_primary_sale_happened m)) (ma_uses m)))
         | _ \<Rightarrow> False)
      else if ix \<in> {IN_VerifyCreator, IN_UnverifyCreator, IN_VerifyCreatorV2, IN_UnverifyCreatorV2}
      then (case payload of Some (Payload_CreatorVerification _ _ _) \<Rightarrow> True | _ \<Rightarrow> False)
      else if ix \<in> {IN_VerifyCollection, IN_UnverifyCollection, IN_SetAndVerifyCollection,
                     IN_SetCollectionV2}
      then (case payload of Some (Payload_CollectionVerification _ _) \<Rightarrow> True | _ \<Rightarrow> False)
      else True)"

definition complete_event :: "env \<Rightarrow> bg_event \<Rightarrow> bool" where
  "complete_event E e \<longleftrightarrow>
     (let ix = bi_instruction (fst e) in
      bs58_decode E (ib_txn_id (snd e)) \<noteq> None \<and>
      (ix \<in> indexed_instructions \<longrightarrow> bi_tree_update (fst e) \<noteq> None \<and>
         (ix \<in> pda_instructions \<or> bi_leaf_update (fst e) \<noteq> None)) \<and>
      (ix = IN_CancelRedeem \<longrightarrow> (\<forall>le. bi_leaf_update (fst e) = Some le \<longrightarrow>
         nl_flags (NormalizedLeafFields_from (lse_schema le)) = None)) \<and>
      payload_complete E ix (bi_payload (fst e)))"

lemma notify_ok: "\<forall>i. nt i = Inr () \<Longrightarrow> runs_ok (notify nt info)"
  by (auto simp: notify_def split: option.split intro!: runs_ok_return)

lemma handlers_ok:
  assumes "bs58_decode E (ib_txn_id b) \<noteq> None" and "bi_tree_update ix = Some cl"
  shows "runs_ok (burn E ix b i)" "runs_ok (redeem E ix b i)"
    "bi_leaf_update ix = Some le \<Longrightarrow> runs_ok (transfer E ix b i)"
    "bi_leaf_update ix = Some le \<Longrightarrow> runs_ok (delegation_freezing_nontransferability E ix b i)"
    "bi_leaf_update ix = Some le \<Longrightarrow> nl_flags (NormalizedLeafFields_from (lse_schema le)) = None \<Longrightarrow>
      runs_ok (cancel_redeem E ix b i)"
    "bi_leaf_update ix = Some le \<Longrightarrow> payload_complete E IN_MintV1 (bi_payload ix) \<Longrightarrow> runs_ok (mint E ix b i)"
    "bi_leaf_update ix = Some le \<Longrightarrow> payload_complete E IN_UpdateMetadata (bi_payload ix) \<Longrightarrow>
      runs_ok (update_metadata E ix b i)"
    "bi_leaf_update ix = Some le \<Longrightarrow> payload_complete E IN_VerifyCreator (bi_payload ix) \<Longrightarrow>
      runs_ok (creator_verification E ix b i)"
    "bi_leaf_update ix = Some le \<Longrightarrow> payload_complete E IN_VerifyCollection (bi_payload ix) \<Longrightarrow>
      runs_ok (collection_verification E ix b i)"
  using assms unfolding handler_defs payload_complete_def
  by (auto simp: Let_def split: option.splits Payload.splits LeafSchema.split sum.splits
    intro!: runs_ok_intros save_cl_ok statements_ok)

lemma event_ok_runs:
  assumes "complete_event E (ix, b)" and "\<forall>i. nt i = Inr ()"
  shows "runs_ok (handle_bubblegum_instruction E nt ix b)"
proof (cases "bi_instruction ix \<in> indexed_instructions")
  case True
  with assms(1) obtain cl where cl: "bi_tree_update ix = Some cl"
    and txn: "bs58_decode E (ib_txn_id b) \<noteq> None"
    by (auto simp: complete_event_def Let_def)
  note ok = handlers_ok[OF txn cl]
  show ?thesis
  proof (cases "bi_instruction ix \<in> pda_instructions")
    case True
    then show ?thesis
      by (auto simp: pda_instructions_def handle_bubblegum_instruction_def Let_def ok(1,2))
  next
    case False
    with True assms(1) obtain le where le: "bi_leaf_update ix = Some le"
      by (auto simp: complete_event_def Let_def)
    from True False assms le show ?thesis
      unfolding indexed_instructions_def pda_instructions_def
      by (elim UnE insertE)
        (simp_all add: handle_bubblegum_instruction_def Let_def complete_event_def payload_complete_def
          ok(3)[OF le] ok(4)[OF le] ok(5)[OF le] ok(6)[OF le, unfolded payload_complete_def]
          ok(7)[OF le, unfolded payload_complete_def] ok(8)[OF le, unfolded payload_complete_def]
          ok(9)[OF le, unfolded payload_complete_def] runs_ok_bind notify_ok)
  qed
next
  case False
  then show ?thesis
    by (auto simp: indexed_instructions_def pda_instructions_def handle_bubblegum_instruction_def
      Let_def intro!: runs_ok_return)
qed

text \<open>
  C10: on a connection whose statements succeed, every complete Bubblegum instruction is indexed:
  the handler returns without error, and it has performed exactly the writes of the instruction.
\<close>

theorem complete_instruction_indexed:
  assumes "faults s = []" and "complete_event E (ix, b)" and "\<forall>i. nt i = Inr ()"
  shows "\<exists>s' ws. handle_bubblegum_instruction E nt ix b s = (Inr (), s') \<and>
    set ws = set (bg_writes E (ix, b)) \<and> core_of s' = apply_writes E ws (core_of s)"
proof -
  obtain s' where s': "handle_bubblegum_instruction E nt ix b s = (Inr (), s')"
    using runs_okD[OF event_ok_runs[OF assms(2,3)] assms(1)] by auto
  then show ?thesis using event_writes[OF s'] by auto
qed

theorem complete_instruction_indexed_witness:
  "\<exists>s' ws. handle_bubblegum_instruction demo_env (\<lambda>_. Inr ()) (fst (demo_mint 1 10)) demo_bundle empty_db =
     (Inr (), s') \<and> set ws = set (bg_writes demo_env (fst (demo_mint 1 10), demo_bundle)) \<and>
     core_of s' = apply_writes demo_env ws (core_of empty_db)"
  by (rule complete_instruction_indexed)
    (simp_all add: empty_db_def complete_event_def payload_complete_def demo_defs
      indexed_instructions_def bubblegum_chain_data_def ChainDataV1_sanitize_def
      ChainDataV1_to_value_def opt_field_def Let_def)

section \<open>Mint\<close>

lemma save_cl_run:
  assumes "bs58_decode E (ib_txn_id b) \<noteq> None" and "faults s = []"
  shows "\<exists>s'. save_cl E b i cl s = (Inr (cle_seq cl), s') \<and> faults s' = [] \<and>
    asset_tables s' = asset_tables s"
proof -
  obtain x s' where r: "save_cl E b i cl s = (Inr x, s')" "faults s' = []"
    using runs_okD[OF save_cl_ok[OF assms(1)] assms(2)] by blast
  then have "x = cle_seq cl"
    by (auto simp: save_cl_def save_changelog_event_def db_bind_def db_return_def
      split: prod.splits sum.splits)
  with r keepsD[OF save_cl_keeps_assets r(1)] show ?thesis by simp
qed

lemma txn_seq_ok:
  assumes "faults s = []" and "db_seq ms s = (Inr (), s')" and "faults s' = []"
  shows "with_txn (db_seq ms) s = (Inr (), s')"
  using assms by (rule with_txn_ok)

text \<open>The row that a mint creates for a new asset.\<close>

definition minted_row ::
  "env \<Rightarrow> LeafSchemaEvent \<Rightarrow> ChangeLogEventV1 \<Rightarrow> u64 \<Rightarrow> MetadataArgs \<Rightarrow> pubkey \<Rightarrow> asset_row \<Rightarrow> bool" where
  "minted_row E le cl slot m tree r \<longleftrightarrow>
     (let leaf = NormalizedLeafFields_from (lse_schema le); sq = as_i64 (cle_seq cl) in
      a_id r = nl_id leaf \<and> a_owner r = Some (nl_owner leaf) \<and>
      a_delegate r = delegate_column (nl_owner leaf) (nl_delegate leaf) \<and>
      a_tree_id r = Some tree \<and> a_leaf r = Some (lse_leaf_hash le) \<and>
      a_nonce r = Some (as_i64 (nl_nonce leaf)) \<and> a_compressed r \<and> \<not> a_burnt r \<and> a_supply r = 1 \<and>
      a_royalty_amount r = u16_as_i32 (ma_seller_fee_basis_points m) \<and>
      a_owner_type r = Owner_Single \<and> a_specification_asset_class r = Some Class_Nft \<and>
      a_asset_data r = Some (nl_id leaf) \<and> a_slot_updated_cnft_transaction r = Some (as_i64 slot) \<and>
      a_seq r = Some sq \<and> a_leaf_seq r = Some sq \<and> a_owner_delegate_seq r = Some sq \<and>
      a_base_info_seq r = Some sq)"

lemma minted_columns:
  fixes E :: env and le :: LeafSchemaEvent and cl :: ChangeLogEventV1 and tree :: pubkey
  defines "leaf \<equiv> NormalizedLeafFields_from (lse_schema le)" and "sq \<equiv> cle_seq cl"
  defines "li \<equiv> leaf_columns leaf (as_i64 (nl_nonce leaf)) tree (lse_leaf_hash le) sq"
  shows "minted_row E le cl slot m tree
    (row_upsert (seq_model (nl_id leaf) (as_i64 sq)) seq_columns seq_where (Some
    (row_upsert (owner_info_model (owner_columns leaf sq)) owner_info_columns owner_info_where (Some
    (row_upsert (leaf_info_model E li) (leaf_info_columns li) leaf_info_where (Some
    (row_upsert (compression_info_model \<lparr>cp_id = nl_id leaf, cp_compressed = True,
        cp_compressible = False, cp_supply = 1, cp_supply_mint = None\<rparr>) compression_info_columns
        compression_info_where (Some
    (base_info_model (bubblegum_base_info (nl_id leaf) (ma_seller_fee_basis_points m) (as_i64 slot) sq))
    ))))))))"
  by (cases "nl_flags leaf")
    (simp_all add: minted_row_def row_upsert_Some column_defs seq_model_def owner_info_model_def
      leaf_info_model_def compression_info_model_def base_info_model_def bubblegum_base_info_def
      seq_where_def owner_info_where_def leaf_info_where_def compression_info_where_def
      not_decompressed_def sql_simps asset_defaults_def leaf_columns_def owner_columns_def li_def
      leaf_def sq_def Let_def)

text \<open>What is stored of one asset: its row and its authority.\<close>

definition stored :: "bytes \<Rightarrow> asset_row option \<Rightarrow> asset_authority_row option \<Rightarrow> db \<Rightarrow> bool" where
  "stored k r a s \<longleftrightarrow> asset s k = r \<and> asset_authority s k = a"

lemma blind_stored [simp]: "blind (stored k r a)"
  by (simp add: blind_def stored_def)

lemma stored_asset:
  "triple (stored k r a) (map_err g (execute (\<lambda>s. s\<lparr>asset := upsert k new cols whr (asset s)\<rparr>)))
     (stored k (Some (row_upsert new cols whr r)) a)"
  by (intro triple_map_err triple_execute) (auto simp: stored_def upsert_eq)

lemma stored_frame:
  "(\<And>s. asset (f s) = asset s \<and> asset_authority (f s) = asset_authority s) \<Longrightarrow>
   triple (stored k r a) (map_err g (execute f)) (stored k r a)"
  by (intro triple_map_err triple_execute) (auto simp: stored_def)

lemma stored_statements:
  "triple (stored k r a) (upsert_asset_data d sq) (stored k r a)"
  "triple (stored k r a) (upsert_asset_creators k' cs slot sq) (stored k r a)"
  "triple (stored k r a) (upsert_collection_info E k' co slot sq) (stored k r a)"
  "triple (stored k r None) (upsert_asset_authority k au x y)
     (stored k r (Some \<lparr>aa_asset_id = k, aa_scopes = None, aa_authority = au, aa_seq = y,
        aa_slot_updated = x\<rparr>))"
  "bs_id bi = k \<Longrightarrow> triple (stored k None a) (upsert_asset_base_info bi) (stored k (Some (base_info_model bi)) a)"
  by (auto simp: statement_defs Let_def upsert_eq stored_def insert_do_nothing_def
    intro!: stored_frame triple_map_err triple_execute)

lemma stored_writes:
  "cp_id c = k \<Longrightarrow> triple (stored k r a) (upsert_asset_with_compression_info c)
     (stored k (Some (row_upsert (compression_info_model c) compression_info_columns
        compression_info_where r)) a)"
  "li_id li = k \<Longrightarrow> triple (stored k r a) (upsert_asset_with_leaf_info E li)
     (stored k (Some (row_upsert (leaf_info_model E li) (leaf_info_columns li) leaf_info_where r)) a)"
  "oi_id oi = k \<Longrightarrow> triple (stored k r a) (upsert_asset_with_owner_and_delegate_info oi)
     (stored k (Some (row_upsert (owner_info_model oi) owner_info_columns owner_info_where r)) a)"
  "triple (stored k r a) (upsert_asset_with_seq k sq)
     (stored k (Some (row_upsert (seq_model k sq) seq_columns seq_where r)) a)"
  by (auto simp: statement_defs intro: stored_asset)

text \<open>The transaction of a mint, on an asset that is not stored.\<close>

lemma mint_stores:
  fixes E :: env and le :: LeafSchemaEvent and cl :: ChangeLogEventV1 and tree :: pubkey
  defines "leaf \<equiv> NormalizedLeafFields_from (lse_schema le)"
  assumes "mint E ix b i s = (Inr info, s')"
    and "bi_leaf_update ix = Some le" and "bi_tree_update ix = Some cl"
    and "bi_payload ix = Some (Payload_Mint m au tree)"
    and "stored (nl_id leaf) None None s"
  shows "\<exists>r. minted_row E le cl (ib_slot b) m tree r \<and> stored (nl_id leaf) (Some r)
    (Some \<lparr>aa_asset_id = nl_id leaf, aa_scopes = None, aa_authority = au,
      aa_seq = as_i64 (ib_slot b), aa_slot_updated = as_i64 (cle_seq cl)\<rparr>) s'"
proof -
  let ?k = "nl_id leaf" and ?sq = "cle_seq cl"
  let ?li = "leaf_columns leaf (as_i64 (nl_nonce leaf)) tree (lse_leaf_hash le) ?sq"
  let ?r1 = "base_info_model (bubblegum_base_info ?k (ma_seller_fee_basis_points m) (as_i64 (ib_slot b)) ?sq)"
  let ?r5 = "row_upsert (seq_model ?k (as_i64 ?sq)) seq_columns seq_where (Some
    (row_upsert (owner_info_model (owner_columns leaf ?sq)) owner_info_columns owner_info_where (Some
    (row_upsert (leaf_info_model E ?li) (leaf_info_columns ?li) leaf_info_where (Some
    (row_upsert (compression_info_model \<lparr>cp_id = ?k, cp_compressed = True, cp_compressible = False,
        cp_supply = 1, cp_supply_mint = None\<rparr>) compression_info_columns
        compression_info_where (Some ?r1)))))))"
  let ?a = "\<lparr>aa_asset_id = ?k, aa_scopes = None, aa_authority = au, aa_seq = as_i64 (ib_slot b),
      aa_slot_updated = as_i64 ?sq\<rparr>"
  let ?txn = "\<lambda>d. with_txn (db_seq [upsert_asset_data d (as_i64 ?sq),
      upsert_asset_base_info (bubblegum_base_info ?k (ma_seller_fee_basis_points m) (as_i64 (ib_slot b)) ?sq),
      upsert_asset_with_compression_info \<lparr>cp_id = ?k, cp_compressed = True, cp_compressible = False,
        cp_supply = 1, cp_supply_mint = None\<rparr>,
      upsert_asset_with_leaf_info E ?li,
      upsert_asset_with_owner_and_delegate_info (owner_columns leaf ?sq),
      upsert_asset_with_seq ?k (as_i64 ?sq),
      upsert_asset_creators ?k (ma_creators m) (as_i64 (ib_slot b)) (as_i64 ?sq),
      upsert_asset_authority ?k au (as_i64 ?sq) (as_i64 (ib_slot b)),
      upsert_collection_info E ?k (ma_collection m) (as_i64 (ib_slot b)) (as_i64 ?sq)])"
  have txn: "triple (stored ?k None None) (?txn d) (stored ?k (Some ?r5) (Some ?a))" for d
    by (intro triple_with_txn triple_seq_Cons[OF stored_statements(1)]
        triple_seq_Cons[OF stored_statements(5)] triple_seq_Cons[OF stored_statements(2)]
        triple_seq_Cons[OF stored_statements(4)] triple_seq_Cons[OF stored_statements(3)]
        triple_seq_Nil triple_seq_Cons[OF stored_writes(1)] triple_seq_Cons[OF stored_writes(2)]
        triple_seq_Cons[OF stored_writes(3)] triple_seq_Cons[OF stored_writes(4)])
      (simp_all add: bubblegum_base_info_def leaf_columns_def owner_columns_def)
  obtain s1 d where s1: "save_cl E b i cl s = (Inr ?sq, s1)" and r: "?txn d s1 = (Inr (), s')"
    using assms
    by (auto simp: mint_def save_cl_def save_changelog_event_def db_bind_def db_then_def db_return_def
      db_fail_def Let_def leaf_def simp del: db_seq.simps split: prod.splits sum.splits)
  have "stored ?k None None s1"
    using keepsD[OF save_cl_keeps_assets s1] assms by (simp add: stored_def asset_tables_def)
  then have "stored ?k (Some ?r5) (Some ?a) s'" using tripleD[OF txn _ r] by blast
  moreover have "minted_row E le cl (ib_slot b) m tree ?r5"
    unfolding leaf_def by (rule minted_columns)
  ultimately show ?thesis by blast
qed

text \<open>
  A mint of an asset that the index does not know creates its row with the owner, the
  delegate, the tree, the leaf and the royalties of the instruction, marked compressed and not
  burnt, with all four sequence columns at the number of this change; and its authority.
\<close>

lemma mint_creates_asset:
  assumes "handle_bubblegum_instruction E nt ix b s = (Inr u, s')"
    and "bi_instruction ix \<in> {IN_MintV1, IN_MintToCollectionV1, IN_MintV2}"
    and "bi_leaf_update ix = Some le" and "bi_tree_update ix = Some cl"
    and "bi_payload ix = Some (Payload_Mint m au tree)"
    and "asset s (leaf_id le) = None" and "asset_authority s (leaf_id le) = None"
  shows "(\<exists>r. asset s' (leaf_id le) = Some r \<and> minted_row E le cl (ib_slot b) m tree r) \<and>
    (\<exists>a. asset_authority s' (leaf_id le) = Some a \<and> aa_authority a = au)"
proof -
  obtain info s1 i where mint: "mint E ix b i s = (Inr info, s1)" and n: "notify nt info s1 = (Inr u, s')"
    using assms(1,2) by (auto simp: handle_bubblegum_instruction_def Let_def dest!: db_bind_result)
  have "s' = s1"
    using n by (auto simp: notify_def db_return_def db_fail_def split: option.splits sum.splits)
  moreover have "stored (leaf_id le) None None s" using assms(6,7) by (simp add: stored_def)
  ultimately show ?thesis
    using mint_stores[OF mint assms(3-5)] by (auto simp: leaf_id_def stored_def)
qed

text \<open>
  The authority row of a new mint carries the slot of the transaction in its \<open>seq\<close> column and
  the sequence number of the tree in its \<open>slot_updated\<close> column: \<open>mint\<close> passes the two last arguments of
  \<open>upsert_asset_authority\<close> in the wrong order.
\<close>

lemma mint_swaps_authority_columns:
  assumes "mint E ix b i s = (Inr info, s')"
    and "bi_leaf_update ix = Some le" and "bi_tree_update ix = Some cl"
    and "bi_payload ix = Some (Payload_Mint m au tree)"
    and "asset s (leaf_id le) = None" and "asset_authority s (leaf_id le) = None"
  shows "\<exists>a. asset_authority s' (leaf_id le) = Some a \<and> aa_seq a = as_i64 (ib_slot b) \<and>
    aa_slot_updated a = as_i64 (cle_seq cl)"
proof -
  have "stored (leaf_id le) None None s" using assms(5,6) by (simp add: stored_def)
  then show ?thesis using mint_stores[OF assms(1-4)] by (auto simp: leaf_id_def stored_def)
qed

end
