(* ===== verification/BubblegumParser.thy ===== *)
theory BubblegumParser
  imports Samples
begin

text \<open>
  \<open>blockbuster/src/programs/bubblegum/mod.rs\<close>: the parser that turns an instruction of the
  Bubblegum program and its inner no-op instructions into a \<open>BubblegumInstruction\<close>.  The Borsh
  deserializers of \<open>mpl_bubblegum\<close> and of the two account compression programs are parameters,
  each of them a function to an error message or a value.
\<close>

section \<open>Foreign deserializers\<close>

datatype AccountCompressionEvent =
    ACE_ChangeLog ChangeLogEventV1
  | ACE_ApplicationData bytes

datatype BubblegumEventType = BET_Uninitialized | BET_LeafSchemaEvent

record bubblegum_unpack =
  get_instruction_type :: "bytes \<Rightarrow> InstructionName"
  spl_noop_id :: pubkey
  mpl_noop_id :: pubkey
  bubblegum_ID :: pubkey
  spl_event :: "bytes \<Rightarrow> string + AccountCompressionEvent"
  mpl_event :: "bytes \<Rightarrow> string + AccountCompressionEvent"
  event_type :: "bytes \<Rightarrow> string + BubblegumEventType"
  leaf_schema_event :: "bytes \<Rightarrow> string + LeafSchemaEvent"
  metadata_args :: "bytes \<Rightarrow> string + MetadataArgs"
  mint_v2_args :: "bytes \<Rightarrow> string + MetadataArgs"
  creator_args :: "bool \<Rightarrow> bytes \<Rightarrow> string + MetadataArgs"
  creator_v2_args :: "bool \<Rightarrow> bytes \<Rightarrow> string + MetadataArgs"
  update_metadata_args :: "bytes \<Rightarrow> string + (MetadataArgs \<times> UpdateArgs)"
  update_metadata_v2_args :: "bytes \<Rightarrow> string + (MetadataArgs \<times> UpdateArgs)"

section \<open>Results\<close>

type_synonym 'a parse = "BlockbusterError + 'a"

definition parse_bind :: "'a parse \<Rightarrow> ('a \<Rightarrow> 'b parse) \<Rightarrow> 'b parse" where
  "parse_bind r f = (case r of Inl e \<Rightarrow> Inl e | Inr x \<Rightarrow> f x)"

definition io :: "string + 'a \<Rightarrow> 'a parse" where
  "io r = (case r of Inl e \<Rightarrow> Inl (BBE_IOError e) | Inr x \<Rightarrow> Inr x)"

definition key_at :: "pubkey list \<Rightarrow> nat \<Rightarrow> pubkey parse" where
  "key_at keys i = (if i < length keys then Inr (keys ! i) else Inl BBE_InstructionParsingError)"

section \<open>Events\<close>

definition get_bubblegum_leaf_schema_event :: "bubblegum_unpack \<Rightarrow> bytes \<Rightarrow> LeafSchemaEvent parse" where
  "get_bubblegum_leaf_schema_event U app_data =
     (if app_data = [] then Inl BBE_DeserializationError
      else parse_bind (io (event_type U (take 1 app_data))) (\<lambda>t.
        case t of
          BET_Uninitialized \<Rightarrow> Inl BBE_MissingBubblegumEventData
        | BET_LeafSchemaEvent \<Rightarrow> io (leaf_schema_event U app_data)))"

definition convert_mpl_to_spl_change_log_event :: "ChangeLogEventV1 \<Rightarrow> ChangeLogEventV1" where
  "convert_mpl_to_spl_change_log_event e =
     \<lparr>cle_id = cle_id e,
      cle_path = map (\<lambda>n. \<lparr>pn_node = pn_node n, pn_index = pn_index n\<rparr>) (cle_path e),
      cle_seq = cle_seq e, cle_index = cle_index e\<rparr>"

text \<open>
  One inner instruction.  An event that cannot be deserialized is only logged; application data
  that is not a leaf schema event fails the instruction.
\<close>

definition apply_event ::
  "bubblegum_unpack \<Rightarrow> (ChangeLogEventV1 \<Rightarrow> ChangeLogEventV1) \<Rightarrow> string + AccountCompressionEvent \<Rightarrow>
   BubblegumInstruction \<Rightarrow> BubblegumInstruction parse" where
  "apply_event U convert r b =
     (case r of
        Inl e \<Rightarrow> Inr b
      | Inr (ACE_ChangeLog ev) \<Rightarrow> Inr (b\<lparr>bi_tree_update := Some (convert ev)\<rparr>)
      | Inr (ACE_ApplicationData app_data) \<Rightarrow>
          parse_bind (get_bubblegum_leaf_schema_event U app_data) (\<lambda>le.
          Inr (b\<lparr>bi_leaf_update := Some le\<rparr>)))"

definition inner_event ::
  "bubblegum_unpack \<Rightarrow> IxPair \<Rightarrow> BubblegumInstruction \<Rightarrow> BubblegumInstruction parse" where
  "inner_event U ix b =
     (let (pid, cix) = ix in
      if pid = spl_noop_id U \<and> ci_data cix \<noteq> [] then
        apply_event U (\<lambda>ev. ev) (spl_event U (ci_data cix)) b
      else if pid = mpl_noop_id U \<and> ci_data cix \<noteq> [] then
        apply_event U convert_mpl_to_spl_change_log_event (mpl_event U (ci_data cix)) b
      else Inr b)"

fun inner_events ::
  "bubblegum_unpack \<Rightarrow> IxPair list \<Rightarrow> BubblegumInstruction \<Rightarrow> BubblegumInstruction parse" where
  "inner_events U [] b = Inr b"
| "inner_events U (ix # ixs) b = parse_bind (inner_event U ix b) (inner_events U ixs)"

section \<open>Payloads\<close>

definition build_creator_verification_payload ::
  "bubblegum_unpack \<Rightarrow> pubkey list \<Rightarrow> bytes \<Rightarrow> bool \<Rightarrow> Payload parse" where
  "build_creator_verification_payload U keys ix_data verify =
     parse_bind (io (creator_args U verify ix_data)) (\<lambda>metadata.
     parse_bind (key_at keys 5) (\<lambda>creator.
     Inr (Payload_CreatorVerification metadata creator verify)))"

definition build_collection_verification_payload :: "pubkey list \<Rightarrow> bool \<Rightarrow> Payload parse" where
  "build_collection_verification_payload keys verify =
     parse_bind (key_at keys 8) (\<lambda>collection. Inr (Payload_CollectionVerification collection verify))"

definition build_mint_v1_payload ::
  "bubblegum_unpack \<Rightarrow> pubkey list \<Rightarrow> bytes \<Rightarrow> bool \<Rightarrow> Payload parse" where
  "build_mint_v1_payload U keys ix_data set_verify =
     parse_bind (io (metadata_args U ix_data)) (\<lambda>args0.
     let args = (if set_verify
                 then args0\<lparr>ma_collection := map_option (\<lambda>c. c\<lparr>col_verified := True\<rparr>) (ma_collection args0)\<rparr>
                 else args0) in
     parse_bind (key_at keys 0) (\<lambda>authority.
     parse_bind (key_at keys 3) (\<lambda>tree_id.
     Inr (Payload_Mint args authority tree_id))))"

definition build_update_metadata_payload ::
  "bubblegum_unpack \<Rightarrow> pubkey list \<Rightarrow> bytes \<Rightarrow> Payload parse" where
  "build_update_metadata_payload U keys ix_data =
     parse_bind (io (update_metadata_args U ix_data)) (\<lambda>(current_metadata, update_args).
     parse_bind (key_at keys 8) (\<lambda>tree_id.
     Inr (Payload_UpdateMetadata current_metadata update_args tree_id)))"

definition build_mint_v2_payload :: "bubblegum_unpack \<Rightarrow> pubkey list \<Rightarrow> bytes \<Rightarrow> Payload parse" where
  "build_mint_v2_payload U keys ix_data =
     parse_bind (io (mint_v2_args U ix_data)) (\<lambda>args.
     parse_bind (key_at keys 0) (\<lambda>authority.
     parse_bind (key_at keys 6) (\<lambda>tree_id.
     Inr (Payload_Mint args authority tree_id))))"

definition build_set_collection_v2_payload :: "pubkey list \<Rightarrow> Payload parse" where
  "build_set_collection_v2_payload keys =
     parse_bind (key_at keys 8) (\<lambda>collection. Inr (Payload_CollectionVerification collection True))"

definition build_creator_verification_v2_payload ::
  "bubblegum_unpack \<Rightarrow> pubkey list \<Rightarrow> bytes \<Rightarrow> bool \<Rightarrow> Payload parse" where
  "build_creator_verification_v2_payload U keys ix_data verify =
     parse_bind (io (creator_v2_args U verify ix_data)) (\<lambda>metadata.
     parse_bind (key_at keys 1) (\<lambda>payer.
     parse_bind (key_at keys 2) (\<lambda>creator0.
     let creator = (if creator0 = bubblegum_ID U then payer else creator0) in
     Inr (Payload_CreatorVerification metadata creator verify))))"

definition build_update_metadata_v2_payload ::
  "bubblegum_unpack \<Rightarrow> pubkey list \<Rightarrow> bytes \<Rightarrow> Payload parse" where
  "build_update_metadata_v2_payload U keys ix_data =
     parse_bind (io (update_metadata_v2_args U ix_data)) (\<lambda>(current_metadata, update_args).
     parse_bind (key_at keys 5) (\<lambda>tree_id.
     Inr (Payload_UpdateMetadata current_metadata update_args tree_id)))"

text \<open>The payload of an instruction, \<open>None\<close> for the instructions that have none.\<close>

fun build_payload ::
  "bubblegum_unpack \<Rightarrow> InstructionName \<Rightarrow> pubkey list \<Rightarrow> bytes \<Rightarrow> Payload parse option" where
  "build_payload U IN_MintV1 keys ix_data = Some (build_mint_v1_payload U keys ix_data False)"
| "build_payload U IN_MintToCollectionV1 keys ix_data = Some (build_mint_v1_payload U keys ix_data True)"
| "build_payload U IN_DecompressV1 keys ix_data =
     Some (parse_bind (io (metadata_args U ix_data)) (\<lambda>args. Inr (Payload_Decompress args)))"
| "build_payload U IN_CancelRedeem keys ix_data =
     Some (if length ix_data = 32 then Inr (Payload_CancelRedeem ix_data)
           else Inl BBE_InstructionParsingError)"
| "build_payload U IN_VerifyCreator keys ix_data =
     Some (build_creator_verification_payload U keys ix_data True)"
| "build_payload U IN_UnverifyCreator keys ix_data =
     Some (build_creator_verification_payload U keys ix_data False)"
| "build_payload U IN_VerifyCollection keys ix_data =
     Some (build_collection_verification_payload keys True)"
| "build_payload U IN_SetAndVerifyCollection keys ix_data =
     Some (build_collection_verification_payload keys True)"
| "build_payload U IN_UnverifyCollection keys ix_data =
     Some (build_collection_verification_payload keys False)"
| "build_payload U IN_UpdateMetadata keys ix_data = Some (build_update_metadata_payload U keys ix_data)"
| "build_payload U IN_MintV2 keys ix_data = Some (build_mint_v2_payload U keys ix_data)"
| "build_payload U IN_SetCollectionV2 keys ix_data = Some (build_set_collection_v2_payload keys)"
| "build_payload U IN_VerifyCreatorV2 keys ix_data =
     Some (build_creator_verification_v2_payload U keys ix_data True)"
| "build_payload U IN_UnverifyCreatorV2 keys ix_data =
     Some (build_creator_verification_v2_payload U keys ix_data False)"
| "build_payload U IN_UpdateMetadataV2 keys ix_data =
     Some (build_update_metadata_v2_payload U keys ix_data)"
| "build_payload U _ keys ix_data = None"

section \<open>The parser\<close>

definition BubblegumInstruction_new :: "InstructionName \<Rightarrow> BubblegumInstruction" where
  "BubblegumInstruction_new ix =
     \<lparr>bi_instruction = ix, bi_tree_update = None, bi_leaf_update = None, bi_payload = None\<rparr>"

definition with_payload ::
  "bubblegum_unpack \<Rightarrow> pubkey list \<Rightarrow> bytes \<Rightarrow> BubblegumInstruction \<Rightarrow> BubblegumInstruction parse" where
  "with_payload U keys outer_ix_data b =
     (if 8 \<le> length outer_ix_data \<and> drop 8 outer_ix_data \<noteq> [] then
        (case build_payload U (bi_instruction b) keys (drop 8 outer_ix_data) of
           None \<Rightarrow> Inr b
         | Some r \<Rightarrow> parse_bind r (\<lambda>p. Inr (b\<lparr>bi_payload := Some p\<rparr>)))
      else Inr b)"

definition bubblegum_handle_instruction ::
  "bubblegum_unpack \<Rightarrow> InstructionBundle \<Rightarrow> BubblegumInstruction parse" where
  "bubblegum_handle_instruction U bundle =
     (case ib_instruction bundle of
        None \<Rightarrow> Inl BBE_DeserializationError
      | Some cix \<Rightarrow>
          (let b = BubblegumInstruction_new (get_instruction_type U (ci_data cix)) in
           parse_bind (case ib_inner_ix bundle of None \<Rightarrow> Inr b | Some ixs \<Rightarrow> inner_events U ixs b)
             (with_payload U (ib_keys bundle) (ci_data cix))))"

section \<open>Properties of the parser\<close>

text \<open>The payload constructor that each handler expects of its instruction.\<close>

fun payload_fits :: "InstructionName \<Rightarrow> Payload \<Rightarrow> bool" where
  "payload_fits ix (Payload_Mint _ _ _) = (ix \<in> {IN_MintV1, IN_MintToCollectionV1, IN_MintV2})"
| "payload_fits ix (Payload_CreatorVerification _ _ v) =
     (ix \<in> (if v then {IN_VerifyCreator, IN_VerifyCreatorV2}
             else {IN_UnverifyCreator, IN_UnverifyCreatorV2}))"
| "payload_fits ix (Payload_CollectionVerification _ v) =
     (ix \<in> (if v then {IN_VerifyCollection, IN_SetAndVerifyCollection, IN_SetCollectionV2}
             else {IN_UnverifyCollection}))"
| "payload_fits ix (Payload_UpdateMetadata _ _ _) = (ix \<in> {IN_UpdateMetadata, IN_UpdateMetadataV2})"
| "payload_fits ix (Payload_Decompress _) = (ix = IN_DecompressV1)"
| "payload_fits ix (Payload_CancelRedeem _) = (ix = IN_CancelRedeem)"
| "payload_fits ix Payload_Unknown = False"

lemmas payload_defs = build_mint_v1_payload_def build_creator_verification_payload_def
  build_collection_verification_payload_def build_update_metadata_payload_def
  build_mint_v2_payload_def build_set_collection_v2_payload_def
  build_creator_verification_v2_payload_def build_update_metadata_v2_payload_def

lemma build_payload_fits:
  assumes "build_payload U ix keys d = Some (Inr p)"
  shows "payload_fits ix p"
  using assms
  by (cases ix) (auto simp: payload_defs parse_bind_def Let_def split: sum.splits prod.splits if_splits)

lemma apply_event_instruction:
  "apply_event U f r b = Inr b' \<Longrightarrow> bi_instruction b' = bi_instruction b \<and> bi_payload b' = bi_payload b"
  by (auto simp: apply_event_def parse_bind_def split: sum.splits AccountCompressionEvent.splits)

lemma inner_events_instruction:
  "inner_events U ixs b = Inr b' \<Longrightarrow> bi_instruction b' = bi_instruction b \<and> bi_payload b' = bi_payload b"
proof (induction ixs arbitrary: b)
  case (Cons ix ixs)
  then show ?case
    by (auto simp: inner_event_def parse_bind_def Let_def split: sum.splits prod.splits if_splits
      dest!: apply_event_instruction)
qed simp

lemma parsed_payload:
  assumes "bubblegum_handle_instruction U bundle = Inr b" and "bi_payload b = Some p"
  shows "payload_fits (bi_instruction b) p"
proof -
  from assms obtain cix :: CompiledInstruction and b1 where
    b1: "(case ib_inner_ix bundle of None \<Rightarrow> Inr (BubblegumInstruction_new (get_instruction_type U (ci_data cix)))
        | Some ixs \<Rightarrow> inner_events U ixs (BubblegumInstruction_new (get_instruction_type U (ci_data cix)))) = Inr b1"
    and b: "with_payload U (ib_keys bundle) (ci_data cix) b1 = Inr b"
    by (auto simp: bubblegum_handle_instruction_def Let_def parse_bind_def
      split: option.splits sum.splits)
  from b1 have "bi_payload b1 = None"
    by (auto simp: BubblegumInstruction_new_def split: option.splits dest!: inner_events_instruction)
  with b assms(2) show ?thesis
    by (auto simp: with_payload_def parse_bind_def split: if_splits option.splits sum.splits
      dest: build_payload_fits)
qed


definition demo_unpack :: bubblegum_unpack where
  "demo_unpack = \<lparr>get_instruction_type = (\<lambda>d. if d \<noteq> [] \<and> hd d = 1 then IN_MintV1 else IN_Transfer),
     spl_noop_id = [20], mpl_noop_id = [21], bubblegum_ID = [22],
     spl_event = (\<lambda>d. Inr (ACE_ChangeLog (demo_change 1 10))), mpl_event = (\<lambda>d. Inl ''none''),
     event_type = (\<lambda>d. Inr BET_LeafSchemaEvent), leaf_schema_event = (\<lambda>d. Inr (demo_leaf 10)),
     metadata_args = (\<lambda>d. Inr demo_metadata_args), mint_v2_args = (\<lambda>d. Inr demo_metadata_args),
     creator_args = (\<lambda>_ d. Inr demo_metadata_args), creator_v2_args = (\<lambda>_ d. Inr demo_metadata_args),
     update_metadata_args = (\<lambda>d. Inl ''none''), update_metadata_v2_args = (\<lambda>d. Inl ''none'')\<rparr>"

definition demo_mint_bundle :: InstructionBundle where
  "demo_mint_bundle = demo_bundle\<lparr>
     ib_instruction := Some \<lparr>ci_program_id_index = 0, ci_accounts = [], ci_data = replicate 9 1\<rparr>,
     ib_inner_ix := Some [([20], \<lparr>ci_program_id_index = 1, ci_accounts = [], ci_data = [0]\<rparr>)],
     ib_keys := map (\<lambda>n. [of_nat n]) [0..<16]\<rparr>"


end
