(* ===== verification/Instructions.thy ===== *)
theory Instructions
  imports Chain
begin

text \<open>
  \<open>blockbuster/src/instruction.rs\<close>: the flattening of a transaction into the instructions of known
  programs.  An inner instruction of a known program is hoisted in front of its outer instruction
  together with the inner instructions that follow it, up to the next one of the same program.
  Indexing \<open>account_keys\<close> out of range panics: \<open>None\<close>.
\<close>

section \<open>Definitions\<close>

record InnerInstructions =
  inner_index :: u8
  inner_instructions :: "CompiledInstruction list"

type_synonym ordered_ix = "IxPair \<times> IxPair list option"

definition hoist_known_programs :: "pubkey set \<Rightarrow> IxPair list \<Rightarrow> ordered_ix list" where
  "hoist_known_programs programs ix_pairs =
     map (\<lambda>(index, pid, ci).
            ((pid, ci), Some (takeWhile (\<lambda>(inner_pid, _). inner_pid \<noteq> pid)
                                (drop (index + 1) ix_pairs))))
       (filter (\<lambda>(index, pid, ci). pid \<in> programs) (enumerate 0 ix_pairs))"

definition program_of :: "pubkey list \<Rightarrow> CompiledInstruction \<Rightarrow> pubkey option" where
  "program_of account_keys cix =
     (let i = unat (ci_program_id_index cix) in
      if i < length account_keys then Some (account_keys ! i) else None)"

fun ix_pairs_of :: "pubkey list \<Rightarrow> CompiledInstruction list \<Rightarrow> IxPair list option" where
  "ix_pairs_of account_keys [] = Some []"
| "ix_pairs_of account_keys (cix # rest) =
     (case (program_of account_keys cix, ix_pairs_of account_keys rest) of
        (Some pid, Some ps) \<Rightarrow> Some ((pid, cix) # ps)
      | _ \<Rightarrow> None)"

definition inner_of :: "InnerInstructions list \<Rightarrow> nat \<Rightarrow> CompiledInstruction list" where
  "inner_of meta outer_instruction_index =
     concat (map inner_instructions
       (filter (\<lambda>ix. inner_index ix = word_of_nat outer_instruction_index) meta))"

definition order_one ::
  "pubkey set \<Rightarrow> pubkey list \<Rightarrow> InnerInstructions list \<Rightarrow> nat \<Rightarrow> CompiledInstruction \<Rightarrow>
   ordered_ix list option" where
  "order_one programs account_keys meta index message_instruction =
     (case ix_pairs_of account_keys (inner_of meta index) of
        None \<Rightarrow> None
      | Some non_hoisted \<Rightarrow>
          Some (hoist_known_programs programs non_hoisted @
            (case program_of account_keys message_instruction of
               Some outer_program_id \<Rightarrow>
                 if outer_program_id \<in> programs
                 then [((outer_program_id, message_instruction), Some non_hoisted)] else []
             | None \<Rightarrow> [])))"

fun order_from ::
  "pubkey set \<Rightarrow> pubkey list \<Rightarrow> InnerInstructions list \<Rightarrow> nat \<Rightarrow> CompiledInstruction list \<Rightarrow>
   ordered_ix list option" where
  "order_from programs account_keys meta index [] = Some []"
| "order_from programs account_keys meta index (ix # ixs) =
     (case order_one programs account_keys meta index ix of
        None \<Rightarrow> None
      | Some ordered \<Rightarrow>
          map_option ((@) ordered) (order_from programs account_keys meta (index + 1) ixs))"

definition order_instructions ::
  "pubkey set \<Rightarrow> pubkey list \<Rightarrow> CompiledInstruction list \<Rightarrow> InnerInstructions list \<Rightarrow>
   ordered_ix list option" where
  "order_instructions programs account_keys message_instructions meta_inner_instructions =
     order_from programs account_keys meta_inner_instructions 0 message_instructions"

section \<open>Hoisting\<close>

text \<open>
  The reference: walk the list once, at every instruction of a known program cut the rest at the
  next instruction of the same program.
\<close>

fun hoist_spec :: "pubkey set \<Rightarrow> IxPair list \<Rightarrow> ordered_ix list" where
  "hoist_spec programs [] = []"
| "hoist_spec programs ((pid, ci) # rest) =
     (if pid \<in> programs
      then [((pid, ci), Some (takeWhile (\<lambda>p. fst p \<noteq> pid) rest))] else []) @
     hoist_spec programs rest"

lemma hoist_shift:
  "map (\<lambda>(index, pid, ci). ((pid, ci), Some (takeWhile (\<lambda>(q, _). q \<noteq> pid) (drop (index + 1) (pre @ xs)))))
     (filter (\<lambda>(index, pid, ci). pid \<in> programs) (enumerate (length pre) xs)) = hoist_spec programs xs"
proof (induction xs arbitrary: pre)
  case (Cons x xs)
  obtain pid ci where x: "x = (pid, ci)" by (cases x)
  have tail: "map (\<lambda>(index, pid, ci). ((pid, ci), Some (takeWhile (\<lambda>(q, _). q \<noteq> pid)
        (drop (index + 1) (pre @ x # xs)))))
      (filter (\<lambda>(index, pid, ci). pid \<in> programs) (enumerate (Suc (length pre)) xs)) =
      hoist_spec programs xs"
    using Cons.IH[of "pre @ [x]"] by simp
  then show ?case by (simp add: x case_prod_unfold)
qed simp

lemma hoist_known_programs_spec: "hoist_known_programs programs xs = hoist_spec programs xs"
  using hoist_shift[of "[]" xs programs] by (simp add: hoist_known_programs_def)

lemma hoist_spec_heads: "map fst (hoist_spec programs xs) = filter (\<lambda>p. fst p \<in> programs) xs"
  by (induction programs xs rule: hoist_spec.induct) simp_all

lemma hoist_spec_split:
  assumes "((pid, ci), inner) \<in> set (hoist_spec programs xs)"
  shows "\<exists>pre post. xs = pre @ (pid, ci) # post \<and> pid \<in> programs \<and>
    inner = Some (takeWhile (\<lambda>p. fst p \<noteq> pid) post)"
  using assms
proof (induction programs xs rule: hoist_spec.induct)
  case (2 programs pid' ci' rest)
  show ?case
  proof (cases "((pid, ci), inner) \<in> set (hoist_spec programs rest)")
    case True
    with 2 obtain pre post where "rest = pre @ (pid, ci) # post" "pid \<in> programs"
      "inner = Some (takeWhile (\<lambda>p. fst p \<noteq> pid) post)" by blast
    then have "(pid', ci') # rest = ((pid', ci') # pre) @ (pid, ci) # post \<and> pid \<in> programs \<and>
        inner = Some (takeWhile (\<lambda>p. fst p \<noteq> pid) post)" by simp
    then show ?thesis by blast
  next
    case False
    with 2(2) have "pid = pid'" "ci = ci'" "pid \<in> programs"
      "inner = Some (takeWhile (\<lambda>p. fst p \<noteq> pid) rest)" by (auto split: if_splits)
    then show ?thesis by (intro exI[of _ "[]"] exI[of _ rest]) simp
  qed
qed simp

section \<open>Ordering\<close>

lemma ix_pairs_of_Some:
  "ix_pairs_of keys cixs = Some ps \<Longrightarrow> map snd ps = cixs \<and> list_all (\<lambda>(p, c). program_of keys c = Some p) ps"
  by (induction cixs arbitrary: ps) (auto split: option.splits)

lemma ix_pairs_of_None:
  "ix_pairs_of keys cixs = None \<longleftrightarrow> (\<exists>c \<in> set cixs. length keys \<le> unat (ci_program_id_index c))"
  by (induction cixs) (auto simp: program_of_def Let_def split: option.splits)

lemma order_one_panic:
  "order_one programs keys meta i ix = None \<longleftrightarrow>
     (\<exists>c \<in> set (inner_of meta i). length keys \<le> unat (ci_program_id_index c))"
  by (simp add: order_one_def ix_pairs_of_None[symmetric] split: option.split)

lemma order_from_panic:
  "order_from programs keys meta n ixs = None \<longleftrightarrow>
     (\<exists>i < length ixs. \<exists>c \<in> set (inner_of meta (n + i)). length keys \<le> unat (ci_program_id_index c))"
proof (induction ixs arbitrary: n)
  case (Cons ix ixs)
  let ?P = "\<lambda>i. \<exists>c \<in> set (inner_of meta i). length keys \<le> unat (ci_program_id_index c)"
  have "(\<exists>i < length (ix # ixs). ?P (n + i)) \<longleftrightarrow> ?P n \<or> (\<exists>i < length ixs. ?P (Suc n + i))"
    by (simp add: Ex_less_Suc2)
  with Cons.IH[of "Suc n"] order_one_panic[of programs keys meta n ix] show ?case
    by (cases "order_one programs keys meta n ix") simp_all
qed simp

lemma order_one_known:
  assumes "order_one programs keys meta i ix = Some os" and "((p, c), inner) \<in> set os"
  shows "p \<in> programs \<and> program_of keys c = Some p"
proof -
  obtain ps where ps: "ix_pairs_of keys (inner_of meta i) = Some ps"
    using assms(1) by (auto simp: order_one_def split: option.splits)
  have "p \<in> programs \<and> program_of keys c = Some p" if "((p, c), inner) \<in> set (hoist_known_programs programs ps)"
    using hoist_spec_split[of p c inner programs ps] that ix_pairs_of_Some[OF ps]
    by (auto simp: hoist_known_programs_spec list_all_iff)
  with assms ps show ?thesis
    by (auto simp: order_one_def split: option.splits if_splits)
qed

lemma order_from_known:
  assumes "order_from programs keys meta n ixs = Some os" and "((p, c), inner) \<in> set os"
  shows "p \<in> programs \<and> program_of keys c = Some p"
  using assms
proof (induction ixs arbitrary: n os)
  case (Cons ix ixs)
  then show ?case
    using order_one_known by (fastforce split: option.splits)
qed simp

text \<open>
  C34: hoisting.  \<open>hoist_known_programs\<close>, which restarts its scan at every index, computes what a
  single pass over the list computes: the instructions of known programs in their order, each
  with the instructions that follow it up to the next one of the same program.
\<close>

theorem hoist_matches_reference:
  "hoist_known_programs programs xs = hoist_spec programs xs \<and>
   map fst (hoist_known_programs programs xs) = filter (\<lambda>p. fst p \<in> programs) xs"
  by (simp add: hoist_known_programs_spec hoist_spec_heads)

text \<open>
  Breaking a transaction panics exactly when an inner instruction of one of its instructions
  names a program outside the account keys (an outer one that does is skipped); otherwise every
  instruction it returns belongs to a known program.
\<close>

lemma order_instructions_panics:
  "(order_instructions programs keys ixs meta = None \<longleftrightarrow>
     (\<exists>i < length ixs. \<exists>c \<in> set (inner_of meta i). length keys \<le> unat (ci_program_id_index c))) \<and>
   (\<forall>os p c inner. order_instructions programs keys ixs meta = Some os \<longrightarrow> ((p, c), inner) \<in> set os \<longrightarrow>
     p \<in> programs \<and> program_of keys c = Some p)"
  using order_from_panic[of programs keys meta 0 ixs] order_from_known
  unfolding order_instructions_def by fastforce

definition demo_ix :: "u8 \<Rightarrow> bytes \<Rightarrow> CompiledInstruction" where
  "demo_ix p d = \<lparr>ci_program_id_index = p, ci_accounts = [], ci_data = d\<rparr>"

end
