(* ===== verification/AssetUpserts.thy ===== *)
theory AssetUpserts
  imports Db Chain
begin

text \<open>
  \<open>program_transformers/src/asset_upserts.rs\<close>: the three slot-guarded writes to the asset table that
  the account handlers share, one per kind of account (token account, mint, metadata).  Each keeps
  its own slot column, so updates from the three accounts do not overtake one another.  The
  statements meet the contract \<open>gated_upsert\<close>.
\<close>

section \<open>Statements\<close>

record AssetTokenAccountColumns =
  tac_mint :: bytes
  tac_owner :: "bytes option"
  tac_frozen :: bool
  tac_delegate :: "bytes option"
  tac_slot_updated_token_account :: "int option"

definition token_account_model :: "AssetTokenAccountColumns \<Rightarrow> asset_row" where
  "token_account_model c = (asset_defaults (tac_mint c))\<lparr>a_owner := tac_owner c,
     a_frozen := tac_frozen c, a_delegate := tac_delegate c,
     a_slot_updated_token_account := tac_slot_updated_token_account c\<rparr>"

definition token_account_columns :: "asset_row \<Rightarrow> asset_row \<Rightarrow> asset_row" where
  "token_account_columns new old = old\<lparr>a_owner := a_owner new, a_frozen := a_frozen new,
     a_delegate := a_delegate new,
     a_slot_updated_token_account := a_slot_updated_token_account new\<rparr>"

definition token_account_where :: "asset_row \<Rightarrow> asset_row \<Rightarrow> sql_bool" where
  "token_account_where new old =
     sql_or (sql_ge (a_slot_updated_token_account new) (a_slot_updated_token_account old))
            (sql_is_null (a_slot_updated_token_account old))"

definition upsert_assets_token_account_columns ::
  "AssetTokenAccountColumns \<Rightarrow> (DbErr, unit) dbm" where
  "upsert_assets_token_account_columns c = execute (\<lambda>s.
     s\<lparr>asset := upsert (tac_mint c) (token_account_model c) token_account_columns
                 token_account_where (asset s)\<rparr>)"

record AssetMintAccountColumns =
  mac_mint :: bytes
  mac_supply :: int
  mac_slot_updated_mint_account :: int
  mac_extensions :: "json option"

definition mint_account_model :: "AssetMintAccountColumns \<Rightarrow> asset_row" where
  "mint_account_model c = (asset_defaults (mac_mint c))\<lparr>a_supply := mac_supply c,
     a_supply_mint := Some (mac_mint c),
     a_slot_updated_mint_account := Some (mac_slot_updated_mint_account c),
     a_slot_updated := Some (mac_slot_updated_mint_account c),
     a_mint_extensions := mac_extensions c, a_asset_data := Some (mac_mint c),
     a_specification_asset_class := Some Class_FungibleToken, a_owner_type := Owner_Token\<rparr>"

definition mint_account_columns :: "asset_row \<Rightarrow> asset_row \<Rightarrow> asset_row" where
  "mint_account_columns new old = old\<lparr>a_supply := a_supply new,
     a_slot_updated_mint_account := a_slot_updated_mint_account new,
     a_mint_extensions := a_mint_extensions new, a_slot_updated := a_slot_updated new,
     a_asset_data := a_asset_data new\<rparr>"

definition mint_account_where :: "asset_row \<Rightarrow> asset_row \<Rightarrow> sql_bool" where
  "mint_account_where new old =
     sql_or (sql_ge (a_slot_updated_mint_account new) (a_slot_updated_mint_account old))
            (sql_is_null (a_slot_updated_mint_account old))"

definition upsert_assets_mint_account_columns ::
  "AssetMintAccountColumns \<Rightarrow> (DbErr, unit) dbm" where
  "upsert_assets_mint_account_columns c = execute (\<lambda>s.
     s\<lparr>asset := upsert (mac_mint c) (mint_account_model c) mint_account_columns
                 mint_account_where (asset s)\<rparr>)"

record AssetMetadataAccountColumns =
  mdc_mint :: bytes
  mdc_owner_type :: OwnerType
  mdc_specification_asset_class :: "SpecificationAssetClass option"
  mdc_royalty_amount :: int
  mdc_asset_data :: "bytes option"
  mdc_slot_updated_metadata_account :: u64
  mdc_mpl_core_plugins :: "json option"
  mdc_mpl_core_unknown_plugins :: "json option"
  mdc_mpl_core_collection_num_minted :: "int option"
  mdc_mpl_core_collection_current_size :: "int option"
  mdc_mpl_core_plugins_json_version :: "int option"
  mdc_mpl_core_external_plugins :: "json option"
  mdc_mpl_core_unknown_external_plugins :: "json option"

definition metadata_account_model :: "AssetMetadataAccountColumns \<Rightarrow> asset_row" where
  "metadata_account_model c = (asset_defaults (mdc_mint c))\<lparr>a_owner_type := mdc_owner_type c,
     a_specification_version := Some Spec_V1,
     a_specification_asset_class := mdc_specification_asset_class c,
     a_tree_id := None, a_nonce := Some 0, a_seq := Some 0, a_leaf := None, a_data_hash := None,
     a_creator_hash := None, a_compressed := False, a_compressible := False,
     a_royalty_target_type := Royalty_Creators, a_royalty_target := None,
     a_royalty_amount := mdc_royalty_amount c, a_asset_data := mdc_asset_data c,
     a_slot_updated_metadata_account := Some (as_i64 (mdc_slot_updated_metadata_account c)),
     a_burnt := False, a_mpl_core_plugins := mdc_mpl_core_plugins c,
     a_mpl_core_unknown_plugins := mdc_mpl_core_unknown_plugins c,
     a_mpl_core_collection_num_minted := mdc_mpl_core_collection_num_minted c,
     a_mpl_core_collection_current_size := mdc_mpl_core_collection_current_size c,
     a_mpl_core_plugins_json_version := mdc_mpl_core_plugins_json_version c,
     a_mpl_core_external_plugins := mdc_mpl_core_external_plugins c,
     a_mpl_core_unknown_external_plugins := mdc_mpl_core_unknown_external_plugins c\<rparr>"

definition metadata_account_columns :: "asset_row \<Rightarrow> asset_row \<Rightarrow> asset_row" where
  "metadata_account_columns new old = old\<lparr>a_owner_type := a_owner_type new,
     a_specification_version := a_specification_version new,
     a_specification_asset_class := a_specification_asset_class new,
     a_tree_id := a_tree_id new, a_nonce := a_nonce new, a_seq := a_seq new, a_leaf := a_leaf new,
     a_data_hash := a_data_hash new, a_creator_hash := a_creator_hash new,
     a_compressed := a_compressed new, a_compressible := a_compressible new,
     a_royalty_target_type := a_royalty_target_type new, a_royalty_target := a_royalty_target new,
     a_royalty_amount := a_royalty_amount new, a_asset_data := a_asset_data new,
     a_slot_updated_metadata_account := a_slot_updated_metadata_account new,
     a_burnt := a_burnt new, a_mpl_core_plugins := a_mpl_core_plugins new,
     a_mpl_core_unknown_plugins := a_mpl_core_unknown_plugins new,
     a_mpl_core_collection_num_minted := a_mpl_core_collection_num_minted new,
     a_mpl_core_collection_current_size := a_mpl_core_collection_current_size new,
     a_mpl_core_plugins_json_version := a_mpl_core_plugins_json_version new,
     a_mpl_core_external_plugins := a_mpl_core_external_plugins new,
     a_mpl_core_unknown_external_plugins := a_mpl_core_unknown_external_plugins new\<rparr>"

definition metadata_account_where :: "asset_row \<Rightarrow> asset_row \<Rightarrow> sql_bool" where
  "metadata_account_where new old =
     sql_or (sql_ge (a_slot_updated_metadata_account new) (a_slot_updated_metadata_account old))
            (sql_is_null (a_slot_updated_metadata_account old))"

definition upsert_assets_metadata_account_columns ::
  "AssetMetadataAccountColumns \<Rightarrow> (DbErr, unit) dbm" where
  "upsert_assets_metadata_account_columns c = execute (\<lambda>s.
     s\<lparr>asset := upsert (mdc_mint c) (metadata_account_model c) metadata_account_columns
                 metadata_account_where (asset s)\<rparr>)"

section \<open>The writes are guarded by their slot\<close>

definition token_account_slot :: "AssetTokenAccountColumns \<Rightarrow> int \<Rightarrow> AssetTokenAccountColumns" where
  "token_account_slot c slot = c\<lparr>tac_slot_updated_token_account := Some slot\<rparr>"

interpretation token_account: gated_upsert
  "\<lambda>(c, slot). token_account_columns (token_account_model (token_account_slot c slot))"
  "\<lambda>(c, slot). asset_defaults (tac_mint c)"
  a_slot_updated_token_account snd "\<lambda>s v. v \<le> s" True "\<lambda>r. True"
  "\<lambda>a b. tac_mint (fst a) = tac_mint (fst b)"
  "\<lambda>(c, slot). row_upsert (token_account_model (token_account_slot c slot)) token_account_columns
     token_account_where"
  by unfold_locales
    (auto simp: row_upsert_Some token_account_where_def token_account_model_def
      token_account_slot_def null_or_ge token_account_columns_def split: option.splits)

text \<open>
  A new row of the mint statement also gets \<open>supply_mint\<close>, the asset class and the owner type: it
  starts from \<open>mint_account_base\<close>.
\<close>

definition mint_account_base :: "bytes \<Rightarrow> asset_row" where
  "mint_account_base k = (asset_defaults k)\<lparr>a_supply_mint := Some k,
     a_specification_asset_class := Some Class_FungibleToken, a_owner_type := Owner_Token\<rparr>"

lemma mint_account_model_new: "mint_account_model c =
   mint_account_columns (mint_account_model c) (mint_account_base (mac_mint c))"
  by (rule asset_row.equality)
    (simp_all add: mint_account_model_def mint_account_columns_def mint_account_base_def
      asset_defaults_def)

lemma mint_account_model_slot [simp]:
  "a_slot_updated_mint_account (mint_account_model c) = Some (mac_slot_updated_mint_account c)"
  by (simp add: mint_account_model_def)

interpretation mint_account: gated_upsert
  "\<lambda>c. mint_account_columns (mint_account_model c)" "\<lambda>c. mint_account_base (mac_mint c)"
  a_slot_updated_mint_account mac_slot_updated_mint_account "\<lambda>s v. v \<le> s" True "\<lambda>r. True"
  "\<lambda>a b. mac_mint a = mac_mint b"
  "\<lambda>c. row_upsert (mint_account_model c) mint_account_columns mint_account_where"
  by unfold_locales
    (simp_all add: mint_account_model_new[symmetric] row_upsert_Some mint_account_where_def null_or_ge,
     simp_all add: mint_account_columns_def)

lemma metadata_account_model_new: "metadata_account_model c =
   metadata_account_columns (metadata_account_model c) (asset_defaults (mdc_mint c))"
  by (rule asset_row.equality)
    (simp_all add: metadata_account_model_def metadata_account_columns_def asset_defaults_def)

lemma metadata_account_model_slot [simp]:
  "a_slot_updated_metadata_account (metadata_account_model c) =
     Some (as_i64 (mdc_slot_updated_metadata_account c))"
  "a_seq (metadata_account_model c) = Some 0"
  by (simp_all add: metadata_account_model_def)

interpretation metadata_account: gated_upsert
  "\<lambda>c. metadata_account_columns (metadata_account_model c)" "\<lambda>c. asset_defaults (mdc_mint c)"
  a_slot_updated_metadata_account "\<lambda>c. as_i64 (mdc_slot_updated_metadata_account c)"
  "\<lambda>s v. v \<le> s" True "\<lambda>r. True" "\<lambda>a b. mdc_mint a = mdc_mint b"
  "\<lambda>c. row_upsert (metadata_account_model c) metadata_account_columns metadata_account_where"
  by unfold_locales
    (simp_all add: metadata_account_model_new[symmetric] row_upsert_Some metadata_account_where_def
      null_or_ge, simp_all add: metadata_account_columns_def)

lemma token_account_model_new: "token_account_model c =
   token_account_columns (token_account_model c) (asset_defaults (tac_mint c))"
  by (rule asset_row.equality)
    (simp_all add: token_account_model_def token_account_columns_def asset_defaults_def)

lemma null_or_ge_defaults [simp]:
  "sql_holds (sql_or b (sql_is_null (a_slot_updated_token_account (asset_defaults k))))"
  "sql_holds (sql_or b (sql_is_null (a_slot_updated_metadata_account (asset_defaults k))))"
  by (cases b; simp add: asset_defaults_def sql_simps)+

text \<open>
  The writes of a token account and of a metadata account to an asset commute, also when one of
  them creates the row: they guard different columns, so neither overtakes the other.
\<close>

lemma token_and_metadata_writes_commute:
  assumes "tac_mint a = k" and "mdc_mint m = k"
  shows "upsert k (token_account_model a) token_account_columns token_account_where
     (upsert k (metadata_account_model m) metadata_account_columns metadata_account_where t) =
   upsert k (metadata_account_model m) metadata_account_columns metadata_account_where
     (upsert k (token_account_model a) token_account_columns token_account_where t)"
proof -
  let ?T = "row_upsert (token_account_model a) token_account_columns token_account_where"
  let ?M = "row_upsert (metadata_account_model m) metadata_account_columns metadata_account_where"
  have some: "?T (Some (?M (Some r))) = ?M (Some (?T (Some r)))" for r
    by (simp add: row_upsert_Some token_account_columns_def metadata_account_columns_def
      token_account_where_def metadata_account_where_def)
  have new: "?T None = ?T (Some (asset_defaults k))" "?M None = ?M (Some (asset_defaults k))"
    using assms token_account_model_new[of a] metadata_account_model_new[of m]
    by (simp_all add: row_upsert_Some token_account_where_def metadata_account_where_def null_or_ge_defaults)
  have "?T (Some (?M (t k))) = ?M (Some (?T (t k)))"
    by (cases "t k") (simp_all only: new some)
  then show ?thesis by (simp add: upsert_eq)
qed

definition demo_token_columns :: AssetTokenAccountColumns where
  "demo_token_columns = \<lparr>tac_mint = [9], tac_owner = Some [8], tac_frozen = False, tac_delegate = None,
     tac_slot_updated_token_account = Some 4\<rparr>"

definition demo_metadata_columns :: AssetMetadataAccountColumns where
  "demo_metadata_columns = \<lparr>mdc_mint = [9], mdc_owner_type = Owner_Single,
     mdc_specification_asset_class = Some Class_Nft, mdc_royalty_amount = 500, mdc_asset_data = Some [9],
     mdc_slot_updated_metadata_account = 5, mdc_mpl_core_plugins = None,
     mdc_mpl_core_unknown_plugins = None, mdc_mpl_core_collection_num_minted = None,
     mdc_mpl_core_collection_current_size = None, mdc_mpl_core_plugins_json_version = None,
     mdc_mpl_core_external_plugins = None, mdc_mpl_core_unknown_external_plugins = None\<rparr>"

text \<open>
  Whether an asset knows its mint depends on the arrival order.  When the mint account is
  indexed first, \<open>supply_mint\<close> is the mint; when the metadata account is, the row exists when the
  mint arrives and its \<open>supply_mint\<close> stays NULL: a mint update never changes that column.
\<close>

lemma supply_mint_depends_on_order:
  "(let mint_write = row_upsert (mint_account_model c) mint_account_columns mint_account_where;
        metadata_write = row_upsert (metadata_account_model m) metadata_account_columns metadata_account_where
    in a_supply_mint (metadata_write (Some (mint_write None))) = Some (mac_mint c) \<and>
       a_supply_mint (mint_write (Some (metadata_write None))) = None \<and>
       (\<forall>r. a_supply_mint (mint_write (Some r)) = a_supply_mint r))"
  by (simp add: row_upsert_Some mint_account_columns_def Let_def
    metadata_account_columns_def mint_account_model_def metadata_account_model_def asset_defaults_def)

end
