(* ===== verification/TokenProgram.thy ===== *)
theory TokenProgram
  imports AssetUpserts
begin

text \<open>
  SPL token accounts: \<open>program_transformers/src/token/mod.rs\<close>, the account parser of
  \<open>blockbuster/src/programs/token_account/mod.rs\<close>, and the handler of a closed account in
  \<open>program_transformers/src/lib.rs\<close>.  The statements run on the connection itself; the write to the
  asset table is a transaction of its own.
\<close>

section \<open>Parser\<close>

text \<open>\<open>Account::unpack\<close> and \<open>Mint::unpack\<close> of \<open>spl_token\<close> are parameters.\<close>

record spl_unpack =
  unpack_account :: "bytes \<Rightarrow> TokenAccount option"
  unpack_mint :: "bytes \<Rightarrow> Mint option"

definition token_handle_account :: "spl_unpack \<Rightarrow> bytes \<Rightarrow> BlockbusterError + TokenProgramEntity" where
  "token_handle_account U account_data =
     (if length account_data = 165 then
        (case unpack_account U account_data of
           Some ta \<Rightarrow> Inr (TPE_TokenAccount ta)
         | None \<Rightarrow> Inl (BBE_CustomDeserializationError ''Token Account Unpack Failed''))
      else if length account_data = 82 then
        (case unpack_mint U account_data of
           Some m \<Rightarrow> Inr (TPE_Mint m)
         | None \<Rightarrow> Inl (BBE_CustomDeserializationError ''Token MINT Unpack Failed''))
      else Inl BBE_InvalidDataLength)"

text \<open>An instruction is of interest when it is \<open>CloseAccount\<close> (tag 9); \<open>None\<close> is \<open>NotUsed\<close>.\<close>

definition close_instruction :: "InstructionBundle \<Rightarrow> pubkey option" where
  "close_instruction bundle =
     (case ib_instruction bundle of
        Some ix \<Rightarrow>
          if ci_data ix \<noteq> [] \<and> hd (ci_data ix) = 9 \<and> ib_keys bundle \<noteq> []
          then Some (hd (ib_keys bundle)) else None
      | None \<Rightarrow> None)"

definition token_handle_instruction :: "InstructionBundle \<Rightarrow> TokenProgramEntity option" where
  "token_handle_instruction bundle = map_option TPE_CloseIx (close_instruction bundle)"

section \<open>Token accounts\<close>

definition token_account_row ::
  "AccountInfo \<Rightarrow> TokenAccount \<Rightarrow> json option \<Rightarrow> token_accounts_row" where
  "token_account_row info ta ext =
     \<lparr>ta_pubkey = acc_pubkey info, ta_mint = tk_mint ta, ta_amount = as_i64 (tk_amount ta),
      ta_owner = tk_owner ta, ta_frozen = (tk_state ta = State_Frozen), ta_close_authority = None,
      ta_delegate = tk_delegate ta, ta_delegated_amount = as_i64 (tk_delegated_amount ta),
      ta_slot_updated = as_i64 (acc_slot info), ta_token_program = acc_owner info,
      ta_extensions = ext\<rparr>"

definition token_accounts_columns :: "token_accounts_row \<Rightarrow> token_accounts_row \<Rightarrow> token_accounts_row" where
  "token_accounts_columns new old = old\<lparr>ta_mint := ta_mint new,
     ta_delegated_amount := ta_delegated_amount new, ta_delegate := ta_delegate new,
     ta_amount := ta_amount new, ta_frozen := ta_frozen new,
     ta_token_program := ta_token_program new, ta_owner := ta_owner new,
     ta_close_authority := ta_close_authority new, ta_slot_updated := ta_slot_updated new\<rparr>"

definition token_accounts_where :: "token_accounts_row \<Rightarrow> token_accounts_row \<Rightarrow> sql_bool" where
  "token_accounts_where new old = sql_gt (Some (ta_slot_updated new)) (Some (ta_slot_updated old))"

definition save_token_account ::
  "(token_accounts_row \<Rightarrow> token_accounts_row \<Rightarrow> token_accounts_row) \<Rightarrow> token_accounts_row \<Rightarrow>
   unit handler" where
  "save_token_account cols row = map_err from_DbErr (execute (\<lambda>s.
     s\<lparr>token_accounts := list_upsert (ta_pubkey row) row cols token_accounts_where
                           (token_accounts s)\<rparr>))"

definition asset_token_columns :: "AccountInfo \<Rightarrow> TokenAccount \<Rightarrow> AssetTokenAccountColumns" where
  "asset_token_columns info ta =
     \<lparr>tac_mint = tk_mint ta, tac_owner = Some (tk_owner ta),
      tac_frozen = (tk_state ta = State_Frozen), tac_delegate = tk_delegate ta,
      tac_slot_updated_token_account = Some (as_i64 (acc_slot info))\<rparr>"

text \<open>The owner of a non-fungible token is the owner of its token account.\<close>

definition index_token_owner :: "AccountInfo \<Rightarrow> TokenAccount \<Rightarrow> unit handler" where
  "index_token_owner info ta =
     db_bind (map_err from_DbErr (query (\<lambda>s. tokens s (tk_mint ta)))) (\<lambda>token.
     if (case token of Some t \<Rightarrow> is_non_fungible t | None \<Rightarrow> False) then
       with_txn (map_err from_DbErr
         (upsert_assets_token_account_columns (asset_token_columns info ta)))
     else db_return ())"

section \<open>Mints\<close>

definition mint_row :: "AccountInfo \<Rightarrow> Mint \<Rightarrow> json option \<Rightarrow> tokens_row" where
  "mint_row info m ext =
     \<lparr>t_mint = acc_pubkey info, t_supply = uint (mt_supply m), t_decimals = u8_as_i32 (mt_decimals m),
      t_token_program = acc_owner info, t_mint_authority = mt_mint_authority m,
      t_freeze_authority = mt_freeze_authority m, t_close_authority = None,
      t_extension_data = None, t_slot_updated = as_i64 (acc_slot info), t_extensions = ext\<rparr>"

definition tokens_columns :: "tokens_row \<Rightarrow> tokens_row \<Rightarrow> tokens_row" where
  "tokens_columns new old = old\<lparr>t_supply := t_supply new, t_token_program := t_token_program new,
     t_mint_authority := t_mint_authority new, t_close_authority := t_close_authority new,
     t_extension_data := t_extension_data new, t_slot_updated := t_slot_updated new,
     t_decimals := t_decimals new, t_freeze_authority := t_freeze_authority new\<rparr>"

definition tokens_where :: "tokens_row \<Rightarrow> tokens_row \<Rightarrow> sql_bool" where
  "tokens_where new old = sql_ge (Some (t_slot_updated new)) (Some (t_slot_updated old))"

definition save_mint :: "(tokens_row \<Rightarrow> tokens_row \<Rightarrow> tokens_row) \<Rightarrow> tokens_row \<Rightarrow> unit handler" where
  "save_mint cols row = map_err from_DbErr (execute (\<lambda>s.
     s\<lparr>tokens := upsert (t_mint row) row cols tokens_where (tokens s)\<rparr>))"

definition asset_mint_columns :: "AccountInfo \<Rightarrow> Mint \<Rightarrow> json option \<Rightarrow> AssetMintAccountColumns" where
  "asset_mint_columns info m ext =
     \<lparr>mac_mint = acc_pubkey info, mac_supply = uint (mt_supply m),
      mac_slot_updated_mint_account = as_i64 (acc_slot info), mac_extensions = ext\<rparr>"

section \<open>The account handler\<close>

fun handle_token_program_account :: "AccountInfo \<Rightarrow> TokenProgramEntity \<Rightarrow> unit handler" where
  "handle_token_program_account info (TPE_TokenAccount ta) =
     db_then (save_token_account token_accounts_columns (token_account_row info ta None))
             (index_token_owner info ta)"
| "handle_token_program_account info (TPE_Mint m) =
     db_then (save_mint tokens_columns (mint_row info m None))
             (with_txn (map_err from_DbErr
                (upsert_assets_mint_account_columns (asset_mint_columns info m None))))"
| "handle_token_program_account info (TPE_CloseIx _) = db_fail NotImplemented"

section \<open>Closed accounts\<close>

text \<open>
  A closed account is a mint (its token is deleted and its asset is burnt) or a token account.
  Errors are logged and dropped.  The two statements of the first case run concurrently; they
  touch different tables.
\<close>

definition handle_token_program_close_ix :: "pubkey \<Rightarrow> (DbErr, unit) dbm" where
  "handle_token_program_close_ix acc_to_close =
     db_bind (db_ok (query (\<lambda>s. tokens s acc_to_close))) (\<lambda>found.
     case found of
       Some (Some mint) \<Rightarrow>
         db_then (db_ok (execute (\<lambda>s. s\<lparr>tokens := (tokens s)(acc_to_close := None)\<rparr>)))
         (db_bind (db_ok (execute (\<lambda>s.
            s\<lparr>asset := (asset s)(acc_to_close :=
                 map_option (\<lambda>r. r\<lparr>a_burnt := True\<rparr>) (asset s acc_to_close))\<rparr>)))
            (\<lambda>_. db_return ()))
     | _ \<Rightarrow>
         db_bind (db_ok (execute (\<lambda>s.
            s\<lparr>token_accounts := AList.delete acc_to_close (token_accounts s)\<rparr>)))
            (\<lambda>_. db_return ()))"

section \<open>Properties of the component\<close>

text \<open>Newest slot wins; equal slots keep the stored account and replace the stored mint.\<close>

interpretation token_accounts: gated_upsert
  token_accounts_columns "\<lambda>a. a" "\<lambda>r. Some (ta_slot_updated r)" ta_slot_updated
  "\<lambda>s v. v < s" False "\<lambda>r. True"
  "\<lambda>a b. ta_pubkey a = ta_pubkey b \<and> ta_extensions a = ta_extensions b"
  "\<lambda>a. row_upsert a token_accounts_columns token_accounts_where"
  by unfold_locales
    (simp_all add: token_accounts_columns_def row_upsert_Some token_accounts_where_def sql_simps)

interpretation tokens: gated_upsert
  tokens_columns "\<lambda>a. a" "\<lambda>r. Some (t_slot_updated r)" t_slot_updated
  "\<lambda>s v. v \<le> s" False "\<lambda>r. True" "\<lambda>a b. t_mint a = t_mint b \<and> t_extensions a = t_extensions b"
  "\<lambda>a. row_upsert a tokens_columns tokens_where"
  by unfold_locales
    (simp_all add: tokens_columns_def row_upsert_Some tokens_where_def sql_simps)

lemma close_mint:
  assumes "faults s = []" and "tokens s k = Some t"
  shows "handle_token_program_close_ix k s = (Inr (), s\<lparr>tokens := (tokens s)(k := None),
    asset := (asset s)(k := map_option (\<lambda>r. r\<lparr>a_burnt := True\<rparr>) (asset s k))\<rparr>)"
  using assms by (simp add: handle_token_program_close_ix_def db_simps)

lemma close_token_account:
  assumes "faults s = []" and "tokens s k = None"
  shows "handle_token_program_close_ix k s =
    (Inr (), s\<lparr>token_accounts := AList.delete k (token_accounts s)\<rparr>)"
  using assms by (simp add: handle_token_program_close_ix_def db_simps)

text \<open>A close never fails, and it leaves the other tables alone, whatever statements fail.\<close>

lemma close_total: "fst (handle_token_program_close_ix k s) = Inr ()"
  by (auto simp: handle_token_program_close_ix_def db_bind_def db_then_def db_ok_def db_return_def
    split: prod.splits sum.splits option.splits)

lemma save_token_accounts_run:
  "faults s = [] \<Longrightarrow> db_seq (map (save_token_account cols) as) s =
     (Inr (), s\<lparr>token_accounts := fold (\<lambda>a. list_upsert (ta_pubkey a) a cols token_accounts_where) as
        (token_accounts s)\<rparr>)"
  by (induction as arbitrary: s) (simp_all add: save_token_account_def db_simps)

lemma token_accounts_fold:
  assumes "\<forall>a \<in> set as. ta_pubkey a = k"
  shows "map_of (fold (\<lambda>a. list_upsert (ta_pubkey a) a token_accounts_columns token_accounts_where) as t) k =
    token_accounts.run as (map_of t k)"
  using assms
  by (induction as arbitrary: t)
    (simp_all add: token_accounts.run_def token_accounts.lift_def map_of_list_upsert upsert_eq)

text \<open>
  C38: token account updates converge.  The updates of one account, with pairwise different slots,
  delivered in any order to a database that does not know the account, leave the row of the
  update with the highest slot.
\<close>

theorem newest_token_account_wins:
  assumes "faults s = []" and "map_of (token_accounts s) k = None"
    and "\<forall>a \<in> set as. ta_pubkey a = k \<and> ta_extensions a = None" and "distinct (map ta_slot_updated as)"
    and "m \<in> set as" and "\<forall>a \<in> set as. a \<noteq> m \<longrightarrow> ta_slot_updated a < ta_slot_updated m"
  shows "\<exists>s'. db_seq (map (save_token_account token_accounts_columns) as) s = (Inr (), s') \<and>
    map_of (token_accounts s') k = Some m"
proof -
  have "token_accounts.run as None = Some m"
    using assms(3-6) by (subst token_accounts.run_newest[of m]) auto
  moreover have "map_of (fold (\<lambda>a. list_upsert (ta_pubkey a) a token_accounts_columns token_accounts_where)
      as (token_accounts s)) k = token_accounts.run as (map_of (token_accounts s) k)"
    using assms(3) by (intro token_accounts_fold) simp
  ultimately show ?thesis
    using assms(2) save_token_accounts_run[OF assms(1), of token_accounts_columns as] by simp
qed

definition demo_token_account :: "int \<Rightarrow> int \<Rightarrow> token_accounts_row" where
  "demo_token_account slot amount =
     \<lparr>ta_pubkey = [5], ta_mint = [9], ta_amount = amount, ta_owner = [8], ta_frozen = False,
      ta_close_authority = None, ta_delegate = None, ta_delegated_amount = 0, ta_slot_updated = slot,
      ta_token_program = [6], ta_extensions = None\<rparr>"

theorem newest_token_account_wins_witness:
  "\<exists>s'. db_seq (map (save_token_account token_accounts_columns)
       [demo_token_account 7 1, demo_token_account 9 0, demo_token_account 8 2]) empty_db = (Inr (), s') \<and>
     map_of (token_accounts s') [5] = Some (demo_token_account 9 0)"
  by (rule newest_token_account_wins) (auto simp: demo_token_account_def empty_db_def)

text \<open>
  A close instruction always returns (its errors are dropped); on a healthy connection it
  deletes the token and burns the asset of a closed mint, or deletes a closed token account, and
  changes nothing else.
\<close>

lemma close_effect:
  "fst (handle_token_program_close_ix k s) = Inr () \<and>
   (faults s = [] \<longrightarrow> snd (handle_token_program_close_ix k s) =
     (case tokens s k of
        Some t \<Rightarrow> s\<lparr>tokens := (tokens s)(k := None),
          asset := (asset s)(k := map_option (\<lambda>r. r\<lparr>a_burnt := True\<rparr>) (asset s k))\<rparr>
      | None \<Rightarrow> s\<lparr>token_accounts := AList.delete k (token_accounts s)\<rparr>))"
  using close_total[of k s] close_mint[of s k] close_token_account[of s k]
  by (auto split: option.split)

end
