(* ===== verification/Transformer.thy ===== *)
theory Transformer
  imports BubblegumHandlers BubblegumParser Instructions TokenProgram
begin

text \<open>
  \<open>program_transformers/src/lib.rs\<close>: a transaction is broken into the instructions of the known
  programs, each one is parsed and handled in order, and the transaction fails at the first
  error.  Account updates are dispatched in the theories of the account programs.
\<close>

section \<open>Definitions\<close>

record TransactionInfo =
  tx_slot :: u64
  tx_signature :: string
  tx_account_keys :: "pubkey list"
  tx_message_instructions :: "CompiledInstruction list"
  tx_meta_inner_instructions :: "InnerInstructions list"

text \<open>The six parsers and their keys; the key of Bubblegum is a constant of \<open>mpl_bubblegum\<close>.\<close>

datatype parser =
    P_Bubblegum | P_TokenMetadata | P_Token | P_MplCore | P_TokenExtensions | P_TokenInscription

fun parser_key :: "bubblegum_unpack \<Rightarrow> parser \<Rightarrow> pubkey" where
  "parser_key U P_Bubblegum = bubblegum_ID U"
| "parser_key U P_TokenMetadata = [11, 112, 101, 177, 227, 209, 124, 69, 56, 157, 82, 127, 107, 4, 195,
     205, 88, 184, 108, 115, 26, 160, 253, 181, 73, 182, 209, 188, 3, 248, 41, 70]"
| "parser_key U P_Token = [6, 221, 246, 225, 215, 101, 161, 147, 217, 203, 225, 70, 206, 235, 121, 172,
     28, 180, 133, 237, 95, 91, 55, 145, 58, 140, 245, 133, 126, 255, 0, 169]"
| "parser_key U P_MplCore = [175, 84, 171, 16, 189, 151, 165, 66, 160, 158, 247, 179, 152, 137, 221, 12,
     211, 148, 164, 204, 233, 223, 166, 205, 201, 126, 190, 45, 35, 91, 167, 72]"
| "parser_key U P_TokenExtensions = [6, 221, 246, 225, 238, 117, 143, 222, 24, 66, 93, 188, 228, 108,
     205, 218, 182, 26, 252, 77, 131, 185, 13, 39, 254, 189, 249, 40, 216, 161, 139, 252]"
| "parser_key U P_TokenInscription = [10, 180, 174, 126, 63, 63, 157, 25, 219, 207, 134, 162, 20, 30,
     248, 226, 156, 36, 200, 252, 225, 223, 15, 172, 144, 187, 222, 57, 38, 185, 20, 237]"

text \<open>The table of parsers, in the order of insertion: a later entry replaces an earlier one.\<close>

definition parsers :: "bubblegum_unpack \<Rightarrow> pubkey \<rightharpoonup> parser" where
  "parsers U = fold (\<lambda>p m. m(parser_key U p \<mapsto> p))
     [P_Bubblegum, P_TokenMetadata, P_Token, P_MplCore, P_TokenExtensions, P_TokenInscription] Map.empty"

definition key_set :: "bubblegum_unpack \<Rightarrow> pubkey set" where
  "key_set U = parser_key U `
     {P_Bubblegum, P_TokenMetadata, P_Token, P_MplCore, P_TokenExtensions, P_TokenInscription}"

definition break_transaction :: "bubblegum_unpack \<Rightarrow> TransactionInfo \<Rightarrow> ordered_ix list option" where
  "break_transaction U tx = order_instructions (key_set U) (tx_account_keys tx)
     (tx_message_instructions tx) (tx_meta_inner_instructions tx)"

definition match_program :: "bubblegum_unpack \<Rightarrow> pubkey \<Rightarrow> parser option" where
  "match_program U key = parsers U key"

text \<open>What \<open>handle_instruction\<close> of a parser returns; \<open>Unknown\<close> is \<open>NotUsed\<close>.\<close>

datatype ProgramParseResult =
    PPR_Bubblegum BubblegumInstruction
  | PPR_Token TokenProgramEntity
  | PPR_TokenExtensions TokenExtensionsProgramEntity
  | PPR_Unknown

fun handle_instruction :: "bubblegum_unpack \<Rightarrow> parser \<Rightarrow> InstructionBundle \<Rightarrow> ProgramParseResult parse" where
  "handle_instruction U P_Bubblegum bundle =
     parse_bind (bubblegum_handle_instruction U bundle) (\<lambda>b. Inr (PPR_Bubblegum b))"
| "handle_instruction U P_Token bundle =
     Inr (case token_handle_instruction bundle of Some e \<Rightarrow> PPR_Token e | None \<Rightarrow> PPR_Unknown)"
| "handle_instruction U P_TokenExtensions bundle =
     Inr (case close_instruction bundle of
            Some k \<Rightarrow> PPR_TokenExtensions (TEE_CloseIx k) | None \<Rightarrow> PPR_Unknown)"
| "handle_instruction U _ bundle = Inr PPR_Unknown"

text \<open>The bundle of one instruction.  Account indexes that are out of range are dropped.\<close>

definition max_account :: "CompiledInstruction \<Rightarrow> nat" where
  "max_account ix = fold max (map unat (ci_accounts ix)) 0"

definition ix_keys :: "pubkey list \<Rightarrow> CompiledInstruction \<Rightarrow> pubkey list" where
  "ix_keys account_keys ix =
     map (\<lambda>a. account_keys ! unat a) (filter (\<lambda>a. unat a < length account_keys) (ci_accounts ix))"

definition instruction_bundle :: "TransactionInfo \<Rightarrow> ordered_ix \<Rightarrow> InstructionBundle" where
  "instruction_bundle tx ix =
     (let ((program, instruction), inner) = ix in
      \<lparr>ib_txn_id = tx_signature tx, ib_program = program, ib_instruction = Some instruction,
       ib_inner_ix = inner, ib_keys = ix_keys (tx_account_keys tx) instruction,
       ib_slot = tx_slot tx\<rparr>)"

text \<open>Handling one instruction returns whether it was of a kind that is not implemented.\<close>

definition handle_one ::
  "env \<Rightarrow> notifier \<Rightarrow> bubblegum_unpack \<Rightarrow> TransactionInfo \<Rightarrow> ordered_ix \<Rightarrow> bool handler" where
  "handle_one E nt U tx ix =
     (if length (tx_account_keys tx) < max_account (snd (fst ix)) then
        db_fail (DeserializationError ''Missing Accounts in Serialized Ixn/Txn'')
      else
        let bundle = instruction_bundle tx ix in
        case match_program U (ib_program bundle) of
          None \<Rightarrow> db_return False
        | Some program \<Rightarrow>
            (case handle_instruction U program bundle of
               Inl e \<Rightarrow> db_fail (ParsingError (BlockbusterError_to_string e))
             | Inr (PPR_Bubblegum parsing_result) \<Rightarrow>
                 db_then (handle_bubblegum_instruction E nt parsing_result bundle) (db_return False)
             | Inr (PPR_Token (TPE_CloseIx k)) \<Rightarrow>
                 db_then (map_err from_DbErr (handle_token_program_close_ix k)) (db_return False)
             | Inr (PPR_Token _) \<Rightarrow> db_return False
             | Inr (PPR_TokenExtensions (TEE_CloseIx k)) \<Rightarrow>
                 db_then (map_err from_DbErr (handle_token_program_close_ix k)) (db_return False)
             | Inr (PPR_TokenExtensions _) \<Rightarrow> db_return False
             | Inr PPR_Unknown \<Rightarrow> db_return True))"

fun handle_all ::
  "env \<Rightarrow> notifier \<Rightarrow> bubblegum_unpack \<Rightarrow> TransactionInfo \<Rightarrow> ordered_ix list \<Rightarrow> nat \<Rightarrow> nat handler" where
  "handle_all E nt U tx [] not_impl = db_return not_impl"
| "handle_all E nt U tx (ix # ixs) not_impl =
     db_bind (handle_one E nt U tx ix) (\<lambda>unknown.
     handle_all E nt U tx ixs (if unknown then not_impl + 1 else not_impl))"

text \<open>\<open>None\<close> is the panic of \<open>order_instructions\<close>.\<close>

definition handle_transaction ::
  "env \<Rightarrow> notifier \<Rightarrow> bubblegum_unpack \<Rightarrow> TransactionInfo \<Rightarrow> unit handler option" where
  "handle_transaction E nt U tx =
     (case break_transaction U tx of
        None \<Rightarrow> None
      | Some ixs \<Rightarrow> Some (db_bind (handle_all E nt U tx ixs 0) (\<lambda>not_impl.
          if not_impl = length ixs then db_fail NotImplemented else db_return ())))"

section \<open>Properties\<close>

lemma parser_keys_distinct:
  "bubblegum_ID U \<notin> parser_key U ` {P_TokenMetadata, P_Token, P_MplCore, P_TokenExtensions, P_TokenInscription}
   \<Longrightarrow> inj (parser_key U)"
proof (rule injI)
  fix p q
  assume "bubblegum_ID U \<notin> parser_key U ` {P_TokenMetadata, P_Token, P_MplCore, P_TokenExtensions, P_TokenInscription}"
    and "parser_key U p = parser_key U q"
  then show "p = q" by (cases p; cases q) auto
qed

text \<open>Every key of the set has a parser, so every instruction of the broken transaction is parsed.\<close>

lemma match_program_known: "k \<in> key_set U \<longleftrightarrow> match_program U k \<noteq> None"
  by (auto simp: key_set_def match_program_def parsers_def)

lemma break_transaction_known:
  assumes "break_transaction U tx = Some ixs" and "((p, c), inner) \<in> set ixs"
  shows "\<exists>parser. match_program U p = Some parser"
  using order_from_known[of "key_set U"] assms match_program_known[of p U]
  unfolding break_transaction_def order_instructions_def by blast

lemma handle_all_append:
  "handle_all E nt U tx (xs @ ys) n =
     db_bind (handle_all E nt U tx xs n) (handle_all E nt U tx ys)"
proof (induction xs arbitrary: n)
  case Nil
  then show ?case by (simp add: fun_eq_iff db_bind_def db_return_def)
next
  case (Cons x xs)
  then show ?case
    by (simp add: fun_eq_iff db_bind_def split: prod.split sum.split)
qed

text \<open>
  A transaction stops at its first error.  The instructions before it keep their effects, the
  failing instruction has the effects of its own handler, and those after it are not handled.
\<close>

lemma transaction_stops_at_error:
  assumes "break_transaction U tx = Some (xs @ ix # ys)"
    and "handle_all E nt U tx xs 0 s = (Inr n, s1)" and "handle_one E nt U tx ix s1 = (Inl e, s2)"
  shows "\<exists>h. handle_transaction E nt U tx = Some h \<and> h s = (Inl e, s2)"
  using assms by (auto simp: handle_transaction_def handle_all_append db_bind_def)

text \<open>
  A transaction none of whose instructions, outer or inner, belongs to a known program is
  answered with \<open>NotImplemented\<close> and changes nothing.
\<close>

lemma hoist_unknown: "\<forall>p \<in> set ps. fst p \<notin> programs \<Longrightarrow> hoist_known_programs programs ps = []"
  by (induction programs ps rule: hoist_spec.induct) (auto simp: hoist_known_programs_spec)

lemma order_from_unknown:
  assumes "\<forall>ix \<in> set ixs. \<forall>p. program_of keys ix = Some p \<longrightarrow> p \<notin> programs"
    and "\<forall>i. \<forall>c \<in> set (inner_of meta i). \<exists>p. program_of keys c = Some p \<and> p \<notin> programs"
  shows "order_from programs keys meta n ixs = Some []"
  using assms(1)
proof (induction ixs arbitrary: n)
  case (Cons ix ixs)
  obtain ps where ps: "ix_pairs_of keys (inner_of meta n) = Some ps"
    using assms(2) ix_pairs_of_None[of keys "inner_of meta n"]
    by (cases "ix_pairs_of keys (inner_of meta n)") (force simp: program_of_def Let_def split: if_splits)+
  have "\<forall>p \<in> set ps. fst p \<notin> programs"
  proof
    fix p assume p: "p \<in> set ps"
    then have "snd p \<in> set (map snd ps)" by simp
    moreover have "program_of keys (snd p) = Some (fst p)"
      using ix_pairs_of_Some[OF ps] p by (auto simp: list_all_iff)
    ultimately show "fst p \<notin> programs" using assms(2) ix_pairs_of_Some[OF ps] by force
  qed
  then have "order_one programs keys meta n ix = Some []"
    using ps Cons.prems by (simp add: order_one_def hoist_unknown split: option.split)
  with Cons show ?case by simp
qed simp

lemma unknown_transaction_not_implemented:
  assumes "\<forall>ix \<in> set (tx_message_instructions tx). \<forall>p.
      program_of (tx_account_keys tx) ix = Some p \<longrightarrow> p \<notin> key_set U"
    and "\<forall>i. \<forall>c \<in> set (inner_of (tx_meta_inner_instructions tx) i). \<exists>p.
      program_of (tx_account_keys tx) c = Some p \<and> p \<notin> key_set U"
  shows "\<exists>h. handle_transaction E nt U tx = Some h \<and> h s = (Inl NotImplemented, s)"
  using order_from_unknown[OF assms]
  by (simp add: handle_transaction_def break_transaction_def order_instructions_def db_bind_def
    db_return_def db_fail_def)

text \<open>
  The check for missing accounts is off by one.  An instruction whose largest account index is
  the number of account keys refers to an account that the transaction does not have; it is not
  rejected, and the missing account is dropped from the keys that the parser gets.
\<close>

lemma max_account_mem: "ci_accounts c \<noteq> [] \<Longrightarrow> \<exists>a \<in> set (ci_accounts c). unat a = max_account c"
proof -
  assume ne: "ci_accounts c \<noteq> []"
  then have "max_account c = Max (insert 0 (set (map unat (ci_accounts c))))"
    using Max.set_eq_fold[of 0 "map unat (ci_accounts c)"] by (simp add: max_account_def)
  also have "\<dots> = Max (set (map unat (ci_accounts c)))"
    using ne by (simp add: Max_insert)
  finally have "max_account c = Max (unat ` set (ci_accounts c))" by simp
  moreover have "Max (unat ` set (ci_accounts c)) \<in> unat ` set (ci_accounts c)"
    using ne by (intro Max_in) simp_all
  ultimately show ?thesis by (metis imageE)
qed

lemma missing_account_dropped:
  assumes "ci_accounts c \<noteq> []" and "max_account c = length (tx_account_keys tx)"
    and "p = parser_key U P_TokenMetadata" and "match_program U p = Some P_TokenMetadata"
  shows "handle_one E nt U tx ((p, c), inner) s = (Inr True, s) \<and>
    length (ib_keys (instruction_bundle tx ((p, c), inner))) < length (ci_accounts c)"
proof -
  obtain a where a: "a \<in> set (ci_accounts c)" "\<not> unat a < length (tx_account_keys tx)"
    using max_account_mem[OF assms(1)] assms(2) by auto
  have "length (filter (\<lambda>a. unat a < length (tx_account_keys tx)) (ci_accounts c)) < length (ci_accounts c)"
    using a by (rule length_filter_less)
  with assms(2,4) show ?thesis
    by (simp add: handle_one_def instruction_bundle_def ix_keys_def Let_def db_return_def)
qed

definition demo_tx :: "CompiledInstruction list \<Rightarrow> TransactionInfo" where
  "demo_tx ixs = \<lparr>tx_slot = 5, tx_signature = ''tx'',
     tx_account_keys = [parser_key demo_unpack P_TokenMetadata, [22], [40]],
     tx_message_instructions = ixs, tx_meta_inner_instructions = []\<rparr>"

lemma demo_match:
  "match_program demo_unpack (parser_key demo_unpack P_TokenMetadata) = Some P_TokenMetadata"
  "match_program demo_unpack [22] = Some P_Bubblegum" "[40] \<notin> key_set demo_unpack"
  by (simp_all add: match_program_def parsers_def key_set_def demo_unpack_def)

end
