(* ===== verification/TokenMetadata.thy ===== *)
theory TokenMetadata
  imports TokenProgram
begin

text \<open>
  Token Metadata accounts: the parser of \<open>blockbuster/src/programs/token_metadata/mod.rs\<close> and the
  handlers of \<open>program_transformers/src/token_metadata\<close>.  A metadata account turns its asset into an
  uncompressed one (\<open>seq = 0\<close>), which closes the asset's row for the Bubblegum handlers.
\<close>

section \<open>Parser\<close>

text \<open>The deserializers of \<open>mpl_token_metadata\<close> are parameters; their errors are I/O errors.\<close>

record metadata_unpack =
  unpack_key :: "bytes \<Rightarrow> string + Key"
  unpack_edition :: "bytes \<Rightarrow> string + Edition"
  unpack_master_edition_v1 :: "bytes \<Rightarrow> string + DeprecatedMasterEditionV1"
  unpack_master_edition :: "bytes \<Rightarrow> string + MasterEdition"
  unpack_use_authority :: "bytes \<Rightarrow> string + Key"
  unpack_edition_marker :: "bytes \<Rightarrow> string + Key"
  unpack_collection_authority :: "bytes \<Rightarrow> string + Key"
  unpack_metadata :: "bytes \<Rightarrow> string + (Key \<times> Metadata)"

record TokenMetadataAccountState =
  tms_key :: Key
  tms_data :: TokenMetadataAccountData

definition unpacked ::
  "string + 'a \<Rightarrow> ('a \<Rightarrow> TokenMetadataAccountState) \<Rightarrow> BlockbusterError + TokenMetadataAccountState" where
  "unpacked r f = (case r of Inl e \<Rightarrow> Inl (BBE_IOError e) | Inr a \<Rightarrow> Inr (f a))"

definition token_metadata_handle_account ::
  "metadata_unpack \<Rightarrow> bytes \<Rightarrow> BlockbusterError + TokenMetadataAccountState" where
  "token_metadata_handle_account U account_data =
     (if account_data = [] then Inr \<lparr>tms_key = Key_Uninitialized, tms_data = TM_EmptyAccount\<rparr>
      else case unpack_key U (take 1 account_data) of
        Inl e \<Rightarrow> Inl (BBE_IOError e)
      | Inr key \<Rightarrow>
          (case key of
             Key_EditionV1 \<Rightarrow> unpacked (unpack_edition U account_data)
               (\<lambda>a. \<lparr>tms_key = ed_key a, tms_data = TM_EditionV1 a\<rparr>)
           | Key_MasterEditionV1 \<Rightarrow> unpacked (unpack_master_edition_v1 U account_data)
               (\<lambda>a. \<lparr>tms_key = dme_key a, tms_data = TM_MasterEditionV1 a\<rparr>)
           | Key_MasterEditionV2 \<Rightarrow> unpacked (unpack_master_edition U account_data)
               (\<lambda>a. \<lparr>tms_key = me_key a, tms_data = TM_MasterEditionV2 a\<rparr>)
           | Key_UseAuthorityRecord \<Rightarrow> unpacked (unpack_use_authority U account_data)
               (\<lambda>k. \<lparr>tms_key = k, tms_data = TM_UseAuthorityRecord\<rparr>)
           | Key_EditionMarker \<Rightarrow> unpacked (unpack_edition_marker U account_data)
               (\<lambda>k. \<lparr>tms_key = k, tms_data = TM_EditionMarker\<rparr>)
           | Key_CollectionAuthorityRecord \<Rightarrow> unpacked (unpack_collection_authority U account_data)
               (\<lambda>k. \<lparr>tms_key = k, tms_data = TM_CollectionAuthorityRecord\<rparr>)
           | Key_MetadataV1 \<Rightarrow> unpacked (unpack_metadata U account_data)
               (\<lambda>(k, m). \<lparr>tms_key = k, tms_data = TM_MetadataV1 m\<rparr>)
           | Key_Uninitialized \<Rightarrow> Inl BBE_UninitializedAccount
           | _ \<Rightarrow> Inl BBE_AccountTypeNotImplemented))"

section \<open>Editions\<close>

definition attachment_defaults :: "bytes \<Rightarrow> V1AccountAttachments \<Rightarrow> int \<Rightarrow> attachment_row" where
  "attachment_defaults k typ slot =
     \<lparr>att_id = k, att_asset_id = None, att_attachment_type = typ, att_initialized = False,
      att_data = None, att_slot_updated = slot\<rparr>"

definition edition_columns :: "attachment_row \<Rightarrow> attachment_row \<Rightarrow> attachment_row" where
  "edition_columns new old = old\<lparr>att_attachment_type := att_attachment_type new,
     att_data := att_data new, att_slot_updated := att_slot_updated new\<rparr>"

definition edition_where :: "attachment_row \<Rightarrow> attachment_row \<Rightarrow> sql_bool" where
  "edition_where new old = sql_ge (Some (att_slot_updated new)) (Some (att_slot_updated old))"

definition save_attachment :: "attachment_row \<Rightarrow> unit handler" where
  "save_attachment row = map_err from_DbErr (execute (\<lambda>s.
     s\<lparr>asset_v1_account_attachments := upsert (att_id row) row edition_columns edition_where
          (asset_v1_account_attachments s)\<rparr>))"

definition save_master_edition ::
  "env \<Rightarrow> V1AccountAttachments \<Rightarrow> pubkey \<Rightarrow> u64 \<Rightarrow> MasterEdition \<Rightarrow> unit handler" where
  "save_master_edition E version k slot me_data =
     (case master_edition_to_json E me_data of
        Inl e \<Rightarrow> db_fail (SerializatonError e)
      | Inr ser \<Rightarrow> save_attachment ((attachment_defaults k version (as_i64 slot))\<lparr>att_data := Some ser\<rparr>))"

definition save_v2_master_edition :: "env \<Rightarrow> pubkey \<Rightarrow> u64 \<Rightarrow> MasterEdition \<Rightarrow> unit handler" where
  "save_v2_master_edition E k slot me_data = save_master_edition E Att_MasterEditionV2 k slot me_data"

definition save_v1_master_edition ::
  "env \<Rightarrow> pubkey \<Rightarrow> u64 \<Rightarrow> DeprecatedMasterEditionV1 \<Rightarrow> unit handler" where
  "save_v1_master_edition E k slot me_data =
     save_master_edition E Att_MasterEditionV1 k slot
       \<lparr>me_key = Key_MasterEditionV1, me_supply = dme_supply me_data,
        me_max_supply = dme_max_supply me_data\<rparr>"

definition save_edition :: "env \<Rightarrow> pubkey \<Rightarrow> u64 \<Rightarrow> Edition \<Rightarrow> unit handler" where
  "save_edition E k slot e_data =
     (case edition_to_json E e_data of
        Inl e \<Rightarrow> db_fail (SerializatonError e)
      | Inr ser \<Rightarrow>
          save_attachment ((attachment_defaults k Att_Edition (as_i64 slot))\<lparr>att_data := Some ser\<rparr>))"

section \<open>Burn\<close>

definition burn_model :: "bytes \<Rightarrow> int \<Rightarrow> asset_row" where
  "burn_model k slot = (asset_defaults k)\<lparr>a_slot_updated := Some slot, a_burnt := True\<rparr>"

definition burn_columns :: "asset_row \<Rightarrow> asset_row \<Rightarrow> asset_row" where
  "burn_columns new old = old\<lparr>a_slot_updated := a_slot_updated new, a_burnt := a_burnt new\<rparr>"

definition burn_where :: "asset_row \<Rightarrow> asset_row \<Rightarrow> sql_bool" where
  "burn_where new old = sql_gt (a_slot_updated new) (a_slot_updated old)"

definition burn_v1_asset :: "pubkey \<Rightarrow> u64 \<Rightarrow> unit handler" where
  "burn_v1_asset k slot = map_err from_DbErr (execute (\<lambda>s.
     s\<lparr>asset := upsert k (burn_model k (as_i64 slot)) burn_columns burn_where (asset s)\<rparr>))"

section \<open>Token and token account of a mint\<close>

text \<open>
  \<open>find_model_with_retry\<close> of \<open>lib.rs\<close>: one query per interval until a row is found.  The delays
  are not modelled.
\<close>

fun find_model_with_retry :: "(db \<Rightarrow> 'a option) \<Rightarrow> nat list \<Rightarrow> (DbErr, 'a option) dbm" where
  "find_model_with_retry select [] = db_return None"
| "find_model_with_retry select (interval # intervals) =
     db_bind (query select) (\<lambda>model.
     case model of
       Some m \<Rightarrow> db_return (Some m)
     | None \<Rightarrow> find_model_with_retry select intervals)"

definition RETRY_INTERVALS :: "nat list" where
  "RETRY_INTERVALS = [0, 5, 10]"

definition index_and_fetch_mint_data :: "bytes \<Rightarrow> tokens_row option handler" where
  "index_and_fetch_mint_data mint =
     db_bind (map_err from_DbErr (find_model_with_retry (\<lambda>s. tokens s mint) RETRY_INTERVALS)) (\<lambda>token.
     case token of
       Some t \<Rightarrow>
         db_then (map_err AssetIndexError (upsert_assets_mint_account_columns
           \<lparr>mac_mint = mint, mac_supply = t_supply t,
            mac_slot_updated_mint_account = t_slot_updated t, mac_extensions = t_extensions t\<rparr>))
         (db_return (Some t))
     | None \<Rightarrow> db_return None)"

text \<open>
  \<open>SELECT .. WHERE mint = m AND amount > 0 ORDER BY slot_updated DESC LIMIT 1\<close>; among equal slots
  the first row of the table.
\<close>

fun newest_account :: "token_accounts_row list \<Rightarrow> token_accounts_row option" where
  "newest_account [] = None"
| "newest_account (r # rs) =
     (case newest_account rs of
        None \<Rightarrow> Some r
      | Some m \<Rightarrow> if ta_slot_updated m \<le> ta_slot_updated r then Some r else Some m)"

definition select_token_account :: "bytes \<Rightarrow> db \<Rightarrow> token_accounts_row option" where
  "select_token_account mint s =
     newest_account (filter (\<lambda>r. ta_mint r = mint \<and> 0 < ta_amount r) (map snd (token_accounts s)))"

definition index_token_account_data :: "bytes \<Rightarrow> unit handler" where
  "index_token_account_data mint =
     db_bind (map_err DatabaseError (find_model_with_retry (select_token_account mint) RETRY_INTERVALS))
     (\<lambda>token_account.
     case token_account of
       Some r \<Rightarrow>
         map_err AssetIndexError (upsert_assets_token_account_columns
           \<lparr>tac_mint = mint, tac_owner = Some (ta_owner r), tac_frozen = ta_frozen r,
            tac_delegate = ta_delegate r,
            tac_slot_updated_token_account = Some (ta_slot_updated r)\<rparr>)
     | None \<Rightarrow> db_return ())"

section \<open>Metadata\<close>

definition WSOL_PUBKEY :: pubkey where
  "WSOL_PUBKEY = [6, 155, 136, 87, 254, 171, 129, 132, 251, 104, 127, 99, 70, 24, 192, 53, 218, 196,
     57, 220, 26, 235, 59, 85, 152, 160, 240, 0, 0, 0, 0, 1]"

fun class_of_standard :: "TokenStandard option \<Rightarrow> SpecificationAssetClass" where
  "class_of_standard (Some Std_NonFungible) = Class_Nft"
| "class_of_standard (Some Std_FungibleAsset) = Class_FungibleAsset"
| "class_of_standard (Some Std_Fungible) = Class_FungibleToken"
| "class_of_standard (Some Std_NonFungibleEdition) = Class_Nft"
| "class_of_standard (Some Std_ProgrammableNonFungible) = Class_ProgrammableNft"
| "class_of_standard (Some Std_ProgrammableNonFungibleEdition) = Class_ProgrammableNft"
| "class_of_standard None = Class_Unknown"

definition ownership_of_class :: "SpecificationAssetClass \<Rightarrow> OwnerType" where
  "ownership_of_class c =
     (if c = Class_FungibleAsset \<or> c = Class_FungibleToken then Owner_Token
      else if c = Class_Unknown then Owner_Unknown
      else Owner_Single)"

definition class_and_ownership ::
  "pubkey \<Rightarrow> TokenStandard option \<Rightarrow> SpecificationAssetClass \<times> OwnerType" where
  "class_and_ownership mint standard =
     (if mint = WSOL_PUBKEY then (Class_FungibleToken, Owner_Token)
      else (class_of_standard standard, ownership_of_class (class_of_standard standard)))"

definition ownership_by_supply :: "OwnerType \<Rightarrow> int \<Rightarrow> OwnerType" where
  "ownership_by_supply ownership supply =
     (if ownership = Owner_Unknown then
        if supply = 1 then Owner_Single else if supply > 1 then Owner_Token else Owner_Unknown
      else ownership)"

definition class_by_supply :: "SpecificationAssetClass \<Rightarrow> int \<Rightarrow> SpecificationAssetClass" where
  "class_by_supply c supply =
     (if c = Class_Unknown then if supply > 1 then Class_FungibleToken else Class_Unknown else c)"

definition std_is_non_fungible :: "TokenStandard \<Rightarrow> bool" where
  "std_is_non_fungible std \<longleftrightarrow> std \<in> {Std_NonFungible, Std_NonFungibleEdition,
     Std_ProgrammableNonFungible, Std_ProgrammableNonFungibleEdition}"

definition metadata_chain_data :: "Metadata \<Rightarrow> ChainDataV1" where
  "metadata_chain_data m = ChainDataV1_sanitize
     \<lparr>cd_name = md_name m, cd_symbol = md_symbol m, cd_edition_nonce = md_edition_nonce m,
      cd_primary_sale_happened = md_primary_sale_happened m,
      cd_token_standard = md_token_standard m, cd_uses = md_uses m\<rparr>"

definition v1_asset_data_row :: "Metadata \<Rightarrow> json \<Rightarrow> string \<Rightarrow> int \<Rightarrow> asset_data_row" where
  "v1_asset_data_row m chain_data uri slot_i =
     \<lparr>ad_id = md_mint m,
      ad_chain_data_mutability = (if md_is_mutable m then Chain_Mutable else Chain_Immutable),
      ad_chain_data = chain_data, ad_metadata_url = uri, ad_metadata_mutability = Mut_Mutable,
      ad_metadata = JString ''processing'', ad_slot_updated = slot_i, ad_reindex = Some True,
      ad_raw_name = Some (string_bytes (md_name m)), ad_raw_symbol = Some (string_bytes (md_symbol m)),
      ad_base_info_seq = Some 0\<rparr>"

definition v1_data_columns :: "asset_data_row \<Rightarrow> asset_data_row \<Rightarrow> asset_data_row" where
  "v1_data_columns new old = old\<lparr>ad_chain_data_mutability := ad_chain_data_mutability new,
     ad_chain_data := ad_chain_data new, ad_metadata_url := ad_metadata_url new,
     ad_metadata_mutability := ad_metadata_mutability new, ad_slot_updated := ad_slot_updated new,
     ad_reindex := ad_reindex new, ad_raw_name := ad_raw_name new,
     ad_raw_symbol := ad_raw_symbol new, ad_base_info_seq := ad_base_info_seq new\<rparr>"

definition v1_data_where :: "asset_data_row \<Rightarrow> asset_data_row \<Rightarrow> sql_bool" where
  "v1_data_where new old = sql_gt (Some (ad_slot_updated new)) (Some (ad_slot_updated old))"

definition upsert_v1_asset_data :: "asset_data_row \<Rightarrow> unit handler" where
  "upsert_v1_asset_data row = map_err AssetIndexError (execute (\<lambda>s.
     s\<lparr>asset_data := upsert (ad_id row) row v1_data_columns v1_data_where (asset_data s)\<rparr>))"

definition v1_metadata_columns ::
  "Metadata \<Rightarrow> OwnerType \<Rightarrow> SpecificationAssetClass \<Rightarrow> u64 \<Rightarrow> AssetMetadataAccountColumns" where
  "v1_metadata_columns m ownership_type c slot =
     \<lparr>mdc_mint = md_mint m, mdc_owner_type = ownership_type, mdc_specification_asset_class = Some c,
      mdc_royalty_amount = u16_as_i32 (md_seller_fee_basis_points m),
      mdc_asset_data = Some (md_mint m),
      mdc_slot_updated_metadata_account = word_of_int (as_i64 slot), mdc_mpl_core_plugins = None,
      mdc_mpl_core_unknown_plugins = None, mdc_mpl_core_collection_num_minted = None,
      mdc_mpl_core_collection_current_size = None, mdc_mpl_core_plugins_json_version = None,
      mdc_mpl_core_external_plugins = None, mdc_mpl_core_unknown_external_plugins = None\<rparr>"

definition insert_edition_attachment :: "bytes \<Rightarrow> int \<Rightarrow> unit handler" where
  "insert_edition_attachment edition slot_i = map_err AssetIndexError (execute (\<lambda>s.
     s\<lparr>asset_v1_account_attachments := insert_do_nothing edition
          (attachment_defaults edition Att_MasterEditionV2 slot_i)
          (asset_v1_account_attachments s)\<rparr>))"

definition authority_columns :: "asset_authority_row \<Rightarrow> asset_authority_row \<Rightarrow> asset_authority_row" where
  "authority_columns new old = old\<lparr>aa_authority := aa_authority new, aa_seq := aa_seq new,
     aa_slot_updated := aa_slot_updated new\<rparr>"

definition authority_where :: "asset_authority_row \<Rightarrow> asset_authority_row \<Rightarrow> sql_bool" where
  "authority_where new old = sql_gt (Some (aa_slot_updated new)) (Some (aa_slot_updated old))"

definition upsert_v1_authority :: "bytes \<Rightarrow> bytes \<Rightarrow> int \<Rightarrow> unit handler" where
  "upsert_v1_authority k authority slot_i = map_err AssetIndexError (execute (\<lambda>s.
     s\<lparr>asset_authority := upsert k
          \<lparr>aa_asset_id = k, aa_scopes = None, aa_authority = authority, aa_seq = 0,
           aa_slot_updated = slot_i\<rparr> authority_columns authority_where (asset_authority s)\<rparr>))"

definition v1_grouping_columns ::
  "asset_grouping_row \<Rightarrow> asset_grouping_row \<Rightarrow> asset_grouping_row" where
  "v1_grouping_columns new old = old\<lparr>ag_group_value := ag_group_value new,
     ag_verified := ag_verified new, ag_slot_updated := ag_slot_updated new,
     ag_group_info_seq := ag_group_info_seq new\<rparr>"

definition v1_grouping_where :: "asset_grouping_row \<Rightarrow> asset_grouping_row \<Rightarrow> sql_bool" where
  "v1_grouping_where new old = sql_gt (ag_slot_updated new) (ag_slot_updated old)"

definition upsert_v1_collection :: "env \<Rightarrow> bytes \<Rightarrow> Collection option \<Rightarrow> int \<Rightarrow> unit handler" where
  "upsert_v1_collection E k collection slot_i =
     (case collection of
        None \<Rightarrow> db_return ()
      | Some c \<Rightarrow> map_err AssetIndexError (execute (\<lambda>s.
          s\<lparr>asset_grouping := list_upsert (k, ''collection'')
               \<lparr>ag_asset_id = k, ag_group_key = ''collection'',
                ag_group_value = Some (pubkey_to_string E (col_key c)), ag_seq = None,
                ag_slot_updated = Some slot_i, ag_verified = col_verified c,
                ag_group_info_seq = Some 0\<rparr>
               v1_grouping_columns v1_grouping_where (asset_grouping s)\<rparr>)))"

definition v1_creator_rows :: "bytes \<Rightarrow> Creator list \<Rightarrow> int \<Rightarrow> asset_creators_row list" where
  "v1_creator_rows k creators slot_i = map (\<lambda>(i, c).
     \<lparr>ac_asset_id = k, ac_creator = cr_address c, ac_share = u8_as_i32 (cr_share c),
      ac_verified = cr_verified c, ac_seq = Some 0, ac_slot_updated = Some slot_i,
      ac_position = i16_of_nat i\<rparr>) (enumerate 0 creators)"

definition v1_creators_columns ::
  "asset_creators_row \<Rightarrow> asset_creators_row \<Rightarrow> asset_creators_row" where
  "v1_creators_columns new old = old\<lparr>ac_creator := ac_creator new, ac_share := ac_share new,
     ac_verified := ac_verified new, ac_seq := ac_seq new, ac_slot_updated := ac_slot_updated new\<rparr>"

definition v1_creators_where :: "asset_creators_row \<Rightarrow> asset_creators_row \<Rightarrow> sql_bool" where
  "v1_creators_where new old =
     sql_or (sql_ge (ac_slot_updated new) (ac_slot_updated old)) (sql_is_null (ac_slot_updated old))"

definition upsert_v1_creators :: "asset_creators_row list \<Rightarrow> unit handler" where
  "upsert_v1_creators rows =
     (if rows = [] then db_return ()
      else map_err AssetIndexError (execute (\<lambda>s.
        s\<lparr>asset_creators := fold (\<lambda>r. upsert (ac_asset_id r, ac_position r) r v1_creators_columns
             v1_creators_where) rows (asset_creators s)\<rparr>)))"

definition edition_link_columns :: "attachment_row \<Rightarrow> attachment_row \<Rightarrow> attachment_row" where
  "edition_link_columns new old = old\<lparr>att_asset_id := att_asset_id new\<rparr>"

definition upsert_asset_v1_account_attachments :: "env \<Rightarrow> pubkey \<Rightarrow> u64 \<Rightarrow> unit handler" where
  "upsert_asset_v1_account_attachments E mint slot =
     (let edition = master_edition_pda E mint in
      map_err from_DbErr (execute (\<lambda>s.
        s\<lparr>asset_v1_account_attachments := upsert edition
            ((attachment_defaults edition Att_MasterEditionV2 (as_i64 slot))\<lparr>att_asset_id := Some mint\<rparr>)
            edition_link_columns (\<lambda>_ _. Some True) (asset_v1_account_attachments s)\<rparr>)))"

text \<open>
  \<open>save_v1_asset\<close>: the mint and the token account of the asset are indexed with statements of
  their own, the metadata in one transaction, the link to the edition after it.
\<close>

definition save_v1_asset :: "env \<Rightarrow> Metadata \<Rightarrow> u64 \<Rightarrow> DownloadMetadataInfo option handler" where
  "save_v1_asset E m slot =
     (let mint = md_mint m;
          edition = master_edition_pda E mint;
          slot_i = as_i64 slot;
          uri = remove_nul (trim (md_uri m));
          (class0, ownership0) = class_and_ownership mint (md_token_standard m)
      in db_bind (index_and_fetch_mint_data mint) (\<lambda>token.
         let supply = (case token of Some t \<Rightarrow> t_supply t | None \<Rightarrow> 1);
             ownership_type = ownership_by_supply ownership0 supply;
             class1 = class_by_supply class0 supply
         in db_then (if ownership_type = Owner_Single \<or> ownership_type = Owner_Unknown
                     then index_token_account_data mint else db_return ())
         (case ChainDataV1_to_value E (metadata_chain_data m) of
            Inl e \<Rightarrow> db_fail (DeserializationError e)
          | Inr chain_data_json \<Rightarrow>
              db_then (with_txn (db_seq
                [upsert_v1_asset_data (v1_asset_data_row m chain_data_json uri slot_i),
                 map_err from_DbErr (upsert_assets_metadata_account_columns
                   (v1_metadata_columns m ownership_type class1 slot)),
                 insert_edition_attachment edition slot_i,
                 upsert_v1_authority mint (md_update_authority m) slot_i,
                 upsert_v1_collection E mint (md_collection m) slot_i,
                 upsert_v1_creators (v1_creator_rows mint
                   (case md_creators m of Some cs \<Rightarrow> cs | None \<Rightarrow> []) slot_i)]))
              (db_then (if map_option std_is_non_fungible (md_token_standard m) = Some True
                        then upsert_asset_v1_account_attachments E mint slot else db_return ())
              (db_return (if uri = [] then None else Some (DownloadMetadataInfo_new mint uri)))))))"

section \<open>The account handler\<close>

definition handle_token_metadata_account ::
  "env \<Rightarrow> (DownloadMetadataInfo \<Rightarrow> string + unit) \<Rightarrow> AccountInfo \<Rightarrow> TokenMetadataAccountState \<Rightarrow>
   unit handler" where
  "handle_token_metadata_account E nt info st =
     (case tms_data st of
        TM_EmptyAccount \<Rightarrow> burn_v1_asset (acc_pubkey info) (acc_slot info)
      | TM_MasterEditionV1 m \<Rightarrow> with_txn (save_v1_master_edition E (acc_pubkey info) (acc_slot info) m)
      | TM_MetadataV1 m \<Rightarrow>
          db_bind (save_v1_asset E m (acc_slot info)) (\<lambda>r.
          case r of
            None \<Rightarrow> db_return ()
          | Some i \<Rightarrow> (case nt i of Inl e \<Rightarrow> db_fail (DownloadMetadataNotify e) | Inr _ \<Rightarrow> db_return ()))
      | TM_MasterEditionV2 m \<Rightarrow> with_txn (save_v2_master_edition E (acc_pubkey info) (acc_slot info) m)
      | TM_EditionV1 e \<Rightarrow> with_txn (save_edition E (acc_pubkey info) (acc_slot info) e)
      | TM_EditionMarker \<Rightarrow> db_fail NotImplemented
      | TM_UseAuthorityRecord \<Rightarrow> db_fail NotImplemented
      | TM_CollectionAuthorityRecord \<Rightarrow> db_fail NotImplemented)"

section \<open>A metadata account decompresses its asset\<close>

text \<open>
  The assertions on the asset's row before and after the metadata statement: the stored metadata
  slot does not exceed that of the update; the row is that of an uncompressed asset.
\<close>

definition metadata_slot_le :: "bytes \<Rightarrow> int \<Rightarrow> db \<Rightarrow> bool" where
  "metadata_slot_le k slot s \<longleftrightarrow> (\<forall>r. asset s k = Some r \<longrightarrow>
     (case a_slot_updated_metadata_account r of None \<Rightarrow> True | Some v \<Rightarrow> v \<le> slot))"

definition uncompressed :: "bytes \<Rightarrow> int \<Rightarrow> db \<Rightarrow> bool" where
  "uncompressed k slot s \<longleftrightarrow> (\<exists>r. asset s k = Some r \<and> a_seq r = Some 0 \<and> \<not> a_compressed r \<and>
     a_tree_id r = None \<and> a_leaf r = None \<and> a_slot_updated_metadata_account r = Some slot)"

lemma blind_assertions [simp]: "blind (metadata_slot_le k slot)" "blind (uncompressed k slot)"
  by (simp_all add: blind_def metadata_slot_le_def uncompressed_def)

lemma triple_find_model: "blind P \<Longrightarrow> triple P (find_model_with_retry q is) P"
  by (induction "is") (auto intro!: triple_bind triple_query triple_return split: option.split)

lemma triple_mint_columns:
  "triple (metadata_slot_le k slot) (upsert_assets_mint_account_columns c) (metadata_slot_le k slot)"
  unfolding upsert_assets_mint_account_columns_def
  by (rule triple_execute)
    (auto simp: metadata_slot_le_def upsert_eq row_upsert_def mint_account_model_def
      mint_account_columns_def asset_defaults_def split: option.splits if_splits)

lemma triple_token_columns:
  "triple (metadata_slot_le k slot) (upsert_assets_token_account_columns c) (metadata_slot_le k slot)"
  unfolding upsert_assets_token_account_columns_def
  by (rule triple_execute)
    (auto simp: metadata_slot_le_def upsert_eq row_upsert_def token_account_model_def
      token_account_columns_def asset_defaults_def split: option.splits if_splits)

lemma triple_metadata_columns:
  assumes "mdc_mint c = k" and "as_i64 (mdc_slot_updated_metadata_account c) = slot"
  shows "triple (metadata_slot_le k slot) (upsert_assets_metadata_account_columns c) (uncompressed k slot)"
  unfolding upsert_assets_metadata_account_columns_def
proof (rule triple_execute)
  fix s assume le: "metadata_slot_le k slot s"
  let ?row = "row_upsert (metadata_account_model c) metadata_account_columns metadata_account_where (asset s k)"
  have "?row = metadata_account_model c \<or> (\<exists>r. ?row = metadata_account_columns (metadata_account_model c) r)"
    using le assms
    by (cases "asset s k") (auto simp: metadata_slot_le_def row_upsert_Some metadata_account_where_def null_or_ge)
  then show "uncompressed k slot (s\<lparr>asset := upsert (mdc_mint c) (metadata_account_model c)
      metadata_account_columns metadata_account_where (asset s)\<rparr>)"
    using assms
    by (auto simp: uncompressed_def upsert_eq metadata_account_model_def metadata_account_columns_def)
qed simp

lemma triple_frame:
  "blind P \<Longrightarrow> (\<And>s. P s \<Longrightarrow> P (f s)) \<Longrightarrow> triple P (map_err g (execute f)) P"
  by (intro triple_map_err triple_execute)

lemma uncompressed_frame:
  "triple (uncompressed k slot) (insert_edition_attachment e i) (uncompressed k slot)"
  "triple (uncompressed k slot) (upsert_v1_authority a b i) (uncompressed k slot)"
  "triple (uncompressed k slot) (upsert_v1_collection E a c i) (uncompressed k slot)"
  "triple (uncompressed k slot) (upsert_v1_creators rows) (uncompressed k slot)"
  "triple (uncompressed k slot) (upsert_asset_v1_account_attachments E m w) (uncompressed k slot)"
  by (auto simp: insert_edition_attachment_def upsert_v1_authority_def upsert_v1_collection_def
      upsert_v1_creators_def upsert_asset_v1_account_attachments_def Let_def uncompressed_def[abs_def]
      blind_def intro!: triple_frame triple_return split: option.split)

lemma slot_round_trip [simp]: "as_i64 (word_of_int (as_i64 w)) = as_i64 w"
  by (simp add: as_i64_def)

lemma triple_index_mint:
  "triple (metadata_slot_le k slot) (index_and_fetch_mint_data mint) (metadata_slot_le k slot)"
  unfolding index_and_fetch_mint_data_def
  by (auto intro!: triple_bind triple_map_err triple_find_model triple_then triple_mint_columns
    triple_return split: option.split)

lemma triple_index_token:
  "triple (metadata_slot_le k slot) (index_token_account_data mint) (metadata_slot_le k slot)"
  unfolding index_token_account_data_def
  by (auto intro!: triple_bind triple_map_err triple_find_model triple_token_columns triple_return
    split: option.split)

lemma save_v1_asset_decompresses:
  "triple (metadata_slot_le (md_mint m) (as_i64 slot)) (save_v1_asset E m slot)
     (uncompressed (md_mint m) (as_i64 slot))"
proof -
  let ?P = "metadata_slot_le (md_mint m) (as_i64 slot)"
  let ?Q = "uncompressed (md_mint m) (as_i64 slot)"
  have data: "triple ?P (upsert_v1_asset_data row) ?P" for row
    unfolding upsert_v1_asset_data_def by (rule triple_frame) (simp_all add: metadata_slot_le_def)
  have txn: "triple ?P (with_txn (db_seq [upsert_v1_asset_data row,
      map_err from_DbErr (upsert_assets_metadata_account_columns (v1_metadata_columns m o' c slot)),
      insert_edition_attachment e i, upsert_v1_authority a b i, upsert_v1_collection E a cl i,
      upsert_v1_creators rows])) ?Q" for row o' c e i a b cl rows
    by (intro triple_with_txn triple_seq_Cons[OF data] triple_seq_Cons[OF triple_map_err[OF
        triple_metadata_columns]] triple_seq_Cons[OF uncompressed_frame(1)]
        triple_seq_Cons[OF uncompressed_frame(2)] triple_seq_Cons[OF uncompressed_frame(3)]
        triple_seq_Cons[OF uncompressed_frame(4)] triple_seq_Nil)
      (simp_all add: v1_metadata_columns_def)
  show ?thesis
    unfolding save_v1_asset_def Let_def
    by (auto simp del: db_seq.simps split: prod.split sum.split
      intro!: triple_bind[OF triple_index_mint] triple_then[OF triple_if[OF triple_index_token triple_return]]
        triple_fail triple_then[OF txn] triple_then[OF uncompressed_frame(5)] triple_then[OF triple_return]
        triple_return)
qed

text \<open>
  The class and the owner type that \<open>save_v1_asset\<close> gives an asset.  A token standard decides
  them whatever the supply is, and so does the wrapped SOL mint; without a standard the supply
  decides: 1 is a single owner, more is a fungible token, 0 stays unknown.
\<close>

lemma class_and_owner_resolution:
  "let (c, w) = class_and_ownership k std; c' = class_by_supply c supply; w' = ownership_by_supply w supply in
   (k = WSOL_PUBKEY \<longrightarrow> c' = Class_FungibleToken \<and> w' = Owner_Token) \<and>
   (k \<noteq> WSOL_PUBKEY \<longrightarrow>
     (case std of
        Some x \<Rightarrow> c' = class_of_standard std \<and>
          w' = (if x \<in> {Std_Fungible, Std_FungibleAsset} then Owner_Token else Owner_Single)
      | None \<Rightarrow> c' = (if 1 < supply then Class_FungibleToken else Class_Unknown) \<and>
          w' = (if supply = 1 then Owner_Single else if 1 < supply then Owner_Token else Owner_Unknown)))"
  by (cases "(k, std)" ; cases std rule: class_of_standard.cases)
    (auto simp: class_and_ownership_def class_by_supply_def ownership_by_supply_def ownership_of_class_def
      split: option.split)

text \<open>
  The burn of a closed metadata account is lost for assets whose \<open>slot_updated\<close> column is NULL,
  as it is for every asset that was not indexed from its mint account: the comparison with NULL
  is not true, and the statement changes nothing.
\<close>

lemma burn_ignored_without_slot:
  assumes "faults s = []" and "asset s k = Some r" and "a_slot_updated r = None"
  shows "burn_v1_asset k slot s = (Inr (), s)"
  using assms
  by (simp add: burn_v1_asset_def db_simps upsert_eq row_upsert_Some burn_where_def sql_simps map_upd_triv)

end
