(* ===== verification/TokenExtensions.thy ===== *)
theory TokenExtensions
  imports TokenProgram
begin

text \<open>
  Token 2022: \<open>program_transformers/src/token_extensions/mod.rs\<close>, the extension structures of
  \<open>blockbuster/src/programs/token_extensions/mod.rs\<close> and \<open>filter_non_null_fields\<close> of
  \<open>program_transformers/src/lib.rs\<close>.  The handlers are those of the token program plus the
  extension columns and the metadata extension of a mint.
\<close>

section \<open>Extensions as JSON\<close>

definition opt_json :: "('a \<Rightarrow> json) \<Rightarrow> 'a option \<Rightarrow> json" where
  "opt_json f x = (case x of None \<Rightarrow> JNull | Some v \<Rightarrow> f v)"

definition ShadowMetadata_to_value :: "ShadowMetadata \<Rightarrow> json" where
  "ShadowMetadata_to_value m = JObject
     [(''update_authority'', sm_update_authority m), (''mint'', JString (sm_mint m)),
      (''name'', JString (sm_name m)), (''symbol'', JString (sm_symbol m)),
      (''uri'', JString (sm_uri m)),
      (''additional_metadata'', JArray (map (\<lambda>(k, v). JArray [JString k, JString v])
         (sm_additional_metadata m)))]"

definition MintAccountExtensions_to_value :: "MintAccountExtensions \<Rightarrow> json" where
  "MintAccountExtensions_to_value x = JObject
     [(''default_account_state'', opt_json id (mx_default_account_state x)),
      (''confidential_transfer_mint'', opt_json id (mx_confidential_transfer_mint x)),
      (''confidential_transfer_fee_config'', opt_json id (mx_confidential_transfer_fee_config x)),
      (''interest_bearing_config'', opt_json id (mx_interest_bearing_config x)),
      (''transfer_fee_config'', opt_json id (mx_transfer_fee_config x)),
      (''mint_close_authority'', opt_json id (mx_mint_close_authority x)),
      (''permanent_delegate'', opt_json id (mx_permanent_delegate x)),
      (''metadata_pointer'', opt_json id (mx_metadata_pointer x)),
      (''metadata'', opt_json ShadowMetadata_to_value (mx_metadata x)),
      (''transfer_hook'', opt_json id (mx_transfer_hook x)),
      (''group_pointer'', opt_json id (mx_group_pointer x)),
      (''token_group'', opt_json id (mx_token_group x)),
      (''group_member_pointer'', opt_json id (mx_group_member_pointer x)),
      (''token_group_member'', opt_json id (mx_token_group_member x)),
      (''non_transferable'', opt_json JBool (mx_non_transferable x)),
      (''immutable_owner'', opt_json JBool (mx_immutable_owner x))]"

definition TokenAccountExtensions_to_value :: "TokenAccountExtensions \<Rightarrow> json" where
  "TokenAccountExtensions_to_value x = JObject
     [(''confidential_transfer'', opt_json id (tx_confidential_transfer x)),
      (''cpi_guard'', opt_json id (tx_cpi_guard x)),
      (''memo_transfer'', opt_json id (tx_memo_transfer x)),
      (''transfer_fee_amount'', opt_json id (tx_transfer_fee_amount x)),
      (''immutable_owner'', opt_json JBool (tx_immutable_owner x)),
      (''non_transferable_account'', opt_json JBool (tx_non_transferable_account x))]"

definition mint_extensions_is_some :: "MintAccountExtensions \<Rightarrow> bool" where
  "mint_extensions_is_some x \<longleftrightarrow>
     mx_default_account_state x \<noteq> None \<or> mx_confidential_transfer_mint x \<noteq> None \<or>
     mx_confidential_transfer_fee_config x \<noteq> None \<or> mx_interest_bearing_config x \<noteq> None \<or>
     mx_transfer_fee_config x \<noteq> None \<or> mx_mint_close_authority x \<noteq> None \<or>
     mx_permanent_delegate x \<noteq> None \<or> mx_metadata_pointer x \<noteq> None \<or> mx_metadata x \<noteq> None \<or>
     mx_transfer_hook x \<noteq> None \<or> mx_group_pointer x \<noteq> None \<or> mx_token_group x \<noteq> None \<or>
     mx_group_member_pointer x \<noteq> None \<or> mx_token_group_member x \<noteq> None"

definition account_extensions_is_some :: "TokenAccountExtensions \<Rightarrow> bool" where
  "account_extensions_is_some x \<longleftrightarrow> tx_confidential_transfer x \<noteq> None \<or> tx_cpi_guard x \<noteq> None \<or>
     tx_memo_transfer x \<noteq> None \<or> tx_transfer_fee_amount x \<noteq> None"

fun filter_non_null_fields :: "json \<Rightarrow> json option" where
  "filter_non_null_fields JNull = None"
| "filter_non_null_fields (JObject fs) =
     (if list_all (\<lambda>(k, v). v = JNull) fs then None
      else let filtered = filter (\<lambda>(k, v). v \<noteq> JNull) fs in
           if filtered = [] then None else Some (JObject filtered))"
| "filter_non_null_fields v = Some v"

definition mint_extension_json :: "MintAccountExtensions \<Rightarrow> json option" where
  "mint_extension_json x =
     (if mint_extensions_is_some x then filter_non_null_fields (MintAccountExtensions_to_value x)
      else None)"

definition account_extension_json :: "TokenAccountExtensions \<Rightarrow> json option" where
  "account_extension_json x =
     (if account_extensions_is_some x then filter_non_null_fields (TokenAccountExtensions_to_value x)
      else None)"

section \<open>Statements\<close>

definition ext_token_accounts_columns ::
  "token_accounts_row \<Rightarrow> token_accounts_row \<Rightarrow> token_accounts_row" where
  "ext_token_accounts_columns new old = old\<lparr>ta_mint := ta_mint new,
     ta_delegated_amount := ta_delegated_amount new, ta_delegate := ta_delegate new,
     ta_amount := ta_amount new, ta_frozen := ta_frozen new,
     ta_token_program := ta_token_program new, ta_owner := ta_owner new,
     ta_close_authority := ta_close_authority new, ta_slot_updated := ta_slot_updated new,
     ta_extensions := ta_extensions new\<rparr>"

definition ext_tokens_columns :: "tokens_row \<Rightarrow> tokens_row \<Rightarrow> tokens_row" where
  "ext_tokens_columns new old = old\<lparr>t_supply := t_supply new, t_token_program := t_token_program new,
     t_mint_authority := t_mint_authority new, t_close_authority := t_close_authority new,
     t_extension_data := t_extension_data new, t_slot_updated := t_slot_updated new,
     t_decimals := t_decimals new, t_freeze_authority := t_freeze_authority new,
     t_extensions := t_extensions new\<rparr>"

definition ext_asset_data_row :: "ShadowMetadata \<Rightarrow> bytes \<Rightarrow> int \<Rightarrow> asset_data_row" where
  "ext_asset_data_row m k slot =
     \<lparr>ad_id = k, ad_chain_data_mutability = Chain_Mutable,
      ad_chain_data = ShadowMetadata_to_value m, ad_metadata_url = sm_uri m,
      ad_metadata_mutability = Mut_Mutable, ad_metadata = JString ''processing'',
      ad_slot_updated = slot, ad_reindex = Some False,
      ad_raw_name = Some (string_bytes (sm_name m)), ad_raw_symbol = Some (string_bytes (sm_symbol m)),
      ad_base_info_seq = Some 0\<rparr>"

definition ext_data_columns :: "asset_data_row \<Rightarrow> asset_data_row \<Rightarrow> asset_data_row" where
  "ext_data_columns new old = old\<lparr>ad_chain_data_mutability := ad_chain_data_mutability new,
     ad_chain_data := ad_chain_data new, ad_metadata_url := ad_metadata_url new,
     ad_slot_updated := ad_slot_updated new, ad_base_info_seq := ad_base_info_seq new,
     ad_raw_name := ad_raw_name new, ad_raw_symbol := ad_raw_symbol new\<rparr>"

definition ext_data_where :: "asset_data_row \<Rightarrow> asset_data_row \<Rightarrow> sql_bool" where
  "ext_data_where new old = sql_ge (Some (ad_slot_updated new)) (Some (ad_slot_updated old))"

definition metadata_slot_model :: "bytes \<Rightarrow> int \<Rightarrow> asset_row" where
  "metadata_slot_model k slot = (asset_defaults k)\<lparr>a_slot_updated_metadata_account := Some slot\<rparr>"

definition metadata_slot_columns :: "asset_row \<Rightarrow> asset_row \<Rightarrow> asset_row" where
  "metadata_slot_columns new old =
     old\<lparr>a_slot_updated_metadata_account := a_slot_updated_metadata_account new\<rparr>"

definition upsert_assets_metadata_cols :: "bytes \<Rightarrow> int \<Rightarrow> (DbErr, unit) dbm" where
  "upsert_assets_metadata_cols mint slot = execute (\<lambda>s.
     s\<lparr>asset := upsert mint (metadata_slot_model mint slot) metadata_slot_columns
                 metadata_account_where (asset s)\<rparr>)"

definition ext_upsert_asset_data ::
  "ShadowMetadata \<Rightarrow> bytes \<Rightarrow> int \<Rightarrow> DownloadMetadataInfo option handler" where
  "ext_upsert_asset_data m k slot =
     db_then (map_err from_DbErr (execute (\<lambda>s.
       s\<lparr>asset_data := upsert k (ext_asset_data_row m k slot) ext_data_columns ext_data_where
                        (asset_data s)\<rparr>)))
     (db_then (with_txn (map_err from_DbErr (upsert_assets_metadata_cols k slot)))
     (db_return (if sm_uri m = [] then None
                 else Some \<lparr>dmi_asset_data_id = k, dmi_uri = sm_uri m\<rparr>)))"

section \<open>The account handler\<close>

fun handle_token_extensions_program_account ::
  "(DownloadMetadataInfo \<Rightarrow> string + unit) \<Rightarrow> AccountInfo \<Rightarrow> TokenExtensionsProgramEntity \<Rightarrow>
   unit handler" where
  "handle_token_extensions_program_account nt info (TEE_TokenAccount ta ext) =
     db_then (save_token_account ext_token_accounts_columns
                (token_account_row info ta (account_extension_json ext)))
             (index_token_owner info ta)"
| "handle_token_extensions_program_account nt info (TEE_MintAccount m ext) =
     (let mint_extensions = mint_extension_json ext in
      db_then (save_mint ext_tokens_columns (mint_row info m mint_extensions))
      (db_then (with_txn (map_err from_DbErr (upsert_assets_mint_account_columns
                  (asset_mint_columns info m mint_extensions))))
      (case mx_metadata ext of
         None \<Rightarrow> db_return ()
       | Some metadata \<Rightarrow>
           db_bind (ext_upsert_asset_data metadata (acc_pubkey info) (as_i64 (acc_slot info))) (\<lambda>r.
           case r of
             None \<Rightarrow> db_return ()
           | Some i \<Rightarrow> (case nt i of Inl e \<Rightarrow> db_fail (DownloadMetadataNotify e) | Inr _ \<Rightarrow> db_return ())))))"
| "handle_token_extensions_program_account nt info (TEE_CloseIx _) = db_fail NotImplemented"

section \<open>Properties\<close>

lemma filter_non_null_object:
  "filter_non_null_fields (JObject fs) =
     (if filter (\<lambda>(k, v). v \<noteq> JNull) fs = [] then None
      else Some (JObject (filter (\<lambda>(k, v). v \<noteq> JNull) fs)))"
  by (auto simp: Let_def list_all_iff filter_empty_conv)

lemma filter_non_null_no_null:
  assumes "filter_non_null_fields v = Some w"
  shows "w \<noteq> JNull" and "w = JObject fs \<Longrightarrow> fs \<noteq> [] \<and> JNull \<notin> snd ` set fs"
  using assms by (cases v; auto simp: filter_non_null_object simp del: filter_non_null_fields.simps(2)
    split: if_splits)+

lemma filter_non_null_idem: "filter_non_null_fields v = Some w \<Longrightarrow> filter_non_null_fields w = Some w"
  by (cases v) (auto simp: filter_non_null_object simp del: filter_non_null_fields.simps(2)
    split: if_splits)

text \<open>
  A mint whose only extensions are the flags \<open>non_transferable\<close> and \<open>immutable_owner\<close> is stored
  without extensions: \<open>is_some\<close> does not look at them.
\<close>

lemma flag_extensions_dropped:
  "\<not> mint_extensions_is_some x \<Longrightarrow> mint_extension_json x = None"
  by (simp add: mint_extension_json_def)

interpretation ext_token_accounts: gated_upsert
  ext_token_accounts_columns "\<lambda>a. a" "\<lambda>r. Some (ta_slot_updated r)" ta_slot_updated
  "\<lambda>s v. v < s" False "\<lambda>r. True" "\<lambda>a b. ta_pubkey a = ta_pubkey b"
  "\<lambda>a. row_upsert a ext_token_accounts_columns token_accounts_where"
  by unfold_locales
    (simp_all add: ext_token_accounts_columns_def row_upsert_Some token_accounts_where_def sql_simps)

interpretation ext_tokens: gated_upsert
  ext_tokens_columns "\<lambda>a. a" "\<lambda>r. Some (t_slot_updated r)" t_slot_updated
  "\<lambda>s v. v \<le> s" False "\<lambda>r. True" "\<lambda>a b. t_mint a = t_mint b"
  "\<lambda>a. row_upsert a ext_tokens_columns tokens_where"
  by unfold_locales
    (simp_all add: ext_tokens_columns_def row_upsert_Some tokens_where_def sql_simps)

text \<open>
  The extensions stored for a mint or an account contain no null field and are not empty, and
  filtering them again changes nothing.
\<close>

lemma stored_extensions_have_no_null:
  assumes "mint_extension_json x = Some (JObject fs) \<or> account_extension_json y = Some (JObject fs)"
  shows "fs \<noteq> [] \<and> JNull \<notin> snd ` set fs \<and> filter_non_null_fields (JObject fs) = Some (JObject fs)"
proof -
  obtain v where "filter_non_null_fields v = Some (JObject fs)"
    using assms by (auto simp: mint_extension_json_def account_extension_json_def split: if_splits)
  then show ?thesis
    using filter_non_null_no_null(2)[of v "JObject fs" fs] filter_non_null_idem[of v "JObject fs"] by blast
qed

definition demo_extensions :: MintAccountExtensions where
  "demo_extensions = \<lparr>mx_default_account_state = None, mx_confidential_transfer_mint = None,
     mx_confidential_transfer_fee_config = None, mx_interest_bearing_config = None,
     mx_transfer_fee_config = None, mx_mint_close_authority = Some (JString ''k''),
     mx_permanent_delegate = None, mx_metadata_pointer = None, mx_metadata = None,
     mx_transfer_hook = None, mx_group_pointer = None, mx_token_group = None,
     mx_group_member_pointer = None, mx_token_group_member = None,
     mx_non_transferable = Some True, mx_immutable_owner = None\<rparr>"

text \<open>
  A mint whose only extensions are the flags \<open>non_transferable\<close> and \<open>immutable_owner\<close> is stored
  without extensions although its JSON value has them: \<open>is_some\<close> does not look at the flags.
\<close>

lemma flag_extensions_lost:
  assumes "\<not> mint_extensions_is_some x" and "mx_non_transferable x = Some b"
  shows "mint_extension_json x = None \<and>
    (\<exists>v. filter_non_null_fields (MintAccountExtensions_to_value x) = Some v)"
  using assms
  by (simp add: mint_extension_json_def MintAccountExtensions_to_value_def opt_json_def)

end
