(* ===== verification/TokenInscription.thy ===== *)
theory TokenInscription
  imports TokenMetadata Samples
begin

text \<open>
  Inscriptions: the byte-level decoder of \<open>blockbuster/src/programs/token_inscriptions/mod.rs\<close> and the
  handler of \<open>program_transformers/src/token_inscription/mod.rs\<close>.  The decoder slices and unwraps
  without checking: a slice out of range or text that is not UTF-8 panics.
\<close>

section \<open>Bytes\<close>

datatype 'a outcome = Panic | Done 'a

definition out_bind :: "'a outcome \<Rightarrow> ('a \<Rightarrow> 'b outcome) \<Rightarrow> 'b outcome" where
  "out_bind m f = (case m of Panic \<Rightarrow> Panic | Done x \<Rightarrow> f x)"

text \<open>\<open>&data[i..j]\<close>\<close>

definition slice :: "bytes \<Rightarrow> nat \<Rightarrow> nat \<Rightarrow> bytes outcome" where
  "slice d i j = (if i \<le> j \<and> j \<le> length d then Done (take (j - i) (drop i d)) else Panic)"

text \<open>\<open>u64::from_le_bytes\<close> and \<open>u32::from_le_bytes\<close>\<close>

fun from_le :: "bytes \<Rightarrow> nat" where
  "from_le [] = 0"
| "from_le (b # bs) = unat b + 256 * from_le bs"

fun to_le :: "nat \<Rightarrow> nat \<Rightarrow> bytes" where
  "to_le 0 n = []"
| "to_le (Suc k) n = word_of_nat (n mod 256) # to_le k (n div 256)"

text \<open>The byte sequences that are well-formed UTF-8 (Unicode, table 3-7).\<close>

definition in_range :: "nat \<Rightarrow> nat \<Rightarrow> u8 \<Rightarrow> bool" where
  "in_range lo hi b \<longleftrightarrow> lo \<le> unat b \<and> unat b \<le> hi"

definition cont :: "u8 \<Rightarrow> bool" where
  "cont b \<longleftrightarrow> in_range 128 191 b"

definition utf8_2 :: "u8 \<Rightarrow> u8 \<Rightarrow> bool" where
  "utf8_2 a b \<longleftrightarrow> in_range 194 223 a \<and> cont b"

definition utf8_3 :: "u8 \<Rightarrow> u8 \<Rightarrow> u8 \<Rightarrow> bool" where
  "utf8_3 a b c \<longleftrightarrow> cont c \<and>
     (unat a = 224 \<and> in_range 160 191 b \<or> unat a = 237 \<and> in_range 128 159 b \<or>
      (in_range 225 236 a \<or> in_range 238 239 a) \<and> cont b)"

definition utf8_4 :: "u8 \<Rightarrow> u8 \<Rightarrow> u8 \<Rightarrow> u8 \<Rightarrow> bool" where
  "utf8_4 a b c d \<longleftrightarrow> cont c \<and> cont d \<and>
     (unat a = 240 \<and> in_range 144 191 b \<or> in_range 241 243 a \<and> cont b \<or>
      unat a = 244 \<and> in_range 128 143 b)"

fun utf8_valid :: "bytes \<Rightarrow> bool" where
  "utf8_valid [] = True"
| "utf8_valid (a # r) =
     (if unat a < 128 then utf8_valid r
      else case r of
        b # r1 \<Rightarrow>
          if utf8_2 a b then utf8_valid r1
          else (case r1 of
            c # r2 \<Rightarrow>
              if utf8_3 a b c then utf8_valid r2
              else (case r2 of d # r3 \<Rightarrow> utf8_4 a b c d \<and> utf8_valid r3 | [] \<Rightarrow> False)
          | [] \<Rightarrow> False)
      | [] \<Rightarrow> False)"

definition bytes_string :: "bytes \<Rightarrow> string" where
  "bytes_string d = map (\<lambda>b. char_of (unat b)) d"

definition from_utf8_unwrap :: "bytes \<Rightarrow> string outcome" where
  "from_utf8_unwrap d = (if utf8_valid d then Done (bytes_string d) else Panic)"

section \<open>Decoder\<close>

definition BASE_SIZE :: nat where
  "BASE_SIZE = 121"

definition INSCRIPTION_ACC_DATA_DISC :: bytes where
  "INSCRIPTION_ACC_DATA_DISC = [232, 120, 205, 47, 153, 239, 229, 224]"

definition unpack_validation_hash :: "bytes \<Rightarrow> nat \<Rightarrow> string option outcome" where
  "unpack_validation_hash d p =
     out_bind (slice d p (p + 1)) (\<lambda>v.
     if from_le v = 1 then
       out_bind (slice d (p + 1) (p + 5)) (\<lambda>l.
       out_bind (slice d (p + 5) (p + 5 + from_le l)) (\<lambda>h.
       out_bind (from_utf8_unwrap h) (\<lambda>s. Done (Some s))))
     else Done None)"

definition try_unpack_data :: "env \<Rightarrow> bytes \<Rightarrow> (BlockbusterError + InscriptionData) outcome" where
  "try_unpack_data E d =
     out_bind (slice d 0 8) (\<lambda>acc_disc.
     if acc_disc \<noteq> INSCRIPTION_ACC_DATA_DISC then Done (Inl BBE_InvalidAccountType)
     else if length d < BASE_SIZE then
       Done (Inl (BBE_CustomDeserializationError ''Inscription Data is too short''))
     else
       out_bind (slice d 8 40) (\<lambda>authority.
       out_bind (slice d 40 72) (\<lambda>mint.
       out_bind (slice d 72 104) (\<lambda>inscription_data.
       out_bind (slice d 104 112) (\<lambda>order.
       out_bind (slice d 112 116) (\<lambda>size.
       out_bind (slice d 116 120) (\<lambda>content_type_len.
       let n = from_le content_type_len in
       out_bind (slice d 120 (120 + n)) (\<lambda>content_bytes.
       out_bind (from_utf8_unwrap content_bytes) (\<lambda>content.
       out_bind (slice d (120 + n) (124 + n)) (\<lambda>encoding_len.
       let m = from_le encoding_len in
       out_bind (slice d (124 + n) (124 + n + m)) (\<lambda>encoding_bytes.
       out_bind (from_utf8_unwrap encoding_bytes) (\<lambda>encoding.
       out_bind (unpack_validation_hash d (124 + n + m)) (\<lambda>validation_hash.
       Done (Inr
         \<lparr>ins_authority = pubkey_to_string E authority, ins_root = pubkey_to_string E mint,
          ins_content = content, ins_encoding = encoding,
          ins_inscription_data = pubkey_to_string E inscription_data,
          ins_order = word_of_nat (from_le order), ins_size = word_of_nat (from_le size),
          ins_validation_hash = validation_hash\<rparr>))))))))))))))"

section \<open>Handler\<close>

text \<open>\<open>#[derive(Serialize)]\<close>\<close>

definition InscriptionData_to_value :: "InscriptionData \<Rightarrow> json" where
  "InscriptionData_to_value d = JObject
     [(''authority'', JString (ins_authority d)), (''root'', JString (ins_root d)),
      (''content'', JString (ins_content d)), (''encoding'', JString (ins_encoding d)),
      (''inscription_data'', JString (ins_inscription_data d)),
      (''order'', JNumber (uint (ins_order d))), (''size'', JNumber (uint (ins_size d))),
      (''validation_hash'', case ins_validation_hash d of None \<Rightarrow> JNull | Some h \<Rightarrow> JString h)]"

definition inscription_columns :: "attachment_row \<Rightarrow> attachment_row \<Rightarrow> attachment_row" where
  "inscription_columns new old = old\<lparr>att_data := att_data new, att_slot_updated := att_slot_updated new\<rparr>"

definition inscription_where :: "attachment_row \<Rightarrow> attachment_row \<Rightarrow> sql_bool" where
  "inscription_where new old = sql_gt (Some (att_slot_updated new)) (Some (att_slot_updated old))"

definition handle_token_inscription_program_update ::
  "env \<Rightarrow> AccountInfo \<Rightarrow> InscriptionData \<Rightarrow> unit handler" where
  "handle_token_inscription_program_update E info d =
     (case pubkey_from_str E (ins_root d) of
        Inl e \<Rightarrow> db_fail (ParsingError e)
      | Inr asset_id \<Rightarrow>
          map_err from_DbErr (execute (\<lambda>s.
            s\<lparr>asset_v1_account_attachments := upsert (acc_pubkey info)
                \<lparr>att_id = acc_pubkey info, att_asset_id = Some asset_id,
                 att_attachment_type = Att_TokenInscription, att_initialized = True,
                 att_data = Some (InscriptionData_to_value d),
                 att_slot_updated = as_i64 (acc_slot info)\<rparr>
                inscription_columns inscription_where (asset_v1_account_attachments s)\<rparr>)))"

section \<open>Properties\<close>

text \<open>An encoder for the account layout, the inverse of the decoder.\<close>

definition encode_inscription ::
  "pubkey \<Rightarrow> pubkey \<Rightarrow> pubkey \<Rightarrow> u64 \<Rightarrow> u32 \<Rightarrow> bytes \<Rightarrow> bytes \<Rightarrow> bytes option \<Rightarrow> bytes" where
  "encode_inscription authority mint data order sz content encoding hash =
     INSCRIPTION_ACC_DATA_DISC @ authority @ mint @ data @ to_le 8 (unat order) @
     to_le 4 (unat sz) @ to_le 4 (length content) @ content @ to_le 4 (length encoding) @
     encoding @ (case hash of None \<Rightarrow> [0] | Some h \<Rightarrow> 1 # to_le 4 (length h) @ h)"

lemma length_to_le [simp]: "length (to_le k n) = k"
  by (induction k n rule: to_le.induct) simp_all

lemma from_to_le: "n < 256 ^ k \<Longrightarrow> from_le (to_le k n) = n"
proof (induction k n rule: to_le.induct)
  case (2 k n)
  then have "n div 256 < 256 ^ k" by (simp add: less_mult_imp_div_less mult.commute)
  with 2 show ?case by (simp add: unat_of_nat take_bit_eq_mod)
qed simp

lemma slice_append: "length a = i \<Longrightarrow> j = i + length b \<Longrightarrow> slice (a @ b @ c) i j = Done b"
  by (simp add: slice_def)

lemma unpack_short: "length d < 8 \<Longrightarrow> try_unpack_data E d = Panic"
  by (simp add: try_unpack_data_def slice_def out_bind_def)

lemma u64_roundtrip: "word_of_nat (from_le (to_le 8 (unat (w :: u64)))) = w"
proof -
  have "unat w < 256 ^ 8" by (rule order.strict_trans2[OF unsigned_less]) simp
  then show ?thesis by (simp add: from_to_le)
qed

lemma u32_roundtrip: "word_of_nat (from_le (to_le 4 (unat (w :: u32)))) = w"
proof -
  have "unat w < 256 ^ 4" by (rule order.strict_trans2[OF unsigned_less]) simp
  then show ?thesis by (simp add: from_to_le)
qed

lemma unpack_encoded_hash:
  assumes "\<forall>h. hash = Some h \<longrightarrow> utf8_valid h \<and> length h < 2 ^ 32"
  shows "unpack_validation_hash
    (a @ (case hash of None \<Rightarrow> [0] | Some h \<Rightarrow> 1 # to_le 4 (length h) @ h)) (length a) =
    Done (map_option bytes_string hash)"
proof (cases hash)
  case None
  then show ?thesis by (simp add: unpack_validation_hash_def slice_def out_bind_def)
next
  case (Some h)
  then have "from_le (to_le 4 (length h)) = length h" using assms by (intro from_to_le) simp
  with Some assms show ?thesis
    by (simp add: unpack_validation_hash_def slice_def out_bind_def from_utf8_unwrap_def)
qed

lemma unpack_encoded:
  assumes len: "length authority = 32" "length mint = 32" "length data = 32"
    and content: "utf8_valid content" "length content < 2 ^ 32"
    and encoding: "utf8_valid encoding" "length encoding < 2 ^ 32"
    and hash: "\<forall>h. hash = Some h \<longrightarrow> utf8_valid h \<and> length h < 2 ^ 32"
  shows "try_unpack_data E (encode_inscription authority mint data order sz content encoding hash) =
    Done (Inr \<lparr>ins_authority = pubkey_to_string E authority, ins_root = pubkey_to_string E mint,
      ins_content = bytes_string content, ins_encoding = bytes_string encoding,
      ins_inscription_data = pubkey_to_string E data, ins_order = order, ins_size = sz,
      ins_validation_hash = map_option bytes_string hash\<rparr>)"
proof -
  let ?tail = "case hash of None \<Rightarrow> [0] | Some h \<Rightarrow> 1 # to_le 4 (length h) @ h"
  let ?d = "encode_inscription authority mint data order sz content encoding hash"
  let ?head = "INSCRIPTION_ACC_DATA_DISC @ authority @ mint @ data @ to_le 8 (unat order) @
    to_le 4 (unat sz) @ to_le 4 (length content) @ content @ to_le 4 (length encoding) @ encoding"
  have disc: "length INSCRIPTION_ACC_DATA_DISC = 8" by (simp add: INSCRIPTION_ACC_DATA_DISC_def)
  have n: "from_le (to_le 4 (length content)) = length content"
    "from_le (to_le 4 (length encoding)) = length encoding"
    using content encoding by (simp_all add: from_to_le)
  have h: "unpack_validation_hash ?d (124 + length content + length encoding) =
      Done (map_option bytes_string hash)"
    using unpack_encoded_hash[OF hash, of ?head] len disc
    by (simp add: encode_inscription_def add.commute add.left_commute)
  have size: "BASE_SIZE \<le> length ?d"
    using len disc by (simp add: encode_inscription_def BASE_SIZE_def)
  note s = slice_def encode_inscription_def disc len
  have "slice ?d 0 8 = Done INSCRIPTION_ACC_DATA_DISC" "slice ?d 8 40 = Done authority"
    "slice ?d 40 72 = Done mint" "slice ?d 72 104 = Done data"
    "slice ?d 104 112 = Done (to_le 8 (unat order))" "slice ?d 112 116 = Done (to_le 4 (unat sz))"
    "slice ?d 116 120 = Done (to_le 4 (length content))"
    "slice ?d 120 (120 + length content) = Done content"
    "slice ?d (120 + length content) (124 + length content) = Done (to_le 4 (length encoding))"
    "slice ?d (124 + length content) (124 + length content + length encoding) = Done encoding"
    by (simp_all add: s)
  then show ?thesis
    using n h size content encoding
    by (simp add: try_unpack_data_def out_bind_def from_utf8_unwrap_def u64_roundtrip u32_roundtrip)
qed

text \<open>
  C37: the inscription decoder inverts the account layout: an account with three 32-byte keys, an
  order, a size, and content type, encoding and optional validation hash in UTF-8 decodes to
  exactly these fields.
\<close>

theorem inscription_roundtrip:
  assumes "length authority = 32" "length root = 32" "length data = 32"
    and "utf8_valid content" "length content < 2 ^ 32"
    and "utf8_valid encoding" "length encoding < 2 ^ 32"
    and "\<forall>h. hash = Some h \<longrightarrow> utf8_valid h \<and> length h < 2 ^ 32"
  shows "try_unpack_data E (encode_inscription authority root data order sz content encoding hash) =
    Done (Inr \<lparr>ins_authority = pubkey_to_string E authority, ins_root = pubkey_to_string E root,
      ins_content = bytes_string content, ins_encoding = bytes_string encoding,
      ins_inscription_data = pubkey_to_string E data, ins_order = order, ins_size = sz,
      ins_validation_hash = map_option bytes_string hash\<rparr>)"
  using assms by (rule unpack_encoded)

theorem inscription_roundtrip_witness:
  "try_unpack_data demo_env (encode_inscription (replicate 32 1) (replicate 32 2) (replicate 32 3) 7 8
     [105, 195, 169] [98] (Some [104])) =
   Done (Inr \<lparr>ins_authority = pubkey_to_string demo_env (replicate 32 1),
      ins_root = pubkey_to_string demo_env (replicate 32 2),
      ins_content = bytes_string [105, 195, 169], ins_encoding = bytes_string [98],
      ins_inscription_data = pubkey_to_string demo_env (replicate 32 3), ins_order = 7, ins_size = 8,
      ins_validation_hash = Some (bytes_string [104])\<rparr>)"
  using inscription_roundtrip[of "replicate 32 1" "replicate 32 2" "replicate 32 3" "[105, 195, 169]"
      "[98]" "Some [104]" demo_env 7 8]
  by (simp add: utf8_2_def in_range_def cont_def)

text \<open>
  Inscription accounts that are too short are not all rejected: below 8 bytes the decoder
  panics, because it slices the discriminator before it checks the length.
\<close>

lemma short_inscription_panics:
  "(try_unpack_data E d = Panic \<longleftrightarrow> length d < 8) \<or> 121 \<le> length d"
  by (auto simp: try_unpack_data_def slice_def out_bind_def BASE_SIZE_def)

end
