(* ===== verification/CorePlugins.thy ===== *)
theory CorePlugins
  imports Schema "HOL-Library.AList"
begin

text \<open>
  The JSON of MPL Core plugins: the transforms at the end of
  \<open>program_transformers/src/mpl_core_program/v1_asset.rs\<close>, from the JSON that \<open>serde_json\<close> makes of the
  plugins to the JSON of the asset's row.  The fields of an object keep their order: \<open>insert\<close>
  replaces in place or appends, \<open>remove\<close> puts the last field in the place of the removed one.
\<close>

section \<open>Transforms\<close>

type_synonym fields = "(string \<times> json) list"

fun swap_remove :: "string \<Rightarrow> fields \<Rightarrow> fields" where
  "swap_remove k [] = []"
| "swap_remove k ((k', v) # fs) =
     (if k' = k then (if fs = [] then [] else last fs # butlast fs) else (k', v) # swap_remove k fs)"

definition get_mut :: "string \<Rightarrow> (json \<Rightarrow> json) \<Rightarrow> fields \<Rightarrow> fields" where
  "get_mut k f fs = map (\<lambda>(k', v). (k', if k' = k then f v else v)) fs"

text \<open>\<open>as_object_mut().and_then(|o| o.get_mut(k))\<close>: update a field of a value that is an object.\<close>

definition in_object :: "string \<Rightarrow> (json \<Rightarrow> json) \<Rightarrow> json \<Rightarrow> json" where
  "in_object k f v = (case v of JObject fs \<Rightarrow> JObject (get_mut k f fs) | _ \<Rightarrow> v)"

text \<open>The plugins of a JSON object or array.\<close>

definition each_plugin :: "(json \<Rightarrow> json) \<Rightarrow> json \<Rightarrow> json" where
  "each_plugin f v = (case v of
     JObject fs \<Rightarrow> JObject (map (\<lambda>(k, p). (k, f p)) fs)
   | JArray ps \<Rightarrow> JArray (map f ps)
   | _ \<Rightarrow> v)"

definition unnest :: "json \<Rightarrow> json" where
  "unnest v = (case v of
     JObject ((_, inner) # _) \<Rightarrow>
       (case inner of
          JObject fs \<Rightarrow> JObject (fold (\<lambda>(k, x). AList.update k x) fs [])
        | _ \<Rightarrow> JObject [])
   | _ \<Rightarrow> v)"

definition remove_nesting_from_plugin :: "string \<Rightarrow> json \<Rightarrow> json" where
  "remove_nesting_from_plugin nested_key plugin = in_object nested_key unnest plugin"

definition remove_plugins_nesting :: "string \<Rightarrow> json \<Rightarrow> json" where
  "remove_plugins_nesting nested_key plugins_json =
     each_plugin (remove_nesting_from_plugin nested_key) plugins_json"

definition transform_authority :: "json \<Rightarrow> json" where
  "transform_authority authority = (case authority of
     JObject [] \<Rightarrow> JObject []
   | JObject ((authority_type, v) # fs) \<Rightarrow>
       (let rest = swap_remove authority_type ((authority_type, v) # fs) in
        case v of
          JObject pubkey_obj \<Rightarrow>
            (case map_of pubkey_obj ''address'' of
               Some address_value \<Rightarrow>
                 JObject (AList.update ''address'' address_value
                   (AList.update ''type'' (JString authority_type) rest))
             | None \<Rightarrow> JObject rest)
        | _ \<Rightarrow> JObject rest)
   | JString authority_type \<Rightarrow>
       JObject [(''type'', JString authority_type), (''address'', JNull)]
   | _ \<Rightarrow> authority)"

definition transform_authority_in_object :: "json \<Rightarrow> json" where
  "transform_authority_in_object plugin = in_object ''authority'' transform_authority plugin"

definition transform_data_authority_in_object :: "json \<Rightarrow> json" where
  "transform_data_authority_in_object plugin =
     in_object ''adapter_config'' (in_object ''data_authority'' transform_authority) plugin"

definition transform_linked_app_data_parent_key_in_object :: "json \<Rightarrow> json" where
  "transform_linked_app_data_parent_key_in_object plugin =
     in_object ''adapter_config''
       (in_object ''parent_key'' (in_object ''LinkedAppData'' transform_authority)) plugin"

definition transform_plugins_authority :: "json \<Rightarrow> json" where
  "transform_plugins_authority plugins_json =
     each_plugin (\<lambda>plugin. transform_linked_app_data_parent_key_in_object
       (transform_data_authority_in_object (transform_authority_in_object plugin))) plugins_json"

text \<open>
  \<open>convert_keys_to_snake_case\<close>: the loop over the keys removes each and inserts its value under the new
  key, then the values are converted.  \<open>snake\<close> is \<open>to_snake_case\<close> of the crate \<open>heck\<close>.
\<close>

definition rename_key :: "(string \<Rightarrow> string) \<Rightarrow> string \<Rightarrow> fields \<Rightarrow> fields" where
  "rename_key snake key obj =
     (case map_of obj key of
        Some v \<Rightarrow> AList.update (snake key) v (swap_remove key obj)
      | None \<Rightarrow> obj)"

definition rename_keys :: "(string \<Rightarrow> string) \<Rightarrow> fields \<Rightarrow> fields" where
  "rename_keys snake obj = fold (rename_key snake) (map fst obj) obj"

lemma swap_remove_values: "snd ` set (swap_remove k fs) \<subseteq> snd ` set fs"
proof (induction fs)
  case (Cons p fs)
  then show ?case
    using last_in_set[of fs] by (cases p) (auto dest: in_set_butlastD)
qed simp

lemma update_values: "snd ` set (AList.update k v fs) \<subseteq> insert v (snd ` set fs)"
  by (induction fs) auto

lemma rename_key_values: "snd ` set (rename_key snake k fs) \<subseteq> snd ` set fs"
proof (cases "map_of fs k")
  case (Some v)
  then have "v \<in> snd ` set fs"
    by (force dest: map_of_SomeD)
  then show ?thesis
    using Some update_values[of "snake k" v "swap_remove k fs"] swap_remove_values[of k fs]
    by (auto simp: rename_key_def)
qed (simp add: rename_key_def)

lemma fold_rename_values: "snd ` set (fold (rename_key snake) ks fs) \<subseteq> snd ` set fs"
proof (induction ks arbitrary: fs)
  case (Cons k ks)
  have "snd ` set (fold (rename_key snake) (k # ks) fs) \<subseteq> snd ` set (rename_key snake k fs)"
    using Cons.IH by simp
  also note rename_key_values
  finally show ?case .
qed simp

lemma rename_keys_smaller:
  assumes "(k, v) \<in> set (rename_keys snake fs)"
  shows "size v < size (JObject fs)"
proof -
  have "v \<in> snd ` set fs"
    using assms fold_rename_values[of snake "map fst fs" fs] by (force simp: rename_keys_def)
  then obtain k' where "(k', v) \<in> set fs"
    by auto
  then have "size v \<le> size_list (size_prod (\<lambda>x. 0) size) fs"
    by (induction fs) auto
  then show ?thesis
    by simp
qed

function convert_keys_to_snake_case :: "(string \<Rightarrow> string) \<Rightarrow> json \<Rightarrow> json" where
  "convert_keys_to_snake_case snake (JObject obj) =
     JObject (map (\<lambda>(k, val). (k, convert_keys_to_snake_case snake val)) (rename_keys snake obj))"
| "convert_keys_to_snake_case snake (JArray arr) =
     JArray (map (convert_keys_to_snake_case snake) arr)"
| "convert_keys_to_snake_case snake JNull = JNull"
| "convert_keys_to_snake_case snake (JBool b) = JBool b"
| "convert_keys_to_snake_case snake (JNumber n) = JNumber n"
| "convert_keys_to_snake_case snake (JString s) = JString s"
  by pat_completeness auto
termination
proof (relation "measure (\<lambda>(_, j). size j)")
  fix snake :: "string \<Rightarrow> string" and obj p k v
  assume "p \<in> set (rename_keys snake obj)" and "(k, v) = p"
  then show "((snake, v), snake, JObject obj) \<in> measure (\<lambda>(_, j). size j)"
    using rename_keys_smaller[of k v snake obj] by simp
next
  fix snake :: "string \<Rightarrow> string" and arr and x :: json
  assume "x \<in> set arr"
  then show "((snake, x), snake, JArray arr) \<in> measure (\<lambda>(_, j). size j)"
    by (simp add: less_Suc_eq_le size_list_estimation')
qed simp


section \<open>No field is lost\<close>

text \<open>
  The leaves of a value, each with its path of keys and indexes; an empty object or array is a
  leaf.
\<close>

datatype path_step = Key string | Index nat

function leaves :: "json \<Rightarrow> (path_step list \<times> json) list" where
  "leaves (JObject fs) = (if fs = [] then [([], JObject [])]
     else concat (map (\<lambda>(k, v). map (\<lambda>(p, x). (Key k # p, x)) (leaves v)) fs))"
| "leaves (JArray vs) = (if vs = [] then [([], JArray [])]
     else concat (map (\<lambda>(i, v). map (\<lambda>(p, x). (Index i # p, x)) (leaves v)) (enumerate 0 vs)))"
| "leaves JNull = [([], JNull)]"
| "leaves (JBool b) = [([], JBool b)]"
| "leaves (JNumber n) = [([], JNumber n)]"
| "leaves (JString s) = [([], JString s)]"
  by pat_completeness auto
termination
proof (relation "measure size")
  fix fs p and k :: string and v :: json
  assume "p \<in> set fs" and "(k, v) = p"
  then have "(k, v) \<in> set fs"
    by simp
  then have "size v \<le> size_list (size_prod (\<lambda>x. 0) size) fs"
    by (induction fs) auto
  then show "(v, JObject fs) \<in> measure size"
    by simp
next
  fix vs p and i :: nat and v :: json
  assume "p \<in> set (enumerate 0 vs)" and "(i, v) = p"
  then have "v \<in> set vs"
    by (auto simp: enumerate_eq_zip dest: set_zip_rightD)
  then show "(v, JArray vs) \<in> measure size"
    by (simp add: less_Suc_eq_le size_list_estimation')
qed simp

text \<open>Keys that stay apart under \<open>snake\<close>, in an object and in all objects of a value.\<close>

definition snake_keys :: "(string \<Rightarrow> string) \<Rightarrow> string list \<Rightarrow> bool" where
  "snake_keys snake ks \<longleftrightarrow> distinct (map snake ks) \<and> (\<forall>k\<in>set ks. snake (snake k) = snake k)"

fun snake_safe :: "(string \<Rightarrow> string) \<Rightarrow> json \<Rightarrow> bool" where
  "snake_safe snake (JObject fs) \<longleftrightarrow>
     snake_keys snake (map fst fs) \<and> (\<forall>p\<in>set fs. snake_safe snake (snd p))"
| "snake_safe snake (JArray vs) \<longleftrightarrow> (\<forall>v\<in>set vs. snake_safe snake v)"
| "snake_safe snake _ \<longleftrightarrow> True"

fun rename_step :: "(string \<Rightarrow> string) \<Rightarrow> path_step \<Rightarrow> path_step" where
  "rename_step snake (Key k) = Key (snake k)"
| "rename_step snake (Index i) = Index i"

lemma mset_swap_remove:
  "distinct (map fst fs) \<Longrightarrow> (k, v) \<in> set fs \<Longrightarrow> mset (swap_remove k fs) = mset fs - {#(k, v)#}"
proof (induction fs)
  case (Cons p fs)
  obtain k' v' where p: "p = (k', v')" by fastforce
  have rot: "fs \<noteq> [] \<Longrightarrow> mset (last fs # butlast fs) = mset fs"
    by (metis append_butlast_last_id mset.simps(2) mset_append union_mset_add_mset_right
      add.right_neutral mset.simps(1))
  show ?case
  proof (cases "k' = k")
    case True
    then have "v' = v" using Cons.prems p by force
    then show ?thesis using True p rot by auto
  next
    case False
    then have "(k, v) \<in> set fs" using Cons.prems p by auto
    then show ?thesis using False p Cons by auto
  qed
qed simp

lemma update_fresh: "k \<notin> fst ` set fs \<Longrightarrow> AList.update k v fs = fs @ [(k, v)]"
  by (induction fs) auto

lemma keys_swap_remove:
  assumes "distinct (map fst fs)" and "(k, v) \<in> set fs"
  shows "set (map fst (swap_remove k fs)) = set (map fst fs) - {k}"
proof -
  have "mset (map fst (swap_remove k fs)) = image_mset fst (mset fs - {#(k, v)#})"
    using assms by (simp add: mset_swap_remove)
  also have "\<dots> = mset (remove1 k (map fst fs))"
    using assms(2) by (simp add: image_mset_Diff)
  finally have "set (map fst (swap_remove k fs)) = set (remove1 k (map fst fs))"
    by (metis set_mset_mset)
  then show ?thesis
    using assms(1) by (simp add: set_remove1_eq)
qed

lemma mset_rename_key:
  assumes "distinct (map fst fs)" and "(k, v) \<in> set fs"
    and "snake k \<in> fst ` set fs \<Longrightarrow> snake k = k"
  shows "mset (rename_key snake k fs) = add_mset (snake k, v) (mset fs - {#(k, v)#})"
proof -
  have "snake k \<notin> fst ` set (swap_remove k fs)"
    using keys_swap_remove[OF assms(1,2)] assms(3) by auto
  then show ?thesis
    using assms by (simp add: rename_key_def update_fresh mset_swap_remove)
qed

lemma fold_rename_mset:
  assumes "distinct (map fst fs)" and "distinct (map snake ks)" and "set ks \<subseteq> fst ` set fs"
    and "\<forall>k\<in>set ks. snake k \<in> fst ` set fs \<longrightarrow> snake k = k"
  shows "mset (fold (rename_key snake) ks fs) =
    mset (map (\<lambda>(k, v). (if k \<in> set ks then snake k else k, v)) fs)"
  using assms
proof (induction ks arbitrary: fs)
  case Nil
  then show ?case by (simp add: case_prod_unfold)
next
  case (Cons k ks)
  let ?g = "rename_key snake k fs"
  obtain v where kv: "(k, v) \<in> set fs" using Cons.prems(3) by auto
  have m: "mset ?g = add_mset (snake k, v) (mset fs - {#(k, v)#})"
    using Cons.prems kv by (intro mset_rename_key) auto
  have mk: "mset (map fst ?g) = add_mset (snake k) (mset (remove1 k (map fst fs)))"
    using kv by (simp add: m image_mset_Diff)
  have keys: "fst ` set ?g = insert (snake k) (fst ` set fs - {k})"
    using arg_cong[OF mk, of set_mset] Cons.prems(1) by (simp add: set_remove1_eq del: mset_remove1)
  have "snake k \<notin> set (remove1 k (map fst fs))"
    using Cons.prems(1,4) by (auto simp: set_remove1_eq)
  then have d: "distinct (map fst ?g)"
    using mk Cons.prems(1) by (metis distinct.simps(2) distinct_remove1 mset.simps(2) mset_eq_imp_distinct_iff)
  have knot: "k \<notin> set ks" using Cons.prems(2) by auto
  have "mset (fold (rename_key snake) ks ?g) =
      mset (map (\<lambda>(k', v). (if k' \<in> set ks then snake k' else k', v)) ?g)"
    using Cons.prems knot d keys by (intro Cons.IH) (auto simp: image_iff)
  also have "\<dots> = mset (map (\<lambda>(k', v). (if k' \<in> set (k # ks) then snake k' else k', v)) fs)"
  proof -
    obtain M where M: "mset fs = add_mset (k, v) M"
      using kv by (metis in_multiset_in_set multi_member_split)
    have "k \<notin># image_mset fst M"
    proof -
      have "set_mset (image_mset fst M) = set_mset (mset (remove1 k (map fst fs)))"
        by (simp add: M)
      then show ?thesis
        using Cons.prems(1) by (simp add: set_remove1_eq del: mset_remove1 set_image_mset)
    qed
    then have "image_mset (\<lambda>(k', v). (if k' \<in> set ks then snake k' else k', v)) M =
        image_mset (\<lambda>(k', v). (if k' \<in> set (k # ks) then snake k' else k', v)) M"
      by (intro image_mset_cong) force
    moreover have "snake k \<notin> set ks"
      using Cons.prems knot by auto
    ultimately show ?thesis
      using m M by simp
  qed
  finally show ?case by simp
qed

lemma rename_keys_mset:
  assumes "snake_keys snake (map fst fs)"
  shows "mset (rename_keys snake fs) = mset (map (\<lambda>(k, v). (snake k, v)) fs)"
proof -
  have k: "distinct (map snake (map fst fs))" "\<forall>k\<in>fst ` set fs. snake (snake k) = snake k"
    using assms by (auto simp: snake_keys_def)
  then have inj: "inj_on snake (fst ` set fs)" and d: "distinct (map fst fs)"
    by (auto simp: distinct_map simp flip: map_map)
  have "mset (rename_keys snake fs) =
      mset (map (\<lambda>(k, v). (if k \<in> set (map fst fs) then snake k else k, v)) fs)"
    unfolding rename_keys_def using d k(1)
  proof (rule fold_rename_mset)
    show "\<forall>k\<in>set (map fst fs). snake k \<in> fst ` set fs \<longrightarrow> snake k = k"
      using inj k(2) by (metis inj_onD list.set_map)
  qed simp
  also have "map (\<lambda>(k, v). (if k \<in> set (map fst fs) then snake k else k, v)) fs =
      map (\<lambda>(k, v). (snake k, v)) fs"
    by (intro map_cong) force+
  finally show ?thesis .
qed

lemma rename_keys_set:
  assumes "snake_keys snake (map fst fs)"
  shows "set (rename_keys snake fs) = (\<lambda>(k, v). (snake k, v)) ` set fs"
  using rename_keys_mset[OF assms] by (metis set_map set_mset_mset)

lemma set_leaves_object:
  "fs \<noteq> [] \<Longrightarrow> set (leaves (JObject fs)) = (\<Union>(k, v)\<in>set fs. (\<lambda>(p, x). (Key k # p, x)) ` set (leaves v))"
  by (simp add: case_prod_unfold)

lemma set_leaves_array:
  "vs \<noteq> [] \<Longrightarrow> set (leaves (JArray vs)) =
     (\<Union>(i, v)\<in>set (enumerate 0 vs). (\<lambda>(p, x). (Index i # p, x)) ` set (leaves v))"
  by (simp add: case_prod_unfold)

lemma enumerate_map: "enumerate n (map f xs) = map (\<lambda>(i, x). (i, f x)) (enumerate n xs)"
  by (induction xs arbitrary: n) auto

text \<open>
  The conversion of the plugin JSON to snake case loses nothing.  When the keys of every object
  stay distinct under \<open>to_snake_case\<close>, which is idempotent on them, the leaves of the result are those
  of the input, each under its path with the keys renamed, although the loop removes and inserts fields
  of the object it renames.
\<close>

lemma snake_case_keeps_leaves:
  assumes "snake_safe snake j"
  shows "set (leaves (convert_keys_to_snake_case snake j)) =
    (\<lambda>(p, x). (map (rename_step snake) p, x)) ` set (leaves j)"
  using assms
proof (induction snake j rule: convert_keys_to_snake_case.induct)
  case (1 snake obj)
  have sk: "set (rename_keys snake obj) = (\<lambda>(k, v). (snake k, v)) ` set obj"
    using 1(2) by (intro rename_keys_set) simp
  then have e: "rename_keys snake obj = [] \<longleftrightarrow> obj = []"
    by (metis image_is_empty set_empty)
  have ih: "set (leaves (convert_keys_to_snake_case snake v)) =
      (\<lambda>(p, x). (map (rename_step snake) p, x)) ` set (leaves v)" if "(k, v) \<in> set obj" for k v
    using 1(1)[of "(snake k, v)" "snake k" v] 1(2) that sk by force
  show ?case
  proof (cases "obj = []")
    case False
    then show ?thesis
      using e by (auto simp: set_leaves_object sk image_UN image_image case_prod_unfold ih
        simp del: leaves.simps intro!: SUP_cong) force
  qed (simp add: rename_keys_def)
next
  case (2 snake arr)
  show ?case
  proof (cases "arr = []")
    case False
    have ih: "set (leaves (convert_keys_to_snake_case snake v)) =
        (\<lambda>(p, x). (map (rename_step snake) p, x)) ` set (leaves v)"
      if "(i, v) \<in> set (enumerate 0 arr)" for i v
      using 2(1)[of v] 2(2) set_zip_rightD[of i v "[0..<length arr]" arr] that by (simp add: enumerate_eq_zip)
    show ?thesis
      using False by (auto simp: set_leaves_array enumerate_map image_UN image_image case_prod_unfold ih
        simp del: leaves.simps intro!: SUP_cong) force
  qed simp
qed auto

definition demo_snake :: "string \<Rightarrow> string" where
  "demo_snake s = (if s = ''maxSupply'' then ''max_supply'' else if s = ''freezeDelegate'' then ''freeze_delegate'' else s)"

end
