(* ===== verification/MplCore.thy ===== *)
theory MplCore
  imports TokenMetadata Samples CorePlugins "HOL-Library.List_Lexorder"
begin

text \<open>
  MPL Core: the parser of \<open>blockbuster/src/programs/mpl_core_program/mod.rs\<close> and the handlers of
  \<open>program_transformers/src/mpl_core_program\<close>.  The indexable form of an account
  (\<open>mpl_core::IndexableAsset\<close>), its deserializer and its serialisation are foreign: the record below has
  the fields that the code reads; plugins the code only passes on are their bytes, and what
  \<open>serde_json\<close> makes of them is a parameter.  The statements on \<open>asset_data\<close>, \<open>asset_authority\<close> and
  \<open>asset_creators\<close> have the columns and guards of those of \<open>TokenMetadata\<close> and are shared with it.
\<close>

section \<open>Accounts\<close>

datatype UpdateAuthority = UA_None | UA_Address pubkey | UA_Collection pubkey

datatype PluginAuthority = PA_None | PA_Owner | PA_UpdateAuthority | PA_Address pubkey

datatype PluginType = PT_Royalties | PT_FreezeDelegate | PT_TransferDelegate | PT_Other nat

record RoyaltyCreator =
  rc_address :: pubkey
  rc_percentage :: u8

datatype Plugin =
    Plugin_Royalties u16 "RoyaltyCreator list"
  | Plugin_FreezeDelegate bool
  | Plugin_Other bytes

record PluginSchema =
  ps_authority :: PluginAuthority
  ps_data :: Plugin

record IndexableAsset =
  ia_owner :: "pubkey option"
  ia_update_authority :: UpdateAuthority
  ia_name :: string
  ia_uri :: string
  ia_num_minted :: "u32 option"
  ia_current_size :: "u32 option"
  ia_plugins :: "(PluginType \<times> PluginSchema) list"
  ia_unknown_plugins :: "bytes list"
  ia_external_plugins :: "bytes list"
  ia_unknown_external_plugins :: "bytes list"

datatype MplCoreAccountData =
    MC_Asset IndexableAsset | MC_Collection IndexableAsset | MC_HashedAsset | MC_EmptyAccount

datatype CoreKey =
    CK_Uninitialized | CK_AssetV1 | CK_HashedAssetV1 | CK_PluginHeaderV1 | CK_PluginRegistryV1
  | CK_CollectionV1

record core_env =
  core_key :: "bytes \<Rightarrow> string + CoreKey"
  indexable_asset :: "CoreKey \<Rightarrow> bytes \<Rightarrow> string + IndexableAsset"
  to_snake_case :: "string \<Rightarrow> string"
  plugins_to_value :: "(PluginType \<times> PluginSchema) list \<Rightarrow> string + json"
  unknown_plugins_to_value :: "bytes list \<Rightarrow> string + json"
  external_plugins_to_value :: "bytes list \<Rightarrow> string + json"
  unknown_external_plugins_to_value :: "bytes list \<Rightarrow> string + json"

record MplCoreAccountState =
  mcs_key :: CoreKey
  mcs_data :: MplCoreAccountData

definition mpl_core_handle_account :: "core_env \<Rightarrow> bytes \<Rightarrow> BlockbusterError + MplCoreAccountState" where
  "mpl_core_handle_account C account_data =
     (if account_data = [] then Inr \<lparr>mcs_key = CK_Uninitialized, mcs_data = MC_EmptyAccount\<rparr>
      else case core_key C (take 1 account_data) of
        Inl e \<Rightarrow> Inl (BBE_IOError e)
      | Inr key \<Rightarrow>
          (case key of
             CK_AssetV1 \<Rightarrow> (case indexable_asset C key account_data of
               Inl e \<Rightarrow> Inl (BBE_IOError e)
             | Inr a \<Rightarrow> Inr \<lparr>mcs_key = key, mcs_data = MC_Asset a\<rparr>)
           | CK_CollectionV1 \<Rightarrow> (case indexable_asset C key account_data of
               Inl e \<Rightarrow> Inl (BBE_IOError e)
             | Inr a \<Rightarrow> Inr \<lparr>mcs_key = key, mcs_data = MC_Collection a\<rparr>)
           | CK_Uninitialized \<Rightarrow> Inr \<lparr>mcs_key = CK_Uninitialized, mcs_data = MC_EmptyAccount\<rparr>
           | _ \<Rightarrow> Inl BBE_AccountTypeNotImplemented))"

section \<open>Burnt assets\<close>

definition core_burn_v1_asset :: "pubkey \<Rightarrow> u64 \<Rightarrow> unit handler" where
  "core_burn_v1_asset k slot = map_err from_DbErr (execute (\<lambda>s.
     s\<lparr>asset := upsert k ((asset_defaults k)\<lparr>a_slot_updated := Some (as_i64 slot), a_burnt := True\<rparr>)
          (\<lambda>new old. old\<lparr>a_slot_updated := a_slot_updated new, a_burnt := a_burnt new\<rparr>)
          (\<lambda>new old. sql_gt (a_slot_updated new) (a_slot_updated old)) (asset s)\<rparr>))"

section \<open>Members of a collection\<close>

text \<open>
  \<open>update_group_asset_authorities\<close>: the members of a collection in pages, in the order of their ids; of
  each page the authorities of the uncompressed assets are updated.  The cursor compares byte strings.
\<close>

definition group_member_ids :: "string \<Rightarrow> db \<Rightarrow> bytes list" where
  "group_member_ids group_value s = map ag_asset_id
     (filter (\<lambda>r. ag_group_key r = ''collection'' \<and> ag_group_value r = Some group_value)
       (map snd (asset_grouping s)))"

definition group_page :: "nat \<Rightarrow> string \<Rightarrow> bytes option \<Rightarrow> db \<Rightarrow> bytes list" where
  "group_page n group_value after s =
     take n (sort (filter (\<lambda>i. case after of None \<Rightarrow> True | Some a \<Rightarrow> a < i)
       (group_member_ids group_value s)))"

definition uncompressed_ids :: "bytes list \<Rightarrow> db \<Rightarrow> bytes list" where
  "uncompressed_ids ids s =
     filter (\<lambda>i. case asset s i of Some r \<Rightarrow> \<not> a_compressed r | None \<Rightarrow> False) ids"

definition update_authority_row :: "bytes \<Rightarrow> int \<Rightarrow> asset_authority_row \<Rightarrow> asset_authority_row" where
  "update_authority_row authority slot r =
     (if aa_authority r \<noteq> authority \<and> aa_slot_updated r < slot
      then r\<lparr>aa_authority := authority, aa_slot_updated := slot\<rparr> else r)"

definition update_authorities :: "bytes \<Rightarrow> int \<Rightarrow> bytes list \<Rightarrow> db \<Rightarrow> db" where
  "update_authorities authority slot ids s =
     s\<lparr>asset_authority := (\<lambda>i. if i \<in> set ids
         then map_option (update_authority_row authority slot) (asset_authority s i)
         else asset_authority s i)\<rparr>"

definition update_group_page :: "bytes \<Rightarrow> int \<Rightarrow> bytes list \<Rightarrow> unit handler" where
  "update_group_page authority slot asset_ids =
     db_bind (map_err from_DbErr (query (uncompressed_ids asset_ids))) (\<lambda>filtered_asset_ids.
     if filtered_asset_ids = [] then db_return ()
     else map_err AssetIndexError (execute (update_authorities authority slot filtered_asset_ids)))"

lemma update_group_page_keeps_groups:
  "update_group_page authority slot ids s = (r, s') \<Longrightarrow> asset_grouping s' = asset_grouping s"
proof -
  have "keeps asset_grouping (update_group_page authority slot ids)"
    unfolding update_group_page_def
    by (auto intro!: keeps_bind keeps_map_err keeps_query keeps_execute keeps_return
      simp: update_authorities_def blind_def)
  then show "update_group_page authority slot ids s = (r, s') \<Longrightarrow> ?thesis"
    by (auto simp: keeps_def)
qed

definition members_after :: "string \<Rightarrow> bytes option \<Rightarrow> db \<Rightarrow> bytes list" where
  "members_after gv after s =
     filter (\<lambda>i. case after of None \<Rightarrow> True | Some a \<Rightarrow> a < i) (group_member_ids gv s)"

lemma members_after_cong:
  "asset_grouping s' = asset_grouping s \<Longrightarrow> members_after gv after s' = members_after gv after s"
  by (simp add: members_after_def group_member_ids_def)

lemma group_page_members: "group_page n gv after s = take n (sort (members_after gv after s))"
  by (simp add: group_page_def members_after_def)

lemma members_after_last:
  assumes "l \<in> set (members_after gv after s)"
  shows "members_after gv (Some l) s = filter (\<lambda>i. l < i) (members_after gv after s)"
  using assms by (auto simp: members_after_def intro!: filter_cong split: option.splits)

lemma members_after_decrease:
  assumes "l \<in> set (members_after gv after s)"
  shows "length (members_after gv (Some l) s) < length (members_after gv after s)"
  using members_after_last[OF assms] length_filter_less[OF assms, of "\<lambda>i. l < i"] by simp

lemma group_loop_decreases:
  assumes "map_err from_DbErr (query (group_page n gv after)) s = (Inr entries, s1)" and "entries \<noteq> []"
    and "update_group_page authority slot entries s1 = (r, s2)"
  shows "length (members_after gv (Some (last entries)) s2) < length (members_after gv after s)"
proof -
  have q: "query (group_page n gv after) s = (Inr entries, s1)"
    using assms(1) by (auto simp: map_err_def split: prod.splits sum.splits)
  then have e: "entries = take n (sort (members_after gv after s1))" and g: "asset_grouping s1 = asset_grouping s"
    using query_cases[OF q] by (auto simp: group_page_members)
  moreover have "asset_grouping s2 = asset_grouping s1"
    using assms(3) by (rule update_group_page_keeps_groups)
  moreover have "last entries \<in> set (members_after gv after s1)"
    using last_in_set[OF assms(2)] e by (auto dest: in_set_takeD)
  ultimately show ?thesis
    using members_after_decrease[of "last entries" gv after s1] members_after_cong[of s2 s1]
      members_after_cong[of s1 s] by simp
qed

function update_group_loop ::
  "nat \<Rightarrow> string \<Rightarrow> bytes \<Rightarrow> int \<Rightarrow> bytes option \<Rightarrow> unit handler" where
  "update_group_loop n group_value authority slot after s =
     (case map_err from_DbErr (query (group_page n group_value after)) s of
        (Inl e, s1) \<Rightarrow> (Inl e, s1)
      | (Inr entries, s1) \<Rightarrow>
          if entries = [] then (Inr (), s1)
          else (case update_group_page authority slot entries s1 of
                  (Inl e, s2) \<Rightarrow> (Inl e, s2)
                | (Inr _, s2) \<Rightarrow>
                    update_group_loop n group_value authority slot (Some (last entries)) s2))"
  by pat_completeness auto
termination
  by (relation "measure (\<lambda>(n, gv, _, _, after, s). length (members_after gv after s))")
    (auto dest!: sym[of "(_, _)"] intro: group_loop_decreases)

declare update_group_loop.simps [simp del]

definition update_group_asset_authorities :: "env \<Rightarrow> bytes \<Rightarrow> bytes \<Rightarrow> int \<Rightarrow> unit handler" where
  "update_group_asset_authorities E group_value authority slot =
     update_group_loop 1000 (bs58_encode E group_value) authority slot None"


section \<open>Columns of an account\<close>

definition u32_as_i32 :: "u32 \<Rightarrow> int" where
  "u32_as_i32 x = sint x"

definition find_update_authority :: "UpdateAuthority \<Rightarrow> bytes handler" where
  "find_update_authority ua =
     (case ua of
        UA_Address address \<Rightarrow> db_return address
      | UA_Collection address \<Rightarrow>
          db_bind (map_err from_DbErr (find_model_with_retry (\<lambda>s. asset_authority s address) RETRY_INTERVALS))
            (\<lambda>model. db_return (case model of Some r \<Rightarrow> aa_authority r | None \<Rightarrow> []))
      | UA_None \<Rightarrow> db_return (replicate 32 0))"

definition core_chain_data :: "IndexableAsset \<Rightarrow> ChainDataV1" where
  "core_chain_data a = ChainDataV1_sanitize
     \<lparr>cd_name = ia_name a, cd_symbol = '''', cd_edition_nonce = None, cd_primary_sale_happened = False,
      cd_token_standard = None, cd_uses = None\<rparr>"

definition core_asset_data_row :: "bytes \<Rightarrow> IndexableAsset \<Rightarrow> json \<Rightarrow> string \<Rightarrow> int \<Rightarrow> asset_data_row" where
  "core_asset_data_row k a chain_data_json uri slot_i =
     \<lparr>ad_id = k,
      ad_chain_data_mutability = (if ia_update_authority a = UA_None then Chain_Immutable else Chain_Mutable),
      ad_chain_data = chain_data_json, ad_metadata_url = uri, ad_metadata_mutability = Mut_Mutable,
      ad_metadata = JString ''processing'', ad_slot_updated = slot_i, ad_reindex = Some True,
      ad_raw_name = Some (string_bytes (ia_name a)), ad_raw_symbol = None, ad_base_info_seq = Some 0\<rparr>"

definition core_royalties :: "IndexableAsset \<Rightarrow> u16 \<times> RoyaltyCreator list" where
  "core_royalties a =
     (case map_of (ia_plugins a) PT_Royalties of
        Some schema \<Rightarrow> (case ps_data schema of Plugin_Royalties bps cs \<Rightarrow> (bps, cs) | _ \<Rightarrow> (0, []))
      | None \<Rightarrow> (0, []))"

definition core_transfer_delegate ::
  "IndexableAsset \<Rightarrow> bytes option \<Rightarrow> bytes \<Rightarrow> bytes option" where
  "core_transfer_delegate a owner update_authority =
     (case map_of (ia_plugins a) PT_TransferDelegate of
        None \<Rightarrow> None
      | Some schema \<Rightarrow>
          (case ps_authority schema of
             PA_Owner \<Rightarrow> owner
           | PA_UpdateAuthority \<Rightarrow> Some update_authority
           | PA_Address address \<Rightarrow> Some address
           | PA_None \<Rightarrow> None))"

definition core_frozen :: "IndexableAsset \<Rightarrow> bool" where
  "core_frozen a =
     (case map_of (ia_plugins a) PT_FreezeDelegate of
        Some schema \<Rightarrow> (case ps_data schema of Plugin_FreezeDelegate frozen \<Rightarrow> frozen | _ \<Rightarrow> False)
      | None \<Rightarrow> False)"

text \<open>The four JSON columns: plugins and external plugins, known and unknown.\<close>

record core_plugin_json =
  cpj_plugins :: json
  cpj_unknown_plugins :: "json option"
  cpj_external_plugins :: json
  cpj_unknown_external_plugins :: "json option"

definition known_plugins_json :: "core_env \<Rightarrow> string \<Rightarrow> json \<Rightarrow> json" where
  "known_plugins_json C nested_key v = convert_keys_to_snake_case (to_snake_case C)
     (transform_plugins_authority (remove_plugins_nesting nested_key v))"

definition unknown_plugins_json ::
  "core_env \<Rightarrow> (bytes list \<Rightarrow> string + json) \<Rightarrow> bytes list \<Rightarrow> string + json option" where
  "unknown_plugins_json C to_value ps =
     (if ps \<noteq> [] then
        (case to_value ps of
           Inl e \<Rightarrow> Inl e
         | Inr v \<Rightarrow> Inr (Some (convert_keys_to_snake_case (to_snake_case C) (transform_plugins_authority v))))
      else Inr None)"

definition core_plugins_json :: "core_env \<Rightarrow> IndexableAsset \<Rightarrow> string + core_plugin_json" where
  "core_plugins_json C a =
     (case plugins_to_value C (ia_plugins a) of
        Inl e \<Rightarrow> Inl e
      | Inr plugins \<Rightarrow>
     (case unknown_plugins_json C (unknown_plugins_to_value C) (ia_unknown_plugins a) of
        Inl e \<Rightarrow> Inl e
      | Inr unknown_plugins \<Rightarrow>
     (case external_plugins_to_value C (ia_external_plugins a) of
        Inl e \<Rightarrow> Inl e
      | Inr external_plugins \<Rightarrow>
     (case unknown_plugins_json C (unknown_external_plugins_to_value C) (ia_unknown_external_plugins a) of
        Inl e \<Rightarrow> Inl e
      | Inr unknown_external_plugins \<Rightarrow>
          Inr \<lparr>cpj_plugins = known_plugins_json C ''data'' plugins,
               cpj_unknown_plugins = unknown_plugins,
               cpj_external_plugins = known_plugins_json C ''adapter_config'' external_plugins,
               cpj_unknown_external_plugins = unknown_external_plugins\<rparr>))))"

definition core_metadata_columns ::
  "bytes \<Rightarrow> IndexableAsset \<Rightarrow> SpecificationAssetClass \<Rightarrow> core_plugin_json \<Rightarrow> u64 \<Rightarrow>
   AssetMetadataAccountColumns" where
  "core_metadata_columns k a c j slot =
     \<lparr>mdc_mint = k, mdc_owner_type = Owner_Single, mdc_specification_asset_class = Some c,
      mdc_royalty_amount = u16_as_i32 (fst (core_royalties a)), mdc_asset_data = Some k,
      mdc_slot_updated_metadata_account = slot, mdc_mpl_core_plugins = Some (cpj_plugins j),
      mdc_mpl_core_unknown_plugins = cpj_unknown_plugins j,
      mdc_mpl_core_collection_num_minted = map_option u32_as_i32 (ia_num_minted a),
      mdc_mpl_core_collection_current_size = map_option u32_as_i32 (ia_current_size a),
      mdc_mpl_core_plugins_json_version = Some 1,
      mdc_mpl_core_external_plugins = Some (cpj_external_plugins j),
      mdc_mpl_core_unknown_external_plugins = cpj_unknown_external_plugins j\<rparr>"

definition core_token_columns ::
  "bytes \<Rightarrow> IndexableAsset \<Rightarrow> bytes option \<Rightarrow> bytes \<Rightarrow> int \<Rightarrow> AssetTokenAccountColumns" where
  "core_token_columns k a owner update_authority slot_i =
     \<lparr>tac_mint = k, tac_owner = owner, tac_frozen = core_frozen a,
      tac_delegate = core_transfer_delegate a owner update_authority,
      tac_slot_updated_token_account = Some slot_i\<rparr>"

definition core_grouping_where :: "asset_grouping_row \<Rightarrow> asset_grouping_row \<Rightarrow> sql_bool" where
  "core_grouping_where new old = sql_ge (ag_slot_updated new) (ag_slot_updated old)"

definition upsert_core_grouping :: "env \<Rightarrow> bytes \<Rightarrow> UpdateAuthority \<Rightarrow> int \<Rightarrow> unit handler" where
  "upsert_core_grouping E k ua slot_i =
     (case ua of
        UA_Collection address \<Rightarrow>
          map_err AssetIndexError (execute (\<lambda>s.
            s\<lparr>asset_grouping := list_upsert (k, ''collection'')
                 \<lparr>ag_asset_id = k, ag_group_key = ''collection'',
                  ag_group_value = Some (pubkey_to_string E address), ag_seq = None,
                  ag_slot_updated = Some slot_i, ag_verified = True, ag_group_info_seq = Some 0\<rparr>
                 v1_grouping_columns core_grouping_where (asset_grouping s)\<rparr>))
      | _ \<Rightarrow> db_return ())"

definition core_creator_rows :: "bytes \<Rightarrow> RoyaltyCreator list \<Rightarrow> int \<Rightarrow> asset_creators_row list" where
  "core_creator_rows k creators slot_i = map (\<lambda>(i, c).
     \<lparr>ac_asset_id = k, ac_creator = rc_address c, ac_share = u8_as_i32 (rc_percentage c),
      ac_verified = True, ac_seq = Some 0, ac_slot_updated = Some slot_i,
      ac_position = i16_of_nat i\<rparr>) (enumerate 0 creators)"

section \<open>Saving an account\<close>

text \<open>
  The transaction of \<open>save_v1_asset\<close>.  \<open>m\<close>, the first statement of the transaction, writes the authority
  of \<open>k\<close>.  Then \<open>outside\<close> runs on the connection, not in the transaction: it does not see what \<open>m\<close> wrote,
  and what it writes remains when the transaction is rolled back.  The transaction goes on with
  \<open>m\<close>'s row over the tables that \<open>outside\<close> leaves.  (A collection is not a member of itself, so the
  two do not wait for the same row.)
\<close>

definition core_txn :: "bytes \<Rightarrow> unit handler \<Rightarrow> unit handler \<Rightarrow> 'a handler \<Rightarrow> 'a handler" where
  "core_txn k m outside rest s =
     (case map_err from_DbErr (execute (\<lambda>s. s)) s of
        (Inl e, s1) \<Rightarrow> (Inl e, s1)
      | (Inr _, s1) \<Rightarrow>
     (case m s1 of
        (Inl e, s2) \<Rightarrow> (Inl e, s1\<lparr>faults := faults s2\<rparr>)
      | (Inr _, s2) \<Rightarrow>
     (case outside (s1\<lparr>faults := faults s2\<rparr>) of
        (Inl e, c) \<Rightarrow> (Inl e, c)
      | (Inr _, c) \<Rightarrow>
     (case rest (c\<lparr>asset_authority := (asset_authority c)(k := asset_authority s2 k)\<rparr>) of
        (Inl e, s3) \<Rightarrow> (Inl e, c\<lparr>faults := faults s3\<rparr>)
      | (Inr x, s3) \<Rightarrow>
     (case map_err from_DbErr (execute (\<lambda>s. s)) s3 of
        (Inl e, s4) \<Rightarrow> (Inl e, c\<lparr>faults := faults s4\<rparr>)
      | (Inr _, s4) \<Rightarrow> (Inr x, s4))))))"

definition core_owner_and_class ::
  "MplCoreAccountData \<Rightarrow> bytes \<Rightarrow> (bytes option \<times> SpecificationAssetClass) option" where
  "core_owner_and_class account_data update_authority =
     (case account_data of
        MC_Asset a \<Rightarrow> Some (ia_owner a, Class_MplCoreAsset)
      | MC_Collection a \<Rightarrow> Some (Some update_authority, Class_MplCoreCollection)
      | _ \<Rightarrow> None)"

definition save_core_tables ::
  "env \<Rightarrow> core_env \<Rightarrow> bytes \<Rightarrow> MplCoreAccountData \<Rightarrow> IndexableAsset \<Rightarrow> bytes \<Rightarrow> string \<Rightarrow> u64 \<Rightarrow>
   unit handler" where
  "save_core_tables E C k account_data a update_authority uri slot =
     (let slot_i = as_i64 slot in
      case ChainDataV1_to_value E (core_chain_data a) of
        Inl e \<Rightarrow> db_fail (DeserializationError e)
      | Inr chain_data_json \<Rightarrow>
          db_then (upsert_v1_asset_data (core_asset_data_row k a chain_data_json uri slot_i))
          (case core_owner_and_class account_data update_authority of
             None \<Rightarrow> db_fail NotImplemented
           | Some (owner, c) \<Rightarrow>
               (case core_plugins_json C a of
                  Inl e \<Rightarrow> db_fail (DeserializationError e)
                | Inr j \<Rightarrow> db_seq
                    [map_err from_DbErr (upsert_assets_metadata_account_columns
                       (core_metadata_columns k a c j slot)),
                     map_err from_DbErr (upsert_assets_mint_account_columns
                       \<lparr>mac_mint = k, mac_supply = 1, mac_slot_updated_mint_account = slot_i,
                        mac_extensions = None\<rparr>),
                     map_err from_DbErr (upsert_assets_token_account_columns
                       (core_token_columns k a owner update_authority slot_i)),
                     upsert_core_grouping E k (ia_update_authority a) slot_i,
                     upsert_v1_creators (core_creator_rows k (snd (core_royalties a)) slot_i)])))"

definition indexable :: "MplCoreAccountData \<Rightarrow> IndexableAsset option" where
  "indexable account_data =
     (case account_data of MC_Asset a \<Rightarrow> Some a | MC_Collection a \<Rightarrow> Some a | _ \<Rightarrow> None)"

definition is_collection :: "MplCoreAccountData \<Rightarrow> bool" where
  "is_collection account_data \<longleftrightarrow> (case account_data of MC_Collection _ \<Rightarrow> True | _ \<Rightarrow> False)"

definition core_save_v1_asset ::
  "env \<Rightarrow> core_env \<Rightarrow> pubkey \<Rightarrow> MplCoreAccountData \<Rightarrow> u64 \<Rightarrow> DownloadMetadataInfo option handler" where
  "core_save_v1_asset E C k account_data slot =
     (case indexable account_data of
        None \<Rightarrow> db_fail NotImplemented
      | Some a \<Rightarrow>
          db_bind (find_update_authority (ia_update_authority a)) (\<lambda>update_authority.
          let slot_i = as_i64 slot; uri = remove_nul (trim (ia_uri a)) in
          db_then
            (core_txn k (upsert_v1_authority k update_authority slot_i)
              (if is_collection account_data
               then update_group_asset_authorities E k update_authority slot_i else db_return ())
              (save_core_tables E C k account_data a update_authority uri slot))
            (db_return (if uri = [] then None else Some (DownloadMetadataInfo_new k uri)))))"

definition handle_mpl_core_account ::
  "env \<Rightarrow> core_env \<Rightarrow> (DownloadMetadataInfo \<Rightarrow> string + unit) \<Rightarrow> AccountInfo \<Rightarrow> MplCoreAccountState \<Rightarrow>
   unit handler" where
  "handle_mpl_core_account E C nt info st =
     (case mcs_data st of
        MC_EmptyAccount \<Rightarrow> core_burn_v1_asset (acc_pubkey info) (acc_slot info)
      | MC_HashedAsset \<Rightarrow> db_fail NotImplemented
      | d \<Rightarrow>
          db_bind (core_save_v1_asset E C (acc_pubkey info) d (acc_slot info)) (\<lambda>r.
          case r of
            None \<Rightarrow> db_return ()
          | Some i \<Rightarrow> (case nt i of Inl e \<Rightarrow> db_fail (DownloadMetadataNotify e) | Inr _ \<Rightarrow> db_return ())))"

section \<open>Sample accounts\<close>

definition demo_core_env :: core_env where
  "demo_core_env = \<lparr>core_key = (\<lambda>_. Inr CK_AssetV1), indexable_asset = (\<lambda>_ _. Inl ''not supported''),
     to_snake_case = id, plugins_to_value = (\<lambda>ps. if ps = [] then Inr (JObject []) else Inl ''not supported''),
     unknown_plugins_to_value = (\<lambda>_. Inr (JArray [])), external_plugins_to_value = (\<lambda>_. Inr (JArray [])),
     unknown_external_plugins_to_value = (\<lambda>_. Inr (JArray []))\<rparr>"

definition demo_core_asset :: "(PluginType \<times> PluginSchema) list \<Rightarrow> IndexableAsset" where
  "demo_core_asset ps = \<lparr>ia_owner = Some [2], ia_update_authority = UA_Address [8], ia_name = ''Core'',
     ia_uri = ''u'', ia_num_minted = None, ia_current_size = None, ia_plugins = ps,
     ia_unknown_plugins = [], ia_external_plugins = [], ia_unknown_external_plugins = []\<rparr>"

text \<open>The collection \<open>[9]\<close> with the member \<open>[7]\<close> whose authority is \<open>[1]\<close>.\<close>

definition demo_group_db :: db where
  "demo_group_db = empty_db\<lparr>asset := [[7] \<mapsto> asset_defaults [7]],
     asset_grouping := [(([7], ''collection''), \<lparr>ag_asset_id = [7], ag_group_key = ''collection'',
       ag_group_value = Some (bs58_encode demo_env [9]), ag_seq = None, ag_slot_updated = Some 1,
       ag_verified = True, ag_group_info_seq = Some 0\<rparr>)],
     asset_authority := [[7] \<mapsto> \<lparr>aa_asset_id = [7], aa_scopes = None, aa_authority = [1], aa_seq = 0,
       aa_slot_updated = 1\<rparr>]\<rparr>"

lemmas demo_core_defs = demo_core_env_def demo_core_asset_def demo_group_db_def

lemma demo_group_faults [simp]: "faults demo_group_db = []"
  by (simp add: demo_group_db_def empty_db_def)

lemma demo_group_member:
  "group_member_ids (bs58_encode demo_env [9]) demo_group_db = [[7]]"
  "asset demo_group_db [7] = Some (asset_defaults [7])"
  "asset_authority demo_group_db [7] = Some \<lparr>aa_asset_id = [7], aa_scopes = None, aa_authority = [1], aa_seq = 0,
     aa_slot_updated = 1\<rparr>"
  by (simp_all add: demo_group_db_def group_member_ids_def)

section \<open>The group update\<close>

lemma update_authorities_set:
  "set ids = set ids' \<Longrightarrow> update_authorities authority slot ids = update_authorities authority slot ids'"
  by (simp add: update_authorities_def fun_eq_iff)

lemma update_authority_row_idem [simp]:
  "update_authority_row a w (update_authority_row a w r) = update_authority_row a w r"
  by (simp add: update_authority_row_def)

lemma update_authorities_Nil [simp]: "update_authorities authority slot [] s = s"
  by (simp add: update_authorities_def)

lemma update_authorities_twice:
  "update_authorities a w ids' (update_authorities a w ids s) = update_authorities a w (ids @ ids') s"
  by (auto simp: update_authorities_def fun_eq_iff option.map_comp o_def)

lemma update_authorities_parts [simp]:
  "asset (update_authorities a w ids s) = asset s"
  "asset_grouping (update_authorities a w ids s) = asset_grouping s"
  "faults (update_authorities a w ids s) = faults s"
  by (simp_all add: update_authorities_def)

lemma update_authorities_faults:
  "update_authorities a w ids (s\<lparr>faults := fs\<rparr>) = (update_authorities a w ids s)\<lparr>faults := fs\<rparr>"
  by (simp add: update_authorities_def cong: if_cong)

lemma uncompressed_ids_cong: "asset s' = asset s \<Longrightarrow> uncompressed_ids ids s' = uncompressed_ids ids s"
  by (simp add: uncompressed_ids_def)

lemma set_uncompressed_ids: "set ids = set ids' \<Longrightarrow> set (uncompressed_ids ids s) = set (uncompressed_ids ids' s)"
  by (simp add: uncompressed_ids_def)

lemma uncompressed_ids_append: "uncompressed_ids (ids @ ids') s = uncompressed_ids ids s @ uncompressed_ids ids' s"
  by (simp add: uncompressed_ids_def)

lemma page_split:
  assumes "take n (sort xs) \<noteq> []" and "l = last (take n (sort xs))"
  shows "set (take n (sort xs)) \<union> set (filter (\<lambda>i. l < i) xs) = set xs"
proof -
  have "\<forall>x\<in>set (drop n (sort xs)). l \<le> x"
    using sorted_sort[of xs] last_in_set[OF assms(1)] assms(2)
    by (metis append_take_drop_id sorted_append)
  moreover have "set xs = set (take n (sort xs)) \<union> set (drop n (sort xs))"
    by (metis append_take_drop_id set_append set_sort)
  ultimately show ?thesis
    using last_in_set[OF assms(1)] assms(2) by (auto simp: le_less)
qed

lemma update_group_page_ok:
  assumes "faults s = []"
  shows "update_group_page a w ids s = (Inr (), update_authorities a w (uncompressed_ids ids s) s)"
  using assms by (simp add: update_group_page_def db_simps)

lemma update_group_loop_ok:
  assumes "0 < n" and "faults s = []"
  shows "update_group_loop n gv a w after s =
    (Inr (), update_authorities a w (uncompressed_ids (members_after gv after s) s) s)"
  using assms
proof (induction n gv a w after s rule: update_group_loop.induct)
  case (1 n gv a w after s)
  let ?M = "members_after gv after s" and ?e = "group_page n gv after s"
  let ?s = "update_authorities a w (uncompressed_ids ?e s) s"
  have q: "map_err from_DbErr (query (group_page n gv after)) s = (Inr ?e, s)"
    using 1(3) by (simp add: db_simps)
  show ?case
  proof (cases "?e = []")
    case True
    then have "?M = []"
      using 1(2) by (metis group_page_members length_0_conv length_sort less_numeral_extra(3) take_eq_Nil)
    then show ?thesis
      using True q by (simp add: update_group_loop.simps uncompressed_ids_def)
  next
    case False
    let ?l = "last ?e"
    have l: "?l \<in> set ?M"
      using last_in_set[OF False] by (auto simp: group_page_members dest: in_set_takeD)
    have "update_group_loop n gv a w after s = update_group_loop n gv a w (Some ?l) ?s"
      using False q 1(3) by (subst update_group_loop.simps) (simp add: update_group_page_ok)
    also have "\<dots> = (Inr (), update_authorities a w
        (uncompressed_ids (members_after gv (Some ?l) ?s) ?s) ?s)"
      using 1 q False by (intro 1(1)) (auto simp: update_group_page_ok)
    also have "\<dots> = (Inr (), update_authorities a w (uncompressed_ids (?e @ filter (\<lambda>i. ?l < i) ?M) s) s)"
      using members_after_last[OF l] members_after_cong[of ?s s] uncompressed_ids_cong[of ?s s]
      by (simp add: update_authorities_twice uncompressed_ids_append)
    also have "\<dots> = (Inr (), update_authorities a w (uncompressed_ids ?M s) s)"
      using page_split[of n ?M] False
      by (intro arg_cong2[where f = Pair] refl fun_cong[OF update_authorities_set] set_uncompressed_ids)
        (simp add: group_page_members)
    finally show ?thesis .
  qed
qed


text \<open>Whatever fails, only authorities of uncompressed members have changed.\<close>

lemma update_group_page_any:
  assumes "update_group_page a w ids s = (r, s')"
  shows "\<exists>ids' fs. set ids' \<subseteq> set (uncompressed_ids ids s) \<and> s' = (update_authorities a w ids' s)\<lparr>faults := fs\<rparr>"
proof -
  obtain r1 s1 where q: "query (uncompressed_ids ids) s = (r1, s1)" by fastforce
  obtain fs where s1: "s1 = s\<lparr>faults := fs\<rparr>" and r1: "r1 = Inr (uncompressed_ids ids s1) \<or> (\<exists>e. r1 = Inl e)"
    using query_cases[OF q] by blast
  have none: "s\<lparr>faults := gs\<rparr> = (update_authorities a w [] s)\<lparr>faults := gs\<rparr>" for gs
    by simp
  have u: "uncompressed_ids ids s1 = uncompressed_ids ids s"
    by (rule uncompressed_ids_cong) (simp add: s1)
  have "s' = s\<lparr>faults := fs\<rparr> \<or> (\<exists>gs. s' = s\<lparr>faults := gs\<rparr>) \<or>
      (\<exists>gs. s' = update_authorities a w (uncompressed_ids ids s) (s\<lparr>faults := gs\<rparr>))"
    using assms q r1 u s1
    by (fastforce simp: update_group_page_def db_bind_def map_err_def db_return_def dest: execute_cases
      split: prod.splits sum.splits if_splits)
  then show ?thesis
    using none update_authorities_faults by (metis empty_iff list.set(1) order_refl subsetI)
qed

lemma update_group_loop_any:
  assumes "update_group_loop n gv a w after s = (r, s')"
  shows "\<exists>ids fs. set ids \<subseteq> set (uncompressed_ids (group_member_ids gv s) s) \<and>
    s' = (update_authorities a w ids s)\<lparr>faults := fs\<rparr>"
  using assms
proof (induction n gv a w after s rule: update_group_loop.induct)
  case (1 n gv a w after s)
  obtain r1 s1 where q: "query (group_page n gv after) s = (r1, s1)" by fastforce
  obtain fs where s1: "s1 = s\<lparr>faults := fs\<rparr>" and r1: "r1 = Inr (group_page n gv after s1) \<or> (\<exists>e. r1 = Inl e)"
    using query_cases[OF q] by blast
  have none: "s\<lparr>faults := gs\<rparr> = (update_authorities a w [] s)\<lparr>faults := gs\<rparr>" for gs
    by simp
  show ?case
  proof (cases "(\<exists>e. r1 = Inl e) \<or> group_page n gv after s1 = []")
    case True
    then have "s' = s1"
      using 1(2) q r1 by (subst (asm) update_group_loop.simps) (auto simp: map_err_def)
    then show ?thesis
      using none s1 by (metis empty_iff list.set(1) subsetI)
  next
    case False
    let ?e = "group_page n gv after s1"
    obtain r2 s2 where p: "update_group_page a w ?e s1 = (r2, s2)" by fastforce
    obtain ids gs where ids: "set ids \<subseteq> set (uncompressed_ids ?e s1)"
      and s2: "s2 = (update_authorities a w ids s1)\<lparr>faults := gs\<rparr>"
      using update_group_page_any[OF p] by blast
    have e: "set ?e \<subseteq> set (group_member_ids gv s)"
      by (auto simp: group_page_def group_member_ids_def s1 dest!: in_set_takeD)
    have ids': "set ids \<subseteq> set (uncompressed_ids (group_member_ids gv s) s)"
      using ids e by (auto simp: uncompressed_ids_def s1)
    have s2': "s2 = (update_authorities a w ids s)\<lparr>faults := gs\<rparr>"
      by (simp add: s2 s1 update_authorities_faults)
    show ?thesis
    proof (cases r2)
      case (Inl e)
      then have "s' = s2"
        using 1(2) q r1 p False by (subst (asm) update_group_loop.simps) (auto simp: map_err_def)
      then show ?thesis using ids' s2' by blast
    next
      case (Inr u)
      then have "update_group_loop n gv a w (Some (last ?e)) s2 = (r, s')"
        using 1(2) q r1 p False by (subst (asm) update_group_loop.simps) (auto simp: map_err_def)
      then have "\<exists>ids fs. set ids \<subseteq> set (uncompressed_ids (group_member_ids gv s2) s2) \<and>
          s' = (update_authorities a w ids s2)\<lparr>faults := fs\<rparr>"
        using q r1 p False Inr by (intro 1(1)) (auto simp: map_err_def)
      then obtain ids2 hs where "set ids2 \<subseteq> set (uncompressed_ids (group_member_ids gv s2) s2)"
        and s': "s' = (update_authorities a w ids2 s2)\<lparr>faults := hs\<rparr>"
        by blast
      then have "set (ids @ ids2) \<subseteq> set (uncompressed_ids (group_member_ids gv s) s)"
        using ids' by (simp add: s2' uncompressed_ids_def group_member_ids_def)
      moreover have "s' = (update_authorities a w (ids @ ids2) s)\<lparr>faults := hs\<rparr>"
        unfolding s' s2' update_authorities_twice[symmetric] by (simp add: update_authorities_faults)
      ultimately show ?thesis by blast
    qed
  qed
qed


text \<open>
  C40: the paginated update of the members of a collection equals one update of all of them.  On a healthy
  connection the loop over pages of 1000 ends, every uncompressed member whose authority differs and is
  older than the slot has the new authority, and nothing else has changed.
\<close>

theorem group_update_complete:
  assumes "faults s = []"
  shows "update_group_asset_authorities E k authority slot s =
    (Inr (), s\<lparr>asset_authority := (\<lambda>i.
       if i \<in> set (group_member_ids (bs58_encode E k) s) \<and> (\<exists>r. asset s i = Some r \<and> \<not> a_compressed r)
       then map_option (\<lambda>r. if aa_authority r \<noteq> authority \<and> aa_slot_updated r < slot
              then r\<lparr>aa_authority := authority, aa_slot_updated := slot\<rparr> else r) (asset_authority s i)
       else asset_authority s i)\<rparr>)"
proof -
  let ?M = "group_member_ids (bs58_encode E k) s"
  have "i \<in> set (uncompressed_ids ?M s) \<longleftrightarrow> i \<in> set ?M \<and> (\<exists>r. asset s i = Some r \<and> \<not> a_compressed r)" for i
    by (auto simp: uncompressed_ids_def split: option.splits)
  then show ?thesis
    using assms by (simp add: update_group_asset_authorities_def update_group_loop_ok members_after_def
      update_authorities_def update_authority_row_def[abs_def] cong: if_cong)
qed

theorem group_update_complete_witness:
  "asset_authority (snd (update_group_asset_authorities demo_env [9] [8] 5 demo_group_db)) [7] =
   Some \<lparr>aa_asset_id = [7], aa_scopes = None, aa_authority = [8], aa_seq = 0, aa_slot_updated = 5\<rparr>"
  using group_update_complete[of demo_group_db demo_env "[9]" "[8]" 5]
  by (simp add: demo_group_member asset_defaults_def)

section \<open>Failures\<close>

lemma core_txn_failure:
  assumes "core_txn k m outside rest s = (Inl e, s')"
  shows "(\<exists>fs. s' = s\<lparr>faults := fs\<rparr>) \<or>
    (\<exists>fs gs r c. outside (s\<lparr>faults := fs\<rparr>) = (r, c) \<and> s' = c\<lparr>faults := gs\<rparr>)"
proof -
  obtain r0 s1 where b: "map_err from_DbErr (execute (\<lambda>s. s)) s = (r0, s1)" by fastforce
  then obtain fs where s1: "s1 = s\<lparr>faults := fs\<rparr>"
    by (auto simp: map_err_def split: prod.splits sum.splits dest!: execute_cases)
  obtain r1 s2 where m: "m s1 = (r1, s2)" by fastforce
  obtain r2 c where out: "outside (s1\<lparr>faults := faults s2\<rparr>) = (r2, c)" by fastforce
  have "(\<exists>gs. s' = s1\<lparr>faults := gs\<rparr>) \<or> s' = s1 \<or> (\<exists>gs. s' = c\<lparr>faults := gs\<rparr>) \<or> s' = c"
    using assms b m out
    by (auto simp: core_txn_def split: prod.splits sum.splits)
  moreover have "c = c\<lparr>faults := faults c\<rparr>" by simp
  ultimately show ?thesis
    using out s1 by (metis (no_types, lifting) db.surjective db.update_convs(12))
qed

lemma keeps_find_model: "blind f \<Longrightarrow> keeps f (find_model_with_retry q is)"
  by (induction "is") (auto intro!: keeps_bind keeps_query split: option.split)

lemma keeps_find_authority: "blind f \<Longrightarrow> keeps f (find_update_authority ua)"
  by (auto simp: find_update_authority_def intro!: keeps_bind keeps_map_err keeps_find_model
    split: UpdateAuthority.split)

lemma find_authority_state:
  assumes "find_update_authority ua s = (r, s')"
  shows "s' = s\<lparr>faults := faults s'\<rparr>"
proof -
  have "keeps (\<lambda>s. s\<lparr>faults := []\<rparr>) (find_update_authority ua)"
    by (rule keeps_find_authority) (simp add: blind_def)
  then have "s'\<lparr>faults := []\<rparr> = s\<lparr>faults := []\<rparr>"
    using assms by (rule keepsD)
  then show ?thesis
    by (cases s; cases s') simp
qed

lemma group_update_state:
  assumes "update_group_asset_authorities E k a w (s\<lparr>faults := fs\<rparr>) = (r, c)"
  shows "c\<lparr>asset_authority := asset_authority s, faults := faults s\<rparr> = s \<and>
    (\<forall>i. asset_authority c i \<noteq> asset_authority s i \<longrightarrow>
       i \<in> set (group_member_ids (bs58_encode E k) s) \<and> (\<exists>r. asset s i = Some r \<and> \<not> a_compressed r))"
proof -
  obtain ids gs where ids: "set ids \<subseteq> set (uncompressed_ids (group_member_ids (bs58_encode E k) s) s)"
    and c: "c = (update_authorities a w ids s)\<lparr>faults := gs\<rparr>"
    using update_group_loop_any[OF assms[unfolded update_group_asset_authorities_def]]
    by (auto simp: update_authorities_faults uncompressed_ids_def group_member_ids_def)
  show ?thesis
    using ids by (auto simp: c update_authorities_def uncompressed_ids_def split: option.splits if_splits)
qed

text \<open>
  A Core account that cannot be saved leaves the tables alone, except that the failed save of a
  collection can leave the authorities of its uncompressed members changed: these are updated outside the
  transaction.
\<close>

lemma core_save_failure:
  assumes "core_save_v1_asset E C k d slot s = (Inl e, s')"
  shows "s'\<lparr>asset_authority := asset_authority s, faults := faults s\<rparr> = s \<and>
    (\<forall>i. asset_authority s' i \<noteq> asset_authority s i \<longrightarrow> is_collection d \<and>
       i \<in> set (group_member_ids (bs58_encode E k) s) \<and> (\<exists>r. asset s i = Some r \<and> \<not> a_compressed r))"
proof (cases "indexable d")
  case None
  then show ?thesis
    using assms by (simp add: core_save_v1_asset_def db_fail_def)
next
  case (Some a)
  obtain r0 s0 where f: "find_update_authority (ia_update_authority a) s = (r0, s0)" by fastforce
  obtain fs where s0: "s0 = s\<lparr>faults := fs\<rparr>"
    using find_authority_state[OF f] by blast
  have "s' = s0 \<or> (\<exists>auth uri. core_txn k (upsert_v1_authority k auth (as_i64 slot))
      (if is_collection d then update_group_asset_authorities E k auth (as_i64 slot) else db_return ())
      (save_core_tables E C k d a auth uri slot) s0 = (Inl e, s'))"
    using assms f Some
    by (cases "is_collection d") (auto simp: core_save_v1_asset_def db_bind_def db_then_def db_return_def Let_def
      split: prod.splits sum.splits)
  then have "(\<exists>fs. s' = s\<lparr>faults := fs\<rparr>) \<or> (\<exists>auth fs gs r c. is_collection d \<and> s' = c\<lparr>faults := gs\<rparr> \<and>
      update_group_asset_authorities E k auth (as_i64 slot) (s\<lparr>faults := fs\<rparr>) = (r, c))"
  proof
    assume "\<exists>auth uri. core_txn k (upsert_v1_authority k auth (as_i64 slot))
      (if is_collection d then update_group_asset_authorities E k auth (as_i64 slot) else db_return ())
      (save_core_tables E C k d a auth uri slot) s0 = (Inl e, s')"
    then show ?thesis
      by (cases "is_collection d") (auto simp: s0 db_return_def dest!: core_txn_failure)
  qed (auto simp: s0)
  then show ?thesis
    by (elim disjE exE conjE) (simp, use group_update_state in fastforce)
qed

lemma core_txn_rest_fails:
  assumes "faults s = []" and "m s = (Inr (), s2)" and "faults s2 = []"
    and "outside s = (Inr (), c)" and "rest (c\<lparr>asset_authority := (asset_authority c)(k := asset_authority s2 k)\<rparr>) = (Inl e, s3)"
    and "faults s3 = []" and "faults c = []"
  shows "core_txn k m outside rest s = (Inl e, c)"
proof -
  have e: "s\<lparr>faults := []\<rparr> = s" "c\<lparr>faults := []\<rparr> = c"
    using assms(1,7) by (cases s; cases c; simp)+
  show ?thesis
    using assms by (simp add: core_txn_def db_simps e)
qed

text \<open>
  The save of a collection is not atomic.  When the plugins of the collection cannot be serialised, the
  save fails and its transaction is rolled back, but the members of the collection have got the new
  authority and slot.
\<close>

lemma collection_save_leaks_authorities:
  assumes "faults s = []" and "ia_update_authority a = UA_Address authority"
    and "ChainDataV1_to_value E (core_chain_data a) = Inr j" and "core_plugins_json C a = Inl msg"
  shows "core_save_v1_asset E C k (MC_Collection a) slot s =
    (Inl (DeserializationError msg),
     update_authorities authority (as_i64 slot)
       (uncompressed_ids (group_member_ids (bs58_encode E k) s) s) s)"
proof -
  let ?c = "update_authorities authority (as_i64 slot) (uncompressed_ids (group_member_ids (bs58_encode E k) s) s) s"
  let ?m = "upsert_v1_authority k authority (as_i64 slot)"
  let ?rest = "save_core_tables E C k (MC_Collection a) a authority (remove_nul (trim (ia_uri a))) slot"
  have out: "update_group_asset_authorities E k authority (as_i64 slot) s = (Inr (), ?c)"
    using assms(1) by (simp add: update_group_asset_authorities_def update_group_loop_ok members_after_def)
  obtain s2 where m: "?m s = (Inr (), s2)" "faults s2 = []"
    using assms(1) by (simp add: upsert_v1_authority_def db_simps)
  have "\<exists>t. ?rest u = (Inl (DeserializationError msg), t) \<and> faults t = []" if "faults u = []" for u
    using assms(3,4) that
    by (simp add: save_core_tables_def core_owner_and_class_def upsert_v1_asset_data_def db_then_def db_simps Let_def db_fail_def)
  then obtain s3 where r: "?rest (?c\<lparr>asset_authority := (asset_authority ?c)(k := asset_authority s2 k)\<rparr>) =
      (Inl (DeserializationError msg), s3)" "faults s3 = []"
    using assms(1) by (metis (no_types, lifting) db.select_convs(12) db.surjective db.update_convs(5) update_authorities_parts(3))
  have "core_txn k ?m (update_group_asset_authorities E k authority (as_i64 slot)) ?rest s =
      (Inl (DeserializationError msg), ?c)"
    using assms(1) by (intro core_txn_rest_fails[where k = k and m = ?m and rest = ?rest and
      outside = "update_group_asset_authorities E k authority (as_i64 slot)", OF assms(1) m out r]) simp
  then show ?thesis
    using assms(2) by (simp add: core_save_v1_asset_def indexable_def is_collection_def find_update_authority_def
      db_bind_def db_return_def db_then_def Let_def)
qed

section \<open>Saved accounts\<close>

lemma keeps_core_txn:
  assumes "blind f" and "\<And>s t. f (s\<lparr>asset_authority := t\<rparr>) = f s" and "keeps f outside" and "keeps f rest"
  shows "keeps f (core_txn k m outside rest)"
proof -
  have b: "keeps f (map_err from_DbErr (execute (\<lambda>s. s)))"
    using assms(1) by (intro keeps_map_err keeps_execute) auto
  have fs: "f (s\<lparr>faults := gs\<rparr>) = f s" for s gs
    using assms(1) by (simp add: blind_def)
  show ?thesis
    unfolding keeps_def core_txn_def
    using keepsD[OF b] keepsD[OF assms(3)] keepsD[OF assms(4)] assms(2) fs
    by (fastforce split: prod.splits sum.splits)
qed

lemma keeps_group_update:
  "keeps asset_grouping (update_group_asset_authorities E k a w)"
proof -
  have "asset_grouping s' = asset_grouping s" if "update_group_loop n gv a w after s = (r, s')" for n gv after s r s'
    using update_group_loop_any[OF that] by auto
  then show ?thesis
    by (auto simp: keeps_def update_group_asset_authorities_def)
qed

text \<open>
  An asset that leaves its collection stays in its group.  A save of an account whose update
  authority is not a collection, in whatever way it ends, does not touch \<open>asset_grouping\<close>; the row that an
  earlier save wrote for the collection remains.
\<close>

lemma core_grouping_not_removed:
  assumes "indexable d = Some a" and "\<nexists>c. ia_update_authority a = UA_Collection c"
    and "core_save_v1_asset E C k d slot s = (r, s')"
  shows "asset_grouping s' = asset_grouping s"
proof -
  have b: "blind asset_grouping"
    by (simp add: blind_def)
  have g: "upsert_core_grouping E k (ia_update_authority a) i = db_return ()" for i
    using assms(2) by (auto simp: upsert_core_grouping_def split: UpdateAuthority.split)
  have t: "keeps asset_grouping (save_core_tables E C k d a auth uri slot)" for auth uri
    unfolding save_core_tables_def Let_def g upsert_v1_asset_data_def
      upsert_assets_metadata_account_columns_def upsert_assets_mint_account_columns_def
      upsert_assets_token_account_columns_def upsert_v1_creators_def
    by (auto intro!: keeps_then keeps_map_err keeps_execute b split: sum.split option.split prod.split)
  have "keeps asset_grouping (core_save_v1_asset E C k d slot)"
    unfolding core_save_v1_asset_def assms(1) Let_def option.case
    by (intro keeps_bind keeps_find_authority keeps_then keeps_core_txn t b)
      (auto intro: keeps_group_update)
  then show ?thesis
    using assms(3) by (rule keepsD)
qed

definition slots_le :: "int \<Rightarrow> asset_row \<Rightarrow> bool" where
  "slots_le slot r \<longleftrightarrow> (\<forall>v \<in> {a_slot_updated_metadata_account r, a_slot_updated_mint_account r,
     a_slot_updated_token_account r}. \<forall>x. v = Some x \<longrightarrow> x \<le> slot)"

lemma core_txn_ok:
  assumes "faults s = []" and "m s = (Inr (), s2)" and "faults s2 = []"
    and "rest (s\<lparr>asset_authority := (asset_authority s)(k := asset_authority s2 k)\<rparr>) = (Inr x, s3)"
    and "faults s3 = []"
  shows "core_txn k m (db_return ()) rest s = (Inr x, s3)"
proof -
  have e: "s\<lparr>faults := []\<rparr> = s"
    using assms(1) by (cases s) simp
  show ?thesis
    using assms by (simp add: core_txn_def db_simps db_return_def e)
qed

lemma core_asset_table:
  assumes "faults u = []" and "ia_update_authority a = UA_Address authority"
    and "ChainDataV1_to_value E (core_chain_data a) = Inr cd" and "core_plugins_json C a = Inr j"
  shows "\<exists>u'. save_core_tables E C k (MC_Asset a) a authority uri slot u = (Inr (), u') \<and> faults u' = [] \<and>
    asset u' = upsert k (token_account_model (core_token_columns k a (ia_owner a) authority (as_i64 slot)))
        token_account_columns token_account_where
      (upsert k (mint_account_model \<lparr>mac_mint = k, mac_supply = 1, mac_slot_updated_mint_account = as_i64 slot,
          mac_extensions = None\<rparr>) mint_account_columns mint_account_where
      (upsert k (metadata_account_model (core_metadata_columns k a Class_MplCoreAsset j slot))
        metadata_account_columns metadata_account_where (asset u)))"
  using assms
  by (simp add: save_core_tables_def Let_def core_owner_and_class_def upsert_v1_asset_data_def
    upsert_assets_metadata_account_columns_def upsert_assets_mint_account_columns_def
    upsert_assets_token_account_columns_def upsert_v1_creators_def upsert_core_grouping_def db_then_def db_simps
    core_metadata_columns_def core_token_columns_def)

lemma core_metadata_row:
  assumes "\<forall>r. old = Some r \<longrightarrow> slots_le (as_i64 slot) r"
    and "row_upsert (metadata_account_model (core_metadata_columns k a c j slot))
      metadata_account_columns metadata_account_where old = R"
  shows "a_royalty_amount R = uint (fst (core_royalties a)) \<and> \<not> a_burnt R \<and>
    a_specification_asset_class R = Some c \<and> a_mpl_core_plugins R = Some (cpj_plugins j) \<and>
    slots_le (as_i64 slot) R"
  using assms(1)
  by (cases old) (auto simp: assms(2)[symmetric] row_upsert_Some metadata_account_where_def null_or_ge slots_le_def
    metadata_account_model_def metadata_account_columns_def core_metadata_columns_def asset_defaults_def
    u16_as_i32_def split: option.splits)

lemma core_mint_row:
  assumes "slots_le w r" and "mac_slot_updated_mint_account c = w"
  shows "row_upsert (mint_account_model c) mint_account_columns mint_account_where (Some r) =
    mint_account_columns (mint_account_model c) r"
  using assms by (auto simp: row_upsert_Some mint_account_where_def mint_account_model_slot null_or_ge slots_le_def
    split: option.split)

lemma core_token_row:
  assumes "slots_le w r" and "tac_slot_updated_token_account c = Some w"
  shows "row_upsert (token_account_model c) token_account_columns token_account_where (Some r) =
    token_account_columns (token_account_model c) r"
  using assms by (auto simp: row_upsert_Some token_account_where_def token_account_model_def null_or_ge slots_le_def
    split: option.split)



end
