(* ===== verification/MerkleProof.thy ===== *)
theory MerkleProof
  imports Schema Samples
begin

text \<open>
  \<open>digital_asset_types/src/dapi/change_logs.rs\<close>: the Merkle proof of a leaf from the rows of
  \<open>cl_items\<close>.  Nodes are numbered from the root 1; the children of node \<open>i\<close> are \<open>2 i\<close> and
  \<open>2 i + 1\<close>.  A node without a row has the hash of an empty subtree; \<open>empty_node\<close> of
  \<open>spl_concurrent_merkle_tree\<close> is a parameter.
\<close>

section \<open>Definitions\<close>

record SimpleChangeLog =
  scl_hash :: bytes
  scl_level :: int
  scl_node_idx :: int
  scl_seq :: int
  scl_tree :: bytes

record AssetProof =
  ap_root :: string
  ap_proof :: "string list"
  ap_node_index :: int
  ap_leaf :: string
  ap_tree_id :: string

definition SimpleChangeLog_default :: SimpleChangeLog where
  "SimpleChangeLog_default = \<lparr>scl_hash = [], scl_level = 0, scl_node_idx = 0, scl_seq = 0, scl_tree = []\<rparr>"

function proof_loop :: "int \<Rightarrow> int list \<Rightarrow> int list" where
  "proof_loop idx indexes =
     (if idx > 1 then
        proof_loop (idx div 2)
          (if idx mod 2 = 0 then indexes @ [idx + 1] else indexes @ [idx - 1])
      else indexes)"
  by pat_completeness auto
termination by (relation "measure (\<lambda>(idx, indexes). nat idx)") auto

declare proof_loop.simps [simp del]

definition get_required_nodes_for_proof :: "int \<Rightarrow> int list" where
  "get_required_nodes_for_proof index = proof_loop index [] @ [1]"

definition make_empty_node :: "(u32 \<Rightarrow> bytes) \<Rightarrow> int \<Rightarrow> int \<Rightarrow> bytes \<Rightarrow> SimpleChangeLog" where
  "make_empty_node empty_node lvl node_index tree =
     \<lparr>scl_hash = empty_node (word_of_int lvl), scl_level = lvl, scl_node_idx = node_index, scl_seq = 0,
      scl_tree = tree\<rparr>"

text \<open>
  The first loop of \<open>build_asset_proof\<close>: a row goes to the slot of its level.  A negative level
  indexes out of range and panics.
\<close>

fun place_nodes ::
  "SimpleChangeLog list \<Rightarrow> SimpleChangeLog list \<Rightarrow> SimpleChangeLog list option" where
  "place_nodes [] final_node_list = Some final_node_list"
| "place_nodes (node # nodes) final_node_list =
     (if scl_level node < int (length final_node_list) then
        if scl_level node < 0 then None
        else place_nodes nodes (final_node_list[nat (scl_level node) := node])
      else place_nodes nodes final_node_list)"

text \<open>The second loop: slots still at their default are empty nodes.\<close>

definition fill_empty ::
  "(u32 \<Rightarrow> bytes) \<Rightarrow> bytes \<Rightarrow> int list \<Rightarrow> SimpleChangeLog list \<Rightarrow> SimpleChangeLog list" where
  "fill_empty empty_node tree_id req_indexes final_node_list =
     map (\<lambda>(i, n, nin).
            if n = SimpleChangeLog_default then make_empty_node empty_node (int i) nin tree_id else n)
       (enumerate 0 (zip final_node_list req_indexes))"

definition build_asset_proof ::
  "env \<Rightarrow> (u32 \<Rightarrow> bytes) \<Rightarrow> bytes \<Rightarrow> int \<Rightarrow> bytes \<Rightarrow> int list \<Rightarrow> SimpleChangeLog list \<Rightarrow>
   AssetProof option" where
  "build_asset_proof E empty_node tree_id leaf_node_idx leaf_hash req_indexes required_nodes =
     (case place_nodes required_nodes (replicate (length req_indexes) SimpleChangeLog_default) of
        None \<Rightarrow> None
      | Some placed \<Rightarrow>
          (let final_node_list = fill_empty empty_node tree_id req_indexes placed in
           if final_node_list = [] then None
           else Some \<lparr>ap_root = bs58_encode E (scl_hash (last final_node_list)),
                      ap_proof = map (\<lambda>m. bs58_encode E (scl_hash m)) (butlast final_node_list),
                      ap_node_index = leaf_node_idx, ap_leaf = bs58_encode E leaf_hash,
                      ap_tree_id = bs58_encode E tree_id\<rparr>))"

text \<open>
  The part of \<open>get_proof_for_asset\<close> after the leaf is found: the rows of the required nodes, by
  descending node index, and the proof from them.
\<close>

definition simple_change_log :: "cl_items_row \<Rightarrow> SimpleChangeLog" where
  "simple_change_log r = \<lparr>scl_hash = cl_hash r, scl_level = cl_level r, scl_node_idx = cl_node_idx r,
     scl_seq = cl_seq r, scl_tree = cl_tree r\<rparr>"

definition required_rows :: "cl_items_table \<Rightarrow> bytes \<Rightarrow> int list \<Rightarrow> SimpleChangeLog list" where
  "required_rows t tree req_indexes =
     map simple_change_log (List.map_filter (\<lambda>i. t (tree, i)) (rev (sort (remdups req_indexes))))"

definition proof_for_leaf ::
  "env \<Rightarrow> (u32 \<Rightarrow> bytes) \<Rightarrow> cl_items_table \<Rightarrow> cl_items_row \<Rightarrow> AssetProof option" where
  "proof_for_leaf E empty_node t leaf =
     (let req_indexes = get_required_nodes_for_proof (cl_node_idx leaf) in
      build_asset_proof E empty_node (cl_tree leaf) (cl_node_idx leaf) (cl_hash leaf) req_indexes
        (required_rows t (cl_tree leaf) req_indexes))"

text \<open>The batched query \<open>get_asset_proofs\<close>.\<close>

record LeafInfo =
  lf_id :: bytes
  lf_tree_id :: bytes
  lf_leaf_idx :: int
  lf_node_idx :: int
  lf_hash :: bytes

definition leaf_key :: "LeafInfo \<Rightarrow> bytes \<times> int" where
  "leaf_key l = (lf_tree_id l, lf_leaf_idx l)"

definition asset_map :: "LeafInfo list \<Rightarrow> bytes \<times> int \<rightharpoonup> LeafInfo" where
  "asset_map leaves = fold (\<lambda>l m. m(leaf_key l \<mapsto> l)) leaves Map.empty"

definition tree_indexes :: "LeafInfo list \<Rightarrow> bytes \<times> int \<rightharpoonup> int list" where
  "tree_indexes leaves =
     fold (\<lambda>l m. m(leaf_key l \<mapsto> get_required_nodes_for_proof (lf_node_idx l))) leaves Map.empty"

text \<open>The rows of all required nodes; \<open>node_map\<close> is the table restricted to them.\<close>

definition node_map :: "cl_items_table \<Rightarrow> LeafInfo list \<Rightarrow> bytes \<times> int \<rightharpoonup> SimpleChangeLog" where
  "node_map t leaves = (\<lambda>(tree, n).
     if \<exists>l \<in> set leaves. lf_tree_id l = tree \<and>
          (case tree_indexes leaves (leaf_key l) of Some req \<Rightarrow> n \<in> set req | None \<Rightarrow> False)
     then map_option simple_change_log (t (tree, n)) else None)"

definition batch_proof ::
  "env \<Rightarrow> (u32 \<Rightarrow> bytes) \<Rightarrow> cl_items_table \<Rightarrow> LeafInfo list \<Rightarrow> bytes \<times> int \<Rightarrow>
   (string \<times> AssetProof) option" where
  "batch_proof E empty_node t leaves leaf =
     (case (tree_indexes leaves leaf, asset_map leaves leaf) of
        (Some req_indexes, Some leaf_info) \<Rightarrow>
          map_option (\<lambda>p. (bs58_encode E (lf_id leaf_info), p))
            (build_asset_proof E empty_node (lf_tree_id leaf_info) (lf_node_idx leaf_info)
              (lf_hash leaf_info) req_indexes
              (List.map_filter (\<lambda>n. node_map t leaves (fst leaf, n)) req_indexes))
      | _ \<Rightarrow> None)"

text \<open>
  \<open>get_asset_proofs\<close> after the leaves are found, one entry per leaf key; \<open>None\<close> for a panic.
\<close>

definition get_asset_proofs ::
  "env \<Rightarrow> (u32 \<Rightarrow> bytes) \<Rightarrow> cl_items_table \<Rightarrow> LeafInfo list \<Rightarrow> (string \<times> AssetProof) list option" where
  "get_asset_proofs E empty_node t leaves =
     those (map (batch_proof E empty_node t leaves) (remdups (map leaf_key leaves)))"

text \<open>The columns selected by the join of \<open>asset\<close> and \<open>cl_items\<close>.\<close>

definition leaf_info_of :: "bytes \<Rightarrow> cl_items_row \<Rightarrow> LeafInfo" where
  "leaf_info_of k r =
     \<lparr>lf_id = k, lf_tree_id = cl_tree r, lf_leaf_idx = the (cl_leaf_idx r), lf_node_idx = cl_node_idx r, lf_hash = cl_hash r\<rparr>"

section \<open>The required nodes\<close>

definition sibling :: "int \<Rightarrow> int" where
  "sibling i = (if i mod 2 = 0 then i + 1 else i - 1)"

text \<open>The siblings on the way from a node at depth \<open>d\<close> to the root, then the root.\<close>

definition sibling_path :: "int \<Rightarrow> nat \<Rightarrow> int list" where
  "sibling_path i d = map (\<lambda>k. sibling (i div 2 ^ k)) [0..<d]"

lemma proof_loop_step: "i > 1 \<Longrightarrow> proof_loop i acc = proof_loop (i div 2) (acc @ [sibling i])"
  by (subst proof_loop.simps) (simp add: sibling_def)

lemma proof_loop_acc: "proof_loop i acc = acc @ proof_loop i []"
proof (induction "nat i" arbitrary: i acc rule: less_induct)
  case less
  show ?case
  proof (cases "i > 1")
    case True
    then have IH: "proof_loop (i div 2) xs = xs @ proof_loop (i div 2) []" for xs
      by (intro less) simp
    show ?thesis
      using True IH[of "acc @ [sibling i]"] IH[of "[sibling i]"] by (simp add: proof_loop_step)
  next
    case False
    then show ?thesis by (simp add: proof_loop.simps)
  qed
qed

lemma sibling_path_Suc: "sibling_path i (Suc d) = sibling i # sibling_path (i div 2) d"
proof -
  have "map (\<lambda>k. sibling (i div 2 ^ k)) [0..<Suc d] =
      sibling i # map (\<lambda>k. sibling (i div 2 ^ Suc k)) [0..<d]"
    by (simp add: map_upt_Suc del: upt_Suc)
  then show ?thesis
    by (simp add: sibling_path_def div_mult2_eq[symmetric] zdiv_zmult2_eq)
qed

lemma required_nodes_path:
  "2 ^ d \<le> i \<Longrightarrow> i < 2 ^ Suc d \<Longrightarrow> get_required_nodes_for_proof i = sibling_path i d @ [1]"
proof (induction d arbitrary: i)
  case 0
  then have "\<not> i > 1" by simp
  then show ?case by (simp add: get_required_nodes_for_proof_def proof_loop.simps sibling_path_def)
next
  case (Suc d)
  have "(0::int) < 2 ^ d" by simp
  then have "i > 1" using Suc.prems(1) unfolding power_Suc by linarith
  moreover have "2 ^ d \<le> i div 2" "i div 2 < 2 ^ Suc d" using Suc.prems by auto
  ultimately show ?case
    using Suc.IH[of "i div 2"] proof_loop_acc[of "i div 2" "[sibling i]"]
    by (simp add: get_required_nodes_for_proof_def proof_loop_step sibling_path_Suc)
qed

lemma length_required_nodes:
  "2 ^ d \<le> i \<Longrightarrow> i < 2 ^ Suc d \<Longrightarrow> length (get_required_nodes_for_proof i) = Suc d"
  by (simp add: required_nodes_path sibling_path_def)

section \<open>Verification of a proof\<close>

text \<open>How a verifier recomputes the root from a leaf and its proof.\<close>

fun recompute :: "(bytes \<Rightarrow> bytes \<Rightarrow> bytes) \<Rightarrow> int \<Rightarrow> bytes \<Rightarrow> bytes list \<Rightarrow> bytes" where
  "recompute H i h [] = h"
| "recompute H i h (p # ps) = recompute H (i div 2) (if i mod 2 = 0 then H h p else H p h) ps"

text \<open>A hash tree of depth \<open>d\<close>: every inner node is the hash of its children.\<close>

definition merkle_tree :: "(bytes \<Rightarrow> bytes \<Rightarrow> bytes) \<Rightarrow> (int \<Rightarrow> bytes) \<Rightarrow> nat \<Rightarrow> bool" where
  "merkle_tree H node d \<longleftrightarrow> (\<forall>i. 1 \<le> i \<and> i < 2 ^ d \<longrightarrow> node i = H (node (2 * i)) (node (2 * i + 1)))"

lemma recompute_root:
  "merkle_tree H node d \<Longrightarrow> k \<le> d \<Longrightarrow> 2 ^ k \<le> i \<Longrightarrow> i < 2 ^ Suc k \<Longrightarrow>
   recompute H i (node i) (map node (sibling_path i k)) = node 1"
proof (induction k arbitrary: i)
  case 0
  then have "i = 1" by simp
  then show ?case by (simp add: sibling_path_def)
next
  case (Suc k)
  have half: "2 ^ k \<le> i div 2" "i div 2 < 2 ^ Suc k" using Suc.prems by auto
  have "1 \<le> i div 2" using half(1) one_le_power[of "2::int" k] by linarith
  moreover have "i div 2 < 2 ^ d"
    using half(2) Suc.prems(2) power_increasing[of "Suc k" d "2::int"] by simp
  ultimately have "node (i div 2) = H (node (2 * (i div 2))) (node (2 * (i div 2) + 1))"
    using Suc.prems(1) by (simp add: merkle_tree_def)
  then have "(if i mod 2 = 0 then H (node i) (node (sibling i)) else H (node (sibling i)) (node i)) =
      node (i div 2)"
    by (cases "i mod 2 = 0") (auto simp: sibling_def mult_div_mod_eq minus_mod_eq_mult_div[symmetric])
  with Suc.IH[of "i div 2"] Suc.prems half show ?case
    by (simp add: sibling_path_Suc)
qed

section \<open>The proof is built from the right nodes\<close>

definition at_level :: "nat \<Rightarrow> nat \<Rightarrow> int \<Rightarrow> bool" where
  "at_level d k j \<longleftrightarrow> k \<le> d \<and> 2 ^ (d - k) \<le> j \<and> j < 2 ^ Suc (d - k)"

lemma at_level_parent: "at_level d k j \<Longrightarrow> k < d \<Longrightarrow> at_level d (Suc k) (j div 2)"
proof -
  assume a: "at_level d k j" "k < d"
  then have "d - k = Suc (d - Suc k)" by simp
  with a show ?thesis by (auto simp: at_level_def)
qed

lemma at_level_div: "at_level d 0 i \<Longrightarrow> k \<le> d \<Longrightarrow> at_level d k (i div 2 ^ k)"
proof (induction k)
  case (Suc k)
  then have "at_level d (Suc k) (i div 2 ^ k div 2)" by (intro at_level_parent) simp_all
  then show ?case by (simp add: power_Suc2 zdiv_zmult2_eq del: power_Suc)
qed simp

lemma at_level_sibling: "at_level d k j \<Longrightarrow> k < d \<Longrightarrow> at_level d k (sibling j)"
proof -
  assume a: "at_level d k j" "k < d"
  then obtain m where m: "d - k = Suc m" by (metis Suc_diff_Suc)
  with a have "2 * 2 ^ m \<le> j" "j < 2 * (2 * 2 ^ m)" by (simp_all add: at_level_def)
  then have "2 * 2 ^ m \<le> sibling j" "sibling j < 2 * (2 * 2 ^ m)"
    by (auto simp: sibling_def) presburger+
  with a m show ?thesis by (simp add: at_level_def)
qed

lemma at_level_unique:
  assumes "at_level d k j" and "at_level d k' j"
  shows "k = k'"
proof -
  have le: "d - b \<le> d - a" if "at_level d a j" "at_level d b j" for a b
  proof (rule ccontr)
    assume "\<not> d - b \<le> d - a"
    then have "(2::int) ^ Suc (d - a) \<le> 2 ^ (d - b)" by (intro power_increasing) simp_all
    with that show False by (simp add: at_level_def)
  qed
  have "d - k = d - k'" using le[OF assms] le[OF assms(2,1)] by simp
  moreover have "k \<le> d" "k' \<le> d" using assms by (simp_all add: at_level_def)
  ultimately show ?thesis by simp
qed

lemma required_node_levels:
  assumes "at_level d 0 i" and "k \<le> d"
  shows "at_level d k (get_required_nodes_for_proof i ! k)"
proof -
  have req: "get_required_nodes_for_proof i = sibling_path i d @ [1]"
    using assms(1) by (intro required_nodes_path) (simp_all add: at_level_def)
  show ?thesis
  proof (cases "k = d")
    case True
    then show ?thesis by (simp add: req nth_append sibling_path_def at_level_def)
  next
    case False
    with assms have "at_level d k (sibling (i div 2 ^ k))"
      by (intro at_level_sibling at_level_div) simp_all
    with False assms(2) show ?thesis by (simp add: req nth_append sibling_path_def)
  qed
qed

lemma place_nodes_spec:
  assumes "\<forall>r \<in> set rows. 0 \<le> scl_level r"
  shows "\<exists>ys. place_nodes rows xs = Some ys \<and> length ys = length xs \<and> (\<forall>k < length xs.
    (\<exists>r \<in> set rows. scl_level r = int k \<and> ys ! k = r) \<or>
    (\<forall>r \<in> set rows. scl_level r \<noteq> int k) \<and> ys ! k = xs ! k)"
  using assms
proof (induction rows arbitrary: xs)
  case (Cons r rows)
  let ?xs = "if scl_level r < int (length xs) then xs[nat (scl_level r) := r] else xs"
  obtain ys where ys: "place_nodes rows ?xs = Some ys" "length ys = length ?xs"
    "\<forall>k < length ?xs. (\<exists>q \<in> set rows. scl_level q = int k \<and> ys ! k = q) \<or>
      (\<forall>q \<in> set rows. scl_level q \<noteq> int k) \<and> ys ! k = ?xs ! k"
    using Cons.IH[of ?xs] Cons.prems by auto
  have "(\<exists>q \<in> set (r # rows). scl_level q = int k \<and> ys ! k = q) \<or>
      (\<forall>q \<in> set (r # rows). scl_level q \<noteq> int k) \<and> ys ! k = xs ! k" if "k < length xs" for k
    using ys(3) that Cons.prems by (cases "scl_level r = int k") (auto simp: nth_list_update split: if_splits)
  moreover have "place_nodes (r # rows) xs = Some ys"
    using ys(1) Cons.prems by (auto split: if_splits)
  ultimately show ?case using ys(2) by (auto split: if_splits)
qed simp

lemma build_proof_nodes:
  assumes rows: "\<forall>r \<in> set rows. \<exists>k < length req. scl_level r = int k \<and> scl_node_idx r = req ! k \<and>
      scl_hash r = node (req ! k)"
    and missing: "\<forall>k < length req. (\<forall>r \<in> set rows. scl_level r \<noteq> int k) \<longrightarrow>
      node (req ! k) = empty_node (word_of_int (int k))"
    and pos: "\<forall>j \<in> set req. 1 \<le> j" and ne: "req \<noteq> []"
  shows "build_asset_proof E empty_node tree i h req rows =
    Some \<lparr>ap_root = bs58_encode E (node (last req)),
      ap_proof = map (\<lambda>j. bs58_encode E (node j)) (butlast req), ap_node_index = i,
      ap_leaf = bs58_encode E h, ap_tree_id = bs58_encode E tree\<rparr>"
proof -
  let ?d = SimpleChangeLog_default
  obtain ys where ys: "place_nodes rows (replicate (length req) ?d) = Some ys" "length ys = length req"
    "\<forall>k < length req. (\<exists>r \<in> set rows. scl_level r = int k \<and> ys ! k = r) \<or>
      (\<forall>r \<in> set rows. scl_level r \<noteq> int k) \<and> ys ! k = ?d"
    using place_nodes_spec[of rows "replicate (length req) ?d"] rows by fastforce
  let ?f = "fill_empty empty_node tree req ys"
  have len: "length ?f = length req" by (simp add: fill_empty_def ys(2))
  have "scl_hash (?f ! k) = node (req ! k)" if k: "k < length req" for k
  proof -
    have f: "?f ! k = (if ys ! k = ?d then make_empty_node empty_node (int k) (req ! k) tree else ys ! k)"
      using k ys(2) by (simp add: fill_empty_def nth_enumerate_eq)
    show ?thesis
    proof (cases "\<exists>r \<in> set rows. scl_level r = int k \<and> ys ! k = r")
      case True
      then obtain r where r: "r \<in> set rows" "scl_level r = int k" "ys ! k = r" by blast
      with rows have "scl_node_idx r = req ! k" "scl_hash r = node (req ! k)" by fastforce+
      moreover have "r \<noteq> ?d"
        using calculation(1) bspec[OF pos nth_mem[OF k]] by (auto simp: SimpleChangeLog_default_def)
      ultimately show ?thesis by (simp add: f r(3))
    next
      case False
      with ys(3) k have "ys ! k = ?d" "\<forall>r \<in> set rows. scl_level r \<noteq> int k" by blast+
      with missing k show ?thesis by (simp add: f make_empty_node_def)
    qed
  qed
  then have "map scl_hash ?f = map node req"
    using len by (intro nth_equalityI) simp_all
  moreover have "?f \<noteq> []" using len ne by auto
  ultimately have root: "scl_hash (last ?f) = node (last req)"
    and sibs: "map scl_hash (butlast ?f) = map node (butlast req)"
    by (metis last_map ne, metis map_butlast)
  have "map (\<lambda>m. bs58_encode E (scl_hash m)) (butlast ?f) = map (\<lambda>j. bs58_encode E (node j)) (butlast req)"
    using arg_cong[OF sibs, of "map (bs58_encode E)"] by (simp add: comp_def)
  with root \<open>?f \<noteq> []\<close> show ?thesis
    by (simp add: build_asset_proof_def ys(1) Let_def)
qed

text \<open>
  A table that stores the tree: a row of a node has the node's level and hash, and a node without
  a row is the root of an empty subtree.
\<close>

definition stores_tree ::
  "cl_items_table \<Rightarrow> bytes \<Rightarrow> (int \<Rightarrow> bytes) \<Rightarrow> nat \<Rightarrow> (u32 \<Rightarrow> bytes) \<Rightarrow> bool" where
  "stores_tree t tree node d empty_node \<longleftrightarrow> (\<forall>k j. at_level d k j \<longrightarrow>
     (case t (tree, j) of
        Some r \<Rightarrow> cl_level r = int k \<and> cl_node_idx r = j \<and> cl_hash r = node j
      | None \<Rightarrow> node j = empty_node (word_of_int (int k))))"

lemma required_rows_set:
  "set (required_rows t tree req) = simple_change_log ` {r. \<exists>i \<in> set req. t (tree, i) = Some r}"
  by (auto simp: required_rows_def map_filter_def image_iff split: option.splits) force+

lemma at_level_pos: "at_level d k j \<Longrightarrow> 1 \<le> j"
  using one_le_power[of "2::int" "d - k"] by (simp add: at_level_def)

lemma build_proof_stored:
  assumes st: "stores_tree t tree node d empty_node" and i: "at_level d 0 i"
    and rows: "set rows = simple_change_log `
      {r. \<exists>j \<in> set (get_required_nodes_for_proof i). t (tree, j) = Some r}"
  shows "build_asset_proof E empty_node tree i h (get_required_nodes_for_proof i) rows =
    Some \<lparr>ap_root = bs58_encode E (node 1),
      ap_proof = map (\<lambda>j. bs58_encode E (node j)) (sibling_path i d),
      ap_node_index = i, ap_leaf = bs58_encode E h, ap_tree_id = bs58_encode E tree\<rparr>"
proof -
  let ?req = "get_required_nodes_for_proof i"
  have req: "?req = sibling_path i d @ [1]"
    using i by (intro required_nodes_path) (simp_all add: at_level_def)
  then have len: "length ?req = Suc d" by (simp add: sibling_path_def)
  have lev: "at_level d k (?req ! k)" if "k < length ?req" for k
    using that len i by (intro required_node_levels) simp_all
  have row: "cl_level r = int k \<and> cl_node_idx r = ?req ! k \<and> cl_hash r = node (?req ! k)"
    if "k < length ?req" "t (tree, ?req ! k) = Some r" for k r
    using st lev[OF that(1)] that(2) by (fastforce simp: stores_tree_def)
  have "build_asset_proof E empty_node tree i h ?req rows =
    Some \<lparr>ap_root = bs58_encode E (node (last ?req)),
      ap_proof = map (\<lambda>j. bs58_encode E (node j)) (butlast ?req), ap_node_index = i,
      ap_leaf = bs58_encode E h, ap_tree_id = bs58_encode E tree\<rparr>"
  proof (rule build_proof_nodes)
    show "\<forall>r \<in> set rows. \<exists>k < length ?req. scl_level r = int k \<and>
        scl_node_idx r = ?req ! k \<and> scl_hash r = node (?req ! k)"
    proof
      fix r assume "r \<in> set rows"
      then obtain c j where c: "r = simple_change_log c" "j \<in> set ?req" "t (tree, j) = Some c"
        by (auto simp: rows)
      then obtain k where k: "k < length ?req" "t (tree, ?req ! k) = Some c"
        by (auto simp: in_set_conv_nth)
      from row[OF k] k(1) c(1) show "\<exists>k < length ?req. scl_level r = int k \<and> scl_node_idx r = ?req ! k \<and>
          scl_hash r = node (?req ! k)"
        by (intro exI[of _ k]) (simp add: simple_change_log_def)
    qed
    show "\<forall>k < length ?req. (\<forall>r \<in> set rows. scl_level r \<noteq> int k) \<longrightarrow>
        node (?req ! k) = empty_node (word_of_int (int k))"
    proof (intro allI impI)
      fix k assume k: "k < length ?req" "\<forall>r \<in> set rows. scl_level r \<noteq> int k"
      have "t (tree, ?req ! k) = None"
      proof (rule ccontr)
        assume "t (tree, ?req ! k) \<noteq> None"
        then obtain r where r: "t (tree, ?req ! k) = Some r" by blast
        then have "simple_change_log r \<in> set rows"
          using nth_mem[OF k(1)] unfolding rows by blast
        then have "scl_level (simple_change_log r) \<noteq> int k" using k(2) by blast
        with row[OF k(1) r] show False by (simp add: simple_change_log_def)
      qed
      with st lev[OF k(1)] show "node (?req ! k) = empty_node (word_of_int (int k))"
        by (fastforce simp: stores_tree_def)
    qed
    show "\<forall>j \<in> set ?req. 1 \<le> j" using lev at_level_pos by (metis in_set_conv_nth)
  qed (simp add: req)
  then show ?thesis by (simp add: req)
qed

lemma proof_for_leaf_nodes:
  assumes "stores_tree t tree node d empty_node"
    and "cl_tree leaf = tree" "at_level d 0 (cl_node_idx leaf)"
  shows "proof_for_leaf E empty_node t leaf =
    Some \<lparr>ap_root = bs58_encode E (node 1),
      ap_proof = map (\<lambda>j. bs58_encode E (node j)) (sibling_path (cl_node_idx leaf) d),
      ap_node_index = cl_node_idx leaf, ap_leaf = bs58_encode E (cl_hash leaf),
      ap_tree_id = bs58_encode E tree\<rparr>"
  using build_proof_stored[OF assms(1,3) required_rows_set] assms(2)
  by (simp add: proof_for_leaf_def Let_def)

section \<open>The proofs served\<close>

text \<open>
  C5: the Merkle proof served for a leaf verifies.  When \<open>cl_items\<close> stores a hash tree of depth \<open>d\<close>
  (nodes without a row being roots of empty subtrees), the proof of the leaf row at node \<open>i\<close>
  encodes a list of \<open>d\<close> hashes from which, with the hash stored for the leaf, the root
  is recomputed.
\<close>

theorem asset_proof_verifies:
  assumes "merkle_tree H node d" and "stores_tree t tree node d empty_node"
    and "t (tree, cl_node_idx leaf) = Some leaf" and "cl_tree leaf = tree"
    and "at_level d 0 (cl_node_idx leaf)"
  shows "\<exists>p hs. proof_for_leaf E empty_node t leaf = Some p \<and> length hs = d \<and>
    ap_proof p = map (bs58_encode E) hs \<and>
    ap_root p = bs58_encode E (recompute H (cl_node_idx leaf) (cl_hash leaf) hs) \<and>
    ap_leaf p = bs58_encode E (cl_hash leaf)"
proof -
  let ?i = "cl_node_idx leaf"
  have "cl_hash leaf = node ?i"
    using assms(2,3,5) by (fastforce simp: stores_tree_def)
  moreover have "recompute H ?i (node ?i) (map node (sibling_path ?i d)) = node 1"
    using assms(5) by (intro recompute_root[OF assms(1)]) (simp_all add: at_level_def)
  moreover have "length (map node (sibling_path ?i d)) = d" by (simp add: sibling_path_def)
  ultimately show ?thesis
    using proof_for_leaf_nodes[OF assms(2,4,5), of E]
    by (intro exI[of _ "\<lparr>ap_root = bs58_encode E (node 1),
          ap_proof = map (\<lambda>j. bs58_encode E (node j)) (sibling_path ?i d), ap_node_index = ?i,
          ap_leaf = bs58_encode E (cl_hash leaf), ap_tree_id = bs58_encode E tree\<rparr>"]
        exI[of _ "map node (sibling_path ?i d)"]) simp
qed

definition demo_hash :: "bytes \<Rightarrow> bytes \<Rightarrow> bytes" where
  "demo_hash a b = 1 # a @ b"

definition demo_empty_node :: "u32 \<Rightarrow> bytes" where
  "demo_empty_node l = (if l = 0 then [0] else demo_hash [0] [0])"

definition demo_cl_items :: "cl_items_table" where
  "demo_cl_items = (\<lambda>_. None)(
     ([1], 2) \<mapsto> \<lparr>cl_tree = [1], cl_node_idx = 2, cl_leaf_idx = Some 0, cl_seq = 1, cl_level = 0, cl_hash = [7]\<rparr>,
     ([1], 1) \<mapsto> \<lparr>cl_tree = [1], cl_node_idx = 1, cl_leaf_idx = None, cl_seq = 1, cl_level = 1,
       cl_hash = demo_hash [7] [0]\<rparr>)"

definition demo_node :: "int \<Rightarrow> bytes" where
  "demo_node i = (if i = 1 then demo_hash [7] [0] else if i = 2 then [7] else [0])"

definition demo_leaf_row :: cl_items_row where
  "demo_leaf_row = \<lparr>cl_tree = [1], cl_node_idx = 2, cl_leaf_idx = Some 0, cl_seq = 1, cl_level = 0,
     cl_hash = [7]\<rparr>"

lemma demo_levels: "at_level (Suc 0) k j \<longleftrightarrow> k = 0 \<and> (j = 2 \<or> j = 3) \<or> k = Suc 0 \<and> j = 1"
  by (cases "k = 0"; cases "k = 1") (auto simp: at_level_def)

lemma demo_tree:
  "merkle_tree demo_hash demo_node 1" "stores_tree demo_cl_items [1] demo_node 1 demo_empty_node"
  by (auto simp: merkle_tree_def stores_tree_def demo_levels demo_cl_items_def demo_empty_node_def demo_node_def)

theorem asset_proof_verifies_witness:
  "\<exists>p hs. proof_for_leaf demo_env demo_empty_node demo_cl_items demo_leaf_row = Some p \<and> length hs = 1 \<and>
     ap_proof p = map (bs58_encode demo_env) hs \<and>
     ap_root p = bs58_encode demo_env (recompute demo_hash (cl_node_idx demo_leaf_row) (cl_hash demo_leaf_row) hs) \<and>
     ap_leaf p = bs58_encode demo_env (cl_hash demo_leaf_row)"
  by (rule asset_proof_verifies[OF demo_tree])
    (simp_all add: demo_leaf_row_def demo_cl_items_def demo_levels)

lemma leaf_info_of_sel [simp]:
  "lf_id (leaf_info_of k r) = k" "lf_tree_id (leaf_info_of k r) = cl_tree r"
  "lf_node_idx (leaf_info_of k r) = cl_node_idx r" "lf_hash (leaf_info_of k r) = cl_hash r"
  by (simp_all add: leaf_info_of_def)

lemma fold_update_other: "k \<notin> key ` set xs \<Longrightarrow> fold (\<lambda>l m. m(key l \<mapsto> f l)) xs m k = m k"
  by (induction xs arbitrary: m) auto

lemma fold_update_distinct:
  "distinct (map key xs) \<Longrightarrow> x \<in> set xs \<Longrightarrow> fold (\<lambda>l m. m(key l \<mapsto> f l)) xs m (key x) = Some (f x)"
proof (induction xs arbitrary: m)
  case (Cons y ys)
  show ?case
  proof (cases "x = y")
    case True
    have "fold (\<lambda>l m. m(key l \<mapsto> f l)) ys (m(key y \<mapsto> f y)) (key y) = (m(key y \<mapsto> f y)) (key y)"
      using Cons.prems(1) by (intro fold_update_other) simp
    with True show ?thesis by (simp only: fold_simps) simp
  next
    case False
    with Cons show ?thesis by simp
  qed
qed simp

lemma set_map_filter: "set (List.map_filter f xs) = {y. \<exists>x \<in> set xs. f x = Some y}"
  by (auto simp: map_filter_def image_iff) force

lemma batch_required_rows:
  assumes "distinct (map leaf_key leaves)" and "l \<in> set leaves"
  defines "req \<equiv> get_required_nodes_for_proof (lf_node_idx l)"
  shows "set (List.map_filter (\<lambda>n. node_map t leaves (lf_tree_id l, n)) req) =
    simple_change_log ` {r. \<exists>j \<in> set req. t (lf_tree_id l, j) = Some r}"
proof -
  have "node_map t leaves (lf_tree_id l, n) = map_option simple_change_log (t (lf_tree_id l, n))"
    if "n \<in> set req" for n
    using that assms(2)
      fold_update_distinct[OF assms(1,2), where f = "\<lambda>l. get_required_nodes_for_proof (lf_node_idx l)"
        and m = Map.empty]
    by (auto simp: node_map_def tree_indexes_def req_def)
  then show ?thesis by (auto simp: set_map_filter image_iff)
qed



text \<open>
  The nodes of a proof: for a node at depth \<open>d\<close> they are the \<open>d\<close> siblings on its way to the
  root, from the bottom up, and the root.
\<close>

lemma required_nodes_are_siblings:
  assumes "2 ^ d \<le> i" and "i < 2 ^ Suc d"
  shows "get_required_nodes_for_proof i = map (\<lambda>k. sibling (i div 2 ^ k)) [0..<d] @ [1]"
  using required_nodes_path[OF assms] by (simp add: sibling_path_def)

end
