(* ===== verification/Pagination.thy ===== *)
theory Pagination
  imports Chain Samples "HOL-Library.List_Lexorder" "HOL-Library.Product_Lexorder"
begin

text \<open>
  Pages of query results: the validation of a request (\<open>das_api/src/api/api_impl.rs\<close>, \<open>das_api/src/validation.rs\<close>),
  the choice of sorting and pagination (\<open>digital_asset_types/src/dapi/common/asset.rs\<close>) and \<open>paginate\<close> of
  \<open>digital_asset_types/src/dao/scopes/asset.rs\<close> on a list of rows.
\<close>

section \<open>Requests\<close>

datatype AssetSortBy = SortBy_Id | SortBy_Created | SortBy_Updated | SortBy_RecentAction | SortBy_None

datatype AssetSortDirection = Sort_Asc | Sort_Desc

record AssetSorting =
  as_sort_by :: AssetSortBy
  as_sort_direction :: "AssetSortDirection option"

definition AssetSorting_default :: AssetSorting where
  "AssetSorting_default = \<lparr>as_sort_by = SortBy_Id, as_sort_direction = Some Sort_Desc\<rparr>"

record Cursor =
  cursor_id :: "bytes option"

definition Cursor_default :: Cursor where
  "Cursor_default = \<lparr>cursor_id = None\<rparr>"

record PageOptions =
  po_limit :: u64
  po_page :: "u64 option"
  po_before :: "bytes option"
  po_after :: "bytes option"
  po_cursor :: "Cursor option"

datatype Pagination =
    Pagination_Keyset "bytes option" "bytes option"
  | Pagination_Page u64
  | Pagination_Cursor Cursor

datatype QueryErr = QE_Custom string | QE_RecordNotFound string | QE_Query string

datatype DasApiError =
    DAE_PubkeyValidationError string
  | DAE_ValidationError string
  | DAE_PaginationError
  | DAE_PaginationEmptyError
  | DAE_PaginationExceededError
  | DAE_BatchSizeExceededError
  | DAE_PaginationSortingValidationError
  | DAE_CursorValidationError string
  | DAE_DatabaseError QueryErr

section \<open>Validation\<close>

definition validate_pubkey :: "env \<Rightarrow> string \<Rightarrow> DasApiError + pubkey" where
  "validate_pubkey E str_pubkey =
     (case pubkey_from_str E str_pubkey of
        Inl _ \<Rightarrow> Inl (DAE_PubkeyValidationError str_pubkey)
      | Inr k \<Rightarrow> Inr k)"

definition validate_search_with_name :: "string option \<Rightarrow> bytes option \<Rightarrow> DasApiError + bytes option" where
  "validate_search_with_name name owner =
     (case name of
        Some n \<Rightarrow>
          (if owner = None
           then Inl (DAE_ValidationError ''Owner address must be provided in order to search assets by name'')
           else Inr (Some (string_bytes n)))
      | None \<Rightarrow> Inr None)"

definition validate_opt_pubkey :: "env \<Rightarrow> string option \<Rightarrow> DasApiError + bytes option" where
  "validate_opt_pubkey E pubkey =
     (case pubkey of
        Some s \<Rightarrow>
          (case pubkey_from_str E s of
             Inl _ \<Rightarrow> Inl (DAE_ValidationError (''Invalid pubkey '' @ s))
           | Inr k \<Rightarrow> Inr (Some k))
      | None \<Rightarrow> Inr None)"

definition get_cursor :: "env \<Rightarrow> string option \<Rightarrow> DasApiError + Cursor" where
  "get_cursor E cursor =
     (case cursor of
        Some cursor_b64 \<Rightarrow>
          (case bs58_decode E cursor_b64 of
             None \<Rightarrow> Inl (DAE_CursorValidationError cursor_b64)
           | Some cursor_vec \<Rightarrow> Inr \<lparr>cursor_id = Some cursor_vec\<rparr>)
      | None \<Rightarrow> Inr Cursor_default)"

text \<open>The checks of one of the keys \<open>before\<close> and \<open>after\<close>.\<close>

definition validate_keyset ::
  "env \<Rightarrow> string option \<Rightarrow> string option \<Rightarrow> AssetSorting option \<Rightarrow> DasApiError + unit" where
  "validate_keyset E key cursor sorting =
     (case key of
        None \<Rightarrow> Inr ()
      | Some k \<Rightarrow>
          (if cursor \<noteq> None then Inl DAE_PaginationError
           else if (case sorting of Some s \<Rightarrow> as_sort_by s \<noteq> SortBy_Id | None \<Rightarrow> False)
           then Inl DAE_PaginationSortingValidationError
           else (case validate_pubkey E k of Inl e \<Rightarrow> Inl e | Inr _ \<Rightarrow> Inr ())))"

definition decode_key :: "env \<Rightarrow> string option \<Rightarrow> bytes option" where
  "decode_key E key = map_option (\<lambda>x. case bs58_decode E x of Some v \<Rightarrow> v | None \<Rightarrow> []) key"

definition validate_pagination ::
  "env \<Rightarrow> u32 option \<Rightarrow> u32 option \<Rightarrow> string option \<Rightarrow> string option \<Rightarrow> string option \<Rightarrow>
   AssetSorting option \<Rightarrow> DasApiError + PageOptions" where
  "validate_pagination E limit page before after cursor sorting =
     (if (case limit of Some l \<Rightarrow> 1000 < l | None \<Rightarrow> False) then Inl DAE_PaginationExceededError
      else if page = Some 0 then Inl DAE_PaginationEmptyError
      else if page \<noteq> None \<and> (before \<noteq> None \<or> after \<noteq> None \<or> cursor \<noteq> None) then Inl DAE_PaginationError
      else case validate_keyset E before cursor sorting of
        Inl e \<Rightarrow> Inl e
      | Inr _ \<Rightarrow>
     (case validate_keyset E after cursor sorting of
        Inl e \<Rightarrow> Inl e
      | Inr _ \<Rightarrow>
          let page_limit = (case limit of Some l \<Rightarrow> ucast l | None \<Rightarrow> 1000);
              empty_opt = \<lparr>po_limit = page_limit, po_page = None, po_before = None, po_after = None, po_cursor = None\<rparr>
          in if page = None \<and> before = None \<and> after = None then
               (case sorting of
                  None \<Rightarrow> Inr empty_opt
                | Some s \<Rightarrow>
                    (if as_sort_by s \<noteq> SortBy_Id then Inl DAE_PaginationSortingValidationError
                     else case get_cursor E cursor of
                       Inl e \<Rightarrow> Inl e
                     | Inr c \<Rightarrow> Inr (empty_opt\<lparr>po_cursor := Some c\<rparr>)))
             else Inr (empty_opt\<lparr>po_page := map_option ucast page, po_before := decode_key E before,
                    po_after := decode_key E after\<rparr>)))"

section \<open>Sorting and pagination\<close>

datatype sort_column = Column_Id | Column_CreatedAt | Column_SlotUpdated

fun sort_column_of :: "AssetSortBy \<Rightarrow> sort_column option" where
  "sort_column_of SortBy_Id = Some Column_Id"
| "sort_column_of SortBy_Created = Some Column_CreatedAt"
| "sort_column_of SortBy_Updated = Some Column_SlotUpdated"
| "sort_column_of SortBy_RecentAction = Some Column_SlotUpdated"
| "sort_column_of SortBy_None = None"

definition create_sorting :: "AssetSorting \<Rightarrow> AssetSortDirection \<times> sort_column option" where
  "create_sorting sorting =
     (case as_sort_direction sorting of Some d \<Rightarrow> d | None \<Rightarrow> Sort_Desc,
      sort_column_of (as_sort_by sorting))"

definition create_pagination :: "PageOptions \<Rightarrow> QueryErr + Pagination" where
  "create_pagination page_options =
     (case po_cursor page_options of
        Some cursor \<Rightarrow> Inr (Pagination_Cursor cursor)
      | None \<Rightarrow>
          (case (po_before page_options, po_after page_options, po_page page_options) of
             (_, _, None) \<Rightarrow> Inr (Pagination_Keyset (po_before page_options) (po_after page_options))
           | (None, None, Some p) \<Rightarrow> Inr (Pagination_Page p)
           | _ \<Rightarrow> Inl (QE_Custom ''Invalid Pagination'')))"

text \<open>
  \<open>paginate\<close> on the rows that the rest of the statement selects, in their order: the conditions on the
  column, \<open>OFFSET\<close>, \<open>LIMIT\<close>.
\<close>

definition paginate ::
  "Pagination \<Rightarrow> u64 \<Rightarrow> 'r list \<Rightarrow> AssetSortDirection \<Rightarrow> ('r \<Rightarrow> bytes) \<Rightarrow> 'r list" where
  "paginate pagination limit stmt sort_direction column =
     (let stmt' =
        (case pagination of
           Pagination_Keyset before after \<Rightarrow>
             filter (\<lambda>r. (case before of Some b \<Rightarrow> column r < b | None \<Rightarrow> True) \<and>
                         (case after of Some a \<Rightarrow> a < column r | None \<Rightarrow> True)) stmt
         | Pagination_Page page \<Rightarrow> (if 0 < page then drop (unat ((page - 1) * limit)) stmt else stmt)
         | Pagination_Cursor cursor \<Rightarrow>
             (case cursor_id cursor of
                None \<Rightarrow> stmt
              | Some c \<Rightarrow>
                  (if sort_direction = Sort_Asc then filter (\<lambda>r. c < column r) stmt
                   else filter (\<lambda>r. column r < c) stmt)))
      in take (unat limit) stmt')"

section \<open>Validated requests\<close>

lemma unat_u64_of_u32: "unat (ucast (x :: u32) :: u64) = unat x"
  using unsigned_less[of x, where ?'a = nat] by (simp add: unsigned_ucast_eq take_bit_nat_eq_self)

lemma page_offset:
  assumes "page \<noteq> (0 :: u32)" and "l \<le> (1000 :: u64)"
  shows "0 < (ucast page :: u64) \<and>
    unat ((ucast page - 1) * l) = (unat (ucast page :: u64) - 1) * unat l"
proof -
  let ?n = "ucast page :: u64"
  have n: "unat ?n = unat page"
    by (simp add: unat_u64_of_u32)
  have "unat page < 2 ^ 32" and "0 < unat page"
    using unsigned_less[of page, where ?'a = nat] assms(1) by (simp_all add: unat_gt_0)
  moreover have l: "unat l \<le> 1000"
    using assms(2) by (simp add: word_le_nat_alt)
  moreover have m: "unat (?n - 1) = unat page - 1"
    using n \<open>0 < unat page\<close> by (metis less_numeral_extra(3) unat_0 unat_minus_one)
  ultimately have "unat (?n - 1) * unat l \<le> 2 ^ 32 * 1000"
    by (intro mult_le_mono) auto
  then have "unat ((?n - 1) * l) = unat (?n - 1) * unat l"
    by (intro iffD1[OF unat_mult_lem]) simp
  then show ?thesis
    using m n \<open>0 < unat page\<close> by (simp add: word_less_nat_alt)
qed

lemma limit_bound: "\<not> 1000 < (l :: u32) \<Longrightarrow> (ucast l :: u64) \<le> 1000"
  by (simp add: word_less_nat_alt word_le_nat_alt unat_u64_of_u32)

text \<open>
  C33: what validation guarantees.  A validated request has a limit of at most 1000 and exactly one
  pagination: it is never rejected as invalid afterwards, the offset of a page number does not
  overflow, and a cursor comes with sorting by id.
\<close>

theorem validated_pagination:
  assumes "validate_pagination E limit page before after cursor sorting = Inr po"
  shows "po_limit po \<le> 1000 \<and> (\<exists>p. create_pagination po = Inr p \<and>
    (case p of
       Pagination_Page n \<Rightarrow> 0 < n \<and> unat ((n - 1) * po_limit po) = (unat n - 1) * unat (po_limit po)
     | Pagination_Cursor _ \<Rightarrow> (\<exists>s. sorting = Some s \<and> as_sort_by s = SortBy_Id)
     | Pagination_Keyset _ _ \<Rightarrow> page = None))"
proof -
  have l: "po_limit po \<le> 1000"
    using assms by (auto simp: validate_pagination_def Let_def limit_bound split: if_splits sum.splits option.splits)
  show ?thesis
    using assms l page_offset[of "the page" "po_limit po"]
    by (auto simp: validate_pagination_def create_pagination_def Let_def decode_key_def split: if_splits sum.splits option.splits)
qed

text \<open>
  Without sorting the cursor of a request has no effect.  The endpoints for token accounts,
  signatures and editions validate their requests this way, so that a client that passes on the
  cursor of a page gets the same page again.
\<close>

lemma cursor_ignored_without_sorting:
  "validate_pagination E limit None None None cursor None = validate_pagination E limit None None None None None"
  by (simp add: validate_pagination_def validate_keyset_def)

section \<open>Pages by cursor\<close>

text \<open>
  The pages a client sees that passes the key of the last row of a page as the next cursor.
\<close>

fun cursor_pages ::
  "nat \<Rightarrow> u64 \<Rightarrow> 'r list \<Rightarrow> AssetSortDirection \<Rightarrow> ('r \<Rightarrow> bytes) \<Rightarrow> bytes option \<Rightarrow> 'r list list" where
  "cursor_pages 0 limit rows dir key c = []"
| "cursor_pages (Suc n) limit rows dir key c =
     (let p = paginate (Pagination_Cursor \<lparr>cursor_id = c\<rparr>) limit rows dir key in
      p # (if p = [] then [] else cursor_pages n limit rows dir key (Some (key (last p)))))"

definition key_order :: "AssetSortDirection \<Rightarrow> bytes \<Rightarrow> bytes \<Rightarrow> bool" where
  "key_order dir a b = (if dir = Sort_Asc then a < b else b < a)"

lemma paginate_cursor:
  "paginate (Pagination_Cursor \<lparr>cursor_id = c\<rparr>) limit rows dir key =
     take (unat limit) (filter (\<lambda>r. case c of None \<Rightarrow> True | Some k \<Rightarrow> key_order dir k (key r)) rows)"
  by (auto simp: paginate_def key_order_def split: option.split)

lemma filter_after_prefix:
  assumes "sorted_wrt (key_order dir) (map key (xs @ ys))" and "xs \<noteq> []"
  shows "filter (\<lambda>r. key_order dir (key (last xs)) (key r)) (xs @ ys) = ys"
proof -
  have irr: "\<not> key_order dir a b" if "key_order dir b a" for a b
    using that by (auto simp: key_order_def split: if_splits)
  have "\<not> key_order dir (key (last xs)) (key x)" if "x \<in> set xs" for x
  proof (cases "x = last xs")
    case False
    obtain zs where zs: "xs = zs @ [last xs]"
      using assms(2) by (metis append_butlast_last_id)
    then have "x \<in> set zs"
      using that False by (metis rotate1.simps(2) set_ConsD set_rotate1)
    moreover have "sorted_wrt (key_order dir) (map key (zs @ [last xs]))"
      using assms(1) zs by (metis map_append sorted_wrt_append)
    ultimately have "key_order dir (key x) (key (last xs))"
      by (auto simp: sorted_wrt_append)
    then show ?thesis by (rule irr)
  qed (simp add: key_order_def)
  moreover have "key_order dir (key (last xs)) (key y)" if "y \<in> set ys" for y
    using assms that by (auto simp: sorted_wrt_append)
  ultimately show ?thesis
    by (simp add: filter_empty_conv filter_id_conv)
qed

lemma cursor_pages_from:
  assumes "sorted_wrt (key_order dir) (map key (xs @ ys))" and "0 < limit"
  shows "concat (cursor_pages n limit (xs @ ys) dir key (if xs = [] then None else Some (key (last xs)))) =
    take (n * unat limit) ys"
  using assms(1)
proof (induction n arbitrary: xs ys)
  case (Suc n)
  let ?c = "if xs = [] then None else Some (key (last xs))" and ?p = "take (unat limit) ys"
  have l: "0 < unat limit"
    using assms(2) by (simp add: unat_gt_0)
  have p: "paginate (Pagination_Cursor \<lparr>cursor_id = ?c\<rparr>) limit (xs @ ys) dir key = ?p"
    using filter_after_prefix[OF Suc.prems] by (cases "xs = []") (simp_all add: paginate_cursor del: filter_append)
  show ?case
  proof (cases "?p = []")
    case True
    then have "ys = []" using l by simp
    then show ?thesis using p by (simp add: Let_def)
  next
    case False
    have "concat (cursor_pages n limit ((xs @ ?p) @ drop (unat limit) ys) dir key
        (if xs @ ?p = [] then None else Some (key (last (xs @ ?p))))) =
        take (n * unat limit) (drop (unat limit) ys)"
      using Suc.prems by (intro Suc.IH) simp
    then show ?thesis
      using p False by (simp add: Let_def take_add)
  qed
qed simp

lemma cursor_pages_all:
  assumes "sorted_wrt (key_order dir) (map key rows)" and "0 < limit"
  shows "concat (cursor_pages n limit rows dir key None) = take (n * unat limit) rows"
  using cursor_pages_from[of dir key "[]" rows limit n] assms by simp

theorem validated_pagination_witness:
  "\<exists>po. validate_pagination demo_env (Some 100) (Some 4294967295) None None None None = Inr po \<and>
     unat ((4294967295 - 1) * po_limit po) = 4294967294 * 100"
proof -
  obtain po where po: "validate_pagination demo_env (Some 100) (Some 4294967295) None None None None = Inr po"
    by (simp add: validate_pagination_def validate_keyset_def Let_def)
  moreover have "create_pagination po = Inr (Pagination_Page 4294967295)" "po_limit po = 100"
    using po by (auto simp: validate_pagination_def validate_keyset_def create_pagination_def Let_def decode_key_def)
  ultimately show ?thesis
    using validated_pagination[OF po] by simp
qed

end
