(* ===== verification/AssetQuery.thy ===== *)
theory AssetQuery
  imports Chain Pagination "HOL-Library.AList" "HOL-Library.Option_ord"
begin

text \<open>
  The queries of \<open>digital_asset_types/src/dao/scopes/asset.rs\<close>.  A query reads a snapshot of the tables, a
  list of rows per table; where a statement has no \<open>ORDER BY\<close> the rows come in the order of the list.
  A statement that the database rejects is the error \<open>QE_Query\<close>; that a connection fails is left out
  here: each query passes such an error on.
\<close>

section \<open>Tables and options\<close>

record snapshot =
  sn_asset :: "asset_row list"
  sn_created_at :: "bytes \<Rightarrow> int option"
  sn_asset_data :: "asset_data_row list"
  sn_asset_creators :: "asset_creators_row list"
  sn_asset_authority :: "asset_authority_row list"
  sn_asset_grouping :: "asset_grouping_row list"
  sn_attachments :: "attachment_row list"
  sn_tokens :: "tokens_row list"
  sn_token_accounts :: "token_accounts_row list"
  sn_cl_audits :: "cl_audits_row list"

record Options =
  show_unverified_collections :: bool
  show_collection_metadata :: bool
  show_zero_balance :: bool
  show_inscription :: bool
  show_fungible :: bool

definition Options_default :: Options where
  "Options_default = \<lparr>show_unverified_collections = False, show_collection_metadata = False,
     show_zero_balance = False, show_inscription = False, show_fungible = False\<rparr>"

record FullAsset =
  fa_asset :: asset_row
  fa_data :: asset_data_row
  fa_token_info :: "tokens_row option"
  fa_authorities :: "asset_authority_row list"
  fa_creators :: "asset_creators_row list"
  fa_inscription :: "attachment_row option"
  fa_groups :: "(asset_grouping_row \<times> asset_data_row option) list"

text \<open>\<open>data->>'k'\<close>: the text of a field; \<open>render\<close> prints a value that is not a string.\<close>

definition json_text :: "(json \<Rightarrow> string) \<Rightarrow> string \<Rightarrow> json \<Rightarrow> string option" where
  "json_text render k v =
     (case v of
        JObject fs \<Rightarrow>
          (case map_of fs k of
             None \<Rightarrow> None
           | Some JNull \<Rightarrow> None
           | Some (JString x) \<Rightarrow> Some x
           | Some x \<Rightarrow> Some (render x))
      | _ \<Rightarrow> None)"

section \<open>Selecting assets\<close>

text \<open>\<open>ORDER BY col, id\<close>; a NULL sorts after the values.\<close>

definition nulls_last :: "int option \<Rightarrow> nat \<times> int" where
  "nulls_last v = (case v of None \<Rightarrow> (1, 0) | Some x \<Rightarrow> (0, x))"

definition order_key :: "snapshot \<Rightarrow> sort_column \<Rightarrow> asset_row \<Rightarrow> (nat \<times> int) \<times> bytes" where
  "order_key S col a =
     (case col of
        Column_Id \<Rightarrow> (0, 0)
      | Column_CreatedAt \<Rightarrow> nulls_last (sn_created_at S (a_id a))
      | Column_SlotUpdated \<Rightarrow> nulls_last (a_slot_updated a), a_id a)"

definition order_assets ::
  "snapshot \<Rightarrow> sort_column option \<Rightarrow> AssetSortDirection \<Rightarrow> asset_row list \<Rightarrow> asset_row list" where
  "order_assets S sort_by sort_direction rows =
     (case sort_by of
        None \<Rightarrow> rows
      | Some col \<Rightarrow>
          (if sort_direction = Sort_Asc then sort_key (order_key S col) rows
           else rev (sort_key (order_key S col) rows)))"

section \<open>Rows related to assets\<close>

definition filter_out_stale_creators :: "asset_creators_row list \<Rightarrow> asset_creators_row list" where
  "filter_out_stale_creators creators =
     (case creators of
        [] \<Rightarrow> []
      | c # cs \<Rightarrow>
          (if ac_creator c = [] then []
           else let max_slot_updated = fold (\<lambda>c. max (ac_slot_updated c)) cs (ac_slot_updated c);
                    creators1 = filter (\<lambda>c. ac_slot_updated c = max_slot_updated) creators;
                    seq = (if Some 0 \<in> ac_seq ` set creators1 then Some 0
                           else (case creators1 of
                                   [] \<Rightarrow> None
                                 | d # ds \<Rightarrow> fold (\<lambda>c. max (ac_seq c)) ds (ac_seq d)))
                in filter (\<lambda>c. ac_seq c = seq) creators1))"

text \<open>The map of assets keeps the order of insertion; \<open>update_asset\<close> is \<open>get_mut\<close>.\<close>

type_synonym assets_map = "(bytes \<times> FullAsset) list"

definition update_asset :: "bytes \<Rightarrow> (FullAsset \<Rightarrow> FullAsset) \<Rightarrow> assets_map \<Rightarrow> assets_map" where
  "update_asset k f m = map (\<lambda>(k', fa). (k', if k' = k then f fa else fa)) m"

definition update_assets :: "('x \<Rightarrow> bytes) \<Rightarrow> ('x \<Rightarrow> FullAsset \<Rightarrow> FullAsset) \<Rightarrow> 'x list \<Rightarrow> assets_map \<Rightarrow> assets_map" where
  "update_assets key f xs m = fold (\<lambda>x. update_asset (key x) (f x)) xs m"

definition find_asset_data :: "snapshot \<Rightarrow> bytes \<Rightarrow> asset_data_row option" where
  "find_asset_data S k = List.find (\<lambda>d. ad_id d = k) (sn_asset_data S)"

definition insert_asset :: "snapshot \<Rightarrow> bytes list \<Rightarrow> asset_row \<Rightarrow> assets_map \<Rightarrow> assets_map" where
  "insert_asset S asset_ids a m =
     (case Option.bind (a_asset_data a) (\<lambda>d. if d \<in> set asset_ids then find_asset_data S d else None) of
        None \<Rightarrow> m
      | Some d \<Rightarrow> AList.update (a_id a)
          \<lparr>fa_asset = a, fa_data = d, fa_token_info = None, fa_authorities = [], fa_creators = [],
           fa_inscription = None, fa_groups = []\<rparr> m)"

definition find_tokens :: "snapshot \<Rightarrow> bytes list \<Rightarrow> tokens_row list" where
  "find_tokens S ids = filter (\<lambda>t. t_mint t \<in> set ids) (sn_tokens S)"

definition select_groups :: "snapshot \<Rightarrow> bool \<Rightarrow> bytes list \<Rightarrow> asset_grouping_row list" where
  "select_groups S unverified ids = sort_key ag_asset_id
     (filter (\<lambda>g. ag_asset_id g \<in> set ids \<and> ag_group_value g \<noteq> None \<and> (unverified \<or> ag_verified g))
       (sn_asset_grouping S))"

text \<open>\<open>find_also_related(asset_data)\<close> joins on the asset of the group row.\<close>

definition group_with_data ::
  "snapshot \<Rightarrow> Options \<Rightarrow> asset_grouping_row \<Rightarrow> asset_grouping_row \<times> asset_data_row option" where
  "group_with_data S options g =
     (g, if show_collection_metadata options then find_asset_data S (ag_asset_id g) else None)"

definition get_related_for_assets ::
  "snapshot \<Rightarrow> asset_row list \<Rightarrow> Options \<Rightarrow> bytes option \<Rightarrow> FullAsset list" where
  "get_related_for_assets S assets options required_creator =
     (let asset_ids = map a_id assets;
          m = fold (insert_asset S asset_ids) assets [];
          ids = map fst m;
          creators = sort_key (\<lambda>c. (ac_asset_id c, ac_position c))
            (filter (\<lambda>c. ac_asset_id c \<in> set ids) (sn_asset_creators S));
          m = update_assets ac_asset_id (\<lambda>c fa. fa\<lparr>fa_creators := fa_creators fa @ [c]\<rparr>) creators m;
          m = map (\<lambda>(k, fa). (k, fa\<lparr>fa_creators := filter_out_stale_creators (fa_creators fa)\<rparr>)) m;
          m = (case required_creator of
                 None \<Rightarrow> m
               | Some required \<Rightarrow> filter (\<lambda>(_, fa). \<exists>c\<in>set (fa_creators fa). ac_creator c = required) m);
          ids = map fst m;
          authorities = sort_key aa_asset_id (filter (\<lambda>a. aa_asset_id a \<in> set ids) (sn_asset_authority S));
          m = update_assets aa_asset_id (\<lambda>a fa. fa\<lparr>fa_authorities := fa_authorities fa @ [a]\<rparr>) authorities m;
          m = (if show_fungible options
               then update_assets t_mint (\<lambda>t fa. fa\<lparr>fa_token_info := Some t\<rparr>) (find_tokens S ids) m else m);
          m = (if show_inscription options
               then update_assets att_id (\<lambda>a fa. fa\<lparr>fa_inscription := Some a\<rparr>)
                 (filter (\<lambda>a. att_asset_id a \<in> Some ` set asset_ids) (sn_attachments S)) m
               else m);
          groups = map (group_with_data S options) (select_groups S (show_unverified_collections options) ids);
          m = update_assets (\<lambda>g. ag_asset_id (fst g)) (\<lambda>g fa. fa\<lparr>fa_groups := fa_groups fa @ [g]\<rparr>) groups m
      in map snd m)"

section \<open>Queries\<close>

definition get_inscription_by_mint ::
  "env \<Rightarrow> (json \<Rightarrow> string) \<Rightarrow> snapshot \<Rightarrow> bytes \<Rightarrow> QueryErr + attachment_row" where
  "get_inscription_by_mint E render S mint =
     (case List.find (\<lambda>a. Option.bind (att_data a) (json_text render ''root'') = Some (bs58_encode E mint))
             (sn_attachments S) of
        Some t \<Rightarrow> Inr t
      | None \<Rightarrow> Inl (QE_RecordNotFound ''Inscription Not Found''))"

definition get_by_id ::
  "env \<Rightarrow> (json \<Rightarrow> string) \<Rightarrow> snapshot \<Rightarrow> bytes \<Rightarrow> Options \<Rightarrow> QueryErr + FullAsset" where
  "get_by_id E render S asset_id options =
     (let inscription =
            (if show_inscription options
             then (case get_inscription_by_mint E render S asset_id of Inl _ \<Rightarrow> None | Inr t \<Rightarrow> Some t) else None);
          token_info =
            (if show_fungible options
             then (case find_tokens S [asset_id] of [] \<Rightarrow> None | t # _ \<Rightarrow> Some t) else None)
      in case List.find (\<lambda>a. a_id a = asset_id) (sn_asset S) of
           None \<Rightarrow> Inl (QE_RecordNotFound ''Asset Not Found'')
         | Some a \<Rightarrow>
             (case Option.bind (a_asset_data a) (find_asset_data S) of
                None \<Rightarrow> Inl (QE_RecordNotFound ''Asset Not Found'')
              | Some data \<Rightarrow>
                  (if a_supply a = 0 then Inl (QE_Custom ''Asset has no supply'')
                   else Inr \<lparr>fa_asset = a, fa_data = data, fa_token_info = token_info,
                     fa_authorities = sort_key aa_asset_id
                       (filter (\<lambda>x. aa_asset_id x = a_id a) (sn_asset_authority S)),
                     fa_creators = filter_out_stale_creators (sort_key ac_position
                       (filter (\<lambda>c. ac_asset_id c = a_id a) (sn_asset_creators S))),
                     fa_inscription = inscription,
                     fa_groups = map (group_with_data S options) (select_groups S False [a_id a])\<rparr>)))"

text \<open>
  \<open>get_assets_by_condition\<close> and \<open>get_by_related_condition\<close>: the rows that the statement selects
  before ordering and pagination are an argument.
\<close>

definition get_assets_page ::
  "snapshot \<Rightarrow> asset_row list \<Rightarrow> sort_column option \<Rightarrow> AssetSortDirection \<Rightarrow> Pagination \<Rightarrow> u64 \<Rightarrow> asset_row list" where
  "get_assets_page S rows sort_by sort_direction pagination limit =
     paginate pagination limit (order_assets S sort_by sort_direction rows) sort_direction a_id"

definition get_assets_by_condition ::
  "snapshot \<Rightarrow> asset_row list \<Rightarrow> sort_column option \<Rightarrow> AssetSortDirection \<Rightarrow> Pagination \<Rightarrow> u64 \<Rightarrow>
   Options \<Rightarrow> FullAsset list" where
  "get_assets_by_condition S rows sort_by sort_direction pagination limit options =
     get_related_for_assets S (get_assets_page S rows sort_by sort_direction pagination limit) options None"

text \<open>A left join with a condition on the joined row: an asset comes once per row that matches.\<close>

definition join_rows :: "('x \<Rightarrow> bytes) \<Rightarrow> ('x \<Rightarrow> bool) \<Rightarrow> 'x list \<Rightarrow> asset_row list \<Rightarrow> asset_row list" where
  "join_rows key condition xs assets =
     concat (map (\<lambda>a. map (\<lambda>_. a) (filter (\<lambda>x. key x = a_id a \<and> condition x) xs)) assets)"

definition get_by_related_condition ::
  "snapshot \<Rightarrow> asset_row list \<Rightarrow> sort_column option \<Rightarrow> AssetSortDirection \<Rightarrow> Pagination \<Rightarrow> u64 \<Rightarrow>
   Options \<Rightarrow> bytes option \<Rightarrow> FullAsset list" where
  "get_by_related_condition S rows sort_by sort_direction pagination limit options required_creator =
     get_related_for_assets S (get_assets_page S rows sort_by sort_direction pagination limit) options
       required_creator"

definition supplied :: "snapshot \<Rightarrow> asset_row list" where
  "supplied S = filter (\<lambda>a. 0 < a_supply a) (sn_asset S)"

definition get_by_creator ::
  "snapshot \<Rightarrow> bytes \<Rightarrow> bool \<Rightarrow> sort_column option \<Rightarrow> AssetSortDirection \<Rightarrow> Pagination \<Rightarrow> u64 \<Rightarrow>
   Options \<Rightarrow> FullAsset list" where
  "get_by_creator S creator only_verified sort_by sort_direction pagination limit options =
     get_by_related_condition S
       (join_rows ac_asset_id (\<lambda>c. ac_creator c = creator \<and> (only_verified \<longrightarrow> ac_verified c))
          (sn_asset_creators S) (supplied S))
       sort_by sort_direction pagination limit options (Some creator)"

definition get_grouping :: "snapshot \<Rightarrow> string \<Rightarrow> string \<Rightarrow> nat" where
  "get_grouping S group_key group_value =
     length (filter (\<lambda>g. ag_group_key g = group_key \<and> ag_group_value g = Some group_value \<and> ag_verified g)
       (sn_asset_grouping S))"

definition get_by_grouping ::
  "snapshot \<Rightarrow> string \<Rightarrow> string \<Rightarrow> sort_column option \<Rightarrow> AssetSortDirection \<Rightarrow> Pagination \<Rightarrow> u64 \<Rightarrow>
   Options \<Rightarrow> FullAsset list" where
  "get_by_grouping S group_key group_value sort_by sort_direction pagination limit options =
     get_by_related_condition S
       (join_rows ag_asset_id (\<lambda>g. ag_group_key g = group_key \<and> ag_group_value g = Some group_value \<and>
            (show_unverified_collections options \<or> ag_verified g)) (sn_asset_grouping S) (supplied S))
       sort_by sort_direction pagination limit options None"

definition get_assets_by_owner ::
  "snapshot \<Rightarrow> bytes \<Rightarrow> sort_column option \<Rightarrow> AssetSortDirection \<Rightarrow> Pagination \<Rightarrow> u64 \<Rightarrow> Options \<Rightarrow>
   FullAsset list" where
  "get_assets_by_owner S owner =
     get_assets_by_condition S (filter (\<lambda>a. a_owner a = Some owner \<and> 0 < a_supply a) (sn_asset S))"

definition get_assets :: "snapshot \<Rightarrow> bytes list \<Rightarrow> Pagination \<Rightarrow> u64 \<Rightarrow> Options \<Rightarrow> FullAsset list" where
  "get_assets S asset_ids =
     get_assets_by_condition S (filter (\<lambda>a. a_id a \<in> set asset_ids \<and> 0 < a_supply a) (sn_asset S)) None Sort_Asc"

definition get_by_authority ::
  "snapshot \<Rightarrow> bytes \<Rightarrow> sort_column option \<Rightarrow> AssetSortDirection \<Rightarrow> Pagination \<Rightarrow> u64 \<Rightarrow> Options \<Rightarrow>
   FullAsset list" where
  "get_by_authority S authority sort_by sort_direction pagination limit options =
     get_by_related_condition S
       (join_rows aa_asset_id (\<lambda>x. aa_authority x = authority) (sn_asset_authority S) (supplied S))
       sort_by sort_direction pagination limit options None"

definition get_token_accounts ::
  "snapshot \<Rightarrow> bytes option \<Rightarrow> bytes option \<Rightarrow> Pagination \<Rightarrow> u64 \<Rightarrow> Options \<Rightarrow>
   QueryErr + token_accounts_row list" where
  "get_token_accounts S owner_address mint_address pagination limit options =
     (if owner_address = None \<and> mint_address = None
      then Inl (QE_Custom ''Either 'ownerAddress' or 'mintAddress' must be provided'')
      else Inr (paginate pagination limit
        (filter (\<lambda>t. (if show_zero_balance options then 0 \<le> ta_amount t else 0 < ta_amount t) \<and>
                     (case owner_address of Some w \<Rightarrow> ta_owner t = w | None \<Rightarrow> True) \<and>
                     (case mint_address of Some m \<Rightarrow> ta_mint t = m | None \<Rightarrow> True)) (sn_token_accounts S))
        Sort_Asc ta_pubkey))"

text \<open>
  The pages of \<open>cl_audits_v2\<close> are by \<open>seq\<close>, a number; a key or a cursor, which is a byte string, makes the
  database reject the statement.
\<close>

definition page_by_seq ::
  "Pagination \<Rightarrow> u64 \<Rightarrow> 'r list \<Rightarrow> QueryErr + 'r list" where
  "page_by_seq pagination limit rows =
     (case pagination of
        Pagination_Keyset None None \<Rightarrow> Inr (take (unat limit) rows)
      | Pagination_Keyset _ _ \<Rightarrow> Inl (QE_Query ''operator does not exist'')
      | Pagination_Page page \<Rightarrow>
          Inr (take (unat limit) (if 0 < page then drop (unat ((page - 1) * limit)) rows else rows))
      | Pagination_Cursor cursor \<Rightarrow>
          (if cursor \<noteq> Cursor_default then Inl (QE_Query ''operator does not exist'')
           else Inr (take (unat limit) rows)))"

definition fetch_transactions ::
  "env \<Rightarrow> snapshot \<Rightarrow> bytes \<Rightarrow> int \<Rightarrow> Pagination \<Rightarrow> u64 \<Rightarrow> AssetSortDirection option \<Rightarrow>
   QueryErr + (string \<times> string) list" where
  "fetch_transactions E S tree leaf_idx pagination limit sort_direction =
     (let rows = sort_key cla_seq (filter (\<lambda>r. cla_tree r = tree \<and> cla_leaf_idx r = leaf_idx) (sn_cl_audits S));
          stmt = (if sort_direction = Some Sort_Asc then rows else rev rows)
      in case page_by_seq pagination limit stmt of
           Inl e \<Rightarrow> Inl e
         | Inr transactions \<Rightarrow>
             Inr (map (\<lambda>t. (bs58_encode E (cla_tx t), to_pascal_case (cla_instruction t))) transactions))"

definition get_asset_signatures ::
  "env \<Rightarrow> snapshot \<Rightarrow> bytes option \<Rightarrow> bytes option \<Rightarrow> int option \<Rightarrow> Pagination \<Rightarrow> u64 \<Rightarrow>
   AssetSortDirection option \<Rightarrow> QueryErr + (string \<times> string) list" where
  "get_asset_signatures E S asset_id tree_id leaf_idx pagination limit sort_direction =
     (case (tree_id, leaf_idx) of
        (Some tree, Some i) \<Rightarrow> fetch_transactions E S tree i pagination limit sort_direction
      | _ \<Rightarrow>
          (case asset_id of
             None \<Rightarrow> Inl (QE_Custom ''Either 'id' or both 'tree' and 'leafIndex' must be provided'')
           | Some k \<Rightarrow>
               (case List.find (\<lambda>a. a_id a = k) (sn_asset S) of
                  None \<Rightarrow> Inr []
                | Some a \<Rightarrow>
                    (case a_tree_id a of
                       None \<Rightarrow> Inl (QE_RecordNotFound ''Tree not found'')
                     | Some tree \<Rightarrow>
                         (if tree = [] then Inl (QE_Custom ''Empty tree for asset'')
                          else case a_nonce a of
                            None \<Rightarrow> Inl (QE_RecordNotFound ''Leaf ID does not exist'')
                          | Some i \<Rightarrow> fetch_transactions E S tree i pagination limit sort_direction)))))"

section \<open>Pages of assets\<close>

text \<open>The pages of assets sorted by id that a client gets by passing on the id of the last asset.\<close>

fun asset_pages ::
  "nat \<Rightarrow> snapshot \<Rightarrow> asset_row list \<Rightarrow> AssetSortDirection \<Rightarrow> u64 \<Rightarrow> bytes option \<Rightarrow> asset_row list list" where
  "asset_pages 0 S rows dir limit c = []"
| "asset_pages (Suc n) S rows dir limit c =
     (let p = get_assets_page S rows (Some Column_Id) dir (Pagination_Cursor \<lparr>cursor_id = c\<rparr>) limit in
      p # (if p = [] then [] else asset_pages n S rows dir limit (Some (a_id (last p)))))"

lemma asset_pages_cursor:
  "asset_pages n S rows dir limit c = cursor_pages n limit (order_assets S (Some Column_Id) dir rows) dir a_id c"
  by (induction n arbitrary: c) (simp_all add: get_assets_page_def Let_def)

lemma mset_order_assets [simp]: "mset (order_assets S col dir rows) = mset rows"
  by (simp add: order_assets_def split: option.split)

lemma order_by_id:
  assumes "distinct (map a_id rows)"
  shows "sorted_wrt (key_order dir) (map a_id (order_assets S (Some Column_Id) dir rows))"
proof -
  let ?xs = "sort_key (order_key S Column_Id) rows"
  have "sorted (map (Pair (0 :: nat, 0 :: int)) (map a_id ?xs))"
    using sorted_sort_key[of "order_key S Column_Id" rows] by (simp add: order_key_def[abs_def] o_def)
  then have "sorted (map a_id ?xs)"
    by (simp add: sorted_wrt_map less_eq_prod_def)
  moreover have "distinct (map a_id ?xs)"
    using assms by (simp add: distinct_map)
  ultimately have "sorted_wrt (<) (map a_id ?xs)"
    by (simp add: strict_sorted_iff)
  then show ?thesis
    by (cases dir) (simp_all add: order_assets_def key_order_def[abs_def] sorted_wrt_rev rev_map[symmetric] del: sort_key_simps)
qed


section \<open>Batches and single assets\<close>

lemma update_asset_keys [simp]: "map fst (update_asset k f m) = map fst m"
  by (induction m) (auto simp: update_asset_def)

lemma update_assets_map:
  "update_assets key f xs m = map (\<lambda>(k, fa). (k, fold f (filter (\<lambda>x. key x = k) xs) fa)) m"
proof (induction xs arbitrary: m)
  case Nil
  then show ?case by (simp add: update_assets_def case_prod_unfold)
next
  case (Cons x xs)
  have "update_assets key f (x # xs) m = update_assets key f xs (update_asset (key x) (f x) m)"
    by (simp add: update_assets_def)
  then show ?case
    by (auto simp: Cons.IH update_asset_def)
qed

lemma fold_push:
  "fold (\<lambda>c fa. fa\<lparr>fa_creators := fa_creators fa @ [c]\<rparr>) cs fa = fa\<lparr>fa_creators := fa_creators fa @ cs\<rparr>"
  "fold (\<lambda>a fa. fa\<lparr>fa_authorities := fa_authorities fa @ [a]\<rparr>) as fa = fa\<lparr>fa_authorities := fa_authorities fa @ as\<rparr>"
  "fold (\<lambda>g fa. fa\<lparr>fa_groups := fa_groups fa @ [g]\<rparr>) gs fa = fa\<lparr>fa_groups := fa_groups fa @ gs\<rparr>"
proof -
  show "fold (\<lambda>c fa. fa\<lparr>fa_creators := fa_creators fa @ [c]\<rparr>) cs fa = fa\<lparr>fa_creators := fa_creators fa @ cs\<rparr>"
    by (induction cs arbitrary: fa) simp_all
  show "fold (\<lambda>a fa. fa\<lparr>fa_authorities := fa_authorities fa @ [a]\<rparr>) as fa = fa\<lparr>fa_authorities := fa_authorities fa @ as\<rparr>"
    by (induction "as" arbitrary: fa) simp_all
  show "fold (\<lambda>g fa. fa\<lparr>fa_groups := fa_groups fa @ [g]\<rparr>) gs fa = fa\<lparr>fa_groups := fa_groups fa @ gs\<rparr>"
    by (induction gs arbitrary: fa) simp_all
qed

text \<open>The entry of an asset before its related rows are added.\<close>

definition base_entry :: "snapshot \<Rightarrow> bytes list \<Rightarrow> asset_row \<Rightarrow> (bytes \<times> FullAsset) option" where
  "base_entry S ids a =
     map_option (\<lambda>d. (a_id a, \<lparr>fa_asset = a, fa_data = d, fa_token_info = None, fa_authorities = [], fa_creators = [],
        fa_inscription = None, fa_groups = []\<rparr>))
      (Option.bind (a_asset_data a) (\<lambda>d. if d \<in> set ids then find_asset_data S d else None))"

lemma insert_assets:
  assumes "distinct (map a_id assets)" and "fst ` set m \<inter> a_id ` set assets = {}"
  shows "fold (insert_asset S ids) assets m = m @ List.map_filter (base_entry S ids) assets"
  using assms
proof (induction assets arbitrary: m)
  case Nil
  then show ?case by (simp add: map_filter_simps)
next
  case (Cons a assets)
  have fresh: "a_id a \<notin> fst ` set m" using Cons.prems(2) by auto
  have upd: "AList.update (a_id a) v m = m @ [(a_id a, v)]" for v
    using fresh by (induction m) auto
  have "fst ` set (insert_asset S ids a m) \<inter> a_id ` set assets = {}"
    using Cons.prems by (auto simp: insert_asset_def upd split: option.splits)
  then show ?case
    using Cons by (auto simp: insert_asset_def base_entry_def upd map_filter_simps split: option.splits)
qed

lemma sort_key_pair: "sort_key (\<lambda>c. (k, f c)) xs = sort_key f xs"
proof -
  have "insort_key (\<lambda>c. (k, f c)) x ys = insort_key f x ys" for x ys
    by (induction ys) (auto simp: less_eq_prod_def)
  then show ?thesis
    by (induction xs) simp_all
qed

lemma sort_key_same: "(\<And>x. x \<in> set xs \<Longrightarrow> f x = g x) \<Longrightarrow> sort_key f xs = sort_key g xs"
proof (induction xs)
  case (Cons x xs)
  have ins: "insort_key f x ys = insort_key g x ys" if "\<And>y. y \<in> set ys \<Longrightarrow> f y = g y" for ys
    using that Cons.prems[of x] by (induction ys) auto
  have "insort_key f x (sort_key g xs) = insort_key g x (sort_key g xs)"
    by (rule ins) (use Cons.prems in simp)
  then show ?case
    using Cons by simp
qed simp

lemma filter_sorted_rows:
  assumes "k \<in> K"
  shows "filter (\<lambda>x. key x = k) (sort_key g (filter (\<lambda>x. key x \<in> K) T)) =
    sort_key g (filter (\<lambda>x. key x = k) T)"
proof -
  have "filter (\<lambda>x. key x = k) (filter (\<lambda>x. key x \<in> K) T) = filter (\<lambda>x. key x = k) T"
    using assms by (induction T) auto
  then show ?thesis
    by (simp add: filter_sort)
qed

lemma creators_of_asset:
  assumes "k \<in> K"
  shows "filter (\<lambda>c. ac_asset_id c = k) (sort_key (\<lambda>c. (ac_asset_id c, ac_position c))
      (filter (\<lambda>c. ac_asset_id c \<in> K) T)) = sort_key ac_position (filter (\<lambda>c. ac_asset_id c = k) T)"
proof -
  have "sort_key (\<lambda>c. (ac_asset_id c, ac_position c)) (filter (\<lambda>c. ac_asset_id c = k) T) =
      sort_key (\<lambda>c. (k, ac_position c)) (filter (\<lambda>c. ac_asset_id c = k) T)"
    by (rule sort_key_same) simp
  then show ?thesis
    using assms by (simp add: filter_sorted_rows sort_key_pair)
qed

lemma groups_of_asset:
  assumes "k \<in> set ids"
  shows "filter (\<lambda>g. ag_asset_id g = k) (select_groups S u ids) = select_groups S u [k]"
proof -
  have "filter (\<lambda>g. ag_asset_id g = k)
      (filter (\<lambda>g. ag_asset_id g \<in> set ids \<and> ag_group_value g \<noteq> None \<and> (u \<or> ag_verified g)) T) =
    filter (\<lambda>g. ag_asset_id g \<in> set [k] \<and> ag_group_value g \<noteq> None \<and> (u \<or> ag_verified g)) T" for T :: "asset_grouping_row list"
    using assms by (induction T) auto
  then show ?thesis
    unfolding select_groups_def filter_sort by (simp only:)
qed

text \<open>One asset of a batch, with the rows of the tables that belong to it.\<close>

definition related_entry :: "snapshot \<Rightarrow> Options \<Rightarrow> bytes \<Rightarrow> FullAsset \<Rightarrow> FullAsset" where
  "related_entry S options k fa =
     fa\<lparr>fa_creators := filter_out_stale_creators (sort_key ac_position
          (filter (\<lambda>c. ac_asset_id c = k) (sn_asset_creators S))),
        fa_authorities := sort_key aa_asset_id (filter (\<lambda>a. aa_asset_id a = k) (sn_asset_authority S)),
        fa_token_info := (if show_fungible options
          then fold (\<lambda>t _. Some t) (filter (\<lambda>t. t_mint t = k) (sn_tokens S)) None else None),
        fa_groups := map (group_with_data S options)
          (select_groups S (show_unverified_collections options) [k])\<rparr>"

lemma fold_token: "fold (\<lambda>t fa. fa\<lparr>fa_token_info := Some t\<rparr>) ts fa =
    fa\<lparr>fa_token_info := fold (\<lambda>t _. Some t) ts (fa_token_info fa)\<rparr>"
  by (induction ts arbitrary: fa) simp_all

lemma filter_tokens:
  "k \<in> set ids \<Longrightarrow> filter (\<lambda>t. t_mint t = k) (find_tokens S ids) = filter (\<lambda>t. t_mint t = k) (sn_tokens S)"
  unfolding find_tokens_def by (induction "sn_tokens S") (auto intro: filter_cong)

lemma filter_groups_with_data:
  "filter (\<lambda>g. ag_asset_id (fst g) = k) (map (group_with_data S options) gs) =
     map (group_with_data S options) (filter (\<lambda>g. ag_asset_id g = k) gs)"
  by (simp add: filter_map o_def group_with_data_def)

lemma related_without_inscriptions:
  assumes "distinct (map a_id assets)" and "\<not> show_inscription options"
  shows "get_related_for_assets S assets options None =
    map (\<lambda>(k, fa). related_entry S options k fa) (List.map_filter (base_entry S (map a_id assets)) assets)"
proof -
  let ?m = "List.map_filter (base_entry S (map a_id assets)) assets"
  have base: "fold (insert_asset S (map a_id assets)) assets [] = ?m"
    using insert_assets[of assets "[]"] assms(1) by simp
  have empty: "fa_creators fa = [] \<and> fa_authorities fa = [] \<and> fa_groups fa = [] \<and> fa_token_info fa = None"
    if "(k, fa) \<in> set ?m" for k fa
    using that by (auto simp: map_filter_def base_entry_def)
  have k: "k \<in> set (map fst ?m)" if "(k, fa) \<in> set ?m" for k fa
    using that by force
  show ?thesis
    using assms(2) empty k
    by (auto intro!: FullAsset.equality simp: get_related_for_assets_def Let_def base update_assets_map o_def case_prod_unfold fold_push fold_token
      creators_of_asset filter_sorted_rows filter_groups_with_data groups_of_asset filter_tokens related_entry_def
      intro!: map_cong)
qed

lemma map_map_filter:
  "(\<And>x. x \<in> set xs \<Longrightarrow> map_option f (g x) = h x) \<Longrightarrow> map f (List.map_filter g xs) = List.map_filter h xs"
proof (induction xs)
  case (Cons x xs)
  then show ?case
    using Cons.prems[of x, symmetric] by (cases "g x") (auto simp: map_filter_simps)
qed (simp add: map_filter_simps)

lemma find_distinct:
  "distinct (map f xs) \<Longrightarrow> x \<in> set xs \<Longrightarrow> List.find (\<lambda>y. f y = f x) xs = Some x"
  by (induction xs) (auto simp: image_iff)

lemma token_of_mint:
  assumes "distinct (map t_mint ts)"
  shows "fold (\<lambda>t _. Some t) (filter (\<lambda>t. t_mint t = k) ts) None =
    (case filter (\<lambda>t. t_mint t = k) ts of [] \<Rightarrow> None | t # _ \<Rightarrow> Some t)"
proof (cases "filter (\<lambda>t. t_mint t = k) ts")
  case (Cons t us)
  have "\<forall>u\<in>set (filter (\<lambda>t. t_mint t = k) ts). t_mint u = k"
    by simp
  then have "\<forall>u\<in>set (t # us). t_mint u = k"
    by (simp only: Cons)
  moreover have "distinct (map t_mint (t # us))"
    using distinct_map_filter[OF assms, of "\<lambda>t. t_mint t = k"] by (simp only: Cons)
  ultimately have "us = []"
    by (cases us) auto
  then show ?thesis
    using Cons by simp
qed simp

lemma single_page:
  assumes "distinct (map a_id rows)" and "a_id ` set rows \<subseteq> set ids" and "length ids \<le> unat limit"
  shows "get_assets_page S rows None dir (Pagination_Page 1) limit = rows"
proof -
  have "length rows = card (a_id ` set rows)"
    using assms(1) by (metis distinct_card length_map list.set_map)
  also have "\<dots> \<le> length ids"
    using assms(2) by (meson card_length card_mono finite_set order_trans)
  finally show ?thesis
    using assms(3) by (simp add: get_assets_page_def paginate_def order_assets_def)
qed

text \<open>
  A batch request and single requests agree.  Where the rows of assets point to their own metadata, as the
  indexer writes them, the assets that a batch returns are those that \<open>get_by_id\<close> returns for the ids of the batch,
  with the same related rows.
\<close>

lemma batch_agrees_with_single:
  assumes "distinct (map a_id (sn_asset S))" and "distinct (map t_mint (sn_tokens S))"
    and "\<forall>a\<in>set (sn_asset S). a_asset_data a = None \<or> a_asset_data a = Some (a_id a)"
    and "\<not> show_inscription options" and "\<not> show_unverified_collections options"
    and "length ids \<le> unat limit"
  shows "get_assets S ids (Pagination_Page 1) limit options =
    List.map_filter (\<lambda>a. case get_by_id E render S (a_id a) options of Inr fa \<Rightarrow> Some fa | Inl _ \<Rightarrow> None)
      (filter (\<lambda>a. a_id a \<in> set ids \<and> 0 < a_supply a) (sn_asset S))"
proof -
  let ?rows = "filter (\<lambda>a. a_id a \<in> set ids \<and> 0 < a_supply a) (sn_asset S)"
  have d: "distinct (map a_id ?rows)"
    using assms(1) by (rule distinct_map_filter)
  have "get_assets S ids (Pagination_Page 1) limit options =
      map (\<lambda>(k, fa). related_entry S options k fa) (List.map_filter (base_entry S (map a_id ?rows)) ?rows)"
    unfolding get_assets_def get_assets_by_condition_def
    by (subst single_page[OF d _ assms(6)]) (auto intro: related_without_inscriptions[OF d assms(4)])
  also have "\<dots> = List.map_filter (\<lambda>a. case get_by_id E render S (a_id a) options of Inr fa \<Rightarrow> Some fa | Inl _ \<Rightarrow> None) ?rows"
  proof (rule map_map_filter)
    fix a assume a: "a \<in> set ?rows"
    have f: "List.find (\<lambda>b. a_id b = a_id a) (sn_asset S) = Some a"
      using a assms(1) by (intro find_distinct) auto
    have ad: "a_asset_data a = None \<or> a_asset_data a = Some (a_id a)" and own: "a_id a \<in> set (map a_id ?rows)"
      using a assms(3) by auto
    show "map_option (\<lambda>(k, fa). related_entry S options k fa) (base_entry S (map a_id ?rows) a) =
        (case get_by_id E render S (a_id a) options of Inr fa \<Rightarrow> Some fa | Inl _ \<Rightarrow> None)"
      using a ad own assms(4,5) token_of_mint[OF assms(2)]
      by (auto simp: get_by_id_def f Let_def base_entry_def related_entry_def find_tokens_def split: option.splits)
  qed
  finally show ?thesis .
qed

section \<open>Creators\<close>

lemma fold_max: "fold (\<lambda>x. max (f x)) xs y = Max (insert y (f ` set xs))"
proof (induction xs arbitrary: y)
  case (Cons x xs)
  have "Max (insert y (insert (f x) (f ` set xs))) = Max (insert (max (f x) y) (f ` set xs))"
    by (cases "f ` set xs = {}") (auto simp: max.assoc max.commute max.left_commute)
  then show ?case
    by (simp add: Cons.IH)
qed simp

text \<open>
  The creators of an asset are those of its last update.  When every row is from an earlier slot than the last
  update, or from its slot with its sequence number or a lower one (zero, the mark of decompressed assets, does not
  count as lower), the creators returned are the rows of the last update.
\<close>

lemma newest_creators_returned:
  assumes "creators = c # cs" and "ac_creator c \<noteq> []"
    and "\<exists>d\<in>set creators. ac_slot_updated d = Some w \<and> ac_seq d = Some q"
    and "\<forall>d\<in>set creators. ac_slot_updated d < Some w \<or>
      (ac_slot_updated d = Some w \<and> (ac_seq d = Some q \<or> (ac_seq d < Some q \<and> ac_seq d \<noteq> Some 0)))"
  shows "filter_out_stale_creators creators =
    filter (\<lambda>d. ac_slot_updated d = Some w \<and> ac_seq d = Some q) creators"
proof -
  let ?at = "filter (\<lambda>d. ac_slot_updated d = Some w) creators"
  have slot: "fold (\<lambda>c. max (ac_slot_updated c)) cs (ac_slot_updated c) = Some w"
    unfolding fold_max using assms by (intro Max_eqI) (auto simp: less_imp_le intro: rev_image_eqI)
  obtain d ds where at: "?at = d # ds"
    using assms(3) by (cases ?at) (auto simp: filter_empty_conv)
  have in_at: "x \<in> set (d # ds) \<longleftrightarrow> x \<in> set creators \<and> ac_slot_updated x = Some w" for x
    unfolding at[symmetric] by simp
  have le: "ac_seq x \<le> Some q" if "x \<in> set (d # ds)" for x
    using assms(4) that unfolding in_at by (auto simp: less_imp_le)
  have ex: "\<exists>x\<in>set (d # ds). ac_seq x = Some q"
    using assms(3) in_at by blast
  have "fold (\<lambda>c. max (ac_seq c)) ds (ac_seq d) = Some q"
    unfolding fold_max using le ex by (intro Max_eqI) (auto intro: rev_image_eqI)
  moreover have "Some 0 \<in> ac_seq ` set (d # ds) \<longleftrightarrow> q = 0"
    using assms(4) ex in_at by (metis (no_types, lifting) image_iff less_irrefl option.inject order_less_irrefl)
  ultimately have seq: "(if Some 0 \<in> ac_seq ` set ?at then Some 0
      else case ?at of [] \<Rightarrow> None | d # ds \<Rightarrow> fold (\<lambda>c. max (ac_seq c)) ds (ac_seq d)) = Some q"
    unfolding at by simp
  have "filter_out_stale_creators creators = filter (\<lambda>c. ac_seq c = Some q) ?at"
    using assms(2) seq unfolding assms(1)
    by (simp only: filter_out_stale_creators_def list.case Let_def slot if_False)
  then show ?thesis
    by (simp add: conj_commute)
qed

section \<open>Inscriptions and collection metadata\<close>

text \<open>The entries of the map while related rows are added.\<close>

definition own_entry :: "bytes \<Rightarrow> FullAsset \<Rightarrow> bool" where
  "own_entry k fa \<longleftrightarrow> k = a_id (fa_asset fa) \<and> (\<forall>i. fa_inscription fa = Some i \<longrightarrow> att_id i = k)"

definition own_entries :: "assets_map \<Rightarrow> bool" where
  "own_entries m \<longleftrightarrow> (\<forall>k fa. (k, fa) \<in> set m \<longrightarrow> own_entry k fa)"

lemma own_entries_insert:
  assumes "own_entries m"
  shows "own_entries (insert_asset S ids a m)"
proof -
  have "set (AList.update k v m) \<subseteq> insert (k, v) (set m)" for k v
    by (induction m) auto
  moreover have "own_entry (a_id a) \<lparr>fa_asset = a, fa_data = d, fa_token_info = None, fa_authorities = [],
      fa_creators = [], fa_inscription = None, fa_groups = []\<rparr>" for d
    by (simp add: own_entry_def)
  ultimately show ?thesis
    using assms by (fastforce simp: own_entries_def insert_asset_def split: option.splits)
qed

lemma own_entries_fold: "own_entries m \<Longrightarrow> own_entries (fold (insert_asset S ids) as m)"
  by (induction "as" arbitrary: m) (simp_all add: own_entries_insert)

lemma own_entries_update:
  assumes "own_entries m" and "\<And>x fa. x \<in> set xs \<Longrightarrow> own_entry (key x) fa \<Longrightarrow> own_entry (key x) (f x fa)"
  shows "own_entries (update_assets key f xs m)"
  using assms
proof (induction xs arbitrary: m)
  case (Cons x xs)
  have "own_entries (update_asset (key x) (f x) m)"
    using Cons.prems(1) Cons.prems(2)[of x] by (auto simp: own_entries_def update_asset_def)
  then show ?case
    using Cons by (simp add: update_assets_def)
qed (simp add: update_assets_def)

lemma own_entries_map:
  "own_entries m \<Longrightarrow> own_entries (map (\<lambda>(k, fa). (k, fa\<lparr>fa_creators := f fa\<rparr>)) m)"
  "own_entries m \<Longrightarrow> own_entries (filter P m)"
  "own_entries []"
  by (auto simp: own_entries_def own_entry_def)

text \<open>
  A batch shows an inscription only when the id of the attachment is the id of the asset.  The attachments are
  selected by their asset but stored under their own id, so an inscription, whose account is not the mint, is lost;
  \<open>get_by_id\<close> finds it.
\<close>

lemma batch_inscription_by_own_id:
  assumes "fa \<in> set (get_related_for_assets S assets options r)" and "fa_inscription fa = Some i"
  shows "att_id i = a_id (fa_asset fa)"
proof -
  have "\<exists>m. get_related_for_assets S assets options r = map snd m \<and> own_entries m"
    unfolding get_related_for_assets_def Let_def
    by (rule exI, rule conjI, rule refl)
      (auto intro!: own_entries_update own_entries_map own_entries_fold simp: own_entry_def split: option.split)
  then show ?thesis
    using assms by (auto simp: own_entries_def own_entry_def)
qed

text \<open>
  The collection metadata of an asset is its own metadata.  The group rows are joined with \<open>asset_data\<close> on the
  id of the asset, not of the collection.
\<close>

lemma collection_metadata_is_own:
  assumes "get_by_id E render S k options = Inr fa" and "(g, Some d) \<in> set (fa_groups fa)"
  shows "ad_id d = k"
proof -
  have "ad_id d = ag_asset_id g" if "group_with_data S options g' = (g, Some d)" for g'
    using that by (auto simp: group_with_data_def find_asset_data_def find_Some_iff split: if_splits)
  moreover have "a_id a = k" if "List.find (\<lambda>a. a_id a = k) (sn_asset S) = Some a" for a
    using that by (auto simp: find_Some_iff)
  ultimately show ?thesis
    using assms by (auto simp: get_by_id_def Let_def select_groups_def group_with_data_def split: option.splits if_splits)
qed

section \<open>A sample snapshot\<close>

definition demo_data_row :: "bytes \<Rightarrow> asset_data_row" where
  "demo_data_row k = \<lparr>ad_id = k, ad_chain_data_mutability = Chain_Mutable, ad_chain_data = JObject [],
     ad_metadata_url = ''u'', ad_metadata_mutability = Mut_Mutable, ad_metadata = JObject [], ad_slot_updated = 1,
     ad_reindex = None, ad_raw_name = None, ad_raw_symbol = None, ad_base_info_seq = None\<rparr>"

definition demo_creator :: "bytes \<Rightarrow> int \<Rightarrow> int \<Rightarrow> int \<Rightarrow> asset_creators_row" where
  "demo_creator x p w q = \<lparr>ac_asset_id = [7], ac_creator = x, ac_share = 50, ac_verified = True, ac_seq = Some q,
     ac_slot_updated = Some w, ac_position = p\<rparr>"

definition demo_snapshot :: snapshot where
  "demo_snapshot = \<lparr>sn_asset = [(asset_defaults [9])\<lparr>a_asset_data := Some [9]\<rparr>, (asset_defaults [7])\<lparr>a_asset_data := Some [7]\<rparr>],
     sn_created_at = (\<lambda>_. None), sn_asset_data = [demo_data_row [7], demo_data_row [9]],
     sn_asset_creators = [demo_creator [1] 0 2 5, demo_creator [2] 1 1 3], sn_asset_authority = [],
     sn_asset_grouping = [\<lparr>ag_asset_id = [7], ag_group_key = ''collection'', ag_group_value = Some ''c'', ag_seq = None,
       ag_slot_updated = None, ag_verified = True, ag_group_info_seq = None\<rparr>],
     sn_attachments = [\<lparr>att_id = [7], att_asset_id = Some [7], att_attachment_type = Att_TokenInscription,
       att_initialized = True, att_data = None, att_slot_updated = 1\<rparr>],
     sn_tokens = [], sn_token_accounts = [], sn_cl_audits = []\<rparr>"

lemmas demo_query_defs = demo_snapshot_def demo_data_row_def demo_creator_def asset_defaults_def


end
