(* ===== verification/SearchQuery.thy ===== *)
theory SearchQuery
  imports AssetQuery TokenInscription
begin

text \<open>
  The search for assets: \<open>SearchAssetsQuery\<close> of \<open>digital_asset_types/src/dao/mod.rs\<close>, which turns the
  options of a request into a condition and the joins it needs, and \<open>dapi/search_assets.rs\<close>.  A condition is a
  function of a joined row to SQL's truth values.  Text passed to the database as it is
  (\<open>SimpleExpr::Custom\<close>) is evaluated by the parameter \<open>custom\<close>.
\<close>

section \<open>Interfaces\<close>

datatype Interface =
    Interface_V1NFT | Interface_V1PRINT | Interface_Nft | Interface_LEGACY_NFT | Interface_FungibleAsset
  | Interface_FungibleToken | Interface_Identity | Interface_Executable | Interface_ProgrammableNFT
  | Interface_MplCoreAsset | Interface_MplCoreCollection | Interface_Custom

fun Interface_from :: "SpecificationVersions option \<Rightarrow> SpecificationAssetClass \<Rightarrow> Interface" where
  "Interface_from (Some Spec_V1) Class_Nft = Interface_V1NFT"
| "Interface_from (Some Spec_V1) Class_PrintableNft = Interface_V1NFT"
| "Interface_from (Some Spec_V0) Class_Nft = Interface_LEGACY_NFT"
| "Interface_from (Some Spec_V1) Class_ProgrammableNft = Interface_ProgrammableNFT"
| "Interface_from _ Class_MplCoreAsset = Interface_MplCoreAsset"
| "Interface_from _ Class_MplCoreCollection = Interface_MplCoreCollection"
| "Interface_from _ Class_FungibleAsset = Interface_FungibleAsset"
| "Interface_from _ Class_FungibleToken = Interface_FungibleToken"
| "Interface_from _ _ = Interface_Custom"

fun spec_of_interface :: "Interface \<Rightarrow> SpecificationVersions \<times> SpecificationAssetClass" where
  "spec_of_interface Interface_V1NFT = (Spec_V1, Class_Nft)"
| "spec_of_interface Interface_LEGACY_NFT = (Spec_V0, Class_Nft)"
| "spec_of_interface Interface_ProgrammableNFT = (Spec_V1, Class_ProgrammableNft)"
| "spec_of_interface Interface_V1PRINT = (Spec_V1, Class_Print)"
| "spec_of_interface Interface_FungibleAsset = (Spec_V1, Class_FungibleAsset)"
| "spec_of_interface Interface_MplCoreAsset = (Spec_V1, Class_MplCoreAsset)"
| "spec_of_interface Interface_MplCoreCollection = (Spec_V1, Class_MplCoreCollection)"
| "spec_of_interface Interface_FungibleToken = (Spec_V1, Class_FungibleToken)"
| "spec_of_interface _ = (Spec_V1, Class_Unknown)"

section \<open>Requests\<close>

datatype TokenTypeClass = TT_Fungible | TT_NonFungible | TT_Compressed | TT_Nft | TT_All

datatype ConditionType = Cond_Any | Cond_All

record SearchAssetsQuery =
  q_negate :: "bool option"
  q_condition_type :: "ConditionType option"
  q_interface :: "Interface option"
  q_specification_version :: "SpecificationVersions option"
  q_specification_asset_class :: "SpecificationAssetClass option"
  q_owner_address :: "bytes option"
  q_owner_type :: "OwnerType option"
  q_creator_address :: "bytes option"
  q_creator_verified :: "bool option"
  q_authority_address :: "bytes option"
  q_grouping :: "(string \<times> string) option"
  q_delegate :: "bytes option"
  q_frozen :: "bool option"
  q_supply :: "u64 option"
  q_supply_mint :: "bytes option"
  q_compressed :: "bool option"
  q_compressible :: "bool option"
  q_royalty_target_type :: "RoyaltyTargetType option"
  q_royalty_target :: "bytes option"
  q_royalty_amount :: "u32 option"
  q_burnt :: "bool option"
  q_json_uri :: "string option"
  q_name :: "bytes option"
  q_token_type :: "TokenTypeClass option"

definition SearchAssetsQuery_validate :: "SearchAssetsQuery \<Rightarrow> QueryErr + unit" where
  "SearchAssetsQuery_validate q =
     (if q_token_type q \<noteq> None then
        if q_owner_type q \<noteq> None then
          Inl (QE_Custom ''`ownerType` is not supported when using `tokenType` field'')
        else if q_owner_address q = None then
          Inl (QE_Custom ''Must provide `ownerAddress` when using `tokenType` field'')
        else if q_interface q \<noteq> None then
          Inl (QE_Custom ''`interface` is not supported when using `tokenType` field'')
        else Inr ()
      else Inr ())"

section \<open>Conditions\<close>

datatype join = Join_token_accounts | Join_asset_creators | Join_asset_authority | Join_asset_grouping | Join_asset_data

record joined =
  j_asset :: asset_row
  j_token_account :: "token_accounts_row option"
  j_creator :: "asset_creators_row option"
  j_authority :: "asset_authority_row option"
  j_grouping :: "asset_grouping_row option"
  j_data :: "asset_data_row option"

type_synonym cond = "joined \<Rightarrow> sql_bool"

definition col_eq :: "(joined \<Rightarrow> 'v option) \<Rightarrow> 'v \<Rightarrow> cond" where
  "col_eq col v j = map_option (\<lambda>x. x = v) (col j)"

definition asset_col :: "(asset_row \<Rightarrow> 'v) \<Rightarrow> joined \<Rightarrow> 'v option" where
  "asset_col col j = Some (col (j_asset j))"

definition asset_null_col :: "(asset_row \<Rightarrow> 'v option) \<Rightarrow> joined \<Rightarrow> 'v option" where
  "asset_null_col col j = col (j_asset j)"

definition cond_and :: "cond \<Rightarrow> cond \<Rightarrow> cond" where
  "cond_and a b j = sql_and (a j) (b j)"

definition cond_or :: "cond \<Rightarrow> cond \<Rightarrow> cond" where
  "cond_or a b j = sql_or (a j) (b j)"

definition cond_not :: "cond \<Rightarrow> cond" where
  "cond_not a j = map_option Not (a j)"

definition class_in :: "SpecificationAssetClass list \<Rightarrow> cond" where
  "class_in cs = foldl (\<lambda>a c. cond_or a (col_eq (asset_null_col a_specification_asset_class) c)) (\<lambda>_. Some False) cs"

definition nft_classes :: "SpecificationAssetClass list" where
  "nft_classes = [Class_Nft, Class_MplCoreAsset, Class_ProgrammableNft, Class_MplCoreCollection,
     Class_NonTransferableNft, Class_IdentityNft, Class_Print, Class_PrintableNft, Class_TransferRestrictedNft]"

definition class_not_null :: cond where
  "class_not_null j = Some (a_specification_asset_class (j_asset j) \<noteq> None)"

fun token_type_cond :: "TokenTypeClass \<Rightarrow> cond" where
  "token_type_cond TT_Compressed = (\<lambda>j. Some (a_tree_id (j_asset j) \<noteq> None))"
| "token_type_cond TT_Nft = cond_and (\<lambda>j. sql_is_null (a_tree_id (j_asset j))) (class_in nft_classes)"
| "token_type_cond TT_NonFungible = cond_and (\<lambda>j. sql_is_null (a_tree_id (j_asset j))) (class_in nft_classes)"
| "token_type_cond TT_Fungible = class_in [Class_FungibleAsset, Class_FungibleToken]"
| "token_type_cond TT_All = class_not_null"

definition by_token_account :: "SearchAssetsQuery \<Rightarrow> bool" where
  "by_token_account q \<longleftrightarrow> q_token_type q = Some TT_Fungible \<or> q_token_type q = Some TT_All"

definition owner_cond :: "SearchAssetsQuery \<Rightarrow> bytes \<Rightarrow> cond" where
  "owner_cond q o' =
     (if by_token_account q
      then cond_or (col_eq (asset_null_col a_owner) o') (col_eq (\<lambda>j. map_option ta_owner (j_token_account j)) o')
      else col_eq (asset_null_col a_owner) o')"

definition supply_cond :: "SearchAssetsQuery \<Rightarrow> cond" where
  "supply_cond q =
     (case q_supply q of
        Some s \<Rightarrow> col_eq (asset_col a_supply) (uint s)
      | None \<Rightarrow> cond_or (\<lambda>j. Some (a_supply (j_asset j) \<noteq> 0)) (col_eq (asset_col a_burnt) True))"

definition owner_type_cond :: "SearchAssetsQuery \<Rightarrow> cond" where
  "owner_type_cond q =
     (case q_owner_type q of
        Some w \<Rightarrow> col_eq (asset_col a_owner_type) w
      | None \<Rightarrow>
          (case q_token_type q of
             Some TT_Fungible \<Rightarrow> cond_and (col_eq (asset_col a_owner_type) Owner_Token)
               (class_in [Class_FungibleToken, Class_FungibleAsset])
           | Some TT_All \<Rightarrow> class_not_null
           | _ \<Rightarrow> cond_and (col_eq (asset_col a_owner_type) Owner_Single)
               (\<lambda>j. Some (a_supply (j_asset j) \<le> 1))))"

definition opt_cond :: "('v \<Rightarrow> cond) \<Rightarrow> 'v option \<Rightarrow> cond list" where
  "opt_cond f v = (case v of None \<Rightarrow> [] | Some x \<Rightarrow> [f x])"

definition name_expr :: "bytes \<Rightarrow> string" where
  "name_expr n = ''chain_data->>'' @ [CHR 0x27] @ ''name'' @ [CHR 0x27] @ '' LIKE '' @ [CHR 0x27] @ ''%'' @
     map (\<lambda>b. char_of (unat b)) n @ ''%'' @ [CHR 0x27]"

text \<open>The conditions in the order they are added.\<close>

definition condition_list :: "(string \<Rightarrow> cond) \<Rightarrow> SearchAssetsQuery \<Rightarrow> cond list" where
  "condition_list custom q =
     opt_cond (col_eq (asset_null_col a_specification_version)) (q_specification_version q) @
     opt_cond token_type_cond (q_token_type q) @
     opt_cond (col_eq (asset_null_col a_specification_asset_class)) (q_specification_asset_class q) @
     opt_cond (owner_cond q) (q_owner_address q) @
     opt_cond (col_eq (asset_null_col a_delegate)) (q_delegate q) @
     opt_cond (col_eq (asset_col a_frozen)) (q_frozen q) @
     opt_cond (col_eq (asset_null_col a_supply_mint)) (q_supply_mint q) @
     opt_cond (col_eq (asset_col a_compressed)) (q_compressed q) @
     opt_cond (col_eq (asset_col a_compressible)) (q_compressible q) @
     opt_cond (col_eq (asset_col a_royalty_target_type)) (q_royalty_target_type q) @
     opt_cond (col_eq (asset_null_col a_royalty_target)) (q_royalty_target q) @
     opt_cond (\<lambda>x. col_eq (asset_col a_royalty_amount) (uint x)) (q_royalty_amount q) @
     opt_cond (col_eq (asset_col a_burnt)) (q_burnt q) @
     [supply_cond q, owner_type_cond q] @
     opt_cond (col_eq (\<lambda>j. map_option ac_creator (j_creator j))) (q_creator_address q) @
     opt_cond (col_eq (\<lambda>j. map_option ac_verified (j_creator j))) (q_creator_verified q) @
     opt_cond (col_eq (\<lambda>j. map_option aa_authority (j_authority j))) (q_authority_address q) @
     opt_cond (\<lambda>g. cond_and (col_eq (\<lambda>j. map_option ag_group_key (j_grouping j)) (fst g))
       (col_eq (\<lambda>j. Option.bind (j_grouping j) ag_group_value) (snd g))) (q_grouping q) @
     opt_cond (col_eq (\<lambda>j. map_option ad_metadata_url (j_data j))) (q_json_uri q) @
     opt_cond (\<lambda>n. custom (name_expr n)) (q_name q)"

definition search_joins :: "SearchAssetsQuery \<Rightarrow> join list" where
  "search_joins q =
     (if q_owner_address q \<noteq> None \<and> by_token_account q then [Join_token_accounts] else []) @
     (if q_creator_address q \<noteq> None \<or> q_creator_verified q \<noteq> None then [Join_asset_creators] else []) @
     (if q_authority_address q \<noteq> None then [Join_asset_authority] else []) @
     (if q_grouping q \<noteq> None then [Join_asset_grouping] else []) @
     (if q_json_uri q \<noteq> None then [Join_asset_data] else []) @
     (if q_name q \<noteq> None then [Join_asset_data] else [])"

definition combine :: "ConditionType option \<Rightarrow> cond list \<Rightarrow> cond" where
  "combine t cs =
     (case t of
        Some Cond_Any \<Rightarrow> foldr cond_or cs (\<lambda>_. Some False)
      | _ \<Rightarrow> foldr cond_and cs (\<lambda>_. Some True))"

definition conditions :: "(string \<Rightarrow> cond) \<Rightarrow> SearchAssetsQuery \<Rightarrow> QueryErr + cond \<times> join list" where
  "conditions custom q =
     (case SearchAssetsQuery_validate q of
        Inl e \<Rightarrow> Inl e
      | Inr _ \<Rightarrow>
          (if \<not> (case q_name q of Some n \<Rightarrow> utf8_valid n | None \<Rightarrow> True)
           then Inl (QE_Custom ''Could not convert raw name bytes into string for comparison'')
           else let c = combine (q_condition_type q) (condition_list custom q) in
                Inr (if q_negate q = Some True then cond_not c else c, search_joins q)))"

section \<open>The search\<close>

definition left_join :: "bool \<Rightarrow> 'x list \<Rightarrow> 'x option list" where
  "left_join b xs = (if b \<and> xs \<noteq> [] then map Some xs else [None])"

definition joined_rows :: "snapshot \<Rightarrow> join list \<Rightarrow> asset_row \<Rightarrow> joined list" where
  "joined_rows S js a =
     [\<lparr>j_asset = a, j_token_account = t, j_creator = c, j_authority = u, j_grouping = g, j_data = d\<rparr>.
        t \<leftarrow> left_join (Join_token_accounts \<in> set js) (filter (\<lambda>x. ta_mint x = a_id a) (sn_token_accounts S)),
        c \<leftarrow> left_join (Join_asset_creators \<in> set js) (filter (\<lambda>x. ac_asset_id x = a_id a) (sn_asset_creators S)),
        u \<leftarrow> left_join (Join_asset_authority \<in> set js) (filter (\<lambda>x. aa_asset_id x = a_id a) (sn_asset_authority S)),
        g \<leftarrow> left_join (Join_asset_grouping \<in> set js) (filter (\<lambda>x. ag_asset_id x = a_id a) (sn_asset_grouping S)),
        d \<leftarrow> left_join (Join_asset_data \<in> set js) (filter (\<lambda>x. Some (ad_id x) = a_asset_data a) (sn_asset_data S))]"

definition search_rows :: "snapshot \<Rightarrow> cond \<Rightarrow> join list \<Rightarrow> asset_row list" where
  "search_rows S c js =
     map j_asset (filter (\<lambda>j. sql_holds (c j)) (concat (map (joined_rows S js) (sn_asset S))))"

text \<open>\<open>search_assets\<close>; the database rejects a statement that joins a table twice.\<close>

definition search_assets ::
  "snapshot \<Rightarrow> (string \<Rightarrow> cond) \<Rightarrow> SearchAssetsQuery \<Rightarrow> AssetSorting \<Rightarrow> PageOptions \<Rightarrow> Options \<Rightarrow>
   QueryErr + FullAsset list" where
  "search_assets S custom q sorting page_options options =
     (case create_pagination page_options of
        Inl e \<Rightarrow> Inl e
      | Inr pagination \<Rightarrow>
          (case conditions custom q of
             Inl e \<Rightarrow> Inl e
           | Inr (c, js) \<Rightarrow>
               (if \<not> distinct js then Inl (QE_Query ''table name specified more than once'')
                else let (sort_direction, sort_column) = create_sorting sorting in
                     Inr (get_assets_by_condition S (search_rows S c js) sort_column sort_direction pagination
                       (po_limit page_options) options))))"

text \<open>A request without options.\<close>

definition empty_search :: SearchAssetsQuery where
  "empty_search = \<lparr>q_negate = None, q_condition_type = None, q_interface = None, q_specification_version = None,
     q_specification_asset_class = None, q_owner_address = None, q_owner_type = None, q_creator_address = None,
     q_creator_verified = None, q_authority_address = None, q_grouping = None, q_delegate = None, q_frozen = None,
     q_supply = None, q_supply_mint = None, q_compressed = None, q_compressible = None, q_royalty_target_type = None,
     q_royalty_target = None, q_royalty_amount = None, q_burnt = None, q_json_uri = None, q_name = None,
     q_token_type = None\<rparr>"

section \<open>What a search selects\<close>

lemma holds_and [simp]: "sql_holds (cond_and a b j) \<longleftrightarrow> sql_holds (a j) \<and> sql_holds (b j)"
  by (simp add: cond_and_def sql_simps)

lemma holds_or [simp]: "sql_holds (cond_or a b j) \<longleftrightarrow> sql_holds (a j) \<or> sql_holds (b j)"
  by (simp add: cond_or_def sql_simps)

lemma holds_col_eq [simp]: "sql_holds (col_eq col v j) \<longleftrightarrow> col j = Some v"
  by (auto simp: col_eq_def sql_holds_def)

lemma holds_cols [simp]:
  "asset_col f j = Some v \<longleftrightarrow> f (j_asset j) = v" "asset_null_col g j = g (j_asset j)"
  by (simp_all add: asset_col_def asset_null_col_def)

lemma holds_opt_cond [simp]:
  "(\<forall>x\<in>set (opt_cond f v). sql_holds (x j)) \<longleftrightarrow> (\<forall>y. v = Some y \<longrightarrow> sql_holds (f y j))"
  by (auto simp: opt_cond_def split: option.split)

lemma holds_all: "t \<noteq> Some Cond_Any \<Longrightarrow> sql_holds (combine t cs j) \<longleftrightarrow> (\<forall>x\<in>set cs. sql_holds (x j))"
proof -
  have "sql_holds (foldr cond_and cs (\<lambda>_. Some True) j) \<longleftrightarrow> (\<forall>x\<in>set cs. sql_holds (x j))"
    by (induction cs) (simp_all add: sql_holds_def[of "Some True"])
  then show "t \<noteq> Some Cond_Any \<Longrightarrow> ?thesis"
    by (auto simp: combine_def split: option.split ConditionType.split)
qed

lemma holds_any: "sql_holds (combine (Some Cond_Any) cs j) \<longleftrightarrow> (\<exists>x\<in>set cs. sql_holds (x j))"
proof -
  have "sql_holds (foldr cond_or cs (\<lambda>_. Some False) j) \<longleftrightarrow> (\<exists>x\<in>set cs. sql_holds (x j))"
    by (induction cs) (simp_all add: sql_holds_def[of "Some False"])
  then show ?thesis
    by (simp add: combine_def)
qed

lemma joined_rows_asset: "joined_rows S js a \<noteq> [] \<and> (\<forall>j\<in>set (joined_rows S js a). j_asset j = a)"
proof -
  have l: "left_join b xs \<noteq> []" for b xs
    by (simp add: left_join_def)
  show ?thesis
    by (auto simp: joined_rows_def l)
qed

lemma holds_append [simp]:
  "(\<forall>x\<in>set (cs @ ds). sql_holds (x j)) \<longleftrightarrow> (\<forall>x\<in>set cs. sql_holds (x j)) \<and> (\<forall>x\<in>set ds. sql_holds (x j))"
  by auto



text \<open>
  A search whose conditions are combined by \<open>any\<close> ignores its filters.  Unless it fixes a supply, the
  condition that the supply is not zero is one of the alternatives, so every asset with a supply is selected.
\<close>

lemma search_any_selects_all:
  assumes "conditions custom q = Inr (c, js)" and "q_condition_type q = Some Cond_Any" and "q_supply q = None"
    and "q_negate q \<noteq> Some True" and "a \<in> set (sn_asset S)" and "a_supply a \<noteq> 0"
  shows "a \<in> set (search_rows S c js)"
proof -
  obtain j where j: "j \<in> set (joined_rows S js a)" "j_asset j = a"
    using joined_rows_asset[of S js a] by (metis all_not_in_conv set_empty)
  have "sql_holds (supply_cond q j)"
    using assms(3,6) j(2) by (simp add: supply_cond_def) (simp add: sql_holds_def)
  moreover have "c = combine (Some Cond_Any) (condition_list custom q)"
    using assms(1,2,4) by (auto simp: conditions_def Let_def split: sum.splits if_splits)
  moreover have "supply_cond q \<in> set (condition_list custom q)"
    by (simp add: condition_list_def)
  ultimately have "sql_holds (c j)"
    using holds_any by blast
  then show ?thesis
    using j assms(5) unfolding search_rows_def by force
qed

text \<open>
  A search by metadata URL and name fails: it joins the table \<open>asset_data\<close> twice.
\<close>

lemma search_uri_and_name_fails:
  assumes "q_json_uri q \<noteq> None" and "q_name q \<noteq> None"
  shows "\<exists>e. search_assets S custom q sorting page_options options = Inl e"
  using assms by (auto simp: search_assets_def conditions_def search_joins_def Let_def split: sum.split)

end
