(* ===== verification/DownloadTask.thy ===== *)
theory DownloadTask
  imports Chain Db
begin

text \<open>
  The ingester service's errors (\<open>nft_ingester/src/error/mod.rs\<close>), the data of a background task
  (\<open>nft_ingester/src/tasks/mod.rs\<close>) and the only task the service has, the download of an asset's
  off-chain metadata (\<open>nft_ingester/src/tasks/common/mod.rs\<close>).  The HTTP client, the URL parser,
  JSON serialisation to text, SHA-256 and base 58 are third-party code: the HTTP outcome is an argument
  of the task, the others are the fields of \<open>task_env\<close>.
\<close>

section \<open>Errors\<close>

datatype IngesterError =
    IE_ChangeLogEventMalformed
  | IE_CompressedAssetEventMalformed
  | IE_BatchInitNetworkingError string
  | IE_BatchInitIOError
  | IE_StorageListenerError string
  | IE_StorageWriteError string
  | IE_NotImplemented
  | IE_DeserializationError string
  | IE_TaskManagerError string
  | IE_ConfigurationError string
  | IE_RpcGetDataError string
  | IE_RpcDataUnsupportedFormat string
  | IE_SerializatonError string
  | IE_MessengerError string
  | IE_ParsingError string
  | IE_DatabaseError string
  | IE_UnknownTaskType string
  | IE_TaskManagerNotStarted
  | IE_UnrecoverableTaskError string
  | IE_CacheStorageWriteError string
  | IE_HttpError string
  | IE_AssetIndexError string

fun IngesterError_to_string :: "IngesterError \<Rightarrow> string" where
  "IngesterError_to_string IE_ChangeLogEventMalformed = ''ChangeLog Event Malformed''"
| "IngesterError_to_string IE_CompressedAssetEventMalformed = ''Compressed Asset Event Malformed''"
| "IngesterError_to_string (IE_BatchInitNetworkingError m) = ''Network Error: '' @ m"
| "IngesterError_to_string IE_BatchInitIOError = ''Error writing batch files''"
| "IngesterError_to_string (IE_StorageListenerError m) = ''Storage listener error: ('' @ m @ '')''"
| "IngesterError_to_string (IE_StorageWriteError m) = ''Storage Write Error: '' @ m"
| "IngesterError_to_string IE_NotImplemented = ''NotImplemented''"
| "IngesterError_to_string (IE_DeserializationError m) = ''Deserialization Error: '' @ m"
| "IngesterError_to_string (IE_TaskManagerError m) = ''Task Manager Error: '' @ m"
| "IngesterError_to_string (IE_ConfigurationError m) =
     ''Missing or invalid configuration: ('' @ m @ '')''"
| "IngesterError_to_string (IE_RpcGetDataError m) = ''Error getting RPC data: '' @ m"
| "IngesterError_to_string (IE_RpcDataUnsupportedFormat m) =
     ''RPC returned data in unsupported format: '' @ m"
| "IngesterError_to_string (IE_SerializatonError m) = ''Data serializaton error: '' @ m"
| "IngesterError_to_string (IE_MessengerError m) = ''Messenger error; '' @ m"
| "IngesterError_to_string (IE_ParsingError m) = ''Blockbuster Parsing error: '' @ m"
| "IngesterError_to_string (IE_DatabaseError m) = ''Database Error: '' @ m"
| "IngesterError_to_string (IE_UnknownTaskType m) = ''Unknown Task Type: '' @ m"
| "IngesterError_to_string IE_TaskManagerNotStarted = ''BG Task Manager Not Started''"
| "IngesterError_to_string (IE_UnrecoverableTaskError m) = ''Unrecoverable task error: '' @ m"
| "IngesterError_to_string (IE_CacheStorageWriteError m) = ''Cache Storage Write Error: '' @ m"
| "IngesterError_to_string (IE_HttpError c) = ''HttpError '' @ c"
| "IngesterError_to_string (IE_AssetIndexError m) = ''AssetIndex Error '' @ m"

definition ingester_from_DbErr :: "DbErr \<Rightarrow> IngesterError" where
  "ingester_from_DbErr e = IE_StorageWriteError e"

definition ingester_from_json_error :: IngesterError where
  "ingester_from_json_error = IE_SerializatonError ''JSON ERROR''"

definition ingester_from_reqwest :: "string \<Rightarrow> IngesterError" where
  "ingester_from_reqwest e = IE_BatchInitNetworkingError e"

section \<open>Task data\<close>

record task_env =
  te_to_vec :: "json \<Rightarrow> bytes option"
  te_sha256 :: "bytes \<Rightarrow> string"
  te_url_parses :: "string \<Rightarrow> bool"
  te_bs58 :: "bytes \<Rightarrow> string"
  te_datetime :: "string \<Rightarrow> int option"

text \<open>A key in a message: its base 58 text in quotes, the \<open>Debug\<close> form of a string.\<close>

definition debug_bs58 :: "task_env \<Rightarrow> bytes \<Rightarrow> string" where
  "debug_bs58 E k = CHR 0x22 # te_bs58 E k @ [CHR 0x22]"

text \<open>Times are microseconds.\<close>

record TaskData =
  td_name :: string
  td_data :: json
  td_created_at :: "int option"

definition TaskData_hash :: "task_env \<Rightarrow> TaskData \<Rightarrow> IngesterError + string" where
  "TaskData_hash E t = (case te_to_vec E (td_data t) of
     Some d \<Rightarrow> Inr (te_sha256 E (string_bytes (td_name t) @ d))
   | None \<Rightarrow> Inl (IE_SerializatonError ''Failed to serialize task data''))"

record DownloadMetadata =
  dm_asset_data_id :: bytes
  dm_uri :: string
  dm_created_at :: "int option"

definition DOWNLOAD_TASK_NAME :: string where
  "DOWNLOAD_TASK_NAME = ''DownloadMetadata''"

definition DownloadMetadata_sanitize :: "DownloadMetadata \<Rightarrow> DownloadMetadata" where
  "DownloadMetadata_sanitize d = d\<lparr>dm_uri := remove_nul (trim (dm_uri d))\<rparr>"

text \<open>\<open>created_at\<close> is skipped when the task is written, so it is not part of the task's identity.\<close>

definition DownloadMetadata_to_value :: "DownloadMetadata \<Rightarrow> json" where
  "DownloadMetadata_to_value d =
     JObject [(''asset_data_id'', JArray (map (\<lambda>b. JNumber (uint b)) (dm_asset_data_id d))),
              (''uri'', JString (dm_uri d))]"

definition into_task_data :: "DownloadMetadata \<Rightarrow> TaskData" where
  "into_task_data d = \<lparr>td_name = DOWNLOAD_TASK_NAME, td_data = DownloadMetadata_to_value d,
     td_created_at = dm_created_at d\<rparr>"

text \<open>The derived deserialiser: an object with the fields by name, or their values in order.\<close>

fun u8_of_json :: "json \<Rightarrow> u8 option" where
  "u8_of_json (JNumber n) = (if 0 \<le> n \<and> n < 256 then Some (word_of_int n) else None)"
| "u8_of_json _ = None"

fun u8s_of_json :: "json \<Rightarrow> bytes option" where
  "u8s_of_json (JArray xs) = those (map u8_of_json xs)"
| "u8s_of_json _ = None"

fun string_of_json :: "json \<Rightarrow> string option" where
  "string_of_json (JString s) = Some s"
| "string_of_json _ = None"

fun datetime_of_json :: "task_env \<Rightarrow> json \<Rightarrow> int option option" where
  "datetime_of_json E JNull = Some None"
| "datetime_of_json E (JString s) = map_option Some (te_datetime E s)"
| "datetime_of_json E _ = None"

definition DownloadMetadata_of ::
  "task_env \<Rightarrow> json \<Rightarrow> json \<Rightarrow> json \<Rightarrow> DownloadMetadata option" where
  "DownloadMetadata_of E k u c =
     (case (u8s_of_json k, string_of_json u, datetime_of_json E c) of
        (Some k', Some u', Some c') \<Rightarrow>
          Some \<lparr>dm_asset_data_id = k', dm_uri = u', dm_created_at = c'\<rparr>
      | _ \<Rightarrow> None)"

fun DownloadMetadata_from_value :: "task_env \<Rightarrow> json \<Rightarrow> IngesterError + DownloadMetadata" where
  "DownloadMetadata_from_value E (JObject kvs) =
     (case (map_of kvs ''asset_data_id'', map_of kvs ''uri'') of
        (Some k, Some u) \<Rightarrow>
          (case DownloadMetadata_of E k u
                  (case map_of kvs ''created_at'' of Some c \<Rightarrow> c | None \<Rightarrow> JNull) of
             Some d \<Rightarrow> Inr d | None \<Rightarrow> Inl ingester_from_json_error)
      | _ \<Rightarrow> Inl ingester_from_json_error)"
| "DownloadMetadata_from_value E (JArray [k, u, c]) =
     (case DownloadMetadata_of E k u c of
        Some d \<Rightarrow> Inr d | None \<Rightarrow> Inl ingester_from_json_error)"
| "DownloadMetadata_from_value E _ = Inl ingester_from_json_error"

definition from_task_data :: "task_env \<Rightarrow> TaskData \<Rightarrow> IngesterError + DownloadMetadata" where
  "from_task_data E t = DownloadMetadata_from_value E (td_data t)"

text \<open>
  The notifier the program transformer is given: it sends the task to the listener's channel, which
  fails only when the channel is closed.
\<close>

definition download_metadata_notifier ::
  "int \<Rightarrow> DownloadMetadataInfo \<Rightarrow> TaskData" where
  "download_metadata_notifier now info =
     into_task_data \<lparr>dm_asset_data_id = dmi_asset_data_id info, dm_uri = dmi_uri info,
                      dm_created_at = Some now\<rparr>"

section \<open>The download task\<close>

datatype http_outcome =
    Http_Error string
  | Http_Response string "string + json"

fun request_metadata :: "http_outcome \<Rightarrow> IngesterError + json" where
  "request_metadata (Http_Error e) = Inl (ingester_from_reqwest e)"
| "request_metadata (Http_Response status body) =
     (if status \<noteq> ''200'' then Inl (IE_HttpError status)
      else case body of Inl e \<Rightarrow> Inl (ingester_from_reqwest e) | Inr val \<Rightarrow> Inr val)"

record DownloadMetadataTask =
  dt_lock_duration :: "int option"
  dt_max_attempts :: "int option"
  dt_timeout :: "int option"

text \<open>
  \<open>UPDATE asset_data SET metadata, reindex WHERE id AND metadata_url\<close>: an update through the entity
  that touches no row is an error.
\<close>

definition update_asset_metadata :: "bytes \<Rightarrow> string \<Rightarrow> json \<Rightarrow> (DbErr, unit) dbm" where
  "update_asset_metadata k uri body =
     db_bind
       (statement (\<lambda>s. case asset_data s k of
            Some r \<Rightarrow> if ad_metadata_url r = uri
              then (True, s\<lparr>asset_data := (asset_data s)(k \<mapsto> r\<lparr>ad_metadata := body,
                                                               ad_reindex := Some False\<rparr>)\<rparr>)
              else (False, s)
          | None \<Rightarrow> (False, s)))
       (\<lambda>found. if found then db_return ()
                 else db_fail ''RecordNotFound Error: None of the database rows are affected'')"

definition download_body ::
  "task_env \<Rightarrow> http_outcome \<Rightarrow> string \<Rightarrow> IngesterError + json" where
  "download_body E out uri =
     (if te_url_parses E uri then request_metadata out else Inr (JString ''Invalid Uri''))"

definition store_metadata ::
  "task_env \<Rightarrow> DownloadMetadata \<Rightarrow> json \<Rightarrow> (IngesterError, unit) dbm" where
  "store_metadata E d body =
     db_bind
       (map_err ingester_from_DbErr
          (query (\<lambda>s. map_option ad_metadata_url (asset_data s (dm_asset_data_id d)))))
       (\<lambda>asset. case asset of
          None \<Rightarrow> db_fail (IE_UnrecoverableTaskError
                    (''failed to find URI in database for '' @ debug_bs58 E (dm_asset_data_id d)))
        | Some url \<Rightarrow>
            if url \<noteq> dm_uri d then db_return ()
            else db_then
              (map_err (\<lambda>e. IE_TaskManagerError
                   (''Database error with '' @ DOWNLOAD_TASK_NAME @ '', error: '' @ e))
                 (update_asset_metadata (dm_asset_data_id d) (dm_uri d) body))
              (if te_url_parses E (dm_uri d) then db_return ()
               else db_fail (IE_UnrecoverableTaskError (''Failed to parse URI: '' @ dm_uri d))))"

definition DownloadMetadataTask_task ::
  "task_env \<Rightarrow> http_outcome \<Rightarrow> json \<Rightarrow> (IngesterError, unit) dbm" where
  "DownloadMetadataTask_task E out data =
     db_bind (lift_result (DownloadMetadata_from_value E data)) (\<lambda>d.
     db_bind (lift_result (download_body E out (dm_uri d))) (\<lambda>body.
     store_metadata E d body))"

section \<open>Lemmas\<close>

lemma those_map_Some: "those (map Some xs) = Some xs"
  by (induction xs) simp_all

lemma u8s_of_json_uint: "u8s_of_json (JArray (map (\<lambda>b. JNumber (uint b)) bs)) = Some bs"
proof -
  have "u8_of_json (JNumber (uint (b::u8))) = Some b" for b
    using uint_lt2p [of b] by simp
  then have "map u8_of_json (map (\<lambda>b. JNumber (uint b)) bs) = map Some bs"
    by (simp only: map_map comp_def)
  then show ?thesis
    by (simp only: u8s_of_json.simps those_map_Some)
qed

lemma from_value_to_value:
  "DownloadMetadata_from_value E (DownloadMetadata_to_value d) = Inr (d\<lparr>dm_created_at := None\<rparr>)"
  by (simp add: DownloadMetadata_to_value_def DownloadMetadata_of_def u8s_of_json_uint
      del: u8s_of_json.simps)

text \<open>
  What a task may have done to the database: nothing, or the metadata of the row whose address is
  still the task's.
\<close>

definition metadata_stored :: "bytes \<Rightarrow> string \<Rightarrow> json \<Rightarrow> db \<Rightarrow> db \<Rightarrow> bool" where
  "metadata_stored k uri body s s' \<longleftrightarrow>
     (\<exists>r fs. asset_data s k = Some r \<and> ad_metadata_url r = uri \<and>
        s' = s\<lparr>faults := fs,
               asset_data := (asset_data s)(k \<mapsto> r\<lparr>ad_metadata := body, ad_reindex := Some False\<rparr>)\<rparr>)"

lemma statement_cases:
  assumes "statement f s = (r, s')"
  obtains fs x where "f (s\<lparr>faults := fs\<rparr>) = (x, s')" and "r = Inr x"
  | e fs where "r = Inl e" and "s' = s\<lparr>faults := fs\<rparr>"
proof (cases "faults s")
  case Nil
  then have "f (s\<lparr>faults := []\<rparr>) = f s"
    by (cases s) simp
  then show thesis
    using Nil assms that(1) [of "[]"] by (cases "f s") (auto simp: statement_def)
next
  case (Cons a fs)
  then show thesis
    using assms that by (cases a) (auto simp: statement_def split: prod.splits)
qed

lemma update_asset_metadata_cases:
  assumes "update_asset_metadata k uri body s = (r, s')"
  shows "(r = Inr () \<and> metadata_stored k uri body s s') \<or> (\<exists>e fs. r = Inl e \<and> s' = s\<lparr>faults := fs\<rparr>)"
proof -
  let ?f = "\<lambda>s. case asset_data s k of
        Some r \<Rightarrow> if ad_metadata_url r = uri
          then (True, s\<lparr>asset_data := (asset_data s)(k \<mapsto> r\<lparr>ad_metadata := body, ad_reindex := Some False\<rparr>)\<rparr>)
          else (False, s)
      | None \<Rightarrow> (False, s)"
  obtain q s1 where st: "statement ?f s = (q, s1)"
    by (cases "statement ?f s")
  then show ?thesis
  proof (cases rule: statement_cases)
    case (1 fs x)
    then show ?thesis
      using assms st
      by (auto simp: update_asset_metadata_def metadata_stored_def db_bind_def db_return_def
          db_fail_def split: option.splits if_splits)
  next
    case (2 e fs)
    then show ?thesis
      using assms st by (auto simp: update_asset_metadata_def db_bind_def)
  qed
qed

definition superseded :: "bytes \<Rightarrow> string \<Rightarrow> db \<Rightarrow> bool" where
  "superseded k uri s \<longleftrightarrow> (\<exists>r. asset_data s k = Some r \<and> ad_metadata_url r \<noteq> uri)"

lemma store_metadata_cases:
  assumes "store_metadata E d body s = (r, s')"
  shows "metadata_stored (dm_asset_data_id d) (dm_uri d) body s s' \<or>
    (\<exists>fs. s' = s\<lparr>faults := fs\<rparr>) \<and> (r = Inr () \<longrightarrow> superseded (dm_asset_data_id d) (dm_uri d) s)"
proof -
  let ?q = "query (\<lambda>s. map_option ad_metadata_url (asset_data s (dm_asset_data_id d)))"
  obtain q s1 where q: "?q s = (q, s1)"
    by (cases "?q s")
  then obtain fs where s1: "s1 = s\<lparr>faults := fs\<rparr>"
    and url: "q = Inr (map_option ad_metadata_url (asset_data s1 (dm_asset_data_id d))) \<or> (\<exists>e. q = Inl e)"
    using query_cases by blast
  let ?u = "update_asset_metadata (dm_asset_data_id d) (dm_uri d) body"
  obtain u s2 where u: "?u s1 = (u, s2)"
    by (cases "?u s1")
  have "(u = Inr () \<and> metadata_stored (dm_asset_data_id d) (dm_uri d) body s s2) \<or>
      (\<exists>e fs. u = Inl e \<and> s2 = s\<lparr>faults := fs\<rparr>)"
    using update_asset_metadata_cases [OF u] s1 by (auto simp: metadata_stored_def)
  then show ?thesis
    using assms q s1 url u
    by (auto simp: store_metadata_def superseded_def db_bind_def db_then_def map_err_def db_fail_def
        db_return_def split: sum.splits option.splits if_splits)
qed

text \<open>The outcome of the whole task, for a healthy connection.\<close>

lemma task_healthy:
  assumes "faults s = []" and "DownloadMetadata_from_value E data = Inr d"
    and "asset_data s (dm_asset_data_id d) = Some r" and "ad_metadata_url r = dm_uri d"
    and "te_url_parses E (dm_uri d)" and "request_metadata out = Inr body"
  shows "DownloadMetadataTask_task E out data s =
    (Inr (), s\<lparr>asset_data := (asset_data s)(dm_asset_data_id d \<mapsto>
                 r\<lparr>ad_metadata := body, ad_reindex := Some False\<rparr>)\<rparr>)"
  using assms
  by (simp add: DownloadMetadataTask_task_def store_metadata_def update_asset_metadata_def
      download_body_def lift_result_def db_bind_def db_then_def map_err_def db_return_def
      query_ok statement_ok)


text \<open>The task is bound to one asset and address: the time of the notification is not part of it.\<close>

lemma task_data_roundtrip:
  "from_task_data E (into_task_data d) = Inr (d\<lparr>dm_created_at := None\<rparr>)"
  by (simp add: from_task_data_def into_task_data_def from_value_to_value)

lemma notified_twice_same_task:
  "TaskData_hash E (download_metadata_notifier t info) = TaskData_hash E (download_metadata_notifier t' info)"
  by (simp add: TaskData_hash_def download_metadata_notifier_def into_task_data_def DownloadMetadata_to_value_def
      split: option.split)

end
