(* ===== verification/BgTasks.thy ===== *)
theory BgTasks
  imports DownloadTask
begin

text \<open>
  The background task manager (\<open>nft_ingester/src/tasks/mod.rs\<close>): the rows of the table \<open>tasks\<close>, the
  operations of \<open>TaskManager\<close> on them, and the listener and the runner as a step relation in which
  the spawned jobs of several instances interleave, statements fail and instances crash.
  Times are microseconds.
\<close>

section \<open>Rows and active models\<close>

datatype TaskStatus = TS_Failed | TS_Pending | TS_Running | TS_Success

record tasks_row =
  tk_id :: string
  tk_task_type :: string
  tk_data :: json
  tk_status :: TaskStatus
  tk_created_at :: int
  tk_locked_until :: "int option"
  tk_locked_by :: "string option"
  tk_max_attempts :: int
  tk_attempts :: int
  tk_duration :: "int option"
  tk_errors :: "string option"

text \<open>
  SeaORM's active model: a column is set, read from the database and not changed, or absent.  An
  update writes the columns that are set.
\<close>

datatype 'a ActiveValue = AV_Set 'a | AV_Unchanged 'a | AV_NotSet

fun into_value :: "'a ActiveValue \<Rightarrow> 'a option" where
  "into_value (AV_Set x) = Some x"
| "into_value (AV_Unchanged x) = Some x"
| "into_value AV_NotSet = None"

fun set_over :: "'a ActiveValue \<Rightarrow> 'a \<Rightarrow> 'a" where
  "set_over (AV_Set x) _ = x"
| "set_over _ y = y"

record tasks_active =
  tm_id :: "string ActiveValue"
  tm_task_type :: "string ActiveValue"
  tm_data :: "json ActiveValue"
  tm_status :: "TaskStatus ActiveValue"
  tm_created_at :: "int ActiveValue"
  tm_locked_until :: "int option ActiveValue"
  tm_locked_by :: "string option ActiveValue"
  tm_max_attempts :: "int ActiveValue"
  tm_attempts :: "int ActiveValue"
  tm_duration :: "int option ActiveValue"
  tm_errors :: "string option ActiveValue"

definition into_active :: "tasks_row \<Rightarrow> tasks_active" where
  "into_active r = \<lparr>tm_id = AV_Unchanged (tk_id r), tm_task_type = AV_Unchanged (tk_task_type r),
     tm_data = AV_Unchanged (tk_data r), tm_status = AV_Unchanged (tk_status r),
     tm_created_at = AV_Unchanged (tk_created_at r),
     tm_locked_until = AV_Unchanged (tk_locked_until r),
     tm_locked_by = AV_Unchanged (tk_locked_by r),
     tm_max_attempts = AV_Unchanged (tk_max_attempts r),
     tm_attempts = AV_Unchanged (tk_attempts r), tm_duration = AV_Unchanged (tk_duration r),
     tm_errors = AV_Unchanged (tk_errors r)\<rparr>"

definition update_columns :: "tasks_active \<Rightarrow> tasks_row \<Rightarrow> tasks_row" where
  "update_columns am r = \<lparr>tk_id = tk_id r, tk_task_type = set_over (tm_task_type am) (tk_task_type r),
     tk_data = set_over (tm_data am) (tk_data r), tk_status = set_over (tm_status am) (tk_status r),
     tk_created_at = set_over (tm_created_at am) (tk_created_at r),
     tk_locked_until = set_over (tm_locked_until am) (tk_locked_until r),
     tk_locked_by = set_over (tm_locked_by am) (tk_locked_by r),
     tk_max_attempts = set_over (tm_max_attempts am) (tk_max_attempts r),
     tk_attempts = set_over (tm_attempts am) (tk_attempts r),
     tk_duration = set_over (tm_duration am) (tk_duration r),
     tk_errors = set_over (tm_errors am) (tk_errors r)\<rparr>"

text \<open>The table: its rows in some physical order, the identifier is the primary key.\<close>

type_synonym tasks_table = "tasks_row list"

definition find_task :: "string \<Rightarrow> tasks_table \<Rightarrow> tasks_row option" where
  "find_task i t = List.find (\<lambda>r. tk_id r = i) t"

definition insert_task :: "tasks_row \<Rightarrow> tasks_table \<Rightarrow> DbErr + tasks_table" where
  "insert_task r t =
     (if find_task (tk_id r) t \<noteq> None
      then Inl ''duplicate key value violates unique constraint tasks_pkey''
      else Inr (t @ [r]))"

text \<open>\<open>save_task\<close>: \<open>ActiveModel::save\<close> with the key given is an update that returns the new row.\<close>

definition save_task ::
  "tasks_active \<Rightarrow> tasks_table \<Rightarrow> IngesterError + (tasks_active \<times> tasks_table)" where
  "save_task am t =
     (case into_value (tm_id am) of
        None \<Rightarrow> Inl (ingester_from_DbErr ''null value in column id'')
      | Some i \<Rightarrow>
          (case find_task i t of
             None \<Rightarrow> Inl (ingester_from_DbErr
                       ''RecordNotFound Error: None of the database rows are affected'')
           | Some r \<Rightarrow> Inr (into_active (update_columns am r),
                           map (\<lambda>x. if tk_id x = i then update_columns am x else x) t)))"

section \<open>Operations of the task manager\<close>

text \<open>\<open>BgTask\<close>: a task type with its own limits; \<open>bt_task\<close> also takes the outcome of its HTTP request.\<close>

record BgTask =
  bt_name :: string
  bt_lock_duration :: int
  bt_max_attempts :: int
  bt_task :: "http_outcome \<Rightarrow> json \<Rightarrow> (IngesterError, unit) dbm"

definition download_task_type ::
  "task_env \<Rightarrow> DownloadMetadataTask \<Rightarrow> BgTask" where
  "download_task_type E t = \<lparr>bt_name = DOWNLOAD_TASK_NAME,
     bt_lock_duration = (case dt_lock_duration t of Some d \<Rightarrow> d | None \<Rightarrow> 5),
     bt_max_attempts = (case dt_max_attempts t of Some a \<Rightarrow> a | None \<Rightarrow> 3),
     bt_task = DownloadMetadataTask_task E\<rparr>"

record BackgroundTaskRunnerConfig =
  rc_delete_interval :: "int option"
  rc_retry_interval :: "int option"
  rc_purge_time :: "int option"
  rc_batch_size :: "nat option"
  rc_lock_duration :: "int option"
  rc_max_attempts :: "int option"
  rc_timeout :: "int option"

definition default_runner_config :: BackgroundTaskRunnerConfig where
  "default_runner_config = \<lparr>rc_delete_interval = Some 30000, rc_retry_interval = Some 1000,
     rc_purge_time = Some 3600, rc_batch_size = Some 100, rc_lock_duration = Some 5,
     rc_max_attempts = Some 3, rc_timeout = Some 3\<rparr>"

text \<open>\<open>start_runner\<close>'s settings: a missing configuration or a missing entry takes the default.\<close>

definition runner_purge_time :: "BackgroundTaskRunnerConfig option \<Rightarrow> int" where
  "runner_purge_time c =
     (case rc_purge_time (case c of Some c \<Rightarrow> c | None \<Rightarrow> default_runner_config) of
        Some p \<Rightarrow> p | None \<Rightarrow> the (rc_purge_time default_runner_config))"

definition runner_batch_size :: "BackgroundTaskRunnerConfig option \<Rightarrow> nat" where
  "runner_batch_size c =
     (case rc_batch_size (case c of Some c \<Rightarrow> c | None \<Rightarrow> default_runner_config) of
        Some p \<Rightarrow> p | None \<Rightarrow> the (rc_batch_size default_runner_config))"

record TaskManager =
  mgr_instance_name :: string
  mgr_task_types :: "string \<rightharpoonup> BgTask"
  mgr_process_on_receive :: bool
  mgr_config :: "BackgroundTaskRunnerConfig option"

text \<open>The channel exists once the listener is started.\<close>

definition get_sender :: "'c option \<Rightarrow> IngesterError + 'c" where
  "get_sender producer = (case producer of Some c \<Rightarrow> Inr c | None \<Rightarrow> Inl IE_TaskManagerNotStarted)"

text \<open>\<open>TaskManager::new\<close>: a later definition of a name replaces an earlier one.\<close>

definition registered_task_types :: "BgTask list \<Rightarrow> string \<rightharpoonup> BgTask" where
  "registered_task_types defs = foldl (\<lambda>m d. m(bt_name d \<mapsto> d)) Map.empty defs"

definition seconds :: "int \<Rightarrow> int" where
  "seconds n = n * 1000000"

definition timestamp_millis :: "int \<Rightarrow> int" where
  "timestamp_millis t = t div 1000"

definition wrap_i16 :: "int \<Rightarrow> int" where
  "wrap_i16 x = sint (word_of_int x :: u16)"

definition wrap_i32 :: "int \<Rightarrow> int" where
  "wrap_i32 x = sint (word_of_int x :: u32)"

definition lock_task :: "int \<Rightarrow> int \<Rightarrow> string \<Rightarrow> tasks_active \<Rightarrow> tasks_active" where
  "lock_task now duration inst am =
     am\<lparr>tm_status := AV_Set TS_Running, tm_locked_until := AV_Set (Some (now + duration)),
        tm_locked_by := AV_Set (Some inst)\<rparr>"

text \<open>
  \<open>execute_task\<close>: runs from \<open>t0\<close> to \<open>t1\<close>; the duration is the difference in whole seconds, truncated
  towards zero, as an \<open>i32\<close>.
\<close>

definition task_duration :: "int \<Rightarrow> int \<Rightarrow> int" where
  "task_duration t0 t1 =
     (let ms = timestamp_millis t1 - timestamp_millis t0
      in wrap_i32 (sgn ms * (\<bar>ms\<bar> div 1000)))"

fun record_result :: "BgTask \<Rightarrow> IngesterError + unit \<Rightarrow> tasks_active \<Rightarrow> tasks_active" where
  "record_result d (Inr _) am =
     am\<lparr>tm_status := AV_Set TS_Success, tm_errors := AV_Set None,
        tm_locked_until := AV_Set None, tm_locked_by := AV_Set None\<rparr>"
| "record_result d (Inl e) am =
     (case e of
        IE_UnrecoverableTaskError _ \<Rightarrow>
          am\<lparr>tm_attempts := AV_Set (wrap_i16 (bt_max_attempts d + 1)),
             tm_locked_by := AV_Set (Some ''permanent failure'')\<rparr>
      | _ \<Rightarrow> am\<lparr>tm_locked_by := AV_Set None\<rparr>)
     \<lparr>tm_status := AV_Set TS_Failed, tm_errors := AV_Set (Some (IngesterError_to_string e)),
      tm_locked_until := AV_Set None\<rparr>"

definition count_attempt :: "tasks_active \<Rightarrow> tasks_active" where
  "count_attempt am = am\<lparr>tm_attempts := AV_Set (case into_value (tm_attempts am) of
     Some a \<Rightarrow> wrap_i16 (a + 1) | None \<Rightarrow> 1)\<rparr>"

definition execute_task ::
  "BgTask \<Rightarrow> http_outcome \<Rightarrow> int \<Rightarrow> int \<Rightarrow> tasks_active \<Rightarrow> (IngesterError, tasks_active) dbm" where
  "execute_task d out t0 t1 am s =
     (let am1 = count_attempt am in
      case into_value (tm_data am1) of
        None \<Rightarrow> (Inl (IE_TaskManagerError (bt_name d @ '' task data is not valid'')), s)
      | Some j \<Rightarrow>
          (case bt_task d out j s of (res, s') \<Rightarrow>
             (Inr (record_result d res (am1\<lparr>tm_duration := AV_Set (Some (task_duration t0 t1))\<rparr>)), s')))"

definition is_pending :: "int \<Rightarrow> tasks_row \<Rightarrow> bool" where
  "is_pending now r \<longleftrightarrow>
     tk_status r \<noteq> TS_Success \<and>
     (case tk_locked_until r of Some u \<Rightarrow> u \<le> now | None \<Rightarrow> True) \<and>
     tk_attempts r \<le> tk_max_attempts r"

definition get_pending_tasks :: "nat \<Rightarrow> int \<Rightarrow> tasks_table \<Rightarrow> tasks_row list" where
  "get_pending_tasks batch_size now t =
     take batch_size
       (sort_key tk_attempts (sort_key (\<lambda>r. - tk_created_at r) (filter (is_pending now) t)))"

definition new_task_model ::
  "TaskManager \<Rightarrow> BgTask \<Rightarrow> string \<Rightarrow> TaskData \<Rightarrow> int \<Rightarrow> tasks_row" where
  "new_task_model m d h td now =
     (let model = \<lparr>tk_id = h, tk_task_type = td_name td, tk_data = td_data td,
            tk_status = TS_Pending, tk_created_at = now, tk_locked_until = None,
            tk_locked_by = None, tk_max_attempts = bt_max_attempts d, tk_attempts = 0,
            tk_duration = None, tk_errors = None\<rparr>;
          duration = seconds (bt_lock_duration d)
      in if mgr_process_on_receive m
         then update_columns (lock_task now duration (mgr_instance_name m) (into_active model)) model
         else model)"

definition new_task_handler ::
  "task_env \<Rightarrow> TaskManager \<Rightarrow> int \<Rightarrow> TaskData \<Rightarrow> tasks_table \<Rightarrow> IngesterError + tasks_table" where
  "new_task_handler E m now td t =
     (case mgr_task_types m (td_name td) of
        None \<Rightarrow> Inl (IE_TaskManagerError (td_name td @ '' not a valid task type''))
      | Some d \<Rightarrow>
          (case TaskData_hash E td of
             Inl e \<Rightarrow> Inl e
           | Inr h \<Rightarrow>
               (case insert_task (new_task_model m d h td now) t of
                  Inl e \<Rightarrow> Inl (ingester_from_DbErr e) | Inr t' \<Rightarrow> Inr t')))"

text \<open>\<open>NOW() - created_at > interval 'n seconds'\<close>\<close>

definition purge_old_tasks :: "int \<Rightarrow> int \<Rightarrow> tasks_table \<Rightarrow> tasks_table" where
  "purge_old_tasks max_age now t = filter (\<lambda>r. \<not> now - tk_created_at r > seconds max_age) t"

text \<open>
  The listener drops a task that has a row which is no longer pending; when the query fails the task
  goes on to the handler.
\<close>

datatype listener_outcome = Listen_Drop | Listen_Spawn

definition listen :: "task_env \<Rightarrow> (DbErr option) \<Rightarrow> TaskData \<Rightarrow> tasks_table \<Rightarrow> listener_outcome" where
  "listen E fault td t =
     (case TaskData_hash E td of
        Inl _ \<Rightarrow> Listen_Drop
      | Inr h \<Rightarrow>
          (case fault of
             Some _ \<Rightarrow> Listen_Spawn
           | None \<Rightarrow>
               (case find_task h t of
                  Some r \<Rightarrow> if tk_status r \<noteq> TS_Pending then Listen_Drop else Listen_Spawn
                | None \<Rightarrow> Listen_Spawn)))"

end
