(* ===== verification/BgSteps.thy ===== *)
theory BgSteps
  imports BgTasks
begin

text \<open>
  The listener and the runner (\<open>start_listener\<close>, \<open>start_runner\<close>) as a step relation.  Every received
  task and every selected row is a job of its own (\<open>tokio::task::spawn\<close>), and the jobs of all
  instances interleave at their database statements.  A job that fails or whose instance dies is an
  \<open>L_Abort\<close> step, or an \<open>L_Lost\<close> step when the task had already run and its result is lost.
\<close>

section \<open>Worlds and steps\<close>

datatype job =
    Insert_Job TaskManager TaskData
  | Selected_Job TaskManager tasks_row
  | Locked_Job TaskManager BgTask tasks_active
  | Executed_Job TaskManager tasks_active

text \<open>\<open>w_runs\<close> is the history of executions; \<open>w_db\<close> are the tables the tasks work on.\<close>

record task_world =
  w_now :: int
  w_tasks :: tasks_table
  w_db :: db
  w_chan :: "(TaskManager \<times> TaskData) list"
  w_jobs :: "job list"
  w_runs :: "string list"

datatype label =
    L_Time | L_Ingest | L_Send | L_Listen | L_Insert | L_Select | L_Lock | L_Run string | L_Save
  | L_Purge | L_Abort | L_Lost

fun job_id :: "job \<Rightarrow> string option" where
  "job_id (Insert_Job _ _) = None"
| "job_id (Selected_Job _ r) = Some (tk_id r)"
| "job_id (Locked_Job _ _ am) = into_value (tm_id am)"
| "job_id (Executed_Job _ am) = into_value (tm_id am)"

fun is_executed :: "job \<Rightarrow> bool" where
  "is_executed (Executed_Job _ _) = True"
| "is_executed _ = False"

definition selection :: "TaskManager \<Rightarrow> task_world \<Rightarrow> tasks_row list" where
  "selection m w = get_pending_tasks (runner_batch_size (mgr_config m)) (w_now w) (w_tasks w)"

inductive bg_step :: "task_env \<Rightarrow> TaskManager set \<Rightarrow> task_world \<Rightarrow> label \<Rightarrow> task_world \<Rightarrow> bool"
  for E Ms where
  time: "w_now w \<le> t \<Longrightarrow> bg_step E Ms w L_Time (w\<lparr>w_now := t\<rparr>)"
| ingest: "bg_step E Ms w L_Ingest (w\<lparr>w_db := s\<rparr>)"
| send: "m \<in> Ms \<Longrightarrow> bg_step E Ms w L_Send (w\<lparr>w_chan := w_chan w @ [(m, td)]\<rparr>)"
| listen_drop: "w_chan w = q @ (m, td) # q' \<Longrightarrow> m \<notin> fst ` set q \<Longrightarrow>
    listen E fault td (w_tasks w) = Listen_Drop \<Longrightarrow>
    bg_step E Ms w L_Listen (w\<lparr>w_chan := q @ q'\<rparr>)"
| listen_spawn: "w_chan w = q @ (m, td) # q' \<Longrightarrow> m \<notin> fst ` set q \<Longrightarrow>
    listen E fault td (w_tasks w) = Listen_Spawn \<Longrightarrow>
    bg_step E Ms w L_Listen (w\<lparr>w_chan := q @ q', w_jobs := w_jobs w @ [Insert_Job m td]\<rparr>)"
| insert: "w_jobs w = js @ Insert_Job m td # js' \<Longrightarrow>
    new_task_handler E m (w_now w) td (w_tasks w) = Inr t \<Longrightarrow>
    bg_step E Ms w L_Insert (w\<lparr>w_tasks := t, w_jobs := js @ js'\<rparr>)"
| select: "m \<in> Ms \<Longrightarrow>
    bg_step E Ms w L_Select (w\<lparr>w_jobs := w_jobs w @ map (Selected_Job m) (selection m w)\<rparr>)"
| lock: "w_jobs w = js @ Selected_Job m r # js' \<Longrightarrow>
    mgr_task_types m (tk_task_type r) = Some d \<Longrightarrow>
    save_task (lock_task (w_now w) (seconds (bt_lock_duration d)) (mgr_instance_name m)
                 (into_active r)) (w_tasks w) = Inr (am, t) \<Longrightarrow>
    bg_step E Ms w L_Lock (w\<lparr>w_tasks := t, w_jobs := js @ Locked_Job m d am # js'\<rparr>)"
| run: "w_jobs w = js @ Locked_Job m d am # js' \<Longrightarrow> into_value (tm_id am) = Some i \<Longrightarrow>
    execute_task d out t0 t1 am (w_db w) = (Inr am', s) \<Longrightarrow>
    bg_step E Ms w (L_Run i)
      (w\<lparr>w_db := s, w_jobs := js @ Executed_Job m am' # js', w_runs := w_runs w @ [i]\<rparr>)"
| save: "w_jobs w = js @ Executed_Job m am # js' \<Longrightarrow>
    save_task am (w_tasks w) = Inr (am', t) \<Longrightarrow>
    bg_step E Ms w L_Save (w\<lparr>w_tasks := t, w_jobs := js @ js'\<rparr>)"
| purge: "m \<in> Ms \<Longrightarrow>
    bg_step E Ms w L_Purge
      (w\<lparr>w_tasks := purge_old_tasks (runner_purge_time (mgr_config m)) (w_now w) (w_tasks w)\<rparr>)"
| abort: "w_jobs w = js @ j # js' \<Longrightarrow> \<not> is_executed j \<Longrightarrow>
    bg_step E Ms w L_Abort (w\<lparr>w_jobs := js @ js'\<rparr>)"
| lose_channel: "w_chan w = q @ c # q' \<Longrightarrow> bg_step E Ms w L_Abort (w\<lparr>w_chan := q @ q'\<rparr>)"
| lost: "w_jobs w = js @ j # js' \<Longrightarrow> is_executed j \<Longrightarrow>
    bg_step E Ms w L_Lost (w\<lparr>w_jobs := js @ js'\<rparr>)"

inductive bg_steps ::
  "task_env \<Rightarrow> TaskManager set \<Rightarrow> task_world \<Rightarrow> label list \<Rightarrow> task_world \<Rightarrow> bool" for E Ms where
  done_refl: "bg_steps E Ms w [] w"
| one_step: "bg_step E Ms w l w1 \<Longrightarrow> bg_steps E Ms w1 ls w' \<Longrightarrow> bg_steps E Ms w (l # ls) w'"

text \<open>
  A run in which no two live jobs hold the same task: a tick selects no row for which an earlier
  selection is still under way.
\<close>

definition exclusive :: "task_world \<Rightarrow> bool" where
  "exclusive w \<longleftrightarrow> distinct (List.map_filter job_id (w_jobs w))"

inductive calm_steps ::
  "task_env \<Rightarrow> TaskManager set \<Rightarrow> task_world \<Rightarrow> label list \<Rightarrow> task_world \<Rightarrow> bool" for E Ms where
  calm_refl: "calm_steps E Ms w [] w"
| calm_step: "calm_steps E Ms w ls w1 \<Longrightarrow> bg_step E Ms w1 l w' \<Longrightarrow> exclusive w' \<Longrightarrow>
    calm_steps E Ms w (ls @ [l]) w'"

definition initial :: "task_world \<Rightarrow> bool" where
  "initial w \<longleftrightarrow> w_tasks w = [] \<and> w_jobs w = [] \<and> w_runs w = []"

section \<open>The table\<close>

lemma find_task_Some: "find_task i t = Some r \<Longrightarrow> r \<in> set t \<and> tk_id r = i"
  by (auto simp: find_task_def find_Some_iff)

lemma find_task_None: "find_task i t = None \<longleftrightarrow> i \<notin> tk_id ` set t"
  by (auto simp: find_task_def find_None_iff)

lemma find_task_iff:
  "distinct (map tk_id t) \<Longrightarrow> find_task i t = Some r \<longleftrightarrow> r \<in> set t \<and> tk_id r = i"
  by (induction t) (auto simp: find_task_def)

lemma find_task_append [simp]:
  "find_task i (t @ [r]) = (case find_task i t of Some x \<Rightarrow> Some x
     | None \<Rightarrow> if tk_id r = i then Some r else None)"
  by (induction t) (auto simp: find_task_def)

lemma update_columns_id [simp]: "tk_id (update_columns am r) = tk_id r"
  by (simp add: update_columns_def)

lemma ids_update [simp]:
  "map (tk_id \<circ> (\<lambda>x. if tk_id x = i then update_columns am x else x)) t = map tk_id t"
  by simp

lemma find_task_update:
  "find_task k (map (\<lambda>x. if tk_id x = i then update_columns am x else x) t) =
     (if k = i then map_option (update_columns am) (find_task i t) else find_task k t)"
  by (induction t) (auto simp: find_task_def)

lemma save_task_Inr:
  "save_task am t = Inr (am', t') \<longleftrightarrow>
     (\<exists>i r. into_value (tm_id am) = Some i \<and> find_task i t = Some r \<and>
        am' = into_active (update_columns am r) \<and>
        t' = map (\<lambda>x. if tk_id x = i then update_columns am x else x) t)"
  by (auto simp: save_task_def split: option.splits)

lemma new_task_model_simps [simp]:
  "tk_id (new_task_model m d h td now) = h"
  "tk_task_type (new_task_model m d h td now) = td_name td"
  "tk_data (new_task_model m d h td now) = td_data td"
  "tk_created_at (new_task_model m d h td now) = now"
  "tk_max_attempts (new_task_model m d h td now) = bt_max_attempts d"
  "tk_attempts (new_task_model m d h td now) = 0"
  "tk_errors (new_task_model m d h td now) = None"
  by (simp_all add: new_task_model_def update_columns_def lock_task_def into_active_def Let_def)

lemma new_task_handler_Inr:
  "new_task_handler E m now td t = Inr t' \<longleftrightarrow>
     (\<exists>d h. mgr_task_types m (td_name td) = Some d \<and> TaskData_hash E td = Inr h \<and>
        find_task h t = None \<and> t' = t @ [new_task_model m d h td now])"
  by (auto simp: new_task_handler_def insert_task_def split: option.splits sum.splits if_splits)

lemma selection_pending: "r \<in> set (selection m w) \<Longrightarrow> r \<in> set (w_tasks w) \<and> is_pending (w_now w) r"
  by (auto simp: selection_def get_pending_tasks_def dest!: in_set_takeD)

lemma into_active_simps [simp]:
  "tm_id (into_active r) = AV_Unchanged (tk_id r)"
  "tm_attempts (into_active r) = AV_Unchanged (tk_attempts r)"
  "tm_data (into_active r) = AV_Unchanged (tk_data r)"
  by (simp_all add: into_active_def)

section \<open>The invariant of the table\<close>

text \<open>
  A row carries the hash of its type and data, and its status agrees with its lock, its error and its
  counter.
\<close>

definition row_ok :: "task_env \<Rightarrow> tasks_row \<Rightarrow> bool" where
  "row_ok E r \<longleftrightarrow>
     TaskData_hash E \<lparr>td_name = tk_task_type r, td_data = tk_data r, td_created_at = None\<rparr> = Inr (tk_id r) \<and>
     (case tk_status r of
        TS_Pending \<Rightarrow> tk_locked_until r = None \<and> tk_locked_by r = None \<and> tk_attempts r = 0 \<and> tk_errors r = None
      | TS_Running \<Rightarrow> tk_locked_until r \<noteq> None \<and> tk_locked_by r \<noteq> None
      | TS_Success \<Rightarrow> tk_locked_until r = None \<and> tk_locked_by r = None \<and> tk_errors r = None
      | TS_Failed \<Rightarrow> tk_locked_until r = None \<and> tk_errors r \<noteq> None)"

fun job_ok :: "job \<Rightarrow> bool" where
  "job_ok (Insert_Job _ _) = True"
| "job_ok (Selected_Job _ _) = True"
| "job_ok (Locked_Job _ _ am) = (\<exists>r. am = into_active r)"
| "job_ok (Executed_Job _ am) =
     (\<exists>d res r u. am = record_result d res ((count_attempt (into_active r))\<lparr>tm_duration := AV_Set u\<rparr>))"

definition world_ok :: "task_env \<Rightarrow> task_world \<Rightarrow> bool" where
  "world_ok E w \<longleftrightarrow> distinct (map tk_id (w_tasks w)) \<and>
     (\<forall>r \<in> set (w_tasks w). row_ok E r) \<and> (\<forall>j \<in> set (w_jobs w). job_ok j)"

lemma TaskData_hash_created [simp]:
  "TaskData_hash E (td\<lparr>td_created_at := c\<rparr>) = TaskData_hash E td"
  by (simp add: TaskData_hash_def split: option.split)

lemma TaskData_hash_fields:
  "TaskData_hash E \<lparr>td_name = td_name td, td_data = td_data td, td_created_at = c\<rparr> = TaskData_hash E td"
  by (simp add: TaskData_hash_def split: option.split)

lemma new_task_model_ok: "TaskData_hash E td = Inr h \<Longrightarrow> row_ok E (new_task_model m d h td now)"
  by (simp add: row_ok_def TaskData_hash_fields)
     (simp add: new_task_model_def update_columns_def lock_task_def into_active_def Let_def)

lemma lock_columns:
  "update_columns (lock_task now u inst (into_active r)) x =
     x\<lparr>tk_status := TS_Running, tk_locked_until := Some (now + u), tk_locked_by := Some inst\<rparr>"
  by (simp add: update_columns_def lock_task_def into_active_def)

lemmas model_defs = update_columns_def count_attempt_def into_active_def

lemma executed_columns:
  assumes "job_ok (Executed_Job m am)"
  shows "tk_task_type (update_columns am x) = tk_task_type x"
    and "tk_data (update_columns am x) = tk_data x"
    and "tk_created_at (update_columns am x) = tk_created_at x"
    and "tk_max_attempts (update_columns am x) = tk_max_attempts x"
proof -
  from assms obtain d res r u
    where am: "am = record_result d res ((count_attempt (into_active r))\<lparr>tm_duration := AV_Set u\<rparr>)"
    by auto
  show "tk_task_type (update_columns am x) = tk_task_type x"
    "tk_data (update_columns am x) = tk_data x"
    "tk_created_at (update_columns am x) = tk_created_at x"
    "tk_max_attempts (update_columns am x) = tk_max_attempts x"
    unfolding am by (cases res; simp add: model_defs split: IngesterError.split)+
qed

lemma executed_row_ok:
  assumes "job_ok (Executed_Job m am)" and "row_ok E x"
  shows "row_ok E (update_columns am x)"
proof -
  from assms(1) obtain d res r u
    where am: "am = record_result d res ((count_attempt (into_active r))\<lparr>tm_duration := AV_Set u\<rparr>)"
    by auto
  have "case tk_status (update_columns am x) of
        TS_Pending \<Rightarrow> False | TS_Running \<Rightarrow> False
      | TS_Success \<Rightarrow> tk_locked_until (update_columns am x) = None \<and>
          tk_locked_by (update_columns am x) = None \<and> tk_errors (update_columns am x) = None
      | TS_Failed \<Rightarrow> tk_locked_until (update_columns am x) = None \<and> tk_errors (update_columns am x) \<noteq> None"
    unfolding am by (cases res; simp add: model_defs split: IngesterError.split)
  then show ?thesis
    using assms(2) executed_columns [OF assms(1), of x]
    by (auto simp: row_ok_def split: TaskStatus.splits)
qed

lemma execute_task_Inr:
  "execute_task d out t0 t1 am s = (Inr am', s') \<Longrightarrow>
     \<exists>j res. into_value (tm_data am) = Some j \<and> bt_task d out j s = (res, s') \<and>
       am' = record_result d res ((count_attempt am)\<lparr>tm_duration := AV_Set (Some (task_duration t0 t1))\<rparr>)"
  by (auto simp: execute_task_def Let_def count_attempt_def split: option.splits prod.splits)

lemma world_ok_step: "bg_step E Ms w l w' \<Longrightarrow> world_ok E w \<Longrightarrow> world_ok E w'"
proof (induction rule: bg_step.induct)
  case (insert w js m td js' t)
  then show ?case
    by (auto simp: world_ok_def new_task_handler_Inr find_task_None new_task_model_ok)
next
  case (lock w js m r js' d am t)
  then show ?case
    by (auto simp: world_ok_def save_task_Inr lock_columns row_ok_def)
next
  case (run w js m d am js' i out t0 t1 am' s)
  then show ?case
    by (auto simp: world_ok_def dest!: execute_task_Inr)
next
  case (save w js m am js' am' t)
  then have "job_ok (Executed_Job m am)"
    by (auto simp: world_ok_def)
  with save show ?case
    by (auto simp: world_ok_def save_task_Inr executed_row_ok simp del: job_ok.simps)
next
  case (purge m w)
  then show ?case
    by (auto simp: world_ok_def purge_old_tasks_def distinct_map_filter)
qed (auto simp: world_ok_def)

lemma world_ok_steps: "bg_steps E Ms w ls w' \<Longrightarrow> world_ok E w \<Longrightarrow> world_ok E w'"
  by (induction rule: bg_steps.induct) (auto dest: world_ok_step)

lemma initial_ok: "initial w \<Longrightarrow> world_ok E w"
  by (simp add: initial_def world_ok_def)

lemma tm_id_lock [simp]: "tm_id (lock_task now u inst am) = tm_id am"
  by (simp add: lock_task_def)

lemma tm_id_count [simp]: "tm_id (count_attempt am) = tm_id am"
  by (simp add: count_attempt_def)

lemma tm_id_result [simp]: "tm_id (record_result d res am) = tm_id am"
  by (cases res) (simp_all split: IngesterError.split)

section \<open>Finished tasks\<close>

definition finished :: "tasks_row \<Rightarrow> bool" where
  "finished r \<longleftrightarrow> tk_status r = TS_Success \<or> tk_max_attempts r < tk_attempts r"

lemma finished_not_selected:
  assumes "world_ok E w" and "find_task i (w_tasks w) = Some r" and "finished r"
  shows "\<forall>x \<in> set (selection m w). tk_id x \<noteq> i"
proof
  fix x
  assume "x \<in> set (selection m w)"
  then have "x \<in> set (w_tasks w)" and "is_pending (w_now w) x"
    using selection_pending by blast+
  moreover have "find_task (tk_id x) (w_tasks w) = Some x"
    using assms(1) \<open>x \<in> set (w_tasks w)\<close> by (simp add: world_ok_def find_task_iff)
  ultimately show "tk_id x \<noteq> i"
    using assms(2,3) by (auto simp: finished_def is_pending_def)
qed

lemma finished_step:
  "bg_step E Ms w l w' \<Longrightarrow> world_ok E w \<Longrightarrow> find_task i (w_tasks w) = Some r \<Longrightarrow> finished r \<Longrightarrow>
   Some i \<notin> job_id ` set (w_jobs w) \<Longrightarrow> l \<noteq> L_Purge \<Longrightarrow>
   find_task i (w_tasks w') = Some r \<and> Some i \<notin> job_id ` set (w_jobs w') \<and>
   count_list (w_runs w') i = count_list (w_runs w) i"
proof (induction rule: bg_step.induct)
  case (select m w)
  then show ?case
    using finished_not_selected [of E w i r m] by auto
next
  case (lock w js m x js' d am t)
  then show ?case
    by (auto simp: save_task_Inr find_task_update lock_task_def dest: find_task_Some)
qed (auto simp: new_task_handler_Inr save_task_Inr find_task_update
    dest!: execute_task_Inr split: option.splits)

lemma finished_steps:
  assumes "bg_steps E Ms w ls w'" and "world_ok E w" and "find_task i (w_tasks w) = Some r"
    and "finished r" and "Some i \<notin> job_id ` set (w_jobs w)" and "L_Purge \<notin> set ls"
  shows "find_task i (w_tasks w') = Some r \<and> count_list (w_runs w') i = count_list (w_runs w) i"
  using assms
proof (induction rule: bg_steps.induct)
  case (one_step w l w1 ls w')
  then show ?case
    using finished_step [OF one_step.hyps(1), of i r] world_ok_step [OF one_step.hyps(1)] by auto
qed simp

section \<open>How often a task runs\<close>

text \<open>
  The invariant of a run whose live jobs exclude each other, \<open>k\<close> of whose results were lost: the
  counter of a row bounds its executions, and it never passes the limit by more than one.
\<close>

definition in_execution :: "string \<Rightarrow> task_world \<Rightarrow> nat" where
  "in_execution i w = (if \<exists>j \<in> set (w_jobs w). is_executed j \<and> job_id j = Some i then 1 else 0)"

definition counted :: "(string \<rightharpoonup> BgTask) \<Rightarrow> nat \<Rightarrow> task_world \<Rightarrow> string \<Rightarrow> bool" where
  "counted T k w i \<longleftrightarrow>
     (case find_task i (w_tasks w) of
        None \<Rightarrow> i \<notin> set (w_runs w)
      | Some r \<Rightarrow> (\<exists>d. T (tk_task_type r) = Some d \<and> tk_max_attempts r = bt_max_attempts d) \<and>
          0 \<le> tk_attempts r \<and> tk_attempts r \<le> tk_max_attempts r + 1 \<and>
          int (count_list (w_runs w) i) \<le> tk_attempts r + int k + int (in_execution i w))"

fun calm_job :: "(string \<rightharpoonup> BgTask) \<Rightarrow> tasks_table \<Rightarrow> job \<Rightarrow> bool" where
  "calm_job T t (Insert_Job m _) = (mgr_task_types m = T)"
| "calm_job T t (Selected_Job m r) =
     (mgr_task_types m = T \<and> find_task (tk_id r) t = Some r \<and> tk_attempts r \<le> tk_max_attempts r)"
| "calm_job T t (Locked_Job m d am) =
     (\<exists>r. am = into_active r \<and> find_task (tk_id r) t = Some r \<and> tk_attempts r \<le> tk_max_attempts r \<and>
        T (tk_task_type r) = Some d)"
| "calm_job T t (Executed_Job m am) =
     (job_ok (Executed_Job m am) \<and>
      (\<exists>r b. tm_id am = AV_Unchanged (tk_id r) \<and> find_task (tk_id r) t = Some r \<and>
         tm_attempts am = AV_Set b \<and> tk_attempts r + 1 \<le> b \<and> b \<le> tk_max_attempts r + 1))"

definition calm_ok :: "(string \<rightharpoonup> BgTask) \<Rightarrow> nat \<Rightarrow> task_world \<Rightarrow> bool" where
  "calm_ok T k w \<longleftrightarrow> exclusive w \<and> distinct (map tk_id (w_tasks w)) \<and> (\<forall>i. counted T k w i) \<and>
     (\<forall>j \<in> set (w_jobs w). calm_job T (w_tasks w) j) \<and>
     (\<forall>c \<in> set (w_chan w). mgr_task_types (fst c) = T)"

lemma exclusive_other:
  assumes "exclusive w" and "w_jobs w = js @ j # js'" and "job_id j = Some i"
  shows "j' \<in> set js \<union> set js' \<Longrightarrow> job_id j' \<noteq> Some i"
  using assms
  by (auto simp: exclusive_def List.map_filter_def image_iff)



text \<open>Only a selection can let two jobs hold the same task.\<close>

lemma exclusive_step: "bg_step E Ms w l w' \<Longrightarrow> exclusive w \<Longrightarrow> l \<noteq> L_Select \<Longrightarrow> exclusive w'"
proof (induction rule: bg_step.induct)
  case (lock w js m r js' d am t)
  then have "job_id (Locked_Job m d am) = job_id (Selected_Job m r)"
    by (auto simp: save_task_Inr dest: find_task_Some)
  with lock show ?case
    by (auto simp: exclusive_def List.map_filter_def)
next
  case (run w js m d am js' i out t0 t1 am' s)
  then have "job_id (Executed_Job m am') = job_id (Locked_Job m d am)"
    by (auto dest!: execute_task_Inr)
  with run show ?case
    by (auto simp: exclusive_def List.map_filter_def)
qed (auto simp: exclusive_def List.map_filter_def split: if_splits)

lemma calm_steps_append:
  "bg_steps E Ms w ls w' \<Longrightarrow> exclusive w \<Longrightarrow> L_Select \<notin> set ls \<Longrightarrow> calm_steps E Ms w0 ls0 w \<Longrightarrow>
   calm_steps E Ms w0 (ls0 @ ls) w'"
proof (induction arbitrary: ls0 rule: bg_steps.induct)
  case (one_step w l w1 ls w')
  then have "exclusive w1"
    using exclusive_step [OF one_step.hyps(1)] by auto
  then have "calm_steps E Ms w0 (ls0 @ [l]) w1"
    using one_step by (auto intro: calm_steps.calm_step)
  from one_step.IH [OF \<open>exclusive w1\<close> _ this] one_step.prems(2) show ?case
    by simp
qed simp

lemma calm_job_frame:
  "calm_job T t j \<Longrightarrow> (\<And>k r. job_id j = Some k \<Longrightarrow> find_task k t = Some r \<Longrightarrow> find_task k t' = Some r) \<Longrightarrow>
   calm_job T t' j"
  by (cases j) fastforce+

lemma counted_frame:
  "w_tasks w' = w_tasks w \<Longrightarrow> w_runs w' = w_runs w \<Longrightarrow> in_execution i w' = in_execution i w \<Longrightarrow>
   counted T k w' i = counted T k w i"
  by (simp add: counted_def split: option.split)

lemma calm_ok_frame:
  assumes "calm_ok T k w" and "exclusive w'" and "w_tasks w' = w_tasks w" and "w_runs w' = w_runs w"
    and "\<And>i. in_execution i w' = in_execution i w" and "\<forall>j \<in> set (w_jobs w'). calm_job T (w_tasks w) j"
    and "\<forall>c \<in> set (w_chan w'). mgr_task_types (fst c) = T"
  shows "calm_ok T k w'"
  using assms counted_frame [of w' w _ T k] by (simp add: calm_ok_def)

lemma calm_ok_insert:
  assumes "calm_ok T k w" and "w_jobs w = js @ Insert_Job m td # js'"
    and new: "new_task_handler E m (w_now w) td (w_tasks w) = Inr t"
    and lim: "\<forall>d \<in> ran T. 0 \<le> bt_max_attempts d" and "exclusive (w\<lparr>w_tasks := t, w_jobs := js @ js'\<rparr>)"
  shows "calm_ok T k (w\<lparr>w_tasks := t, w_jobs := js @ js'\<rparr>)"
proof -
  obtain d h where d: "mgr_task_types m (td_name td) = Some d" and h: "find_task h (w_tasks w) = None"
    and t: "t = w_tasks w @ [new_task_model m d h td (w_now w)]"
    using new by (auto simp: new_task_handler_Inr)
  have T: "mgr_task_types m = T"
    using assms(1,2) by (simp add: calm_ok_def)
  have "calm_job T t j" if "j \<in> set js \<union> set js'" for j
  proof (rule calm_job_frame)
    show "calm_job T (w_tasks w) j"
      using assms(1,2) that by (auto simp: calm_ok_def)
  qed (simp add: t)
  moreover have "counted T k (w\<lparr>w_tasks := t, w_jobs := js @ js'\<rparr>) i" for i
  proof -
    have "counted T k w i"
      using assms(1) by (simp add: calm_ok_def)
    moreover have "0 \<le> bt_max_attempts d"
      using lim d T by (auto simp: ran_def)
    moreover have "in_execution i (w\<lparr>w_tasks := t, w_jobs := js @ js'\<rparr>) = in_execution i w"
      using assms(2) by (simp add: in_execution_def)
    ultimately show ?thesis
      using d h T t by (auto simp: counted_def count_list_0_iff split: option.splits)
  qed
  ultimately show ?thesis
    using assms h t by (auto simp: calm_ok_def find_task_None)
qed

lemma calm_ok_select:
  assumes "calm_ok T k w" and "mgr_task_types m = T"
    and "exclusive (w\<lparr>w_jobs := w_jobs w @ map (Selected_Job m) (selection m w)\<rparr>)"
  shows "calm_ok T k (w\<lparr>w_jobs := w_jobs w @ map (Selected_Job m) (selection m w)\<rparr>)"
proof -
  have "calm_job T (w_tasks w) (Selected_Job m r)" if "r \<in> set (selection m w)" for r
    using selection_pending [OF that] assms(1,2)
    by (simp add: calm_ok_def find_task_iff is_pending_def)
  then show ?thesis
    using assms by (intro calm_ok_frame [OF assms(1)]) (auto simp: calm_ok_def in_execution_def)
qed

lemma calm_ok_lock:
  assumes "calm_ok T k w" and jobs: "w_jobs w = js @ Selected_Job m x # js'"
    and d: "mgr_task_types m (tk_task_type x) = Some d"
    and sv: "save_task (lock_task (w_now w) u inst (into_active x)) (w_tasks w) = Inr (am, t)"
    and "exclusive (w\<lparr>w_tasks := t, w_jobs := js @ Locked_Job m d am # js'\<rparr>)"
  shows "calm_ok T k (w\<lparr>w_tasks := t, w_jobs := js @ Locked_Job m d am # js'\<rparr>)"
proof -
  let ?x = "x\<lparr>tk_status := TS_Running, tk_locked_until := Some (w_now w + u), tk_locked_by := Some inst\<rparr>"
  have x: "find_task (tk_id x) (w_tasks w) = Some x" "tk_attempts x \<le> tk_max_attempts x"
    "mgr_task_types m = T"
    using assms(1) jobs by (auto simp: calm_ok_def)
  then have am: "am = into_active ?x"
    and t: "find_task i t = (if i = tk_id x then Some ?x else find_task i (w_tasks w))"
    and ids: "map tk_id t = map tk_id (w_tasks w)" for i
    using sv by (auto simp: save_task_Inr lock_task_def find_task_update update_columns_def into_active_def)
  have other: "calm_job T t j" if "j \<in> set js \<union> set js'" for j
  proof (rule calm_job_frame)
    show "calm_job T (w_tasks w) j"
      using assms(1) jobs that by (auto simp: calm_ok_def)
    have "job_id j \<noteq> Some (tk_id x)"
      using assms(1) jobs that exclusive_other [of w js "Selected_Job m x" js' "tk_id x" j]
      by (simp add: calm_ok_def)
    then show "find_task i t = Some r"
      if "job_id j = Some i" and "find_task i (w_tasks w) = Some r" for i r
      using that t by auto
  qed
  have "counted T k (w\<lparr>w_tasks := t, w_jobs := js @ Locked_Job m d am # js'\<rparr>) i" for i
  proof -
    have "counted T k w i"
      using assms(1) by (simp add: calm_ok_def)
    moreover have "in_execution i (w\<lparr>w_tasks := t, w_jobs := js @ Locked_Job m d am # js'\<rparr>) = in_execution i w"
      using jobs by (simp add: in_execution_def)
    ultimately show ?thesis
      using jobs x t by (auto simp: counted_def split: option.splits)
  qed
  then show ?thesis
    using assms(1,5) d x am t ids other jobs by (auto simp: calm_ok_def)
qed


lemma wrap_i16_small: "- 32768 \<le> x \<Longrightarrow> x < 32768 \<Longrightarrow> wrap_i16 x = x"
  unfolding wrap_i16_def by (simp add: sint_sbintrunc' signed_take_bit_int_eq_self)

lemma tm_attempts_result:
  "tm_attempts (record_result d res (am\<lparr>tm_duration := u\<rparr>)) =
     (case res of Inl (IE_UnrecoverableTaskError _) \<Rightarrow> AV_Set (wrap_i16 (bt_max_attempts d + 1))
      | _ \<Rightarrow> tm_attempts am)"
  by (cases res) (simp_all split: IngesterError.split)

lemma in_execution_split:
  assumes "exclusive w" and "w_jobs w = js @ j # js'" and "job_id j = Some i"
  shows "in_execution i w = (if is_executed j then 1 else 0)"
    and "in_execution i (w\<lparr>w_jobs := js @ js'\<rparr>) = 0"
    and "k \<noteq> i \<Longrightarrow> in_execution k (w\<lparr>w_jobs := js @ js'\<rparr>) = in_execution k w"
  using assms(2,3) exclusive_other [OF assms] by (auto simp: in_execution_def)

lemma in_execution_update [simp]:
  "in_execution i (w\<lparr>w_tasks := t\<rparr>) = in_execution i w"
  "in_execution i (w\<lparr>w_db := s\<rparr>) = in_execution i w"
  "in_execution i (w\<lparr>w_runs := rs\<rparr>) = in_execution i w"
  by (simp_all add: in_execution_def)

lemma calm_ok_run:
  assumes ok: "calm_ok T k w" and jobs: "w_jobs w = js @ Locked_Job m d am # js'"
    and i: "into_value (tm_id am) = Some i"
    and ex: "execute_task d out t0 t1 am (w_db w) = (Inr am', s)"
    and lim: "\<forall>d \<in> ran T. bt_max_attempts d < 32767"
    and exc: "exclusive (w\<lparr>w_db := s, w_jobs := js @ Executed_Job m am' # js', w_runs := w_runs w @ [i]\<rparr>)"
  shows "calm_ok T k (w\<lparr>w_db := s, w_jobs := js @ Executed_Job m am' # js', w_runs := w_runs w @ [i]\<rparr>)"
    (is "calm_ok T k ?w")
proof -
  obtain r where r: "am = into_active r" "find_task (tk_id r) (w_tasks w) = Some r"
    "tk_attempts r \<le> tk_max_attempts r" "T (tk_task_type r) = Some d"
    using ok jobs by (auto simp: calm_ok_def)
  have ir: "i = tk_id r"
    using i r by simp
  have c: "counted T k w j" for j
    using ok by (simp add: calm_ok_def)
  have max: "tk_max_attempts r = bt_max_attempts d" "0 \<le> tk_attempts r"
    using c [of i] r ir by (auto simp: counted_def)
  have small: "bt_max_attempts d < 32767"
    using lim r(4) by (auto simp: ran_def)
  obtain res where am': "am' = record_result d res
      ((count_attempt am)\<lparr>tm_duration := AV_Set (Some (task_duration t0 t1))\<rparr>)"
    using execute_task_Inr [OF ex] by blast
  have "calm_job T (w_tasks w) (Executed_Job m am')"
  proof -
    have "tm_attempts am' = AV_Set (tk_attempts r + 1) \<or> tm_attempts am' = AV_Set (tk_max_attempts r + 1)"
      using r max small unfolding am' tm_attempts_result
      by (auto simp: count_attempt_def wrap_i16_small split: sum.splits IngesterError.splits)
    moreover have "job_ok (Executed_Job m am')"
      using am' r(1) by auto
    moreover have "tm_id am' = AV_Unchanged (tk_id r)"
      using am' r(1) by simp
    ultimately show ?thesis
      using r by auto
  qed
  moreover have "\<forall>j \<in> set js \<union> set js'. calm_job T (w_tasks w) j"
    using ok jobs by (auto simp: calm_ok_def)
  moreover have "counted T k ?w j" for j
  proof (cases "j = i")
    case True
    have "in_execution i w = 0"
      using in_execution_split(1) [of w js "Locked_Job m d am" js' i] ok jobs i
      by (simp add: calm_ok_def)
    moreover have "in_execution i ?w = 1"
      using am' r(1) ir by (simp add: in_execution_def)
    ultimately show ?thesis
      using c [of i] True r ir by (auto simp: counted_def)
  next
    case False
    then have "in_execution j ?w = in_execution j w"
      using jobs ir am' r(1) by (auto simp: in_execution_def)
    then show ?thesis
      using c [of j] False by (auto simp: counted_def split: option.splits)
  qed
  ultimately show ?thesis
    using ok exc by (auto simp: calm_ok_def simp del: calm_job.simps)
qed

lemma calm_ok_save:
  assumes ok: "calm_ok T k w" and jobs: "w_jobs w = js @ Executed_Job m am # js'"
    and sv: "save_task am (w_tasks w) = Inr (am', t)"
    and exc: "exclusive (w\<lparr>w_tasks := t, w_jobs := js @ js'\<rparr>)"
  shows "calm_ok T k (w\<lparr>w_tasks := t, w_jobs := js @ js'\<rparr>)" (is "calm_ok T k ?w")
proof -
  obtain r b where r: "tm_id am = AV_Unchanged (tk_id r)" "find_task (tk_id r) (w_tasks w) = Some r"
    "tm_attempts am = AV_Set b" "tk_attempts r + 1 \<le> b" "b \<le> tk_max_attempts r + 1"
    and jok: "job_ok (Executed_Job m am)"
    using ok jobs by (auto simp: calm_ok_def)
  let ?x = "update_columns am r"
  have t: "find_task i t = (if i = tk_id r then Some ?x else find_task i (w_tasks w))"
    and ids: "map tk_id t = map tk_id (w_tasks w)" for i
    using sv r by (auto simp: save_task_Inr find_task_update)
  have x: "tk_attempts ?x = b" "tk_task_type ?x = tk_task_type r" "tk_max_attempts ?x = tk_max_attempts r"
    using r(3) executed_columns [OF jok] by (simp_all add: update_columns_def)
  have excl: "exclusive w" and c: "counted T k w i" for i
    using ok by (simp_all add: calm_ok_def)
  have other: "calm_job T t j" if "j \<in> set js \<union> set js'" for j
  proof (rule calm_job_frame)
    show "calm_job T (w_tasks w) j"
      using ok jobs that by (auto simp: calm_ok_def)
    show "find_task i t = Some y"
      if "job_id j = Some i" and "find_task i (w_tasks w) = Some y" for i y
      using that t exclusive_other [OF excl jobs, of "tk_id r" j] r(1) \<open>j \<in> set js \<union> set js'\<close> by auto
  qed
  have "counted T k ?w i" for i
  proof (cases "i = tk_id r")
    case True
    have "in_execution i w = 1"
      using in_execution_split(1) [OF excl jobs, of i] r(1) True by simp
    then show ?thesis
      using c [of i] True r t x by (auto simp: counted_def)
  next
    case False
    then have "in_execution i ?w = in_execution i w"
      using in_execution_split(3) [OF excl jobs, of "tk_id r" i] r(1) by (simp add: in_execution_def)
    then show ?thesis
      using c [of i] False t by (auto simp: counted_def split: option.splits)
  qed
  then show ?thesis
    using ok exc ids other jobs by (auto simp: calm_ok_def)
qed

lemma calm_ok_lost:
  assumes ok: "calm_ok T k w" and jobs: "w_jobs w = js @ j # js'" and "is_executed j"
    and exc: "exclusive (w\<lparr>w_jobs := js @ js'\<rparr>)"
  shows "calm_ok T (Suc k) (w\<lparr>w_jobs := js @ js'\<rparr>)"
proof -
  have "counted T (Suc k) (w\<lparr>w_jobs := js @ js'\<rparr>) i" for i
  proof -
    have "int (in_execution i w) \<le> int (in_execution i (w\<lparr>w_jobs := js @ js'\<rparr>)) + 1"
      by (simp add: in_execution_def)
    moreover have "counted T k w i"
      using ok by (simp add: calm_ok_def)
    ultimately show ?thesis
      by (cases "find_task i (w_tasks w)") (auto simp: counted_def)
  qed
  then show ?thesis
    using ok exc jobs by (auto simp: calm_ok_def)
qed


text \<open>The limits of the registered task types leave room for the counter in an \<open>i16\<close>.\<close>

definition limits_ok :: "(string \<rightharpoonup> BgTask) \<Rightarrow> bool" where
  "limits_ok T \<longleftrightarrow> (\<forall>d \<in> ran T. 0 \<le> bt_max_attempts d \<and> bt_max_attempts d < 32767)"

lemma calm_ok_step:
  "bg_step E Ms w l w' \<Longrightarrow> calm_ok T k w \<Longrightarrow> exclusive w' \<Longrightarrow> l \<noteq> L_Purge \<Longrightarrow>
   \<forall>m \<in> Ms. mgr_task_types m = T \<Longrightarrow> limits_ok T \<Longrightarrow>
   calm_ok T (if l = L_Lost then Suc k else k) w'"
proof (induction rule: bg_step.induct)
  case (insert w js m td js' t)
  then show ?case
    using calm_ok_insert [of T k w js m td js' E t] by (simp add: limits_ok_def)
next
  case (select m w)
  then show ?case
    using calm_ok_select [of T k w m] by simp
next
  case (lock w js m r js' d am t)
  then show ?case
    using calm_ok_lock [OF lock.prems(1) lock.hyps(1,2,3)] by simp
next
  case (run w js m d am js' i out t0 t1 am' s)
  then show ?case
    using calm_ok_run [OF run.prems(1) run.hyps] by (simp add: limits_ok_def)
next
  case (save w js m am js' am' t)
  then show ?case
    using calm_ok_save [OF save.prems(1) save.hyps] by simp
next
  case (lost w js j js')
  then show ?case
    using calm_ok_lost [of T k w js j js'] by simp
next
  case (abort w js j js')
  have "in_execution i (w\<lparr>w_jobs := js @ js'\<rparr>) = in_execution i w" for i
    using abort.hyps by (auto simp: in_execution_def)
  moreover have "\<forall>x \<in> set (js @ js'). calm_job T (w_tasks w) x"
    using abort.hyps abort.prems(1) by (simp add: calm_ok_def)
  ultimately have "calm_ok T k (w\<lparr>w_jobs := js @ js'\<rparr>)"
    using abort.prems by (intro calm_ok_frame [OF abort.prems(1)]) (simp_all add: calm_ok_def)
  then show ?case
    by simp
next
  case (listen_spawn w q m td q' fault)
  then show ?case
    using calm_ok_frame [OF listen_spawn.prems(1), of "w\<lparr>w_chan := q @ q', w_jobs := w_jobs w @ [Insert_Job m td]\<rparr>"]
    by (auto simp: in_execution_def calm_ok_def)
next
  case (listen_drop w q m td q' fault)
  then show ?case
    using calm_ok_frame [OF listen_drop.prems(1), of "w\<lparr>w_chan := q @ q'\<rparr>"]
    by (auto simp: in_execution_def calm_ok_def)
next
  case (lose_channel w q c q')
  then show ?case
    using calm_ok_frame [OF lose_channel.prems(1), of "w\<lparr>w_chan := q @ q'\<rparr>"]
    by (auto simp: in_execution_def calm_ok_def)
next
  case (time w t)
  then show ?case
    using calm_ok_frame [OF time.prems(1), of "w\<lparr>w_now := t\<rparr>"]
    by (auto simp: in_execution_def calm_ok_def)
next
  case (ingest w s)
  then show ?case
    using calm_ok_frame [OF ingest.prems(1), of "w\<lparr>w_db := s\<rparr>"]
    by (auto simp: in_execution_def calm_ok_def)
next
  case (send m w td)
  then show ?case
    using calm_ok_frame [OF send.prems(1), of "w\<lparr>w_chan := w_chan w @ [(m, td)]\<rparr>"]
    by (auto simp: in_execution_def calm_ok_def)
qed auto

lemma calm_ok_initial: "initial w \<Longrightarrow> w_chan w = [] \<Longrightarrow> calm_ok T 0 w"
  by (auto simp: initial_def calm_ok_def exclusive_def counted_def find_task_def List.map_filter_def)

lemma calm_ok_steps:
  assumes "calm_steps E Ms w ls w'" and "initial w" and "w_chan w = []" and "L_Purge \<notin> set ls"
    and "\<forall>m \<in> Ms. mgr_task_types m = T" and "limits_ok T"
  shows "calm_ok T (count_list ls L_Lost) w'"
  using assms
proof (induction rule: calm_steps.induct)
  case (calm_refl w)
  then show ?case
    by (simp add: calm_ok_initial)
next
  case (calm_step w ls w1 l w')
  then have "calm_ok T (count_list ls L_Lost) w1"
    by simp
  from calm_ok_step [OF calm_step.hyps(2) this calm_step.hyps(3)] calm_step.prems show ?case
    by (auto split: if_splits)
qed

lemma calm_runs:
  assumes "calm_ok T k w" and r: "find_task i (w_tasks w) = Some r"
  shows "int (count_list (w_runs w) i) \<le> tk_max_attempts r + 1 + int k"
proof -
  have c: "int (count_list (w_runs w) i) \<le> tk_attempts r + int k + int (in_execution i w)"
    "tk_attempts r \<le> tk_max_attempts r + 1"
    using assms by (auto simp: calm_ok_def counted_def dest!: spec [of _ i])
  show ?thesis
  proof (cases "in_execution i w = 0")
    case False
    then obtain j where "j \<in> set (w_jobs w)" "is_executed j" "job_id j = Some i"
      by (auto simp: in_execution_def split: if_splits)
    from this(2) obtain m am where "j = Executed_Job m am"
      by (cases j) simp_all
    moreover have "calm_job T (w_tasks w) j"
      using assms(1) \<open>j \<in> set (w_jobs w)\<close> by (simp add: calm_ok_def)
    ultimately have "tk_attempts r \<le> tk_max_attempts r"
      using r \<open>job_id j = Some i\<close> by auto
    then show ?thesis
      using c(1) False by (simp add: in_execution_def split: if_splits)
  qed (use c in simp)
qed

end
