(* ===== verification/BgProps.thy ===== *)
theory BgProps
  imports BgSteps
begin

text \<open>
  What the background task manager guarantees: the consistency of its table, the limit on the
  executions of a task, that finished tasks stay finished and unfinished ones can always be completed,
  also after a crash, and the scenarios in which runners overlap.
\<close>

section \<open>One attempt\<close>

text \<open>The row after a runner of instance \<open>m\<close> has locked, executed and saved it.\<close>

definition locked_row :: "TaskManager \<Rightarrow> BgTask \<Rightarrow> int \<Rightarrow> tasks_row \<Rightarrow> tasks_row" where
  "locked_row m d now r = r\<lparr>tk_status := TS_Running,
     tk_locked_until := Some (now + seconds (bt_lock_duration d)),
     tk_locked_by := Some (mgr_instance_name m)\<rparr>"

definition result_model :: "TaskManager \<Rightarrow> BgTask \<Rightarrow> int \<Rightarrow> IngesterError + unit \<Rightarrow> tasks_row \<Rightarrow> tasks_active" where
  "result_model m d now res r =
     record_result d res
       ((count_attempt (into_active (locked_row m d now r)))
          \<lparr>tm_duration := AV_Set (Some (task_duration now now))\<rparr>)"

definition attempted_row :: "TaskManager \<Rightarrow> BgTask \<Rightarrow> int \<Rightarrow> IngesterError + unit \<Rightarrow> tasks_row \<Rightarrow> tasks_row" where
  "attempted_row m d now res r = update_columns (result_model m d now res r) (locked_row m d now r)"

lemma attempted_row_simps:
  "tk_id (attempted_row m d now res r) = tk_id r"
  "tk_task_type (attempted_row m d now res r) = tk_task_type r"
  "tk_data (attempted_row m d now res r) = tk_data r"
  "tk_max_attempts (attempted_row m d now res r) = tk_max_attempts r"
  "tk_locked_until (attempted_row m d now res r) = None"
  "tk_status (attempted_row m d now (Inr u) r) = TS_Success"
  "tk_status (attempted_row m d now (Inl e) r) = TS_Failed"
  "\<forall>x. res \<noteq> Inl (IE_UnrecoverableTaskError x) \<Longrightarrow>
     tk_attempts (attempted_row m d now res r) = wrap_i16 (tk_attempts r + 1)"
  by (cases res; simp add: attempted_row_def result_model_def locked_row_def model_defs
      split: IngesterError.splits)+

lemma find_task_replace:
  "r \<in> set t \<Longrightarrow> tk_id y = tk_id r \<Longrightarrow>
   find_task (tk_id r) (map (\<lambda>x. if tk_id x = tk_id r then y else x) t) = Some y"
  by (induction t) (auto simp: find_task_def)

text \<open>The steps of the job for a selected row \<open>x\<close>, whose row in the table may by now be \<open>r\<close>.\<close>

lemma job_steps:
  assumes ok: "distinct (map tk_id (w_tasks w))" and mem: "r \<in> set (w_tasks w)" and x: "tk_id x = tk_id r"
    and jobs: "w_jobs w = js @ Selected_Job m x # js'"
    and d: "mgr_task_types m (tk_task_type x) = Some d"
    and task: "bt_task d out (tk_data r) (w_db w) = (res, s)"
  obtains w2 w3 w4 where
    "bg_step E Ms w L_Lock w2" "bg_step E Ms w2 (L_Run (tk_id r)) w3" "bg_step E Ms w3 L_Save w4"
    "w_jobs w2 = js @ Locked_Job m d (into_active (locked_row m d (w_now w) r)) # js'"
    "w_jobs w3 = js @ Executed_Job m (result_model m d (w_now w) res r) # js'"
    "w4 = w\<lparr>w_db := s, w_runs := w_runs w @ [tk_id r],
       w_tasks := map (\<lambda>x. if tk_id x = tk_id r then attempted_row m d (w_now w) res r else x) (w_tasks w),
       w_jobs := js @ js'\<rparr>"
proof
  let ?l = "locked_row m d (w_now w) r" and ?a = "attempted_row m d (w_now w) res r"
  let ?t = "\<lambda>y. map (\<lambda>x. if tk_id x = tk_id r then y else x) (w_tasks w)"
  let ?w2 = "w\<lparr>w_tasks := ?t ?l, w_jobs := js @ Locked_Job m d (into_active ?l) # js'\<rparr>"
  let ?w3 = "w\<lparr>w_tasks := ?t ?l, w_db := s,
               w_jobs := js @ Executed_Job m (result_model m d (w_now w) res r) # js',
               w_runs := w_runs w @ [tk_id r]\<rparr>"
  let ?w4 = "w\<lparr>w_db := s, w_runs := w_runs w @ [tk_id r], w_tasks := ?t ?a, w_jobs := js @ js'\<rparr>"
  have same: "y = r" if "y \<in> set (w_tasks w)" "tk_id y = tk_id r" for y
    using ok mem that by (auto simp: distinct_map dest: inj_onD)
  have "save_task (lock_task (w_now w) (seconds (bt_lock_duration d)) (mgr_instance_name m)
          (into_active x)) (w_tasks w) = Inr (into_active ?l, ?t ?l)"
    using mem ok x by (auto simp: save_task_Inr find_task_iff lock_columns locked_row_def dest: same)
  from bg_step.lock [OF jobs d this] show "bg_step E Ms w L_Lock ?w2"
    by simp
  have "execute_task d out (w_now w) (w_now w) (into_active ?l) (w_db ?w2) =
      (Inr (result_model m d (w_now w) res r), s)"
    using task by (simp add: execute_task_def result_model_def Let_def count_attempt_def locked_row_def)
  from bg_step.run [OF _ _ this, of js m js' "tk_id r"] show "bg_step E Ms ?w2 (L_Run (tk_id r)) ?w3"
    by (simp add: locked_row_def)
  have "save_task (result_model m d (w_now w) res r) (w_tasks ?w3) = Inr (into_active ?a, ?t ?a)"
    using find_task_replace [OF mem, of ?l]
    by (auto simp: save_task_Inr attempted_row_def result_model_def locked_row_def)
  from bg_step.save [OF _ this, of js m js'] show "bg_step E Ms ?w3 L_Save ?w4"
    by simp
qed simp_all

lemma job_run:
  assumes "distinct (map tk_id (w_tasks w))" and "r \<in> set (w_tasks w)" and "tk_id x = tk_id r"
    and "w_jobs w = js @ Selected_Job m x # js'" and "mgr_task_types m (tk_task_type x) = Some d"
    and "bt_task d out (tk_data r) (w_db w) = (res, s)"
  shows "bg_steps E Ms w [L_Lock, L_Run (tk_id r), L_Save]
    (w\<lparr>w_db := s, w_runs := w_runs w @ [tk_id r],
       w_tasks := map (\<lambda>x. if tk_id x = tk_id r then attempted_row m d (w_now w) res r else x) (w_tasks w),
       w_jobs := js @ js'\<rparr>)"
  by (rule job_steps [OF assms]) (auto intro!: bg_steps.intros)

text \<open>A tick of \<open>m\<close>'s runner that selects \<open>r\<close>, followed by the steps of the job for \<open>r\<close>.\<close>

lemma attempt_steps:
  assumes ok: "distinct (map tk_id (w_tasks w))" and "m \<in> Ms"
    and sel: "selection m w = xs @ r # ys"
    and d: "mgr_task_types m (tk_task_type r) = Some d"
    and task: "bt_task d out (tk_data r) (w_db w) = (res, s)"
  obtains w1 w2 w3 w4 where
    "bg_step E Ms w L_Select w1" "bg_step E Ms w1 L_Lock w2"
    "bg_step E Ms w2 (L_Run (tk_id r)) w3" "bg_step E Ms w3 L_Save w4"
    "w_jobs w1 = (w_jobs w @ map (Selected_Job m) xs) @ Selected_Job m r # map (Selected_Job m) ys"
    "w_jobs w2 = (w_jobs w @ map (Selected_Job m) xs) @
       Locked_Job m d (into_active (locked_row m d (w_now w) r)) # map (Selected_Job m) ys"
    "w_jobs w3 = (w_jobs w @ map (Selected_Job m) xs) @
       Executed_Job m (result_model m d (w_now w) res r) # map (Selected_Job m) ys"
    "w4 = w\<lparr>w_db := s, w_runs := w_runs w @ [tk_id r],
       w_tasks := map (\<lambda>x. if tk_id x = tk_id r then attempted_row m d (w_now w) res r else x) (w_tasks w),
       w_jobs := (w_jobs w @ map (Selected_Job m) xs) @ map (Selected_Job m) ys\<rparr>"
proof -
  let ?js = "w_jobs w @ map (Selected_Job m) xs" and ?js' = "map (Selected_Job m) ys"
  let ?w1 = "w\<lparr>w_jobs := ?js @ Selected_Job m r # ?js'\<rparr>"
  have "r \<in> set (selection m w)"
    using sel by simp
  then have mem: "r \<in> set (w_tasks ?w1)"
    using selection_pending by simp
  have 1: "bg_step E Ms w L_Select ?w1"
    using bg_step.select [OF \<open>m \<in> Ms\<close>, of E w] sel by simp
  have ok1: "distinct (map tk_id (w_tasks ?w1))" and jobs1: "w_jobs ?w1 = ?js @ Selected_Job m r # ?js'"
    and task1: "bt_task d out (tk_data r) (w_db ?w1) = (res, s)"
    using ok task by simp_all
  obtain w2 w3 w4 where st: "bg_step E Ms ?w1 L_Lock w2" "bg_step E Ms w2 (L_Run (tk_id r)) w3" "bg_step E Ms w3 L_Save w4"
    "w_jobs w2 = ?js @ Locked_Job m d (into_active (locked_row m d (w_now ?w1) r)) # ?js'"
    "w_jobs w3 = ?js @ Executed_Job m (result_model m d (w_now ?w1) res r) # ?js'"
    "w4 = ?w1\<lparr>w_db := s, w_runs := w_runs ?w1 @ [tk_id r],
       w_tasks := map (\<lambda>x. if tk_id x = tk_id r then attempted_row m d (w_now ?w1) res r else x) (w_tasks ?w1),
       w_jobs := ?js @ ?js'\<rparr>"
    by (rule job_steps [OF ok1 mem refl jobs1 d task1]) (rule that)
  show thesis
    by (rule that [OF 1 st(1,2,3)]) (use st in \<open>simp_all cong: if_cong\<close>)
qed

lemma get_pending_all:
  "length (filter (is_pending now) t) \<le> n \<Longrightarrow> r \<in> set t \<Longrightarrow> is_pending now r \<Longrightarrow>
   r \<in> set (get_pending_tasks n now t)"
  by (simp add: get_pending_tasks_def)

lemma bg_steps_append:
  "bg_steps E Ms w ls w1 \<Longrightarrow> bg_steps E Ms w1 ls' w2 \<Longrightarrow> bg_steps E Ms w (ls @ ls') w2"
  by (induction rule: bg_steps.induct) (auto intro: bg_steps.intros)

lemma bg_steps_single: "bg_step E Ms w l w' \<Longrightarrow> bg_steps E Ms w [l] w'"
  by (auto intro: bg_steps.intros)

section \<open>The limit is reached\<close>

text \<open>A row alone in the table, tried by one runner until it is no longer selected.\<close>

lemma attempts_exhausted:
  assumes "m \<in> Ms" and d: "mgr_task_types m ty = Some d" and batch: "0 < runner_batch_size (mgr_config m)"
    and fails: "\<And>s. bt_task d out j s = (Inl e, s)" and rec: "\<forall>x. e \<noteq> IE_UnrecoverableTaskError x"
    and lim: "mx < 32767"
  shows "w_tasks w = [r] \<Longrightarrow> w_jobs w = [] \<Longrightarrow> tk_task_type r = ty \<Longrightarrow> tk_data r = j \<Longrightarrow>
     tk_status r \<noteq> TS_Success \<Longrightarrow> (case tk_locked_until r of Some u \<Rightarrow> u \<le> w_now w | None \<Rightarrow> True) \<Longrightarrow>
     tk_max_attempts r = mx \<Longrightarrow> 0 \<le> tk_attempts r \<Longrightarrow> tk_attempts r + int n = mx + 1 \<Longrightarrow>
     calm_steps E Ms w0 ls0 w \<Longrightarrow>
     \<exists>ls w'. calm_steps E Ms w0 (ls0 @ ls) w' \<and> set ls \<subseteq> {L_Select, L_Lock, L_Run (tk_id r), L_Save} \<and>
       w_runs w' = w_runs w @ replicate n (tk_id r)"
proof (induction n arbitrary: w r ls0)
  case 0
  then show ?case
    by (intro exI [of _ "[]"] exI [of _ w]) simp
next
  case (Suc n)
  let ?a = "attempted_row m d (w_now w) (Inl e) r"
  have "is_pending (w_now w) r"
    using Suc.prems by (simp add: is_pending_def)
  then have sel: "selection m w = [] @ r # []"
    using Suc.prems(1) batch by (simp add: selection_def get_pending_tasks_def)
  have ty: "mgr_task_types m (tk_task_type r) = Some d"
    and run: "bt_task d out (tk_data r) (w_db w) = (Inl e, w_db w)"
    and ids: "distinct (map tk_id (w_tasks w))"
    using Suc.prems d fails by simp_all
  obtain w1 w2 w3 w4 where st: "bg_step E Ms w L_Select w1" "bg_step E Ms w1 L_Lock w2"
      "bg_step E Ms w2 (L_Run (tk_id r)) w3" "bg_step E Ms w3 L_Save w4"
    and jobs: "w_jobs w1 = (w_jobs w @ map (Selected_Job m) []) @ Selected_Job m r # map (Selected_Job m) []"
      "w_jobs w2 = (w_jobs w @ map (Selected_Job m) []) @
         Locked_Job m d (into_active (locked_row m d (w_now w) r)) # map (Selected_Job m) []"
      "w_jobs w3 = (w_jobs w @ map (Selected_Job m) []) @
         Executed_Job m (result_model m d (w_now w) (Inl e) r) # map (Selected_Job m) []"
    and w4: "w4 = w\<lparr>w_db := w_db w, w_runs := w_runs w @ [tk_id r],
        w_tasks := map (\<lambda>x. if tk_id x = tk_id r then ?a else x) (w_tasks w),
        w_jobs := (w_jobs w @ map (Selected_Job m) []) @ map (Selected_Job m) []\<rparr>"
    by (rule attempt_steps [OF ids assms(1) sel ty run]) (rule that)
  have "exclusive w1" "exclusive w2" "exclusive w3" "exclusive w4"
    using jobs w4 Suc.prems(2) by (auto simp: exclusive_def List.map_filter_def)
  then have "calm_steps E Ms w0 (ls0 @ [L_Select, L_Lock, L_Run (tk_id r), L_Save]) w4"
    using calm_steps.calm_step [OF calm_steps.calm_step [OF calm_steps.calm_step [OF calm_steps.calm_step
          [OF Suc.prems(10) st(1)] st(2)] st(3)] st(4)] by simp
  moreover have "tk_attempts ?a = tk_attempts r + 1"
    using rec Suc.prems lim by (simp add: attempted_row_simps wrap_i16_small)
  ultimately obtain ls w' where "calm_steps E Ms w0 ((ls0 @ [L_Select, L_Lock, L_Run (tk_id r), L_Save]) @ ls) w'"
      "set ls \<subseteq> {L_Select, L_Lock, L_Run (tk_id r), L_Save}"
      "w_runs w' = w_runs w4 @ replicate n (tk_id r)"
    using Suc.IH [of w4 ?a "ls0 @ [L_Select, L_Lock, L_Run (tk_id r), L_Save]"] w4 Suc.prems
    by (auto simp: attempted_row_simps)
  then show ?case
    using w4 by (intro exI [of _ "[L_Select, L_Lock, L_Run (tk_id r), L_Save] @ ls"] exI [of _ w']) simp
qed


lemma count_list_replicate: "count_list (replicate n x) x = n"
  by (induction n) simp_all

section \<open>Unfinished tasks can be completed\<close>

lemma complete_task:
  assumes ids: "distinct (map tk_id (w_tasks w))" and r: "find_task i (w_tasks w) = Some r"
    and open_row: "tk_status r \<noteq> TS_Success" "tk_attempts r \<le> tk_max_attempts r"
    and m: "m \<in> Ms" "length (w_tasks w) \<le> runner_batch_size (mgr_config m)"
    and d: "mgr_task_types m (tk_task_type r) = Some d"
    and task: "bt_task d out (tk_data r) (w_db w) = (Inr (), s)"
  shows "\<exists>ls w' r'. bg_steps E Ms w ls w' \<and> set ls \<subseteq> {L_Time, L_Select, L_Lock, L_Run i, L_Save} \<and>
    find_task i (w_tasks w') = Some r' \<and> tk_status r' = TS_Success \<and> w_db w' = s"
proof -
  have i: "i = tk_id r" and mem: "r \<in> set (w_tasks w)"
    using find_task_Some [OF r] by simp_all
  define t where "t = (case tk_locked_until r of Some u \<Rightarrow> max u (w_now w) | None \<Rightarrow> w_now w)"
  let ?w = "w\<lparr>w_now := t\<rparr>"
  have time: "bg_step E Ms w L_Time ?w"
    by (rule bg_step.time) (simp add: t_def split: option.split)
  have pend: "is_pending t r"
    using open_row by (auto simp: is_pending_def t_def split: option.split)
  have "length (filter (is_pending t) (w_tasks w)) \<le> runner_batch_size (mgr_config m)"
    using m(2) length_filter_le le_trans by blast
  then have "r \<in> set (selection m ?w)"
    using get_pending_all [OF _ mem pend] by (simp add: selection_def)
  then obtain xs ys where sel: "selection m ?w = xs @ r # ys"
    by (meson split_list)
  have ids': "distinct (map tk_id (w_tasks ?w))" and task': "bt_task d out (tk_data r) (w_db ?w) = (Inr (), s)"
    using ids task by simp_all
  obtain w1 w2 w3 w4 where st: "bg_step E Ms ?w L_Select w1" "bg_step E Ms w1 L_Lock w2"
      "bg_step E Ms w2 (L_Run (tk_id r)) w3" "bg_step E Ms w3 L_Save w4"
    and w4: "w4 = ?w\<lparr>w_db := s, w_runs := w_runs ?w @ [tk_id r],
       w_tasks := map (\<lambda>x. if tk_id x = tk_id r then attempted_row m d (w_now ?w) (Inr ()) r else x) (w_tasks ?w),
       w_jobs := (w_jobs ?w @ map (Selected_Job m) xs) @ map (Selected_Job m) ys\<rparr>"
    by (rule attempt_steps [OF ids' m(1) sel d task']) (rule that)
  have "bg_steps E Ms w [L_Time, L_Select, L_Lock, L_Run (tk_id r), L_Save] w4"
    using time st by (auto intro!: bg_steps.intros)
  moreover have "find_task i (w_tasks w4) = Some (attempted_row m d t (Inr ()) r)"
    using find_task_replace [OF mem, of "attempted_row m d t (Inr ()) r"] w4 i
    by (simp add: attempted_row_simps cong: if_cong)
  ultimately show ?thesis
    using w4 i by (intro exI [of _ "[L_Time, L_Select, L_Lock, L_Run (tk_id r), L_Save]"] exI [of _ w4]
        exI [of _ "attempted_row m d t (Inr ()) r"]) (simp add: attempted_row_simps)
qed

text \<open>A received task without a row gets one.\<close>

lemma receive_task:
  assumes "m \<in> Ms" and chan: "m \<notin> fst ` set (w_chan w)" and d: "mgr_task_types m (td_name td) = Some d"
    and h: "TaskData_hash E td = Inr h" and none: "find_task h (w_tasks w) = None"
  shows "bg_steps E Ms w [L_Send, L_Listen, L_Insert]
    (w\<lparr>w_tasks := w_tasks w @ [new_task_model m d h td (w_now w)]\<rparr>)"
proof -
  let ?w1 = "w\<lparr>w_chan := w_chan w @ [(m, td)]\<rparr>"
  let ?w2 = "w\<lparr>w_jobs := w_jobs w @ [Insert_Job m td]\<rparr>"
  let ?w3 = "w\<lparr>w_tasks := w_tasks w @ [new_task_model m d h td (w_now w)]\<rparr>"
  have "bg_step E Ms w L_Send ?w1"
    by (rule bg_step.send [OF assms(1)])
  moreover have "bg_step E Ms ?w1 L_Listen ?w2"
    using bg_step.listen_spawn [of ?w1 "w_chan w" m td "[]" E None Ms] chan h none
    by (simp add: listen_def)
  moreover have "bg_step E Ms ?w2 L_Insert ?w3"
    using bg_step.insert [of ?w2 "w_jobs w" m td "[]" E _ Ms] d h none
    by (simp add: new_task_handler_Inr)
  ultimately show ?thesis
    by (auto intro!: bg_steps.intros)
qed


section \<open>A sample service\<close>

text \<open>One metadata row, the download task, and an instance whose runner takes batches of one.\<close>

definition demo_task_env :: task_env where
  "demo_task_env = \<lparr>te_to_vec = (\<lambda>_. Some [1]), te_sha256 = (\<lambda>b. replicate (length b) CHR ''a''),
     te_url_parses = (\<lambda>u. u \<noteq> []), te_bs58 = (\<lambda>_. ''key''), te_datetime = (\<lambda>_. None)\<rparr>"

definition demo_task_type :: BgTask where
  "demo_task_type = download_task_type demo_task_env
     \<lparr>dt_lock_duration = None, dt_max_attempts = None, dt_timeout = None\<rparr>"

definition demo_manager :: "string \<Rightarrow> TaskManager" where
  "demo_manager nm = \<lparr>mgr_instance_name = nm, mgr_task_types = registered_task_types [demo_task_type],
     mgr_process_on_receive = False, mgr_config = None\<rparr>"

definition demo_metadata_row :: asset_data_row where
  "demo_metadata_row = \<lparr>ad_id = [7], ad_chain_data_mutability = Chain_Mutable, ad_chain_data = JNull,
     ad_metadata_url = ''u'', ad_metadata_mutability = Mut_Mutable, ad_metadata = JString ''processing'',
     ad_slot_updated = 1, ad_reindex = Some True, ad_raw_name = None, ad_raw_symbol = None,
     ad_base_info_seq = None\<rparr>"

definition demo_task_world :: task_world where
  "demo_task_world = \<lparr>w_now = 0, w_tasks = [], w_db = empty_db\<lparr>asset_data := [[7] \<mapsto> demo_metadata_row]\<rparr>,
     w_chan = [], w_jobs = [], w_runs = []\<rparr>"

definition demo_task_data :: TaskData where
  "demo_task_data = download_metadata_notifier 0 \<lparr>dmi_asset_data_id = [7], dmi_uri = ''u''\<rparr>"

definition demo_task_id :: string where
  "demo_task_id = ''aaaaaaaaaaaaaaaaa''"

definition demo_response :: http_outcome where
  "demo_response = Http_Response ''200'' (Inr (JString ''body''))"

lemma demo_hash: "TaskData_hash demo_task_env demo_task_data = Inr demo_task_id"
  by (simp add: TaskData_hash_def demo_task_env_def demo_task_data_def download_metadata_notifier_def
      into_task_data_def DOWNLOAD_TASK_NAME_def demo_task_id_def string_bytes_def)

lemma demo_initial: "initial demo_task_world" "w_chan demo_task_world = []"
  by (simp_all add: initial_def demo_task_world_def)

lemma demo_types: "mgr_task_types (demo_manager nm) (td_name demo_task_data) = Some demo_task_type"
  by (simp add: demo_manager_def registered_task_types_def demo_task_type_def download_task_type_def
      demo_task_data_def download_metadata_notifier_def into_task_data_def)

abbreviation demo_row :: tasks_row where
  "demo_row \<equiv> new_task_model (demo_manager ''a'') demo_task_type demo_task_id demo_task_data 0"

abbreviation demo_received :: task_world where
  "demo_received \<equiv> demo_task_world\<lparr>w_tasks := [demo_row]\<rparr>"

lemma demo_receive:
  "demo_manager ''a'' \<in> Ms \<Longrightarrow>
   bg_steps demo_task_env Ms demo_task_world [L_Send, L_Listen, L_Insert] demo_received"
  using receive_task [of "demo_manager ''a''" Ms demo_task_world demo_task_data demo_task_type
      demo_task_env demo_task_id] demo_types demo_hash
  by (simp add: demo_task_world_def find_task_def)


lemma demo_task_ok:
  "bt_task demo_task_type demo_response (tk_data demo_row) (w_db demo_task_world) =
     (Inr (), (w_db demo_task_world)\<lparr>asset_data := [[7] \<mapsto> demo_metadata_row\<lparr>ad_metadata := JString ''body'',
        ad_reindex := Some False\<rparr>]\<rparr>)"
  unfolding demo_task_type_def download_task_type_def BgTask.simps
  by (subst task_healthy [where d = "\<lparr>dm_asset_data_id = [7], dm_uri = ''u'', dm_created_at = None\<rparr>"
        and r = demo_metadata_row and body = "JString ''body''"])
     (simp_all add: demo_task_world_def empty_db_def demo_task_data_def download_metadata_notifier_def
      into_task_data_def from_value_to_value demo_metadata_row_def demo_task_env_def demo_response_def)

lemma demo_task_fails:
  "bt_task demo_task_type (Http_Error ''e'') (td_data demo_task_data) s =
     (Inl (IE_BatchInitNetworkingError ''e''), s)"
  by (simp add: demo_task_type_def download_task_type_def demo_task_data_def DownloadMetadataTask_task_def
      download_metadata_notifier_def into_task_data_def from_value_to_value lift_result_def db_bind_def
      download_body_def demo_task_env_def ingester_from_reqwest_def)

lemma demo_selection: "selection (demo_manager nm) (demo_received\<lparr>w_jobs := js\<rparr>) = [] @ demo_row # []"
  by (simp add: selection_def get_pending_tasks_def is_pending_def demo_manager_def runner_batch_size_def
      default_runner_config_def demo_task_world_def new_task_model_def Let_def demo_task_type_def
      download_task_type_def)

lemma demo_limits: "limits_ok (mgr_task_types (demo_manager nm))"
  by (simp add: limits_ok_def demo_manager_def registered_task_types_def demo_task_type_def
      download_task_type_def)

lemma demo_defaults:
  "bt_max_attempts demo_task_type = 3" "\<not> mgr_process_on_receive (demo_manager nm)"
  "runner_batch_size (mgr_config (demo_manager nm)) = 100"
  by (simp_all add: demo_task_type_def download_task_type_def demo_manager_def runner_batch_size_def
      default_runner_config_def)

lemma demo_success:
  obtains w r where
    "bg_steps demo_task_env {demo_manager ''a''} demo_task_world
       [L_Send, L_Listen, L_Insert, L_Select, L_Lock, L_Run demo_task_id, L_Save] w"
    "find_task demo_task_id (w_tasks w) = Some r" "tk_status r = TS_Success" "w_jobs w = []"
proof -
  let ?m = "demo_manager ''a''" and ?r = "attempted_row (demo_manager ''a'') demo_task_type 0 (Inr ()) demo_row"
  have sel: "selection ?m demo_received = [] @ demo_row # []"
    using demo_selection [of _ "[]"] by (simp add: demo_task_world_def)
  have ids: "distinct (map tk_id (w_tasks demo_received))" and m: "?m \<in> {?m}"
    and ty: "mgr_task_types ?m (tk_task_type demo_row) = Some demo_task_type"
    and db: "w_db demo_received = w_db demo_task_world"
    using demo_types by simp_all
  obtain w1 w2 w3 w4 where st: "bg_step demo_task_env {?m} demo_received L_Select w1"
      "bg_step demo_task_env {?m} w1 L_Lock w2" "bg_step demo_task_env {?m} w2 (L_Run (tk_id demo_row)) w3"
      "bg_step demo_task_env {?m} w3 L_Save w4"
    and w4: "w4 = demo_received\<lparr>w_db := (w_db demo_received)\<lparr>asset_data := [[7] \<mapsto> demo_metadata_row
          \<lparr>ad_metadata := JString ''body'', ad_reindex := Some False\<rparr>]\<rparr>, w_runs := w_runs demo_received @ [tk_id demo_row],
       w_tasks := map (\<lambda>x. if tk_id x = tk_id demo_row then attempted_row ?m demo_task_type (w_now demo_received)
          (Inr ()) demo_row else x) (w_tasks demo_received),
       w_jobs := (w_jobs demo_received @ map (Selected_Job ?m) []) @ map (Selected_Job ?m) []\<rparr>"
    by (rule attempt_steps [OF ids m sel ty demo_task_ok [folded db]]) (rule that)
  have tab: "w_tasks w4 = [?r]" "w_jobs w4 = []"
    using w4 by (simp_all add: demo_task_world_def cong: if_cong)
  have "bg_steps demo_task_env {?m} demo_task_world
      ([L_Send, L_Listen, L_Insert] @ [L_Select, L_Lock, L_Run demo_task_id, L_Save]) w4"
    using st by (intro bg_steps_append [OF demo_receive]) (auto intro!: bg_steps.intros)
  then show thesis
    using tab by (intro that [of w4 ?r]) (simp_all add: find_task_def attempted_row_simps)
qed

text \<open>Both instances select the row before either locks it.\<close>

abbreviation demo_both_selected :: task_world where
  "demo_both_selected \<equiv> demo_received\<lparr>w_jobs := [] @ Selected_Job (demo_manager ''a'') demo_row #
     [Selected_Job (demo_manager ''b'') demo_row]\<rparr>"

lemma demo_select_both:
  "bg_steps demo_task_env {demo_manager ''a'', demo_manager ''b''} demo_task_world
     [L_Send, L_Listen, L_Insert, L_Select, L_Select] demo_both_selected"
proof -
  let ?a = "demo_manager ''a''" and ?b = "demo_manager ''b''" and ?E = demo_task_env
  let ?w = "demo_received\<lparr>w_jobs := [Selected_Job ?a demo_row]\<rparr>"
  have "bg_step ?E {?a, ?b} demo_received L_Select ?w"
    using bg_step.select [of ?a "{?a, ?b}" ?E demo_received] demo_selection [of _ "[]"]
    by (simp add: demo_task_world_def)
  moreover have "bg_step ?E {?a, ?b} ?w L_Select demo_both_selected"
    using bg_step.select [of ?b "{?a, ?b}" ?E ?w] demo_selection [of _ "[Selected_Job ?a demo_row]"]
    by (simp add: demo_task_world_def)
  ultimately have "bg_steps ?E {?a, ?b} demo_received [L_Select, L_Select] demo_both_selected"
    by (auto intro: bg_steps.intros)
  from bg_steps_append [OF demo_receive this] show ?thesis
    by simp
qed

section \<open>Properties\<close>

text \<open>
  C14: the table of tasks is consistent in every reachable state, however the jobs of all instances
  interleave, fail and crash: there is one row per task, its identifier is the hash of its type and
  data, and its status agrees with its lock, its error message and its counter.
\<close>

theorem tasks_consistent:
  assumes "initial w" and "bg_steps E Ms w ls w'"
  shows "distinct (map tk_id (w_tasks w')) \<and> (\<forall>r \<in> set (w_tasks w'). row_ok E r)"
  using world_ok_steps [OF assms(2) initial_ok [OF assms(1)]] by (simp add: world_ok_def)

theorem tasks_consistent_witness:
  "distinct (map tk_id [demo_row]) \<and> row_ok demo_task_env demo_row"
  using tasks_consistent [OF demo_initial(1) demo_receive [of "{demo_manager ''a''}"]] by simp



text \<open>
  A task that keeps failing is executed one time more than its \<open>max_attempts\<close>: the selection
  compares the number of executions so far by \<open>\<le>\<close>.  The run has no lost result and no two jobs for the
  task at a time.
\<close>

lemma limit_exceeded_by_one:
  assumes "m \<in> Ms" and "mgr_task_types m (td_name td) = Some d" and "\<not> mgr_process_on_receive m"
    and "0 < runner_batch_size (mgr_config m)" and "TaskData_hash E td = Inr h"
    and "\<And>s. bt_task d out (td_data td) s = (Inl e, s)" and "\<forall>x. e \<noteq> IE_UnrecoverableTaskError x"
    and "0 \<le> bt_max_attempts d" and "bt_max_attempts d < 32767"
    and "initial w" and "w_chan w = []"
  shows "\<exists>ls w'. calm_steps E Ms w ls w' \<and>
    set ls \<subseteq> {L_Send, L_Listen, L_Insert, L_Select, L_Lock, L_Run h, L_Save} \<and>
    int (count_list (w_runs w') h) = bt_max_attempts d + 1"
proof -
  let ?r = "new_task_model m d h td (w_now w)" and ?w = "w\<lparr>w_tasks := [new_task_model m d h td (w_now w)]\<rparr>"
  have "bg_steps E Ms w [L_Send, L_Listen, L_Insert] ?w"
    using receive_task [OF assms(1) _ assms(2,5), of w] assms(10,11) by (simp add: initial_def find_task_def)
  moreover have "exclusive w"
    using assms(10) by (simp add: initial_def exclusive_def List.map_filter_def)
  ultimately have calm: "calm_steps E Ms w ([] @ [L_Send, L_Listen, L_Insert]) ?w"
    by (rule calm_steps_append) (auto intro: calm_steps.calm_refl)
  have row: "tk_status ?r = TS_Pending" "tk_locked_until ?r = None"
    using assms(3) by (simp_all add: new_task_model_def Let_def)
  have n: "tk_attempts ?r + int (nat (bt_max_attempts d + 1)) = bt_max_attempts d + 1"
    using assms(8) by simp
  have "w_jobs ?w = []" "w_runs ?w = []"
    using assms(10) by (simp_all add: initial_def)
  then obtain ls w' where ls: "calm_steps E Ms w (([] @ [L_Send, L_Listen, L_Insert]) @ ls) w'"
      "set ls \<subseteq> {L_Select, L_Lock, L_Run h, L_Save}" "w_runs w' = replicate (nat (bt_max_attempts d + 1)) h"
    using attempts_exhausted [OF assms(1,2,4,6,7,9), of ?w ?r "nat (bt_max_attempts d + 1)" E w
        "[] @ [L_Send, L_Listen, L_Insert]"] calm row n by auto
  show ?thesis
  proof (intro exI conjI)
    show "calm_steps E Ms w ([L_Send, L_Listen, L_Insert] @ ls) w'"
      using ls(1) by simp
  qed (use ls assms(8) in \<open>auto simp: count_list_replicate\<close>)
qed

text \<open>
  C16: a task that has succeeded, or has used up its attempts, is final.  As long as no job for it is
  under way its row does not change and it is not executed again, whatever is sent, selected or lost, until
  the row is purged.
\<close>

theorem finished_task_final:
  assumes "initial w0" and "bg_steps E Ms w0 ls0 w" and "find_task i (w_tasks w) = Some r"
    and "finished r" and "Some i \<notin> job_id ` set (w_jobs w)"
    and "bg_steps E Ms w ls w'" and "L_Purge \<notin> set ls"
  shows "find_task i (w_tasks w') = Some r \<and> count_list (w_runs w') i = count_list (w_runs w) i"
  by (rule finished_steps [OF assms(6) world_ok_steps [OF assms(2) initial_ok [OF assms(1)]] assms(3,4,5,7)])

theorem finished_task_final_witness:
  "\<exists>w w' r. find_task demo_task_id (w_tasks w) = Some r \<and> tk_status r = TS_Success \<and>
     bg_steps demo_task_env {demo_manager ''a''} w [L_Select] w' \<and>
     find_task demo_task_id (w_tasks w') = Some r \<and> count_list (w_runs w') demo_task_id = count_list (w_runs w) demo_task_id"
proof -
  obtain w r where w: "bg_steps demo_task_env {demo_manager ''a''} demo_task_world
       [L_Send, L_Listen, L_Insert, L_Select, L_Lock, L_Run demo_task_id, L_Save] w"
    "find_task demo_task_id (w_tasks w) = Some r" "tk_status r = TS_Success" "w_jobs w = []"
    by (rule demo_success)
  let ?w = "w\<lparr>w_jobs := w_jobs w @ map (Selected_Job (demo_manager ''a'')) (selection (demo_manager ''a'') w)\<rparr>"
  have step: "bg_steps demo_task_env {demo_manager ''a''} w [L_Select] ?w"
    by (intro bg_steps_single bg_step.select) simp
  have "find_task demo_task_id (w_tasks ?w) = Some r \<and>
      count_list (w_runs ?w) demo_task_id = count_list (w_runs w) demo_task_id"
    by (rule finished_task_final [OF demo_initial(1) w(1,2) _ _ step]) (use w in \<open>simp_all add: finished_def\<close>)
  with step w show ?thesis
    by blast
qed



text \<open>
  Selecting a row and locking it are two statements, so two runners can hold the same task.  Here both
  select it before either locks it, the first one completes it, and the second one executes it again
  and turns the completed task into a failed one.
\<close>

lemma overlapping_runners_undo_success:
  "\<exists>w1 w2 ls1 ls2 r1 r2. initial demo_task_world \<and>
     bg_steps demo_task_env {demo_manager ''a'', demo_manager ''b''} demo_task_world ls1 w1 \<and>
     find_task demo_task_id (w_tasks w1) = Some r1 \<and> tk_status r1 = TS_Success \<and>
     bg_steps demo_task_env {demo_manager ''a'', demo_manager ''b''} w1 ls2 w2 \<and>
     find_task demo_task_id (w_tasks w2) = Some r2 \<and> tk_status r2 = TS_Failed \<and>
     count_list (w_runs w2) demo_task_id = 2 \<and>
     set (ls1 @ ls2) \<inter> {L_Purge, L_Abort, L_Lost, L_Time} = {}"
proof -
  let ?a = "demo_manager ''a''" and ?b = "demo_manager ''b''" and ?E = demo_task_env
  let ?Ms = "{?a, ?b}" and ?i = demo_task_id and ?d = demo_task_type and ?e = "IE_BatchInitNetworkingError ''e''"
  define r1 where "r1 = attempted_row ?a ?d 0 (Inr ()) demo_row"
  define r2 where "r2 = attempted_row ?b ?d 0 (Inl ?e) r1"
  define s where "s = (w_db demo_task_world)\<lparr>asset_data := [[7] \<mapsto> demo_metadata_row
      \<lparr>ad_metadata := JString ''body'', ad_reindex := Some False\<rparr>]\<rparr>"
  define w1 where "w1 = demo_task_world\<lparr>w_db := s, w_runs := [?i], w_tasks := [r1],
      w_jobs := [] @ Selected_Job ?b demo_row # []\<rparr>"
  define w2 where "w2 = demo_task_world\<lparr>w_db := s, w_runs := [?i, ?i], w_tasks := [r2]\<rparr>"
  have r1: "tk_id r1 = ?i" "tk_data r1 = td_data demo_task_data" "tk_status r1 = TS_Success"
    and r2: "tk_id r2 = ?i" "tk_status r2 = TS_Failed"
    by (simp_all add: r1_def r2_def attempted_row_simps)
  have "bg_steps ?E ?Ms demo_both_selected [L_Lock, L_Run ?i, L_Save] w1"
    using job_run [of demo_both_selected demo_row demo_row "[]" ?a _ ?d demo_response "Inr ()" s ?E ?Ms]
      demo_task_ok demo_types
    by (simp add: w1_def r1_def s_def demo_task_world_def cong: if_cong)
  from bg_steps_append [OF demo_select_both this]
  have steps1: "bg_steps ?E ?Ms demo_task_world
      [L_Send, L_Listen, L_Insert, L_Select, L_Select, L_Lock, L_Run ?i, L_Save] w1"
    by simp
  have steps2: "bg_steps ?E ?Ms w1 [L_Lock, L_Run ?i, L_Save] w2"
    using job_run [of w1 r1 demo_row "[]" ?b "[]" ?d "Http_Error ''e''" "Inl ?e" s ?E ?Ms]
      demo_task_fails demo_types r1
    by (simp add: w1_def w2_def r2_def demo_task_world_def cong: if_cong)
  show ?thesis
    by (rule exI [of _ w1], rule exI [of _ w2], intro exI conjI, rule demo_initial(1), rule steps1)
       (use steps2 r1 r2 in \<open>auto simp: w1_def w2_def find_task_def\<close>)
qed

text \<open>
  A download task changes at most the metadata and the reindex mark of the row of its asset, and
  only while the row still has the address that was downloaded, whatever the response is and whichever statements
  fail.  A task that succeeds has stored the downloaded metadata, unless the row has a newer address.
\<close>

lemma download_only_current:
  assumes "DownloadMetadataTask_task E out data s = (r, s')"
  shows "(\<exists>d body. DownloadMetadata_from_value E data = Inr d \<and> download_body E out (dm_uri d) = Inr body \<and>
      (metadata_stored (dm_asset_data_id d) (dm_uri d) body s s' \<or>
       (\<exists>fs. s' = s\<lparr>faults := fs\<rparr>) \<and> (r = Inr () \<longrightarrow> superseded (dm_asset_data_id d) (dm_uri d) s))) \<or>
    s' = s \<and> r \<noteq> Inr ()"
proof (cases "DownloadMetadata_from_value E data")
  case (Inr d)
  then show ?thesis
    using assms store_metadata_cases [of E d _ s r s']
    by (cases "download_body E out (dm_uri d)")
       (auto simp: DownloadMetadataTask_task_def lift_result_def db_bind_def)
qed (use assms in \<open>auto simp: DownloadMetadataTask_task_def lift_result_def db_bind_def\<close>)




end
