(* ===== verification/RpcView.thy ===== *)
theory RpcView
  imports SearchQuery
begin

text \<open>
  The RPC view of an asset: \<open>digital_asset_types/src/rpc/asset.rs\<close> (the response types),
  \<open>dapi/common/asset.rs\<close> (from rows to responses) and \<open>dapi/get_asset.rs\<close>.  JSON paths, MIME types, the
  serialisation of a value and floating point numbers are parameters; so is the order in which a hash
  map lists its values.
\<close>

section \<open>Responses\<close>

record rpc_env =
  rp_select :: "json \<Rightarrow> string \<Rightarrow> string + json list"
  rp_mime :: "string \<Rightarrow> string option"
  rp_to_string :: "json \<Rightarrow> string option"
  rp_inscription :: "json \<Rightarrow> string + InscriptionData"
  rp_percent :: "int \<Rightarrow> u64"

record File =
  file_uri :: "string option"
  file_mime :: "string option"

record Content =
  cn_schema :: string
  cn_json_uri :: string
  cn_files :: "File list"
  cn_metadata :: "string \<rightharpoonup> json"
  cn_links :: "string \<rightharpoonup> json"

datatype Scope = Scope_Full | Scope_Royalty | Scope_Metadata | Scope_Extension

record Authority =
  au_address :: string
  au_scopes :: "Scope list"

record Compression =
  cmp_eligible :: bool
  cmp_compressed :: bool
  cmp_data_hash :: string
  cmp_creator_hash :: string
  cmp_collection_hash :: "string option"
  cmp_asset_data_hash :: "string option"
  cmp_flags :: "u8 option"
  cmp_asset_hash :: string
  cmp_tree :: string
  cmp_seq :: int
  cmp_leaf_id :: int

record Group =
  gr_group_key :: string
  gr_group_value :: "string option"
  gr_verified :: "bool option"
  gr_collection_metadata :: "(string \<rightharpoonup> json) option"

datatype RoyaltyModel = RM_Creators | RM_Fanout | RM_Single

fun RoyaltyModel_from :: "RoyaltyTargetType \<Rightarrow> RoyaltyModel" where
  "RoyaltyModel_from Royalty_Creators = RM_Creators"
| "RoyaltyModel_from Royalty_Fanout = RM_Fanout"
| "RoyaltyModel_from Royalty_Single = RM_Single"
| "RoyaltyModel_from Royalty_Unknown = RM_Creators"

record Royalty =
  ry_royalty_model :: RoyaltyModel
  ry_target :: "string option"
  ry_percent :: u64
  ry_basis_points :: u32
  ry_primary_sale_happened :: bool
  ry_locked :: bool

record RpcCreator =
  rcr_address :: string
  rcr_share :: int
  rcr_verified :: bool

datatype OwnershipModel = OM_Single | OM_Token

fun OwnershipModel_from :: "OwnerType \<Rightarrow> OwnershipModel" where
  "OwnershipModel_from Owner_Token = OM_Token"
| "OwnershipModel_from Owner_Single = OM_Single"
| "OwnershipModel_from Owner_Unknown = OM_Single"

record Ownership =
  ow_frozen :: bool
  ow_non_transferable :: "bool option"
  ow_delegated :: bool
  ow_delegate :: "string option"
  ow_ownership_model :: OwnershipModel
  ow_owner :: string

datatype RpcUseMethod = RUM_Burn | RUM_Multiple | RUM_Single

definition UseMethod_from :: "string \<Rightarrow> RpcUseMethod" where
  "UseMethod_from s = (if s = ''Burn'' then RUM_Burn else if s = ''Multiple'' then RUM_Multiple else RUM_Single)"

fun Mutability_from :: "ChainMutability \<Rightarrow> bool" where
  "Mutability_from Chain_Mutable = True"
| "Mutability_from Chain_Immutable = False"
| "Mutability_from Chain_Unknown = True"

record RpcUses =
  us_use_method :: RpcUseMethod
  us_remaining :: u64
  us_total :: u64

record Supply =
  sp_print_max_supply :: u64
  sp_print_current_supply :: u64
  sp_edition_nonce :: "u64 option"

record MplCoreInfo =
  mci_num_minted :: "int option"
  mci_current_size :: "int option"
  mci_plugins_json_version :: "int option"

record TokenInfo =
  ti_supply :: u64
  ti_decimals :: u8
  ti_token_program :: string
  ti_mint_authority :: "string option"
  ti_freeze_authority :: "string option"

record RpcAsset =
  ra_interface :: Interface
  ra_id :: string
  ra_content :: "Content option"
  ra_authorities :: "Authority list"
  ra_compression :: Compression
  ra_grouping :: "Group list"
  ra_royalty :: Royalty
  ra_creators :: "RpcCreator list"
  ra_ownership :: Ownership
  ra_uses :: "RpcUses option"
  ra_supply :: "Supply option"
  ra_mutable :: bool
  ra_burnt :: bool
  ra_mint_extensions :: "json option"
  ra_inscription :: "InscriptionData option"
  ra_token_info :: "TokenInfo option"
  ra_plugins :: "json option"
  ra_unknown_plugins :: "json option"
  ra_mpl_core_info :: "MplCoreInfo option"
  ra_external_plugins :: "json option"
  ra_unknown_external_plugins :: "json option"

section \<open>Content\<close>

definition get_mime_type_from_uri :: "rpc_env \<Rightarrow> string \<Rightarrow> string" where
  "get_mime_type_from_uri R uri = (case rp_mime R uri of None \<Rightarrow> ''image/png'' | Some m \<Rightarrow> m)"

definition file_from_str :: "rpc_env \<Rightarrow> string \<Rightarrow> File" where
  "file_from_str R s = \<lparr>file_uri = Some s, file_mime = Some (get_mime_type_from_uri R s)\<rparr>"

definition as_str :: "json \<Rightarrow> string option" where
  "as_str v = (case v of JString s \<Rightarrow> Some s | _ \<Rightarrow> None)"

definition json_get :: "string \<Rightarrow> json \<Rightarrow> json option" where
  "json_get k v = (case v of JObject fs \<Rightarrow> map_of fs k | _ \<Rightarrow> None)"

type_synonym file_map = "(string \<times> File) list"

definition track_top_level_file :: "rpc_env \<Rightarrow> file_map \<Rightarrow> json option \<Rightarrow> file_map" where
  "track_top_level_file R file_map top_level_file =
     (case Option.bind top_level_file as_str of
        None \<Rightarrow> file_map
      | Some img \<Rightarrow>
          (if map_of file_map img = None then AList.update img (file_from_str R img) file_map else file_map))"

definition safe_select :: "rpc_env \<Rightarrow> json \<Rightarrow> string \<Rightarrow> json option" where
  "safe_select R v expr =
     (case rp_select R v expr of
        Inl _ \<Rightarrow> None
      | Inr vs \<Rightarrow> (if vs = [] then None else Some (last vs)))"

definition set_selected ::
  "rpc_env \<Rightarrow> json \<Rightarrow> string \<Rightarrow> string \<Rightarrow> (string \<rightharpoonup> json) \<Rightarrow> (string \<rightharpoonup> json)" where
  "set_selected R v expr key m = (case safe_select R v expr of None \<Rightarrow> m | Some x \<Rightarrow> m(key \<mapsto> x))"

text \<open>One entry of \<open>properties.files\<close>.\<close>

definition add_file :: "rpc_env \<Rightarrow> json \<Rightarrow> file_map \<Rightarrow> file_map" where
  "add_file R v files =
     (case v of
        JObject _ \<Rightarrow>
          (let uri = (case json_get ''uri'' v of None \<Rightarrow> json_get ''url'' v | Some u \<Rightarrow> Some u)
           in case (uri, json_get ''type'' v) of
                (Some u, Some m) \<Rightarrow>
                  (case as_str u of
                     None \<Rightarrow> files
                   | Some str_uri \<Rightarrow>
                       AList.update str_uri
                         (case as_str m of
                            Some str_mime \<Rightarrow> \<lparr>file_uri = Some str_uri, file_mime = Some str_mime\<rparr>
                          | None \<Rightarrow> file_from_str R str_uri) files)
              | (Some u, None) \<Rightarrow>
                  (let str_uri = (case rp_to_string R u of None \<Rightarrow> '''' | Some s \<Rightarrow> s)
                   in AList.update str_uri (file_from_str R str_uri) files)
              | _ \<Rightarrow> files)
      | JString str_uri \<Rightarrow> AList.update str_uri (file_from_str R str_uri) files
      | _ \<Rightarrow> files)"

text \<open>
  A stable sort by a comparison that puts the image first and calls all other files equal.
\<close>

definition is_image :: "json option \<Rightarrow> File \<Rightarrow> bool" where
  "is_image img f \<longleftrightarrow> img \<noteq> None \<and> map_option JString (file_uri f) = img"

definition sort_files :: "json option \<Rightarrow> File list \<Rightarrow> File list" where
  "sort_files img files = filter (is_image img) files @ filter (\<lambda>f. \<not> is_image img f) files"

definition v1_content_from_json ::
  "rpc_env \<Rightarrow> (File list \<Rightarrow> File list) \<Rightarrow> asset_data_row \<Rightarrow> Content" where
  "v1_content_from_json R order d =
     (let metadata = ad_metadata d;
          chain_data = ad_chain_data d;
          meta = set_selected R chain_data ''$.token_standard'' ''token_standard''
            (set_selected R metadata ''$.attributes'' ''attributes''
            (set_selected R metadata ''$.description'' ''description''
            (set_selected R chain_data ''$.symbol'' ''symbol''
            (set_selected R chain_data ''$.name'' ''name'' Map.empty))));
          links = fold (\<lambda>f. set_selected R metadata (''$.'' @ f) f)
            [''image'', ''animation_url'', ''external_url''] Map.empty;
          files = (case rp_select R metadata ''$.properties.files[*]'' of
                     Inl _ \<Rightarrow> [] | Inr vs \<Rightarrow> fold (add_file R) vs []);
          files = track_top_level_file R files (links ''image'');
          files = track_top_level_file R files (links ''animation_url'')
      in \<lparr>cn_schema = ''https://schema.metaplex.com/nft1.0.json'', cn_json_uri = ad_metadata_url d,
          cn_files = sort_files (links ''image'') (order (map snd files)), cn_metadata = meta, cn_links = links\<rparr>)"

section \<open>The parts of an asset\<close>

definition to_authority :: "env \<Rightarrow> asset_authority_row list \<Rightarrow> Authority list" where
  "to_authority E authority =
     map (\<lambda>a. \<lparr>au_address = bs58_encode E (aa_authority a), au_scopes = [Scope_Full]\<rparr>) authority"

definition to_creators :: "env \<Rightarrow> asset_creators_row list \<Rightarrow> RpcCreator list" where
  "to_creators E creators =
     map (\<lambda>a. \<lparr>rcr_address = bs58_encode E (ac_creator a), rcr_share = ac_share a, rcr_verified = ac_verified a\<rparr>)
       creators"

definition collection_metadata :: "rpc_env \<Rightarrow> asset_data_row \<Rightarrow> (string \<rightharpoonup> json)" where
  "collection_metadata R d =
     set_selected R (ad_metadata d) ''$.external_url'' ''external_url''
       (set_selected R (ad_metadata d) ''$.image'' ''image''
       (set_selected R (ad_metadata d) ''$.symbol'' ''symbol''
       (set_selected R (ad_metadata d) ''$.name'' ''name'' Map.empty)))"

definition to_grouping ::
  "rpc_env \<Rightarrow> (asset_grouping_row \<times> asset_data_row option) list \<Rightarrow> Options \<Rightarrow> Group list" where
  "to_grouping R groups options =
     List.map_filter (\<lambda>(g, d). map_option (\<lambda>group_value.
       \<lparr>gr_group_key = ag_group_key g, gr_group_value = Some group_value,
        gr_verified = (if show_unverified_collections options then Some (ag_verified g) else None),
        gr_collection_metadata = map_option (collection_metadata R) d\<rparr>) (ag_group_value g)) groups"

definition get_interface :: "asset_row \<Rightarrow> QueryErr + Interface" where
  "get_interface a =
     (case a_specification_asset_class a of
        None \<Rightarrow> Inl (QE_Custom ''interface not found'')
      | Some c \<Rightarrow> Inr (Interface_from (a_specification_version a) c))"

definition as_u64 :: "json \<Rightarrow> u64 option" where
  "as_u64 v = (case v of JNumber n \<Rightarrow> (if 0 \<le> n \<and> n < 2 ^ 64 then Some (word_of_int n) else None) | _ \<Rightarrow> None)"

definition to_uses :: "json \<Rightarrow> RpcUses option" where
  "to_uses chain_data = map_option (\<lambda>u.
     \<lparr>us_use_method = UseMethod_from
        (case Option.bind (json_get ''use_method'' u) as_str of None \<Rightarrow> ''Single'' | Some s \<Rightarrow> s),
      us_remaining = (case Option.bind (json_get ''remaining'' u) as_u64 of None \<Rightarrow> 0 | Some n \<Rightarrow> n),
      us_total = (case Option.bind (json_get ''total'' u) as_u64 of None \<Rightarrow> 0 | Some n \<Rightarrow> n)\<rparr>)
     (json_get ''uses'' chain_data)"

text \<open>A hash column is shown only for a compressed asset.\<close>

definition shown_hash :: "asset_row \<Rightarrow> string \<Rightarrow> string" where
  "shown_hash a e = (if a_compressed a then trim e else '''')"

definition to_compression :: "env \<Rightarrow> asset_row \<Rightarrow> Compression" where
  "to_compression E a =
     \<lparr>cmp_eligible = a_compressible a, cmp_compressed = a_compressed a,
      cmp_data_hash = (case a_data_hash a of None \<Rightarrow> '''' | Some e \<Rightarrow> shown_hash a e),
      cmp_creator_hash = (case a_creator_hash a of None \<Rightarrow> '''' | Some e \<Rightarrow> shown_hash a e),
      cmp_collection_hash = map_option (shown_hash a) (a_collection_hash a),
      cmp_asset_data_hash = map_option (shown_hash a) (a_asset_data_hash a),
      cmp_flags = Option.bind (a_bubblegum_flags a) (\<lambda>v. if 0 \<le> v \<and> v < 256 then Some (word_of_int v) else None),
      cmp_asset_hash = (case a_leaf a of None \<Rightarrow> '''' | Some s \<Rightarrow> bs58_encode E s),
      cmp_tree = (case a_tree_id a of None \<Rightarrow> '''' | Some s \<Rightarrow> bs58_encode E s),
      cmp_seq = (case a_seq a of None \<Rightarrow> 0 | Some n \<Rightarrow> n),
      cmp_leaf_id = (case a_nonce a of None \<Rightarrow> 0 | Some n \<Rightarrow> n)\<rparr>"

definition to_token_info :: "env \<Rightarrow> tokens_row \<Rightarrow> TokenInfo" where
  "to_token_info E t =
     \<lparr>ti_supply = (if 0 \<le> t_supply t \<and> t_supply t < 2 ^ 64 then word_of_int (t_supply t) else 0),
      ti_decimals = word_of_int (t_decimals t), ti_token_program = bs58_encode E (t_token_program t),
      ti_mint_authority = map_option (bs58_encode E) (t_mint_authority t),
      ti_freeze_authority = map_option (bs58_encode E) (t_freeze_authority t)\<rparr>"

definition asset_to_rpc ::
  "env \<Rightarrow> rpc_env \<Rightarrow> (File list \<Rightarrow> File list) \<Rightarrow> FullAsset \<Rightarrow> Options \<Rightarrow> QueryErr + RpcAsset" where
  "asset_to_rpc E R order fa options =
     (let a = fa_asset fa; d = fa_data fa in
      case get_interface a of
        Inl e \<Rightarrow> Inl e
      | Inr interface \<Rightarrow>
          Inr \<lparr>ra_interface = interface, ra_id = bs58_encode E (a_id a),
            ra_content = Some (v1_content_from_json R order d),
            ra_authorities = to_authority E (fa_authorities fa), ra_compression = to_compression E a,
            ra_grouping = to_grouping R (fa_groups fa) options,
            ra_royalty =
              \<lparr>ry_royalty_model = RoyaltyModel_from (a_royalty_target_type a),
               ry_target = map_option (bs58_encode E) (a_royalty_target a),
               ry_percent = rp_percent R (a_royalty_amount a),
               ry_basis_points = word_of_int (a_royalty_amount a),
               ry_primary_sale_happened =
                 (case safe_select R (ad_chain_data d) ''$.primary_sale_happened'' of Some (JBool b) \<Rightarrow> b | _ \<Rightarrow> False),
               ry_locked = False\<rparr>,
            ra_creators = to_creators E (fa_creators fa),
            ra_ownership =
              \<lparr>ow_frozen = a_frozen a, ow_non_transferable = a_non_transferable a,
               ow_delegated = (a_delegate a \<noteq> None), ow_delegate = map_option (bs58_encode E) (a_delegate a),
               ow_ownership_model = OwnershipModel_from (a_owner_type a),
               ow_owner = (case a_owner a of None \<Rightarrow> '''' | Some w \<Rightarrow> bs58_encode E w)\<rparr>,
            ra_uses = to_uses (ad_chain_data d),
            ra_supply =
              (if interface \<in> {Interface_V1NFT, Interface_LEGACY_NFT, Interface_Nft, Interface_ProgrammableNFT,
                    Interface_Custom}
               then Some \<lparr>sp_print_max_supply = 0, sp_print_current_supply = 0,
                 sp_edition_nonce = Option.bind (safe_select R (ad_chain_data d) ''$.edition_nonce'') as_u64\<rparr>
               else None),
            ra_mutable = Mutability_from (ad_chain_data_mutability d), ra_burnt = a_burnt a,
            ra_mint_extensions = a_mint_extensions a,
            ra_inscription =
              (if show_inscription options
               then Option.bind (Option.bind (fa_inscription fa) att_data)
                 (\<lambda>v. case rp_inscription R v of Inl _ \<Rightarrow> None | Inr i \<Rightarrow> Some i)
               else None),
            ra_token_info = (if show_fungible options then map_option (to_token_info E) (fa_token_info fa) else None),
            ra_plugins = a_mpl_core_plugins a, ra_unknown_plugins = a_mpl_core_unknown_plugins a,
            ra_mpl_core_info =
              (if interface \<in> {Interface_MplCoreAsset, Interface_MplCoreCollection}
               then Some \<lparr>mci_num_minted = a_mpl_core_collection_num_minted a,
                 mci_current_size = a_mpl_core_collection_current_size a,
                 mci_plugins_json_version = a_mpl_core_plugins_json_version a\<rparr>
               else None),
            ra_external_plugins = a_mpl_core_external_plugins a,
            ra_unknown_external_plugins = a_mpl_core_unknown_external_plugins a\<rparr>)"

section \<open>Lists\<close>

record DasError =
  de_id :: string
  de_error :: QueryErr

record AssetList =
  al_total :: u32
  al_limit :: u32
  al_page :: "u32 option"
  al_before :: "string option"
  al_after :: "string option"
  al_cursor :: "string option"
  al_items :: "RpcAsset list"
  al_errors :: "DasError list"

definition asset_list_to_rpc ::
  "env \<Rightarrow> rpc_env \<Rightarrow> (File list \<Rightarrow> File list) \<Rightarrow> FullAsset list \<Rightarrow> Options \<Rightarrow> RpcAsset list \<times> DasError list" where
  "asset_list_to_rpc E R order asset_list options =
     foldl (\<lambda>(assets, errors) fa.
       case asset_to_rpc E R order fa options of
         Inr rpc_asset \<Rightarrow> (assets @ [rpc_asset], errors)
       | Inl e \<Rightarrow> (assets, errors @ [\<lparr>de_id = bs58_encode E (a_id (fa_asset fa)), de_error = e\<rparr>])) ([], []) asset_list"

text \<open>\<open>String::from_utf8\<close>\<close>

definition utf8_key :: "bytes option \<Rightarrow> string option" where
  "utf8_key k = Option.bind k (\<lambda>x. if utf8_valid x then Some (map (\<lambda>b. char_of (unat b)) x) else None)"

text \<open>What a list response says about its page; \<open>last_id\<close> is the key of the last row.\<close>

definition page_fields ::
  "Pagination \<Rightarrow> string option \<Rightarrow> u32 option \<times> string option \<times> string option \<times> string option" where
  "page_fields pagination last_id =
     (case pagination of
        Pagination_Keyset b a \<Rightarrow> (None, utf8_key b, utf8_key a, None)
      | Pagination_Page p \<Rightarrow> (Some (ucast p), None, None, None)
      | Pagination_Cursor _ \<Rightarrow> (None, None, None, last_id))"

definition last_key :: "env \<Rightarrow> ('x \<Rightarrow> bytes) \<Rightarrow> 'x list \<Rightarrow> string option" where
  "last_key E key xs = (if xs = [] then None else Some (bs58_encode E (key (last xs))))"

definition build_asset_response ::
  "env \<Rightarrow> rpc_env \<Rightarrow> (File list \<Rightarrow> File list) \<Rightarrow> FullAsset list \<Rightarrow> u64 \<Rightarrow> Pagination \<Rightarrow> Options \<Rightarrow> AssetList" where
  "build_asset_response E R order assets limit pagination options =
     (let (page, before, after, cursor) = page_fields pagination (last_key E (a_id \<circ> fa_asset) assets);
          (items, errors) = asset_list_to_rpc E R order assets options
      in \<lparr>al_total = of_nat (length assets), al_limit = ucast limit, al_page = page,
          al_before = before, al_after = after, al_cursor = cursor, al_items = items, al_errors = errors\<rparr>)"

record TransactionSignatureList =
  tsl_total :: u32
  tsl_limit :: u32
  tsl_page :: "u32 option"
  tsl_before :: "string option"
  tsl_after :: "string option"
  tsl_items :: "(string \<times> string) list"

definition build_transaction_signatures_response ::
  "(string \<times> string) list \<Rightarrow> u64 \<Rightarrow> Pagination \<Rightarrow> TransactionSignatureList" where
  "build_transaction_signatures_response items limit pagination =
     (let (page, before, after, _) = page_fields pagination None
      in \<lparr>tsl_total = of_nat (length items), tsl_limit = ucast limit, tsl_page = page,
          tsl_before = before, tsl_after = after, tsl_items = items\<rparr>)"

record RpcTokenAccount =
  rta_address :: string
  rta_mint :: string
  rta_amount :: u64
  rta_owner :: string
  rta_frozen :: bool
  rta_delegate :: "string option"
  rta_delegated_amount :: u64
  rta_close_authority :: "string option"

record TokenAccountList =
  tal_total :: u32
  tal_limit :: u32
  tal_page :: "u32 option"
  tal_before :: "string option"
  tal_after :: "string option"
  tal_token_accounts :: "RpcTokenAccount list"
  tal_cursor :: "string option"
  tal_errors :: "DasError list"

definition token_account_to_rpc :: "env \<Rightarrow> token_accounts_row \<Rightarrow> QueryErr + RpcTokenAccount" where
  "token_account_to_rpc E t =
     Inr \<lparr>rta_address = bs58_encode E (ta_pubkey t), rta_mint = bs58_encode E (ta_mint t),
      rta_amount = word_of_int (ta_amount t), rta_owner = bs58_encode E (ta_owner t),
      rta_frozen = ta_frozen t, rta_delegate = map_option (bs58_encode E) (ta_delegate t),
      rta_delegated_amount = word_of_int (ta_delegated_amount t),
      rta_close_authority = map_option (bs58_encode E) (ta_close_authority t)\<rparr>"

definition token_account_list_to_rpc ::
  "env \<Rightarrow> token_accounts_row list \<Rightarrow> RpcTokenAccount list \<times> DasError list" where
  "token_account_list_to_rpc E rows =
     foldl (\<lambda>(accounts, errors) t.
       case token_account_to_rpc E t of
         Inr a \<Rightarrow> (accounts @ [a], errors)
       | Inl e \<Rightarrow> (accounts, errors @ [\<lparr>de_id = bs58_encode E (ta_pubkey t), de_error = e\<rparr>])) ([], []) rows"

definition build_token_list_response ::
  "env \<Rightarrow> token_accounts_row list \<Rightarrow> u64 \<Rightarrow> Pagination \<Rightarrow> TokenAccountList" where
  "build_token_list_response E rows limit pagination =
     (let (page, before, after, cursor) = page_fields pagination (last_key E ta_pubkey rows);
          (items, errors) = token_account_list_to_rpc E rows
      in \<lparr>tal_total = of_nat (length rows), tal_limit = ucast limit, tal_page = page,
          tal_before = before, tal_after = after, tal_token_accounts = items, tal_cursor = cursor,
          tal_errors = errors\<rparr>)"

section \<open>Queries\<close>

definition get_asset ::
  "env \<Rightarrow> (json \<Rightarrow> string) \<Rightarrow> rpc_env \<Rightarrow> (File list \<Rightarrow> File list) \<Rightarrow> snapshot \<Rightarrow> bytes \<Rightarrow> Options \<Rightarrow> QueryErr + RpcAsset" where
  "get_asset E render R order S k options =
     (case get_by_id E render S k options of
        Inl e \<Rightarrow> Inl e
      | Inr fa \<Rightarrow> asset_to_rpc E R order fa options)"

definition dapi_get_assets ::
  "env \<Rightarrow> rpc_env \<Rightarrow> (File list \<Rightarrow> File list) \<Rightarrow> snapshot \<Rightarrow> bytes list \<Rightarrow> u64 \<Rightarrow> Options \<Rightarrow> (string \<rightharpoonup> RpcAsset)" where
  "dapi_get_assets E R order S ids limit options =
     (let pagination = Pagination_Page 1;
          asset_list = build_asset_response E R order (get_assets S ids pagination limit options) limit pagination options
      in foldl (\<lambda>m a. m(ra_id a \<mapsto> a)) Map.empty (al_items asset_list))"

text \<open>The common course of the list queries: pagination, sorting, the rows, the response.\<close>

definition list_query ::
  "env \<Rightarrow> rpc_env \<Rightarrow> (File list \<Rightarrow> File list) \<Rightarrow> AssetSorting \<Rightarrow> PageOptions \<Rightarrow> Options \<Rightarrow>
   (sort_column option \<Rightarrow> AssetSortDirection \<Rightarrow> Pagination \<Rightarrow> u64 \<Rightarrow> Options \<Rightarrow> QueryErr + FullAsset list) \<Rightarrow>
   QueryErr + AssetList" where
  "list_query E R order sorting page_options options fetch =
     (case create_pagination page_options of
        Inl e \<Rightarrow> Inl e
      | Inr pagination \<Rightarrow>
          (let (sort_direction, sort_column) = create_sorting sorting in
           case fetch sort_column sort_direction pagination (po_limit page_options) options of
             Inl e \<Rightarrow> Inl e
           | Inr assets \<Rightarrow>
               Inr (build_asset_response E R order assets (po_limit page_options) pagination options)))"

definition dapi_get_assets_by_owner ::
  "env \<Rightarrow> rpc_env \<Rightarrow> (File list \<Rightarrow> File list) \<Rightarrow> snapshot \<Rightarrow> bytes \<Rightarrow> AssetSorting \<Rightarrow> PageOptions \<Rightarrow> Options \<Rightarrow>
   QueryErr + AssetList" where
  "dapi_get_assets_by_owner E R order S owner sorting page_options options =
     list_query E R order sorting page_options options
       (\<lambda>col dir pg limit opts. Inr (get_assets_by_owner S owner col dir pg limit opts))"

definition dapi_get_assets_by_group ::
  "env \<Rightarrow> rpc_env \<Rightarrow> (File list \<Rightarrow> File list) \<Rightarrow> snapshot \<Rightarrow> string \<Rightarrow> string \<Rightarrow> AssetSorting \<Rightarrow> PageOptions \<Rightarrow>
   Options \<Rightarrow> QueryErr + AssetList" where
  "dapi_get_assets_by_group E R order S group_key group_value sorting page_options options =
     list_query E R order sorting page_options options
       (\<lambda>col dir pg limit opts. Inr (get_by_grouping S group_key group_value col dir pg limit opts))"

definition dapi_get_assets_by_creator ::
  "env \<Rightarrow> rpc_env \<Rightarrow> (File list \<Rightarrow> File list) \<Rightarrow> snapshot \<Rightarrow> bytes \<Rightarrow> bool \<Rightarrow> AssetSorting \<Rightarrow> PageOptions \<Rightarrow>
   Options \<Rightarrow> QueryErr + AssetList" where
  "dapi_get_assets_by_creator E R order S creator only_verified sorting page_options options =
     list_query E R order sorting page_options options
       (\<lambda>col dir pg limit opts. Inr (get_by_creator S creator only_verified col dir pg limit opts))"

definition dapi_get_assets_by_authority ::
  "env \<Rightarrow> rpc_env \<Rightarrow> (File list \<Rightarrow> File list) \<Rightarrow> snapshot \<Rightarrow> bytes \<Rightarrow> AssetSorting \<Rightarrow> PageOptions \<Rightarrow>
   Options \<Rightarrow> QueryErr + AssetList" where
  "dapi_get_assets_by_authority E R order S authority sorting page_options options =
     list_query E R order sorting page_options options
       (\<lambda>col dir pg limit opts. Inr (get_by_authority S authority col dir pg limit opts))"

definition dapi_search_assets ::
  "env \<Rightarrow> rpc_env \<Rightarrow> (File list \<Rightarrow> File list) \<Rightarrow> snapshot \<Rightarrow> (string \<Rightarrow> cond) \<Rightarrow> SearchAssetsQuery \<Rightarrow> AssetSorting \<Rightarrow>
   PageOptions \<Rightarrow> Options \<Rightarrow> QueryErr + AssetList" where
  "dapi_search_assets E R order S custom q sorting page_options options =
     list_query E R order sorting page_options options
       (\<lambda>col dir pg limit opts. search_assets S custom q sorting page_options options)"

definition dapi_get_asset_signatures ::
  "env \<Rightarrow> snapshot \<Rightarrow> bytes option \<Rightarrow> bytes option \<Rightarrow> int option \<Rightarrow> PageOptions \<Rightarrow> AssetSortDirection option \<Rightarrow>
   QueryErr + TransactionSignatureList" where
  "dapi_get_asset_signatures E S asset_id tree leaf_idx page_options sort_direction =
     (case create_pagination page_options of
        Inl e \<Rightarrow> Inl e
      | Inr pagination \<Rightarrow>
          (case get_asset_signatures E S asset_id tree leaf_idx pagination (po_limit page_options) sort_direction of
             Inl e \<Rightarrow> Inl e
           | Inr transactions \<Rightarrow>
               Inr (build_transaction_signatures_response transactions (po_limit page_options) pagination)))"

definition dapi_get_token_accounts ::
  "env \<Rightarrow> snapshot \<Rightarrow> bytes option \<Rightarrow> bytes option \<Rightarrow> PageOptions \<Rightarrow> Options \<Rightarrow> QueryErr + TokenAccountList" where
  "dapi_get_token_accounts E S owner_address mint_address page_options options =
     (case create_pagination page_options of
        Inl e \<Rightarrow> Inl e
      | Inr pagination \<Rightarrow>
          (case get_token_accounts S owner_address mint_address pagination (po_limit page_options) options of
             Inl e \<Rightarrow> Inl e
           | Inr rows \<Rightarrow> Inr (build_token_list_response E rows (po_limit page_options) pagination)))"

section \<open>Editions\<close>

record NftEdition =
  ne_mint_address :: string
  ne_edition_address :: string
  ne_edition_number :: u64

record NftEditions =
  nes_total :: u32
  nes_limit :: u32
  nes_master_edition_address :: string
  nes_supply :: u64
  nes_max_supply :: "u64 option"
  nes_editions :: "NftEdition list"
  nes_page :: "u32 option"
  nes_before :: "string option"
  nes_after :: "string option"
  nes_cursor :: "string option"

text \<open>
  \<open>edition_number\<close> and \<open>supplies\<close> are the deserialisers of \<open>Edition\<close> and \<open>MasterEdition\<close>, \<open>pda\<close> derives the
  address of the master edition of a mint: third-party code.
\<close>

definition attachment_to_nft_edition ::
  "env \<Rightarrow> (json \<Rightarrow> string + u64) \<Rightarrow> attachment_row \<Rightarrow> QueryErr + NftEdition" where
  "attachment_to_nft_edition E edition_number att =
     (case att_data att of
        None \<Rightarrow> Inl (QE_RecordNotFound ''Edition data not found'')
      | Some v \<Rightarrow>
          (case edition_number v of
             Inl e \<Rightarrow> Inl (QE_Custom e)
           | Inr n \<Rightarrow> Inr \<lparr>ne_mint_address = (case att_asset_id att of None \<Rightarrow> [] | Some k \<Rightarrow> bs58_encode E k),
               ne_edition_address = bs58_encode E (att_id att), ne_edition_number = n\<rparr>))"

fun collect_results :: "('e + 'a) list \<Rightarrow> 'e + 'a list" where
  "collect_results [] = Inr []"
| "collect_results (Inl e # _) = Inl e"
| "collect_results (Inr x # rs) = (case collect_results rs of Inl e \<Rightarrow> Inl e | Inr xs \<Rightarrow> Inr (x # xs))"

definition get_nft_editions ::
  "env \<Rightarrow> (json \<Rightarrow> string) \<Rightarrow> (json \<Rightarrow> string + u64) \<Rightarrow> (json \<Rightarrow> string + u64 \<times> u64 option) \<Rightarrow> (pubkey \<Rightarrow> pubkey) \<Rightarrow>
   snapshot \<Rightarrow> pubkey \<Rightarrow> Pagination \<Rightarrow> u64 \<Rightarrow> QueryErr + NftEditions" where
  "get_nft_editions E render edition_number supplies pda S mint_address pagination limit =
     (let master = pda mint_address in
      case List.find (\<lambda>a. att_id a = master) (sn_attachments S) of
        None \<Rightarrow> Inl (QE_RecordNotFound ''Master Edition not found'')
      | Some m \<Rightarrow>
          (case att_data m of
             None \<Rightarrow> Inl (QE_RecordNotFound ''Master Edition data not found'')
           | Some v \<Rightarrow>
               (case supplies v of
                  Inl e \<Rightarrow> Inl (QE_Custom e)
                | Inr (n_supply, n_max) \<Rightarrow>
                    (case collect_results (map (attachment_to_nft_edition E edition_number)
                            (paginate pagination limit
                              (filter (\<lambda>a. att_attachment_type a = Att_Edition \<and>
                                 Option.bind (att_data a) (json_text render ''parent'') = Some (bs58_encode E master))
                                (sn_attachments S)) Sort_Asc att_id)) of
                       Inl e \<Rightarrow> Inl e
                     | Inr nft_editions \<Rightarrow>
                         (let (page, before, after, cursor) =
                            page_fields pagination (if nft_editions = [] then None
                              else Some (ne_edition_address (last nft_editions)))
                          in Inr \<lparr>nes_total = of_nat (length nft_editions), nes_limit = ucast limit,
                               nes_master_edition_address = bs58_encode E master, nes_supply = n_supply,
                               nes_max_supply = n_max, nes_editions = nft_editions, nes_page = page,
                               nes_before = before, nes_after = after, nes_cursor = cursor\<rparr>)))))"

end
