(* ===== verification/Api.thy ===== *)
theory Api
  imports RpcView MerkleProof
begin

text \<open>
  The JSON-RPC methods (\<open>das_api/src/api/mod.rs\<close>, \<open>api_impl.rs\<close>): their payloads, the validation of the
  arguments, and the queries they run on a snapshot of the database.  The change log table is a list of rows,
  at most one per tree and node.
\<close>

section \<open>Payloads\<close>

record GetAsset =
  gas_id :: string
  gas_options :: "Options option"

record GetAssets =
  gat_ids :: "string list"
  gat_options :: "Options option"

record GetAssetProof =
  gap_id :: string

record GetAssetProofs =
  gaps_ids :: "string list"

text \<open>The paging arguments that the list methods share.\<close>

record PageArgs =
  pa_limit :: "u32 option"
  pa_page :: "u32 option"
  pa_before :: "string option"
  pa_after :: "string option"
  pa_cursor :: "string option"

record GetAssetsByOwner = PageArgs +
  gbo_owner_address :: string
  gbo_sort_by :: "AssetSorting option"
  gbo_options :: "Options option"

record GetAssetsByGroup = PageArgs +
  gbg_group_key :: string
  gbg_group_value :: string
  gbg_sort_by :: "AssetSorting option"
  gbg_options :: "Options option"

record GetAssetsByCreator = PageArgs +
  gbc_creator_address :: string
  gbc_only_verified :: "bool option"
  gbc_sort_by :: "AssetSorting option"
  gbc_options :: "Options option"

record GetAssetsByAuthority = PageArgs +
  gba_authority_address :: string
  gba_sort_by :: "AssetSorting option"
  gba_options :: "Options option"

record SearchAssets = PageArgs +
  sa_negate :: "bool option"
  sa_condition_type :: "ConditionType option"
  sa_interface :: "Interface option"
  sa_owner_address :: "string option"
  sa_owner_type :: "OwnershipModel option"
  sa_creator_address :: "string option"
  sa_creator_verified :: "bool option"
  sa_authority_address :: "string option"
  sa_grouping :: "(string \<times> string) option"
  sa_delegate :: "string option"
  sa_frozen :: "bool option"
  sa_supply :: "u64 option"
  sa_supply_mint :: "string option"
  sa_compressed :: "bool option"
  sa_compressible :: "bool option"
  sa_royalty_target_type :: "RoyaltyModel option"
  sa_royalty_target :: "string option"
  sa_royalty_amount :: "u32 option"
  sa_burnt :: "bool option"
  sa_sort_by :: "AssetSorting option"
  sa_json_uri :: "string option"
  sa_options :: "Options option"
  sa_name :: "string option"
  sa_token_type :: "TokenTypeClass option"

record GetAssetSignatures = PageArgs +
  gsi_id :: "string option"
  gsi_tree :: "string option"
  gsi_leaf_index :: "int option"
  gsi_sort_direction :: "AssetSortDirection option"

record GetTokenAccounts = PageArgs +
  gta_owner_address :: "string option"
  gta_mint_address :: "string option"
  gta_options :: "Options option"

record GetNftEditions = PageArgs +
  gne_mint_address :: string

record GetGroupingResponse =
  ggr_group_key :: string
  ggr_group_name :: string
  ggr_group_size :: u64

section \<open>Helpers\<close>

definition api_then :: "'e + 'a \<Rightarrow> ('a \<Rightarrow> 'e + 'b) \<Rightarrow> 'e + 'b" where
  "api_then r f = (case r of Inl e \<Rightarrow> Inl e | Inr x \<Rightarrow> f x)"

definition query_result :: "QueryErr + 'a \<Rightarrow> DasApiError + 'a" where
  "query_result r = (case r of Inl e \<Rightarrow> Inl (DAE_DatabaseError e) | Inr x \<Rightarrow> Inr x)"

definition unwrap_options :: "Options option \<Rightarrow> Options" where
  "unwrap_options x = (case x of Some v \<Rightarrow> v | None \<Rightarrow> Options_default)"

definition unwrap_sorting :: "AssetSorting option \<Rightarrow> AssetSorting" where
  "unwrap_sorting x = (case x of Some v \<Rightarrow> v | None \<Rightarrow> AssetSorting_default)"

definition non_empty :: "string option \<Rightarrow> string option" where
  "non_empty x = (case x of Some s \<Rightarrow> if s = [] then None else Some s | None \<Rightarrow> None)"

definition page_args :: "env \<Rightarrow> 'x PageArgs_scheme \<Rightarrow> AssetSorting option \<Rightarrow> DasApiError + PageOptions" where
  "page_args E p sorting =
     validate_pagination E (pa_limit p) (pa_page p) (pa_before p) (pa_after p) (pa_cursor p) sorting"

section \<open>Proofs\<close>

definition cl_table :: "cl_items_row list \<Rightarrow> cl_items_table" where
  "cl_table items = map_of (map (\<lambda>r. ((cl_tree r, cl_node_idx r), r)) items)"

definition leaf_of_asset :: "asset_row \<Rightarrow> cl_items_row \<Rightarrow> bool" where
  "leaf_of_asset a r \<longleftrightarrow> a_nonce a \<noteq> None \<and> a_nonce a = cl_leaf_idx r \<and> a_tree_id a = Some (cl_tree r)"

text \<open>\<open>None\<close> stands for a panic.\<close>

definition get_proof_for_asset ::
  "env \<Rightarrow> (u32 \<Rightarrow> bytes) \<Rightarrow> snapshot \<Rightarrow> cl_items_row list \<Rightarrow> bytes \<Rightarrow> (QueryErr + AssetProof) option" where
  "get_proof_for_asset E empty_node S items asset_id =
     (case sort_key (\<lambda>r. - cl_seq r)
             (concat (map (\<lambda>a. filter (\<lambda>r. leaf_of_asset a r \<and> cl_level r = 0) items)
               (filter (\<lambda>a. a_id a = asset_id) (sn_asset S)))) of
        [] \<Rightarrow> Some (Inl (QE_RecordNotFound ''Asset Proof Not Found''))
      | leaf # _ \<Rightarrow> map_option Inr (proof_for_leaf E empty_node (cl_table items) leaf))"

definition asset_leaves :: "snapshot \<Rightarrow> cl_items_row list \<Rightarrow> bytes list \<Rightarrow> LeafInfo list" where
  "asset_leaves S items asset_ids =
     concat (map (\<lambda>a. map (leaf_info_of (a_id a)) (filter (leaf_of_asset a) items))
       (filter (\<lambda>a. a_id a \<in> set asset_ids) (sn_asset S)))"

definition api_get_asset_proof ::
  "env \<Rightarrow> (u32 \<Rightarrow> bytes) \<Rightarrow> snapshot \<Rightarrow> cl_items_row list \<Rightarrow> GetAssetProof \<Rightarrow> (DasApiError + AssetProof) option" where
  "api_get_asset_proof E empty_node S items payload =
     (case validate_pubkey E (gap_id payload) of
        Inl e \<Rightarrow> Some (Inl e)
      | Inr k \<Rightarrow>
          map_option (\<lambda>r. query_result (api_then r (\<lambda>p.
             if ap_proof p = [] then Inl (QE_RecordNotFound (''Asset Proof for '' @ gap_id payload @ '' Not Found''))
             else Inr p)))
            (get_proof_for_asset E empty_node S items k))"

definition validate_batch :: "env \<Rightarrow> string list \<Rightarrow> DasApiError + bytes list" where
  "validate_batch E ids =
     (if 1000 < length ids then Inl DAE_BatchSizeExceededError
      else collect_results (map (validate_pubkey E) ids))"

definition api_get_asset_proofs ::
  "env \<Rightarrow> (u32 \<Rightarrow> bytes) \<Rightarrow> snapshot \<Rightarrow> cl_items_row list \<Rightarrow> GetAssetProofs \<Rightarrow>
   (DasApiError + (string \<rightharpoonup> AssetProof option)) option" where
  "api_get_asset_proofs E empty_node S items payload =
     (case validate_batch E (gaps_ids payload) of
        Inl e \<Rightarrow> Some (Inl e)
      | Inr ks \<Rightarrow>
          map_option (\<lambda>proofs. Inr (\<lambda>i. if i \<in> set (gaps_ids payload) then Some (map_of (rev proofs) i) else None))
            (get_asset_proofs E empty_node (cl_table items) (asset_leaves S items ks)))"

section \<open>Assets\<close>

text \<open>The connection, the third-party functions and the table contents a method works with.\<close>

record api =
  api_env :: env
  api_render :: "json \<Rightarrow> string"
  api_rpc :: rpc_env
  api_order :: "File list \<Rightarrow> File list"
  api_custom :: "string \<Rightarrow> cond"
  api_snapshot :: snapshot

definition api_get_asset :: "api \<Rightarrow> GetAsset \<Rightarrow> DasApiError + RpcAsset" where
  "api_get_asset A payload =
     api_then (validate_pubkey (api_env A) (gas_id payload)) (\<lambda>k.
       query_result (get_asset (api_env A) (api_render A) (api_rpc A) (api_order A) (api_snapshot A) k
         (unwrap_options (gas_options payload))))"

definition api_get_assets :: "api \<Rightarrow> GetAssets \<Rightarrow> DasApiError + RpcAsset option list" where
  "api_get_assets A payload =
     (let ids = remdups_adj (gat_ids payload) in
      api_then (validate_batch (api_env A) ids) (\<lambda>ks.
        let assets = dapi_get_assets (api_env A) (api_rpc A) (api_order A) (api_snapshot A) ks
              (of_nat (length ids)) (unwrap_options (gat_options payload))
        in Inr (map assets ids)))"

definition api_get_assets_by_owner :: "api \<Rightarrow> GetAssetsByOwner \<Rightarrow> DasApiError + AssetList" where
  "api_get_assets_by_owner A p =
     (let E = api_env A; sort_by = unwrap_sorting (gbo_sort_by p);
          q = p\<lparr>pa_before := non_empty (pa_before p), pa_after := non_empty (pa_after p)\<rparr> in
      api_then (validate_pubkey E (gbo_owner_address p)) (\<lambda>owner.
      api_then (page_args E q (Some sort_by)) (\<lambda>page_options.
      query_result (dapi_get_assets_by_owner E (api_rpc A) (api_order A) (api_snapshot A) owner sort_by
        page_options (unwrap_options (gbo_options p))))))"

definition api_get_assets_by_group :: "api \<Rightarrow> GetAssetsByGroup \<Rightarrow> DasApiError + AssetList" where
  "api_get_assets_by_group A p =
     (let E = api_env A; sort_by = unwrap_sorting (gbg_sort_by p);
          q = p\<lparr>pa_before := non_empty (pa_before p), pa_after := non_empty (pa_after p)\<rparr> in
      api_then (validate_pubkey E (gbg_group_value p)) (\<lambda>_.
      api_then (page_args E q (Some sort_by)) (\<lambda>page_options.
      query_result (dapi_get_assets_by_group E (api_rpc A) (api_order A) (api_snapshot A) (gbg_group_key p)
        (gbg_group_value p) sort_by page_options (unwrap_options (gbg_options p))))))"

definition api_get_assets_by_creator :: "api \<Rightarrow> GetAssetsByCreator \<Rightarrow> DasApiError + AssetList" where
  "api_get_assets_by_creator A p =
     (let E = api_env A; sort_by = unwrap_sorting (gbc_sort_by p) in
      api_then (validate_pubkey E (gbc_creator_address p)) (\<lambda>creator.
      api_then (page_args E p (Some sort_by)) (\<lambda>page_options.
      query_result (dapi_get_assets_by_creator E (api_rpc A) (api_order A) (api_snapshot A) creator
        (gbc_only_verified p = Some True) sort_by page_options (unwrap_options (gbc_options p))))))"

definition api_get_assets_by_authority :: "api \<Rightarrow> GetAssetsByAuthority \<Rightarrow> DasApiError + AssetList" where
  "api_get_assets_by_authority A p =
     (let E = api_env A; sort_by = unwrap_sorting (gba_sort_by p) in
      api_then (validate_pubkey E (gba_authority_address p)) (\<lambda>authority.
      api_then (page_args E p (Some sort_by)) (\<lambda>page_options.
      query_result (dapi_get_assets_by_authority E (api_rpc A) (api_order A) (api_snapshot A) authority sort_by
        page_options (unwrap_options (gba_options p))))))"

fun owner_type_of :: "OwnershipModel \<Rightarrow> OwnerType" where
  "owner_type_of OM_Single = Owner_Single"
| "owner_type_of OM_Token = Owner_Token"

fun royalty_target_type_of :: "RoyaltyModel \<Rightarrow> RoyaltyTargetType" where
  "royalty_target_type_of RM_Creators = Royalty_Creators"
| "royalty_target_type_of RM_Fanout = Royalty_Fanout"
| "royalty_target_type_of RM_Single = Royalty_Single"

definition api_search_assets :: "api \<Rightarrow> SearchAssets \<Rightarrow> DasApiError + AssetList" where
  "api_search_assets A p =
     (let E = api_env A; spec = map_option spec_of_interface (sa_interface p) in
      api_then (validate_opt_pubkey E (sa_owner_address p)) (\<lambda>owner_address.
      api_then (validate_search_with_name (sa_name p) owner_address) (\<lambda>name.
      api_then (validate_opt_pubkey E (sa_creator_address p)) (\<lambda>creator_address.
      api_then (validate_opt_pubkey E (sa_delegate p)) (\<lambda>delegate.
      api_then (validate_opt_pubkey E (sa_authority_address p)) (\<lambda>authority_address.
      api_then (validate_opt_pubkey E (sa_supply_mint p)) (\<lambda>supply_mint.
      api_then (validate_opt_pubkey E (sa_royalty_target p)) (\<lambda>royalty_target.
      let saq = \<lparr>q_negate = sa_negate p, q_condition_type = sa_condition_type p, q_interface = sa_interface p,
            q_specification_version = map_option fst spec, q_specification_asset_class = map_option snd spec,
            q_owner_address = owner_address, q_owner_type = map_option owner_type_of (sa_owner_type p),
            q_creator_address = creator_address, q_creator_verified = sa_creator_verified p,
            q_authority_address = authority_address, q_grouping = sa_grouping p, q_delegate = delegate,
            q_frozen = sa_frozen p, q_supply = sa_supply p, q_supply_mint = supply_mint,
            q_compressed = sa_compressed p, q_compressible = sa_compressible p,
            q_royalty_target_type = map_option royalty_target_type_of (sa_royalty_target_type p),
            q_royalty_target = royalty_target, q_royalty_amount = sa_royalty_amount p, q_burnt = sa_burnt p,
            q_json_uri = sa_json_uri p, q_name = name, q_token_type = sa_token_type p\<rparr>;
          options = unwrap_options (sa_options p);
          sort_by = unwrap_sorting (sa_sort_by p) in
      api_then (page_args E p (Some sort_by)) (\<lambda>page_options.
      query_result (dapi_search_assets E (api_rpc A) (api_order A) (api_snapshot A) (api_custom A) saq sort_by
        page_options options))))))))))"

definition api_get_asset_signatures :: "api \<Rightarrow> GetAssetSignatures \<Rightarrow> DasApiError + TransactionSignatureList" where
  "api_get_asset_signatures A p =
     (let E = api_env A in
      if \<not> ((gsi_id p \<noteq> None \<and> gsi_tree p = None \<and> gsi_leaf_index p = None) \<or>
            (gsi_id p = None \<and> gsi_tree p \<noteq> None \<and> gsi_leaf_index p \<noteq> None))
      then Inl (DAE_ValidationError (''Must provide either 'id' or both 'tree' and 'leafIndex'' @ [CHR 0x27]))
      else api_then (validate_opt_pubkey E (gsi_id p)) (\<lambda>asset_id.
      api_then (validate_opt_pubkey E (gsi_tree p)) (\<lambda>tree.
      api_then (page_args E p None) (\<lambda>page_options.
      query_result (dapi_get_asset_signatures E (api_snapshot A) asset_id tree (gsi_leaf_index p) page_options
        (gsi_sort_direction p))))))"

definition api_get_grouping :: "api \<Rightarrow> string \<Rightarrow> string \<Rightarrow> DasApiError + GetGroupingResponse" where
  "api_get_grouping A group_key group_value =
     Inr \<lparr>ggr_group_key = group_key, ggr_group_name = group_value,
          ggr_group_size = of_nat (get_grouping (api_snapshot A) group_key group_value)\<rparr>"

definition api_get_token_accounts :: "api \<Rightarrow> GetTokenAccounts \<Rightarrow> DasApiError + TokenAccountList" where
  "api_get_token_accounts A p =
     (let E = api_env A in
      api_then (validate_opt_pubkey E (gta_owner_address p)) (\<lambda>owner_address.
      api_then (validate_opt_pubkey E (gta_mint_address p)) (\<lambda>mint_address.
      api_then (page_args E p None) (\<lambda>page_options.
      query_result (dapi_get_token_accounts E (api_snapshot A) owner_address mint_address page_options
        (unwrap_options (gta_options p)))))))"

definition api_get_nft_editions ::
  "api \<Rightarrow> (json \<Rightarrow> string + u64) \<Rightarrow> (json \<Rightarrow> string + u64 \<times> u64 option) \<Rightarrow> (pubkey \<Rightarrow> pubkey) \<Rightarrow>
   GetNftEditions \<Rightarrow> DasApiError + NftEditions" where
  "api_get_nft_editions A edition_number supplies pda p =
     (let E = api_env A in
      api_then (page_args E p None) (\<lambda>page_options.
      api_then (validate_pubkey E (gne_mint_address p)) (\<lambda>mint_address.
      query_result (api_then (create_pagination page_options) (\<lambda>pagination.
        get_nft_editions E (api_render A) edition_number supplies pda (api_snapshot A) mint_address pagination
          (po_limit page_options))))))"

section \<open>List responses\<close>

lemma foldl_partition:
  "foldl (\<lambda>(xs, es) fa. case f fa of Inr x \<Rightarrow> (xs @ [x], es) | Inl e \<Rightarrow> (xs, es @ [g fa e])) (xs0, es0) fas =
    (xs0 @ List.map_filter (\<lambda>fa. case f fa of Inr x \<Rightarrow> Some x | Inl _ \<Rightarrow> None) fas,
     es0 @ List.map_filter (\<lambda>fa. case f fa of Inr _ \<Rightarrow> None | Inl e \<Rightarrow> Some (g fa e)) fas)"
  by (induction fas arbitrary: xs0 es0) (auto simp: map_filter_simps split: sum.splits)

lemma asset_list_to_rpc_eq:
  "asset_list_to_rpc E R order fas options =
    (List.map_filter (\<lambda>fa. case asset_to_rpc E R order fa options of Inr x \<Rightarrow> Some x | Inl _ \<Rightarrow> None) fas,
     List.map_filter (\<lambda>fa. case asset_to_rpc E R order fa options of Inr _ \<Rightarrow> None
        | Inl e \<Rightarrow> Some \<lparr>de_id = bs58_encode E (a_id (fa_asset fa)), de_error = e\<rparr>) fas)"
  unfolding asset_list_to_rpc_def by (subst foldl_partition) simp

definition has_class :: "FullAsset \<Rightarrow> bool" where
  "has_class fa \<longleftrightarrow> a_specification_asset_class (fa_asset fa) \<noteq> None"

lemma rpc_item: "(case asset_to_rpc E R order fa options of Inr x \<Rightarrow> Some x | Inl _ \<Rightarrow> None) =
    (if has_class fa then Some (projr (asset_to_rpc E R order fa options)) else None)"
  by (cases "a_specification_asset_class (fa_asset fa)")
     (simp_all add: has_class_def asset_to_rpc_def get_interface_def Let_def)

lemma rpc_error: "(case asset_to_rpc E R order fa options of Inr _ \<Rightarrow> None | Inl e \<Rightarrow> Some (g e)) =
    (if has_class fa then None else Some (g (QE_Custom ''interface not found'')))"
  by (cases "a_specification_asset_class (fa_asset fa)")
     (simp_all add: has_class_def asset_to_rpc_def get_interface_def Let_def)

lemma map_filter_if: "List.map_filter (\<lambda>x. if P x then Some (f x) else None) xs = map f (filter P xs)"
  by (induction xs) (simp_all add: map_filter_simps)

lemma map_filter_if_not: "List.map_filter (\<lambda>x. if P x then None else Some (f x)) xs = map f (filter (\<lambda>x. \<not> P x) xs)"
  by (induction xs) (simp_all add: map_filter_simps)

text \<open>
  A list response loses no asset.  In the order of the query, the assets with a specification class are the items and
  the others are the errors, each under its id; \<open>total\<close> counts both, and with a cursor the response names the last
  asset of the page, whether it is an item or an error.
\<close>

lemma list_response_complete:
  "let r = build_asset_response E R order assets limit pagination options in
     al_items r = map (\<lambda>fa. projr (asset_to_rpc E R order fa options)) (filter has_class assets) \<and>
     al_errors r = map (\<lambda>fa. \<lparr>de_id = bs58_encode E (a_id (fa_asset fa)), de_error = QE_Custom ''interface not found''\<rparr>)
       (filter (\<lambda>fa. \<not> has_class fa) assets) \<and>
     al_total r = of_nat (length (al_items r) + length (al_errors r)) \<and>
     al_cursor r = (case pagination of Pagination_Cursor _ \<Rightarrow> last_key E (a_id \<circ> fa_asset) assets | _ \<Rightarrow> None)"
proof -
  have "of_nat (length (filter has_class assets)) + of_nat (length (filter (\<lambda>fa. \<not> has_class fa) assets)) =
      (of_nat (length assets) :: u32)"
    by (simp flip: of_nat_add add: sum_length_filter_compl)
  then show ?thesis
    by (simp add: build_asset_response_def asset_list_to_rpc_eq rpc_item rpc_error map_filter_if map_filter_if_not
        page_fields_def Let_def split: Pagination.split)
qed

lemma asset_to_rpc_id:
  "asset_to_rpc E R order fa options = Inr r \<Longrightarrow> ra_id r = bs58_encode E (a_id (fa_asset fa))"
  by (auto simp: asset_to_rpc_def Let_def split: sum.splits)

lemma collect_results_Inr: "(\<And>x. x \<in> set xs \<Longrightarrow> f x = Inr (g x)) \<Longrightarrow> collect_results (map f xs) = Inr (map g xs)"
  by (induction xs) simp_all

lemma foldl_keyed: "foldl (\<lambda>m a. m(f a \<mapsto> a)) m0 xs i =
    (case List.find (\<lambda>a. f a = i) (rev xs) of None \<Rightarrow> m0 i | Some a \<Rightarrow> Some a)"
  by (induction xs rule: rev_induct) auto

lemma find_unique:
  assumes "x \<in> set xs" and "P x" and "\<And>y. y \<in> set xs \<Longrightarrow> P y \<Longrightarrow> y = x"
  shows "List.find P xs = Some x"
proof (cases "List.find P xs")
  case None
  then show ?thesis
    using assms(1,2) by (auto simp: find_None_iff)
next
  case (Some y)
  then have "y \<in> set xs" and "P y"
    by (auto simp: find_Some_iff)
  then show ?thesis
    using Some assms(3) by simp
qed

lemma find_none: "(\<And>y. y \<in> set xs \<Longrightarrow> \<not> P y) \<Longrightarrow> List.find P xs = None"
  by (auto simp: find_None_iff)

lemma keyed_lookup:
  assumes "\<And>x. x \<in> set xs \<Longrightarrow> f x = i \<Longrightarrow> v = Some x" and "\<And>x. v = Some x \<Longrightarrow> x \<in> set xs \<and> f x = i"
  shows "foldl (\<lambda>m a. m(f a \<mapsto> a)) Map.empty xs i = v"
proof (cases v)
  case None
  then have "List.find (\<lambda>a. f a = i) (rev xs) = None"
    using assms(1) by (intro find_none) auto
  then show ?thesis
    using None by (simp add: foldl_keyed)
next
  case (Some x)
  have "List.find (\<lambda>a. f a = i) (rev xs) = Some x"
  proof (rule find_unique)
    show "y = x" if "y \<in> set (rev xs)" and "f y = i" for y
      using assms(1) [of y] that Some by simp
  qed (use assms(2) [OF Some] in simp_all)
  then show ?thesis
    using Some by (simp add: foldl_keyed)
qed

lemma map_filter_compose:
  "List.map_filter g (List.map_filter f xs) = List.map_filter (\<lambda>x. Option.bind (f x) g) xs"
  by (induction xs) (auto simp: map_filter_simps split: option.splits)

text \<open>The answer of \<open>get_asset\<close> as an option.\<close>

definition served :: "api \<Rightarrow> Options \<Rightarrow> bytes \<Rightarrow> RpcAsset option" where
  "served A options k =
     (case get_asset (api_env A) (api_render A) (api_rpc A) (api_order A) (api_snapshot A) k options of
        Inr a \<Rightarrow> Some a | Inl _ \<Rightarrow> None)"

lemma served_Some:
  assumes "served A options k = Some x"
  shows "ra_id x = bs58_encode (api_env A) k"
    and "\<exists>a \<in> set (sn_asset (api_snapshot A)). a_id a = k \<and> a_supply a \<noteq> 0"
  using assms
  by (auto simp: served_def get_asset_def get_by_id_def Let_def find_Some_iff
      split: sum.splits option.splits if_splits dest!: asset_to_rpc_id)

lemma batch_items:
  assumes "distinct (map a_id (sn_asset (api_snapshot A)))" and "distinct (map t_mint (sn_tokens (api_snapshot A)))"
    and "\<forall>a \<in> set (sn_asset (api_snapshot A)). a_asset_data a = None \<or> a_asset_data a = Some (a_id a)"
    and "\<not> show_inscription options" and "\<not> show_unverified_collections options"
    and "length ks \<le> unat limit"
  shows "al_items (build_asset_response (api_env A) (api_rpc A) (api_order A)
        (get_assets (api_snapshot A) ks (Pagination_Page 1) limit options) limit pg options) =
    List.map_filter (\<lambda>a. served A options (a_id a))
      (filter (\<lambda>a. a_id a \<in> set ks \<and> 0 < a_supply a) (sn_asset (api_snapshot A)))"
proof -
  have conv: "Option.bind (case r of Inr fa \<Rightarrow> Some fa | Inl _ \<Rightarrow> None)
        (\<lambda>fa. case f fa of Inr x \<Rightarrow> Some x | Inl _ \<Rightarrow> None) =
      (case (case r of Inl e \<Rightarrow> Inl e | Inr fa \<Rightarrow> f fa) of Inr a \<Rightarrow> Some a | Inl _ \<Rightarrow> None)"
    for r :: "QueryErr + FullAsset" and f :: "FullAsset \<Rightarrow> QueryErr + RpcAsset"
    by (simp split: sum.split)
  show ?thesis
    unfolding batch_agrees_with_single [OF assms, where E = "api_env A" and render = "api_render A"]
    by (simp add: build_asset_response_def asset_list_to_rpc_eq map_filter_compose conv served_def get_asset_def
        split: prod.split)
qed


lemma served_lookup:
  assumes i: "i \<in> set ids" and keys: "\<And>i. i \<in> set ids \<Longrightarrow> bs58_encode (api_env A) (key i) = i"
    and pos: "\<forall>a \<in> set rows. 0 \<le> a_supply a" and rows: "rows = sn_asset (api_snapshot A)"
  shows "foldl (\<lambda>m a. m(ra_id a \<mapsto> a)) Map.empty (List.map_filter (\<lambda>a. served A options (a_id a))
      (filter (\<lambda>a. a_id a \<in> key ` set ids \<and> 0 < a_supply a) rows)) i = served A options (key i)"
proof (rule keyed_lookup)
  fix x
  assume "x \<in> set (List.map_filter (\<lambda>a. served A options (a_id a))
      (filter (\<lambda>a. a_id a \<in> key ` set ids \<and> 0 < a_supply a) rows))" and "ra_id x = i"
  then obtain j where j: "j \<in> set ids" "served A options (key j) = Some x"
    by (auto simp: set_map_filter)
  then have "i = j"
    using served_Some(1) [of A options "key j" x] keys [of j] \<open>ra_id x = i\<close> by simp
  then show "served A options (key i) = Some x"
    using j by simp
next
  fix x
  assume x: "served A options (key i) = Some x"
  then obtain a where "a \<in> set rows" "a_id a = key i" "a_supply a \<noteq> 0"
    using served_Some(2) rows by blast
  moreover have "0 \<le> a_supply a"
    using pos calculation(1) by simp
  ultimately show "x \<in> set (List.map_filter (\<lambda>a. served A options (a_id a))
      (filter (\<lambda>a. a_id a \<in> key ` set ids \<and> 0 < a_supply a) rows)) \<and> ra_id x = i"
    using x i served_Some(1) [OF x] keys [OF i] by (force simp: set_map_filter)
qed


definition demo_rpc_env :: rpc_env where
  "demo_rpc_env = \<lparr>rp_select = (\<lambda>_ _. Inr []), rp_mime = (\<lambda>_. None), rp_to_string = (\<lambda>_. None),
     rp_inscription = (\<lambda>_. Inl ''none''), rp_percent = (\<lambda>_. 0)\<rparr>"

definition demo_api :: api where
  "demo_api = \<lparr>api_env = demo_env, api_render = (\<lambda>_. []), api_rpc = demo_rpc_env, api_order = (\<lambda>fs. fs),
     api_custom = (\<lambda>_ _. None), api_snapshot = demo_snapshot\<lparr>sn_asset :=
       map (\<lambda>a. a\<lparr>a_specification_asset_class := Some Class_Nft\<rparr>) (sn_asset demo_snapshot)\<rparr>\<rparr>"

lemma demo_chars: "char_of (7::nat) = CHR 0x07" "char_of (8::nat) = CHR 0x08" "char_of (9::nat) = CHR 0x09"
  by (simp_all add: char_of_def bit_0)


end
