(* ===== verification/EndToEnd.thy ===== *)
theory EndToEnd
  imports Api BgProps BubblegumLive
begin

text \<open>
  From the instruction to the response: what the API serves of an asset that the Bubblegum handlers have
  indexed, and whether its off-chain metadata is downloaded.  A snapshot that a query reads
  \<open>represents\<close> the database of the indexer when it lists the rows of its tables.
\<close>

definition represents :: "snapshot \<Rightarrow> db \<Rightarrow> bool" where
  "represents S s \<longleftrightarrow>
     (\<forall>k. List.find (\<lambda>a. a_id a = k) (sn_asset S) = asset s k) \<and>
     (\<forall>k. find_asset_data S k = asset_data s k) \<and>
     (\<forall>k. filter (\<lambda>x. aa_asset_id x = k) (sn_asset_authority S) =
        (case asset_authority s k of None \<Rightarrow> [] | Some a \<Rightarrow> [a]))"

section \<open>The metadata row of a mint\<close>

definition has_data :: "bytes \<Rightarrow> asset_data_row option \<Rightarrow> db \<Rightarrow> bool" where
  "has_data k d s \<longleftrightarrow> asset_data s k = d"

lemma blind_has_data [simp]: "blind (has_data k d)"
  by (simp add: blind_def has_data_def)

lemma has_data_frame:
  "(\<And>s. asset_data (f s) = asset_data s) \<Longrightarrow> triple (has_data k d) (map_err g (execute f)) (has_data k d)"
  by (intro triple_map_err triple_execute) (auto simp: has_data_def)

lemma has_data_statements:
  "triple (has_data k d) (upsert_asset_creators k' cs slot sq) (has_data k d)"
  "triple (has_data k d) (upsert_collection_info E k' co slot sq) (has_data k d)"
  "triple (has_data k d) (upsert_asset_authority k' au x y) (has_data k d)"
  "triple (has_data k d) (upsert_asset_base_info bi) (has_data k d)"
  "triple (has_data k d) (upsert_asset_with_compression_info c) (has_data k d)"
  "triple (has_data k d) (upsert_asset_with_leaf_info E li) (has_data k d)"
  "triple (has_data k d) (upsert_asset_with_owner_and_delegate_info oi) (has_data k d)"
  "triple (has_data k d) (upsert_asset_with_seq k' sq) (has_data k d)"
  "ad_id new = k \<Longrightarrow> triple (has_data k None) (upsert_asset_data new sq) (has_data k (Some (new\<lparr>ad_base_info_seq := Some sq\<rparr>)))"
  by (auto simp: statement_defs Let_def upsert_eq has_data_def insert_do_nothing_def
    intro!: has_data_frame triple_map_err triple_execute)


lemma mint_stores_data:
  fixes le :: LeafSchemaEvent
  defines "leaf \<equiv> NormalizedLeafFields_from (lse_schema le)"
  assumes "mint E ix b i s = (Inr info, s')"
    and "bi_leaf_update ix = Some le" and "bi_tree_update ix = Some cl"
    and "bi_payload ix = Some (Payload_Mint m au tree)" and "asset_data s (nl_id leaf) = None"
  shows "\<exists>d. asset_data s' (nl_id leaf) = Some d \<and> ad_metadata_url d = remove_nul (ma_uri m) \<and>
    ad_reindex d = Some True \<and> info = download_info (nl_id leaf) (remove_nul (ma_uri m))"
proof -
  let ?k = "nl_id leaf" and ?sq = "cle_seq cl" and ?slot = "as_i64 (ib_slot b)" and ?u = "remove_nul (ma_uri m)"
  let ?d = "\<lambda>j. bubblegum_asset_data ?k (ma_is_mutable m) j ?u ?slot (ma_name m) (ma_symbol m)"
  let ?txn = "\<lambda>j. with_txn (db_seq [upsert_asset_data (?d j) (as_i64 ?sq),
      upsert_asset_base_info (bubblegum_base_info ?k (ma_seller_fee_basis_points m) ?slot ?sq),
      upsert_asset_with_compression_info \<lparr>cp_id = ?k, cp_compressed = True, cp_compressible = False,
        cp_supply = 1, cp_supply_mint = None\<rparr>,
      upsert_asset_with_leaf_info E (leaf_columns leaf (as_i64 (nl_nonce leaf)) tree (lse_leaf_hash le) ?sq),
      upsert_asset_with_owner_and_delegate_info (owner_columns leaf ?sq),
      upsert_asset_with_seq ?k (as_i64 ?sq),
      upsert_asset_creators ?k (ma_creators m) ?slot (as_i64 ?sq),
      upsert_asset_authority ?k au (as_i64 ?sq) ?slot,
      upsert_collection_info E ?k (ma_collection m) ?slot (as_i64 ?sq)])"
  have txn: "triple (has_data ?k None) (?txn j) (has_data ?k (Some ((?d j)\<lparr>ad_base_info_seq := Some (as_i64 ?sq)\<rparr>)))" for j
    by (intro triple_with_txn triple_seq_Cons [OF has_data_statements(9)]
        triple_seq_Cons [OF has_data_statements(4)] triple_seq_Cons [OF has_data_statements(5)]
        triple_seq_Cons [OF has_data_statements(6)] triple_seq_Cons [OF has_data_statements(7)]
        triple_seq_Cons [OF has_data_statements(8)] triple_seq_Cons [OF has_data_statements(1)]
        triple_seq_Cons [OF has_data_statements(3)] triple_seq_Cons [OF has_data_statements(2)] triple_seq_Nil)
      (simp_all add: bubblegum_asset_data_def)
  obtain s1 j where s1: "save_cl E b i cl s = (Inr ?sq, s1)" and r: "?txn j s1 = (Inr (), s')"
    and info: "info = download_info ?k ?u"
    using assms
    by (auto simp: mint_def save_cl_def save_changelog_event_def db_bind_def db_then_def db_return_def
      db_fail_def Let_def leaf_def simp del: db_seq.simps split: prod.splits sum.splits)
  have "has_data ?k None s1"
    using keepsD [OF save_cl_keeps_assets s1] assms by (simp add: has_data_def asset_tables_def)
  then have "has_data ?k (Some ((?d j)\<lparr>ad_base_info_seq := Some (as_i64 ?sq)\<rparr>)) s'"
    using tripleD [OF txn _ r] by blast
  with info show ?thesis
    by (simp add: has_data_def bubblegum_asset_data_def)
qed

lemma mint_of_instruction:
  assumes "handle_bubblegum_instruction E nt ix b s = (Inr u, s')"
    and "bi_instruction ix \<in> {IN_MintV1, IN_MintToCollectionV1, IN_MintV2}"
  obtains info i where "mint E ix b i s = (Inr info, s')"
    and "case info of None \<Rightarrow> True | Some d \<Rightarrow> nt d = Inr ()"
proof -
  obtain info s1 i where mint: "mint E ix b i s = (Inr info, s1)" and n: "notify nt info s1 = (Inr u, s')"
    using assms by (auto simp: handle_bubblegum_instruction_def Let_def dest!: db_bind_result)
  have "s' = s1" and "case info of None \<Rightarrow> True | Some d \<Rightarrow> nt d = Inr ()"
    using n by (auto simp: notify_def db_return_def db_fail_def split: option.splits sum.splits)
  with mint show thesis
    using that by blast
qed

section \<open>The minted asset in the API\<close>

lemma represents_get_by_id:
  assumes "represents S s" and "asset s k = Some a" and "a_id a = k" and "a_asset_data a = Some k"
    and "asset_data s k = Some d" and "asset_authority s k = Some au" and "a_supply a \<noteq> 0"
  obtains fa where "get_by_id E render S k options = Inr fa" and "fa_asset fa = a" and "fa_data fa = d"
    and "fa_authorities fa = [au]"
  using assms that by (auto simp: represents_def get_by_id_def Let_def)

text \<open>
  C27: the asset of a mint is served.  After a mint that the indexer accepted, of an asset that it did not know,
  \<open>get_asset\<close> on a snapshot of the tables returns the asset under its id, with the owner, the delegate,
  the tree, the leaf number and the sequence number of the change, the authority, the royalty and the address of the
  instruction, compressed and not burnt.
\<close>

theorem minted_asset_served:
  fixes le :: LeafSchemaEvent
  defines "leaf \<equiv> NormalizedLeafFields_from (lse_schema le)"
  assumes "handle_bubblegum_instruction E nt ix b s = (Inr u, s')"
    and "bi_instruction ix \<in> {IN_MintV1, IN_MintToCollectionV1, IN_MintV2}"
    and ix: "bi_leaf_update ix = Some le" "bi_tree_update ix = Some cl"
      "bi_payload ix = Some (Payload_Mint m au tree)"
    and new: "asset s (leaf_id le) = None" "asset_data s (leaf_id le) = None" "asset_authority s (leaf_id le) = None"
    and S: "represents S s'"
  shows "\<exists>r. get_asset E render R order S (leaf_id le) options = Inr r \<and>
    ra_id r = bs58_encode E (leaf_id le) \<and>
    ow_owner (ra_ownership r) = bs58_encode E (nl_owner leaf) \<and>
    ow_delegate (ra_ownership r) = map_option (bs58_encode E) (delegate_column (nl_owner leaf) (nl_delegate leaf)) \<and>
    cmp_compressed (ra_compression r) \<and> cmp_tree (ra_compression r) = bs58_encode E tree \<and>
    cmp_leaf_id (ra_compression r) = as_i64 (nl_nonce leaf) \<and> cmp_seq (ra_compression r) = as_i64 (cle_seq cl) \<and>
    ra_authorities r = [\<lparr>au_address = bs58_encode E au, au_scopes = [Scope_Full]\<rparr>] \<and>
    ry_basis_points (ra_royalty r) = ucast (ma_seller_fee_basis_points m) \<and>
    map_option cn_json_uri (ra_content r) = Some (remove_nul (ma_uri m)) \<and> \<not> ra_burnt r"
proof -
  let ?k = "leaf_id le"
  have k: "nl_id leaf = ?k"
    by (simp add: leaf_def leaf_id_def)
  obtain info i where mint: "mint E ix b i s = (Inr info, s')"
    using mint_of_instruction [OF assms(2,3)] by blast
  obtain a where row: "minted_row E le cl (ib_slot b) m tree a" and "asset s' ?k = Some a"
    and "\<exists>x. asset_authority s' ?k = Some x \<and> aa_authority x = au"
    using mint_stores [OF mint ix] new k by (auto simp: stored_def leaf_def)
  then obtain x where st: "asset s' ?k = Some a" "asset_authority s' ?k = Some x" "aa_authority x = au"
    by blast
  obtain d where d: "asset_data s' ?k = Some d" "ad_metadata_url d = remove_nul (ma_uri m)"
    using mint_stores_data [OF mint ix] new(2) k by (auto simp: leaf_def)
  have "a_id a = ?k" "a_asset_data a = Some ?k" "a_supply a \<noteq> 0"
    using row k by (simp_all add: minted_row_def Let_def leaf_def)
  then obtain fa where fa: "get_by_id E render S ?k options = Inr fa" "fa_asset fa = a" "fa_data fa = d"
    "fa_authorities fa = [x]"
    using represents_get_by_id [OF S st(1) _ _ d(1) st(2)] by metis
  have "get_interface a = Inr (Interface_from (a_specification_version a) Class_Nft)"
    using row by (simp add: get_interface_def minted_row_def Let_def)
  with fa d st k row show ?thesis
    by (simp add: get_asset_def asset_to_rpc_def to_authority_def to_compression_def v1_content_from_json_def Let_def
        minted_row_def leaf_def u16_as_i32_def)
qed

definition demo_minted :: db where
  "demo_minted = snd (handle_bubblegum_instruction demo_env (\<lambda>_. Inr ()) (fst (demo_mint 1 10)) demo_bundle empty_db)"

lemma char_of_0: "char_of (0::nat) = CHR 0x00"
  by (simp add: char_of_def bit_0)

definition demo_view :: snapshot where
  "demo_view = \<lparr>sn_asset = [the (asset demo_minted [9])], sn_created_at = (\<lambda>_. None),
     sn_asset_data = [the (asset_data demo_minted [9])], sn_asset_creators = [],
     sn_asset_authority = [the (asset_authority demo_minted [9])], sn_asset_grouping = [], sn_attachments = [],
     sn_tokens = [], sn_token_accounts = [], sn_cl_audits = []\<rparr>"

lemma demo_minted_tables:
  "asset demo_minted = [[9] \<mapsto> the (asset demo_minted [9])]" "a_id (the (asset demo_minted [9])) = [9]"
  "asset_data demo_minted = [[9] \<mapsto> the (asset_data demo_minted [9])]" "ad_id (the (asset_data demo_minted [9])) = [9]"
  "asset_authority demo_minted = [[9] \<mapsto> the (asset_authority demo_minted [9])]"
  "aa_asset_id (the (asset_authority demo_minted [9])) = [9]"
  unfolding demo_minted_def
  by (simp_all add: eval_defs empty_db_def upsert_eq char_of_0 bubblegum_asset_data_def insert_do_nothing_def
      row_upsert_Some column_defs seq_model_def owner_info_model_def
      leaf_info_model_def compression_info_model_def base_info_model_def bubblegum_base_info_def
      seq_where_def owner_info_where_def leaf_info_where_def compression_info_where_def
      not_decompressed_def sql_simps asset_defaults_def leaf_columns_def owner_columns_def)

lemma single_represented:
  assumes "asset s = [k \<mapsto> r]" "a_id r = k" "asset_data s = [k \<mapsto> d]" "ad_id d = k"
    "asset_authority s = [k \<mapsto> a]" "aa_asset_id a = k"
    "sn_asset S = [r]" "sn_asset_data S = [d]" "sn_asset_authority S = [a]"
  shows "represents S s"
  using assms by (auto simp: represents_def find_asset_data_def)

lemma demo_view_represents: "represents demo_view demo_minted"
  by (rule single_represented [OF demo_minted_tables]) (simp_all add: demo_view_def)

theorem minted_asset_served_witness:
  "represents demo_view demo_minted \<and>
   (\<exists>r. get_asset demo_env (\<lambda>_. []) demo_rpc_env (\<lambda>fs. fs) demo_view [9] Options_default = Inr r \<and>
     ow_owner (ra_ownership r) = bs58_encode demo_env [10] \<and> cmp_seq (ra_compression r) = 1 \<and>
     ry_basis_points (ra_royalty r) = 500)"
proof -
  have ok: "handle_bubblegum_instruction demo_env (\<lambda>_. Inr ()) (fst (demo_mint 1 10)) demo_bundle empty_db =
      (Inr (), demo_minted)"
    unfolding demo_minted_def by (simp add: eval_defs empty_db_def)
  have ix: "bi_instruction (fst (demo_mint 1 10)) \<in> {IN_MintV1, IN_MintToCollectionV1, IN_MintV2}"
    "bi_leaf_update (fst (demo_mint 1 10)) = Some (demo_leaf 10)"
    "bi_tree_update (fst (demo_mint 1 10)) = Some (demo_change 1 10)"
    "bi_payload (fst (demo_mint 1 10)) = Some (Payload_Mint demo_metadata_args [4] [1])"
    by (simp_all add: demo_mint_def)
  show ?thesis
    using minted_asset_served [OF ok ix _ _ _ demo_view_represents, of "\<lambda>_. []" demo_rpc_env "\<lambda>fs. fs" Options_default]
      demo_view_represents
    by (auto simp: empty_db_def demo_leaf_def leaf_id_def demo_metadata_args_def demo_change_def as_i64_def)
qed

section \<open>Addresses with surrounding white space\<close>

lemma stale_task_skips:
  assumes "DownloadMetadata_from_value E data = Inr d"
    and "asset_data s (dm_asset_data_id d) = Some r" and "ad_metadata_url r \<noteq> dm_uri d"
  shows "asset_data (snd (DownloadMetadataTask_task E out data s)) = asset_data s"
    and "faults s = [] \<Longrightarrow> download_body E out (dm_uri d) = Inr body \<Longrightarrow>
      DownloadMetadataTask_task E out data s = (Inr (), s)"
proof -
  show "asset_data (snd (DownloadMetadataTask_task E out data s)) = asset_data s"
  proof (cases "download_body E out (dm_uri d)")
    case (Inr body)
    then show ?thesis
      using assms store_metadata_cases [of E d body s]
      by (cases "store_metadata E d body s")
         (fastforce simp: DownloadMetadataTask_task_def lift_result_def db_bind_def metadata_stored_def)
  qed (use assms(1) in \<open>simp add: DownloadMetadataTask_task_def lift_result_def db_bind_def\<close>)
  show "DownloadMetadataTask_task E out data s = (Inr (), s)" if "faults s = []" "download_body E out (dm_uri d) = Inr body"
    using assms that
    by (simp add: DownloadMetadataTask_task_def lift_result_def db_bind_def store_metadata_def map_err_def
        query_def statement_def db_return_def)
qed

text \<open>
  C28: the metadata of a mint whose address has surrounding white space is never downloaded.  The mint stores the
  address as it is, its notification carries the trimmed address, and the download task skips a row with another
  address: as long as the row keeps its address, the task leaves the metadata rows alone for every response, and
  with a healthy connection it reports success.
\<close>

theorem padded_uri_never_downloaded:
  fixes m :: MetadataArgs
  defines "u \<equiv> remove_nul (ma_uri m)"
  assumes "handle_bubblegum_instruction E nt ix b s = (Inr un, s')"
    and "bi_instruction ix \<in> {IN_MintV1, IN_MintToCollectionV1, IN_MintV2}"
    and ix: "bi_leaf_update ix = Some le" "bi_tree_update ix = Some cl" "bi_payload ix = Some (Payload_Mint m au tree)"
    and "asset_data s (leaf_id le) = None" and "u \<noteq> []" and "remove_nul (trim u) \<noteq> u"
    and later: "map_option ad_metadata_url (asset_data s2 (leaf_id le)) =
      map_option ad_metadata_url (asset_data s' (leaf_id le))"
  shows "let info = DownloadMetadataInfo_new (leaf_id le) u;
        r = DownloadMetadataTask_task T out (td_data (download_metadata_notifier t info)) s2
    in nt info = Inr () \<and> asset_data (snd r) = asset_data s2 \<and>
       (faults s2 = [] \<longrightarrow> download_body T out (dmi_uri info) = Inr body \<longrightarrow> r = (Inr (), s2))"
proof -
  let ?info = "DownloadMetadataInfo_new (leaf_id le) u"
  let ?data = "td_data (download_metadata_notifier t ?info)"
  obtain info i where mint: "mint E ix b i s = (Inr info, s')"
    and sent: "case info of None \<Rightarrow> True | Some d \<Rightarrow> nt d = Inr ()"
    using mint_of_instruction [OF assms(2,3)] by blast
  obtain d where d: "asset_data s' (leaf_id le) = Some d" "ad_metadata_url d = u" "info = download_info (leaf_id le) u"
    using mint_stores_data [OF mint ix] assms(7) by (auto simp: leaf_id_def u_def)
  then have nt: "nt ?info = Inr ()"
    using sent \<open>u \<noteq> []\<close> by (simp add: download_info_def)
  obtain r where r: "asset_data s2 (leaf_id le) = Some r" "ad_metadata_url r = u"
    using later d by auto
  have uri: "dmi_uri ?info = remove_nul (trim u)" "dmi_asset_data_id ?info = leaf_id le"
    by (simp_all add: DownloadMetadataInfo_new_def)
  obtain dm where dm: "DownloadMetadata_from_value T ?data = Inr dm" "dm_asset_data_id dm = leaf_id le"
    "dm_uri dm = dmi_uri ?info"
    by (simp add: download_metadata_notifier_def into_task_data_def from_value_to_value uri(2))
  have "ad_metadata_url r \<noteq> dm_uri dm"
    using assms(9) r(2) dm(3) uri(1) by simp
  then show ?thesis
    using stale_task_skips [OF dm(1), of s2 r] nt r(1) dm(2,3) by (auto simp: Let_def)
qed

definition demo_padded_mint :: BubblegumInstruction where
  "demo_padded_mint = (fst (demo_mint 1 10))\<lparr>bi_payload :=
     Some (Payload_Mint (demo_metadata_args\<lparr>ma_uri := '' u''\<rparr>) [4] [1])\<rparr>"

theorem padded_uri_never_downloaded_witness:
  "\<exists>s'. handle_bubblegum_instruction demo_env (\<lambda>_. Inr ()) demo_padded_mint demo_bundle empty_db = (Inr (), s') \<and>
     DownloadMetadataTask_task demo_task_env demo_response
       (td_data (download_metadata_notifier 0 (DownloadMetadataInfo_new [9] '' u''))) s' = (Inr (), s')"
proof -
  let ?r = "handle_bubblegum_instruction demo_env (\<lambda>_. Inr ()) demo_padded_mint demo_bundle empty_db"
  let ?m = "demo_metadata_args\<lparr>ma_uri := '' u''\<rparr>"
  have "fst ?r = Inr ()" and "faults (snd ?r) = []"
    by (simp_all add: demo_padded_mint_def eval_defs empty_db_def)
  then obtain s' where ok: "?r = (Inr (), s')" and healthy: "faults s' = []"
    by (cases ?r) simp
  have new: "asset_data empty_db [9] = None"
    by (simp add: empty_db_def)
  have tr: "trim '' u'' = ''u''"
    by code_simp
  have body: "download_body demo_task_env demo_response ''u'' = Inr (JString ''body'')"
    by (simp add: download_body_def demo_task_env_def demo_response_def)
  have ix: "bi_instruction demo_padded_mint \<in> {IN_MintV1, IN_MintToCollectionV1, IN_MintV2}"
    "bi_leaf_update demo_padded_mint = Some (demo_leaf 10)" "bi_tree_update demo_padded_mint = Some (demo_change 1 10)"
    "bi_payload demo_padded_mint = Some (Payload_Mint ?m [4] [1])"
    by (simp_all add: demo_padded_mint_def demo_mint_def)
  have uri: "remove_nul '' u'' = '' u''" "remove_nul ''u'' = ''u''" "leaf_id (demo_leaf 10) = [9]"
    by (simp_all add: remove_nul_def char_of_0 demo_leaf_def leaf_id_def)
  show ?thesis
    using padded_uri_never_downloaded [OF ok ix, of s' demo_task_env demo_response 0 "JString ''body''"] ok healthy body new
    by (simp add: uri tr DownloadMetadataInfo_new_def Let_def)
qed

end
