(* ===== verification/ExtensionParser.thy ===== *)
theory ExtensionParser
  imports TokenExtensions
begin

text \<open>
  The Token 2022 parser: \<open>blockbuster/src/programs/token_extensions/mod.rs\<close> and \<open>extension.rs\<close>.  Each extension
  structure of \<open>spl_token_2022\<close>, with the fields the source reads, is copied into its shadow, whose serialisation
  is what the handlers store.  Integers and flags of the \<open>spl_pod\<close> types are words; their serialisation, that of
  optional keys included, belongs to that crate and is a parameter.
\<close>

record pod_env =
  pe_bool :: "u8 \<Rightarrow> json"
  pe_u16 :: "u16 \<Rightarrow> json"
  pe_i16 :: "u16 \<Rightarrow> json"
  pe_u32 :: "u32 \<Rightarrow> json"
  pe_u64 :: "u64 \<Rightarrow> json"
  pe_i64 :: "u64 \<Rightarrow> json"
  pe_key :: "pubkey \<Rightarrow> json"
  pe_elgamal :: "bytes \<Rightarrow> json"

section \<open>Extensions and their shadows\<close>

record CpiGuard =
  cg_lock_cpi :: u8

record ShadowCpiGuard =
  sh_cg_lock_cpi :: u8

definition ShadowCpiGuard_from :: "CpiGuard \<Rightarrow> ShadowCpiGuard" where
  "ShadowCpiGuard_from original =
     \<lparr>sh_cg_lock_cpi = cg_lock_cpi original\<rparr>"

definition ShadowCpiGuard_to_value :: "pod_env \<Rightarrow> ShadowCpiGuard \<Rightarrow> json" where
  "ShadowCpiGuard_to_value P x = JObject
     [(''lock_cpi'', pe_bool P (sh_cg_lock_cpi x))]"

record DefaultAccountState =
  das_state :: u8

record ShadowDefaultAccountState =
  sh_das_state :: u8

definition ShadowDefaultAccountState_from :: "DefaultAccountState \<Rightarrow> ShadowDefaultAccountState" where
  "ShadowDefaultAccountState_from original =
     \<lparr>sh_das_state = das_state original\<rparr>"

definition ShadowDefaultAccountState_to_value :: "pod_env \<Rightarrow> ShadowDefaultAccountState \<Rightarrow> json" where
  "ShadowDefaultAccountState_to_value P x = JObject
     [(''state'', (\<lambda>n. JNumber (uint n)) (sh_das_state x))]"

record InterestBearingConfig =
  ibc_rate_authority :: pubkey
  ibc_initialization_timestamp :: u64
  ibc_pre_update_average_rate :: u16
  ibc_last_update_timestamp :: u64
  ibc_current_rate :: u16

record ShadowInterestBearingConfig =
  sh_ibc_rate_authority :: pubkey
  sh_ibc_initialization_timestamp :: u64
  sh_ibc_pre_update_average_rate :: u16
  sh_ibc_last_update_timestamp :: u64
  sh_ibc_current_rate :: u16

definition ShadowInterestBearingConfig_from :: "InterestBearingConfig \<Rightarrow> ShadowInterestBearingConfig" where
  "ShadowInterestBearingConfig_from original =
     \<lparr>sh_ibc_rate_authority = ibc_rate_authority original,
      sh_ibc_initialization_timestamp = ibc_initialization_timestamp original,
      sh_ibc_pre_update_average_rate = ibc_pre_update_average_rate original,
      sh_ibc_last_update_timestamp = ibc_last_update_timestamp original,
      sh_ibc_current_rate = ibc_current_rate original\<rparr>"

definition ShadowInterestBearingConfig_to_value :: "pod_env \<Rightarrow> ShadowInterestBearingConfig \<Rightarrow> json" where
  "ShadowInterestBearingConfig_to_value P x = JObject
     [(''rate_authority'', pe_key P (sh_ibc_rate_authority x)),
      (''initialization_timestamp'', pe_i64 P (sh_ibc_initialization_timestamp x)),
      (''pre_update_average_rate'', pe_i16 P (sh_ibc_pre_update_average_rate x)),
      (''last_update_timestamp'', pe_i64 P (sh_ibc_last_update_timestamp x)),
      (''current_rate'', pe_i16 P (sh_ibc_current_rate x))]"

record MemoTransfer =
  mt_require_incoming_transfer_memos :: u8

record ShadowMemoTransfer =
  sh_mt_require_incoming_transfer_memos :: u8

definition ShadowMemoTransfer_from :: "MemoTransfer \<Rightarrow> ShadowMemoTransfer" where
  "ShadowMemoTransfer_from original =
     \<lparr>sh_mt_require_incoming_transfer_memos = mt_require_incoming_transfer_memos original\<rparr>"

definition ShadowMemoTransfer_to_value :: "pod_env \<Rightarrow> ShadowMemoTransfer \<Rightarrow> json" where
  "ShadowMemoTransfer_to_value P x = JObject
     [(''require_incoming_transfer_memos'', pe_bool P (sh_mt_require_incoming_transfer_memos x))]"

record MetadataPointer =
  mp_metadata_address :: pubkey

record ShadowMetadataPointer =
  sh_mp_metadata_address :: pubkey

definition ShadowMetadataPointer_from :: "MetadataPointer \<Rightarrow> ShadowMetadataPointer" where
  "ShadowMetadataPointer_from original =
     \<lparr>sh_mp_metadata_address = mp_metadata_address original\<rparr>"

definition ShadowMetadataPointer_to_value :: "pod_env \<Rightarrow> ShadowMetadataPointer \<Rightarrow> json" where
  "ShadowMetadataPointer_to_value P x = JObject
     [(''metadata_address'', pe_key P (sh_mp_metadata_address x))]"

record GroupMemberPointer =
  gmp_member_address :: pubkey

record ShadowGroupMemberPointer =
  sh_gmp_member_address :: pubkey

definition ShadowGroupMemberPointer_from :: "GroupMemberPointer \<Rightarrow> ShadowGroupMemberPointer" where
  "ShadowGroupMemberPointer_from original =
     \<lparr>sh_gmp_member_address = gmp_member_address original\<rparr>"

definition ShadowGroupMemberPointer_to_value :: "pod_env \<Rightarrow> ShadowGroupMemberPointer \<Rightarrow> json" where
  "ShadowGroupMemberPointer_to_value P x = JObject
     [(''member_address'', pe_key P (sh_gmp_member_address x))]"

record GroupPointer =
  gp_group_address :: pubkey

record ShadowGroupPointer =
  sh_gp_group_address :: pubkey

definition ShadowGroupPointer_from :: "GroupPointer \<Rightarrow> ShadowGroupPointer" where
  "ShadowGroupPointer_from original =
     \<lparr>sh_gp_group_address = gp_group_address original\<rparr>"

definition ShadowGroupPointer_to_value :: "pod_env \<Rightarrow> ShadowGroupPointer \<Rightarrow> json" where
  "ShadowGroupPointer_to_value P x = JObject
     [(''group_address'', pe_key P (sh_gp_group_address x))]"

record TokenGroup =
  tg_update_authority :: pubkey
  tg_mint :: pubkey
  tg_size :: u32
  tg_max_size :: u32

record ShadowTokenGroup =
  sh_tg_update_authority :: pubkey
  sh_tg_mint :: string
  sh_tg_size :: u32
  sh_tg_max_size :: u32

definition ShadowTokenGroup_from :: "env \<Rightarrow> TokenGroup \<Rightarrow> ShadowTokenGroup" where
  "ShadowTokenGroup_from E original =
     \<lparr>sh_tg_update_authority = tg_update_authority original,
      sh_tg_mint = pubkey_to_string E (tg_mint original),
      sh_tg_size = tg_size original,
      sh_tg_max_size = tg_max_size original\<rparr>"

definition ShadowTokenGroup_to_value :: "pod_env \<Rightarrow> ShadowTokenGroup \<Rightarrow> json" where
  "ShadowTokenGroup_to_value P x = JObject
     [(''update_authority'', pe_key P (sh_tg_update_authority x)),
      (''mint'', JString (sh_tg_mint x)),
      (''size'', pe_u32 P (sh_tg_size x)),
      (''max_size'', pe_u32 P (sh_tg_max_size x))]"

record TokenGroupMember =
  tgm_mint :: pubkey
  tgm_group :: pubkey
  tgm_member_number :: u32

record ShadowTokenGroupMember =
  sh_tgm_mint :: string
  sh_tgm_group :: string
  sh_tgm_member_number :: u32

definition ShadowTokenGroupMember_from :: "env \<Rightarrow> TokenGroupMember \<Rightarrow> ShadowTokenGroupMember" where
  "ShadowTokenGroupMember_from E original =
     \<lparr>sh_tgm_mint = pubkey_to_string E (tgm_mint original),
      sh_tgm_group = pubkey_to_string E (tgm_group original),
      sh_tgm_member_number = tgm_member_number original\<rparr>"

definition ShadowTokenGroupMember_to_value :: "pod_env \<Rightarrow> ShadowTokenGroupMember \<Rightarrow> json" where
  "ShadowTokenGroupMember_to_value P x = JObject
     [(''mint'', JString (sh_tgm_mint x)),
      (''group'', JString (sh_tgm_group x)),
      (''member_number'', pe_u32 P (sh_tgm_member_number x))]"

record MintCloseAuthority =
  mca_close_authority :: pubkey

record ShadowMintCloseAuthority =
  sh_mca_close_authority :: pubkey

definition ShadowMintCloseAuthority_from :: "MintCloseAuthority \<Rightarrow> ShadowMintCloseAuthority" where
  "ShadowMintCloseAuthority_from original =
     \<lparr>sh_mca_close_authority = mca_close_authority original\<rparr>"

definition ShadowMintCloseAuthority_to_value :: "pod_env \<Rightarrow> ShadowMintCloseAuthority \<Rightarrow> json" where
  "ShadowMintCloseAuthority_to_value P x = JObject
     [(''close_authority'', pe_key P (sh_mca_close_authority x))]"

record PermanentDelegate =
  pd_delegate :: pubkey

record ShadowPermanentDelegate =
  sh_pd_delegate :: pubkey

definition ShadowPermanentDelegate_from :: "PermanentDelegate \<Rightarrow> ShadowPermanentDelegate" where
  "ShadowPermanentDelegate_from original =
     \<lparr>sh_pd_delegate = pd_delegate original\<rparr>"

definition ShadowPermanentDelegate_to_value :: "pod_env \<Rightarrow> ShadowPermanentDelegate \<Rightarrow> json" where
  "ShadowPermanentDelegate_to_value P x = JObject
     [(''delegate'', pe_key P (sh_pd_delegate x))]"

record TransferFee =
  tf_epoch :: u64
  tf_maximum_fee :: u64
  tf_transfer_fee_basis_points :: u16

record ShadowTransferFee =
  sh_tf_epoch :: u64
  sh_tf_maximum_fee :: u64
  sh_tf_transfer_fee_basis_points :: u16

definition ShadowTransferFee_from :: "TransferFee \<Rightarrow> ShadowTransferFee" where
  "ShadowTransferFee_from original =
     \<lparr>sh_tf_epoch = tf_epoch original,
      sh_tf_maximum_fee = tf_maximum_fee original,
      sh_tf_transfer_fee_basis_points = tf_transfer_fee_basis_points original\<rparr>"

definition ShadowTransferFee_to_value :: "pod_env \<Rightarrow> ShadowTransferFee \<Rightarrow> json" where
  "ShadowTransferFee_to_value P x = JObject
     [(''epoch'', pe_u64 P (sh_tf_epoch x)),
      (''maximum_fee'', pe_u64 P (sh_tf_maximum_fee x)),
      (''transfer_fee_basis_points'', pe_u16 P (sh_tf_transfer_fee_basis_points x))]"

record TransferHook =
  th_authority :: pubkey
  th_program_id :: pubkey

record ShadowTransferHook =
  sh_th_authority :: pubkey
  sh_th_program_id :: pubkey

definition ShadowTransferHook_from :: "TransferHook \<Rightarrow> ShadowTransferHook" where
  "ShadowTransferHook_from original =
     \<lparr>sh_th_authority = th_authority original,
      sh_th_program_id = th_program_id original\<rparr>"

definition ShadowTransferHook_to_value :: "pod_env \<Rightarrow> ShadowTransferHook \<Rightarrow> json" where
  "ShadowTransferHook_to_value P x = JObject
     [(''authority'', pe_key P (sh_th_authority x)),
      (''program_id'', pe_key P (sh_th_program_id x))]"

record ConfidentialTransferMint =
  ctm_authority :: pubkey
  ctm_auto_approve_new_accounts :: u8
  ctm_auditor_elgamal_pubkey :: bytes

record ShadowConfidentialTransferMint =
  sh_ctm_authority :: pubkey
  sh_ctm_auto_approve_new_accounts :: u8
  sh_ctm_auditor_elgamal_pubkey :: bytes

definition ShadowConfidentialTransferMint_from :: "ConfidentialTransferMint \<Rightarrow> ShadowConfidentialTransferMint" where
  "ShadowConfidentialTransferMint_from original =
     \<lparr>sh_ctm_authority = ctm_authority original,
      sh_ctm_auto_approve_new_accounts = ctm_auto_approve_new_accounts original,
      sh_ctm_auditor_elgamal_pubkey = ctm_auditor_elgamal_pubkey original\<rparr>"

definition ShadowConfidentialTransferMint_to_value :: "pod_env \<Rightarrow> ShadowConfidentialTransferMint \<Rightarrow> json" where
  "ShadowConfidentialTransferMint_to_value P x = JObject
     [(''authority'', pe_key P (sh_ctm_authority x)),
      (''auto_approve_new_accounts'', pe_bool P (sh_ctm_auto_approve_new_accounts x)),
      (''auditor_elgamal_pubkey'', pe_elgamal P (sh_ctm_auditor_elgamal_pubkey x))]"

record ConfidentialTransferAccount =
  cta_approved :: u8
  cta_elgamal_pubkey :: bytes
  cta_pending_balance_lo :: bytes
  cta_pending_balance_hi :: bytes
  cta_available_balance :: bytes
  cta_decryptable_available_balance :: bytes
  cta_allow_confidential_credits :: u8
  cta_allow_non_confidential_credits :: u8
  cta_pending_balance_credit_counter :: u64
  cta_maximum_pending_balance_credit_counter :: u64
  cta_expected_pending_balance_credit_counter :: u64
  cta_actual_pending_balance_credit_counter :: u64

record ShadowConfidentialTransferAccount =
  sh_cta_approved :: u8
  sh_cta_elgamal_pubkey :: string
  sh_cta_pending_balance_lo :: string
  sh_cta_pending_balance_hi :: string
  sh_cta_available_balance :: string
  sh_cta_decryptable_available_balance :: string
  sh_cta_allow_confidential_credits :: u8
  sh_cta_allow_non_confidential_credits :: u8
  sh_cta_pending_balance_credit_counter :: u64
  sh_cta_maximum_pending_balance_credit_counter :: u64
  sh_cta_expected_pending_balance_credit_counter :: u64
  sh_cta_actual_pending_balance_credit_counter :: u64

definition ShadowConfidentialTransferAccount_from :: "env \<Rightarrow> ConfidentialTransferAccount \<Rightarrow> ShadowConfidentialTransferAccount" where
  "ShadowConfidentialTransferAccount_from E original =
     \<lparr>sh_cta_approved = cta_approved original,
      sh_cta_elgamal_pubkey = bs58_encode E (cta_elgamal_pubkey original),
      sh_cta_pending_balance_lo = bs58_encode E (cta_pending_balance_lo original),
      sh_cta_pending_balance_hi = bs58_encode E (cta_pending_balance_hi original),
      sh_cta_available_balance = bs58_encode E (cta_available_balance original),
      sh_cta_decryptable_available_balance = bs58_encode E (cta_decryptable_available_balance original),
      sh_cta_allow_confidential_credits = cta_allow_confidential_credits original,
      sh_cta_allow_non_confidential_credits = cta_allow_non_confidential_credits original,
      sh_cta_pending_balance_credit_counter = cta_pending_balance_credit_counter original,
      sh_cta_maximum_pending_balance_credit_counter = cta_maximum_pending_balance_credit_counter original,
      sh_cta_expected_pending_balance_credit_counter = cta_expected_pending_balance_credit_counter original,
      sh_cta_actual_pending_balance_credit_counter = cta_actual_pending_balance_credit_counter original\<rparr>"

definition ShadowConfidentialTransferAccount_to_value :: "pod_env \<Rightarrow> ShadowConfidentialTransferAccount \<Rightarrow> json" where
  "ShadowConfidentialTransferAccount_to_value P x = JObject
     [(''approved'', pe_bool P (sh_cta_approved x)),
      (''elgamal_pubkey'', JString (sh_cta_elgamal_pubkey x)),
      (''pending_balance_lo'', JString (sh_cta_pending_balance_lo x)),
      (''pending_balance_hi'', JString (sh_cta_pending_balance_hi x)),
      (''available_balance'', JString (sh_cta_available_balance x)),
      (''decryptable_available_balance'', JString (sh_cta_decryptable_available_balance x)),
      (''allow_confidential_credits'', pe_bool P (sh_cta_allow_confidential_credits x)),
      (''allow_non_confidential_credits'', pe_bool P (sh_cta_allow_non_confidential_credits x)),
      (''pending_balance_credit_counter'', pe_u64 P (sh_cta_pending_balance_credit_counter x)),
      (''maximum_pending_balance_credit_counter'', pe_u64 P (sh_cta_maximum_pending_balance_credit_counter x)),
      (''expected_pending_balance_credit_counter'', pe_u64 P (sh_cta_expected_pending_balance_credit_counter x)),
      (''actual_pending_balance_credit_counter'', pe_u64 P (sh_cta_actual_pending_balance_credit_counter x))]"

record ConfidentialTransferFeeConfig =
  cfc_authority :: pubkey
  cfc_withdraw_withheld_authority_elgamal_pubkey :: bytes
  cfc_harvest_to_mint_enabled :: u8
  cfc_withheld_amount :: bytes

record ShadowConfidentialTransferFeeConfig =
  sh_cfc_authority :: pubkey
  sh_cfc_withdraw_withheld_authority_elgamal_pubkey :: string
  sh_cfc_harvest_to_mint_enabled :: u8
  sh_cfc_withheld_amount :: string

definition ShadowConfidentialTransferFeeConfig_from :: "env \<Rightarrow> ConfidentialTransferFeeConfig \<Rightarrow> ShadowConfidentialTransferFeeConfig" where
  "ShadowConfidentialTransferFeeConfig_from E original =
     \<lparr>sh_cfc_authority = cfc_authority original,
      sh_cfc_withdraw_withheld_authority_elgamal_pubkey = bs58_encode E (cfc_withdraw_withheld_authority_elgamal_pubkey original),
      sh_cfc_harvest_to_mint_enabled = cfc_harvest_to_mint_enabled original,
      sh_cfc_withheld_amount = bs58_encode E (cfc_withheld_amount original)\<rparr>"

definition ShadowConfidentialTransferFeeConfig_to_value :: "pod_env \<Rightarrow> ShadowConfidentialTransferFeeConfig \<Rightarrow> json" where
  "ShadowConfidentialTransferFeeConfig_to_value P x = JObject
     [(''authority'', pe_key P (sh_cfc_authority x)),
      (''withdraw_withheld_authority_elgamal_pubkey'', JString (sh_cfc_withdraw_withheld_authority_elgamal_pubkey x)),
      (''harvest_to_mint_enabled'', pe_bool P (sh_cfc_harvest_to_mint_enabled x)),
      (''withheld_amount'', JString (sh_cfc_withheld_amount x))]"

record TransferFeeAmount =
  tfa_withheld_amount :: u64

record ShadowTransferFeeAmount =
  sh_tfa_withheld_amount :: u64

definition ShadowTransferFeeAmount_from :: "TransferFeeAmount \<Rightarrow> ShadowTransferFeeAmount" where
  "ShadowTransferFeeAmount_from original =
     \<lparr>sh_tfa_withheld_amount = tfa_withheld_amount original\<rparr>"

definition ShadowTransferFeeAmount_to_value :: "pod_env \<Rightarrow> ShadowTransferFeeAmount \<Rightarrow> json" where
  "ShadowTransferFeeAmount_to_value P x = JObject
     [(''withheld_amount'', pe_u64 P (sh_tfa_withheld_amount x))]"

record TransferFeeConfig =
  tfc_transfer_fee_config_authority :: pubkey
  tfc_withdraw_withheld_authority :: pubkey
  tfc_withheld_amount :: u64
  tfc_older_transfer_fee :: TransferFee
  tfc_newer_transfer_fee :: TransferFee

record ShadowTransferFeeConfig =
  sh_tfc_transfer_fee_config_authority :: pubkey
  sh_tfc_withdraw_withheld_authority :: pubkey
  sh_tfc_withheld_amount :: u64
  sh_tfc_older_transfer_fee :: ShadowTransferFee
  sh_tfc_newer_transfer_fee :: ShadowTransferFee

definition ShadowTransferFeeConfig_from :: "TransferFeeConfig \<Rightarrow> ShadowTransferFeeConfig" where
  "ShadowTransferFeeConfig_from original =
     \<lparr>sh_tfc_transfer_fee_config_authority = tfc_transfer_fee_config_authority original,
      sh_tfc_withdraw_withheld_authority = tfc_withdraw_withheld_authority original,
      sh_tfc_withheld_amount = tfc_withheld_amount original,
      sh_tfc_older_transfer_fee = ShadowTransferFee_from (tfc_older_transfer_fee original),
      sh_tfc_newer_transfer_fee = ShadowTransferFee_from (tfc_newer_transfer_fee original)\<rparr>"

definition ShadowTransferFeeConfig_to_value :: "pod_env \<Rightarrow> ShadowTransferFeeConfig \<Rightarrow> json" where
  "ShadowTransferFeeConfig_to_value P x = JObject
     [(''transfer_fee_config_authority'', pe_key P (sh_tfc_transfer_fee_config_authority x)),
      (''withdraw_withheld_authority'', pe_key P (sh_tfc_withdraw_withheld_authority x)),
      (''withheld_amount'', pe_u64 P (sh_tfc_withheld_amount x)),
      (''older_transfer_fee'', ShadowTransferFee_to_value P (sh_tfc_older_transfer_fee x)),
      (''newer_transfer_fee'', ShadowTransferFee_to_value P (sh_tfc_newer_transfer_fee x))]"

text \<open>The metadata extension; its shadow is declared with the other types of the handlers.\<close>

record TokenMetadata =
  tmd_update_authority :: pubkey
  tmd_mint :: pubkey
  tmd_name :: string
  tmd_symbol :: string
  tmd_uri :: string
  tmd_additional_metadata :: "(string \<times> string) list"

definition ShadowMetadata_from :: "env \<Rightarrow> pod_env \<Rightarrow> TokenMetadata \<Rightarrow> ShadowMetadata" where
  "ShadowMetadata_from E P original =
     \<lparr>sm_update_authority = pe_key P (tmd_update_authority original),
      sm_mint = bs58_encode E (tmd_mint original), sm_name = tmd_name original,
      sm_symbol = tmd_symbol original, sm_uri = tmd_uri original,
      sm_additional_metadata = tmd_additional_metadata original\<rparr>"

section \<open>The parser\<close>

text \<open>
  What \<open>StateWithExtensions::unpack\<close> gives: the base state and, per extension type, what
  \<open>get_extension\<close> finds.
\<close>

record account_state =
  acs_base :: TokenAccount
  acs_confidential_transfer :: "ConfidentialTransferAccount option"
  acs_cpi_guard :: "CpiGuard option"
  acs_memo_transfer :: "MemoTransfer option"
  acs_transfer_fee_amount :: "TransferFeeAmount option"
  acs_immutable_owner :: "unit option"
  acs_non_transferable_account :: "unit option"

record mint_state =
  mst_base :: Mint
  mst_confidential_transfer_mint :: "ConfidentialTransferMint option"
  mst_confidential_transfer_fee_config :: "ConfidentialTransferFeeConfig option"
  mst_default_account_state :: "DefaultAccountState option"
  mst_interest_bearing_config :: "InterestBearingConfig option"
  mst_transfer_fee_config :: "TransferFeeConfig option"
  mst_mint_close_authority :: "MintCloseAuthority option"
  mst_permanent_delegate :: "PermanentDelegate option"
  mst_metadata_pointer :: "MetadataPointer option"
  mst_metadata :: "TokenMetadata option"
  mst_group_pointer :: "GroupPointer option"
  mst_token_group :: "TokenGroup option"
  mst_group_member_pointer :: "GroupMemberPointer option"
  mst_token_group_member :: "TokenGroupMember option"
  mst_transfer_hook :: "TransferHook option"
  mst_non_transferable :: "unit option"
  mst_immutable_owner :: "unit option"

record state_unpack =
  unpack_account_state :: "bytes \<Rightarrow> account_state option"
  unpack_mint_state :: "bytes \<Rightarrow> mint_state option"

definition account_extensions :: "env \<Rightarrow> pod_env \<Rightarrow> account_state \<Rightarrow> TokenAccountExtensions" where
  "account_extensions E P a =
     \<lparr>tx_confidential_transfer = map_option
        (ShadowConfidentialTransferAccount_to_value P \<circ> ShadowConfidentialTransferAccount_from E)
        (acs_confidential_transfer a),
      tx_cpi_guard = map_option (ShadowCpiGuard_to_value P \<circ> ShadowCpiGuard_from) (acs_cpi_guard a),
      tx_memo_transfer = map_option (ShadowMemoTransfer_to_value P \<circ> ShadowMemoTransfer_from) (acs_memo_transfer a),
      tx_transfer_fee_amount = map_option (ShadowTransferFeeAmount_to_value P \<circ> ShadowTransferFeeAmount_from)
        (acs_transfer_fee_amount a),
      tx_immutable_owner = map_option (\<lambda>_. True) (acs_immutable_owner a),
      tx_non_transferable_account = map_option (\<lambda>_. True) (acs_non_transferable_account a)\<rparr>"

definition mint_extensions :: "env \<Rightarrow> pod_env \<Rightarrow> mint_state \<Rightarrow> MintAccountExtensions" where
  "mint_extensions E P m =
     \<lparr>mx_default_account_state = map_option (ShadowDefaultAccountState_to_value P \<circ> ShadowDefaultAccountState_from)
        (mst_default_account_state m),
      mx_confidential_transfer_mint = map_option
        (ShadowConfidentialTransferMint_to_value P \<circ> ShadowConfidentialTransferMint_from)
        (mst_confidential_transfer_mint m),
      mx_confidential_transfer_fee_config = map_option
        (ShadowConfidentialTransferFeeConfig_to_value P \<circ> ShadowConfidentialTransferFeeConfig_from E)
        (mst_confidential_transfer_fee_config m),
      mx_interest_bearing_config = map_option
        (ShadowInterestBearingConfig_to_value P \<circ> ShadowInterestBearingConfig_from) (mst_interest_bearing_config m),
      mx_transfer_fee_config = map_option (ShadowTransferFeeConfig_to_value P \<circ> ShadowTransferFeeConfig_from)
        (mst_transfer_fee_config m),
      mx_mint_close_authority = map_option (ShadowMintCloseAuthority_to_value P \<circ> ShadowMintCloseAuthority_from)
        (mst_mint_close_authority m),
      mx_permanent_delegate = map_option (ShadowPermanentDelegate_to_value P \<circ> ShadowPermanentDelegate_from)
        (mst_permanent_delegate m),
      mx_metadata_pointer = map_option (ShadowMetadataPointer_to_value P \<circ> ShadowMetadataPointer_from)
        (mst_metadata_pointer m),
      mx_metadata = map_option (ShadowMetadata_from E P) (mst_metadata m),
      mx_transfer_hook = map_option (ShadowTransferHook_to_value P \<circ> ShadowTransferHook_from) (mst_transfer_hook m),
      mx_group_pointer = map_option (ShadowGroupPointer_to_value P \<circ> ShadowGroupPointer_from) (mst_group_pointer m),
      mx_token_group = map_option (ShadowTokenGroup_to_value P \<circ> ShadowTokenGroup_from E) (mst_token_group m),
      mx_group_member_pointer = map_option (ShadowGroupMemberPointer_to_value P \<circ> ShadowGroupMemberPointer_from)
        (mst_group_member_pointer m),
      mx_token_group_member = map_option (ShadowTokenGroupMember_to_value P \<circ> ShadowTokenGroupMember_from E)
        (mst_token_group_member m),
      mx_non_transferable = map_option (\<lambda>_. True) (mst_non_transferable m),
      mx_immutable_owner = map_option (\<lambda>_. True) (mst_immutable_owner m)\<rparr>"

definition token_2022_handle_account ::
  "env \<Rightarrow> pod_env \<Rightarrow> state_unpack \<Rightarrow> bytes \<Rightarrow> BlockbusterError + TokenExtensionsProgramEntity" where
  "token_2022_handle_account E P U account_data =
     (case unpack_account_state U account_data of
        Some a \<Rightarrow> Inr (TEE_TokenAccount (acs_base a) (account_extensions E P a))
      | None \<Rightarrow>
          (case unpack_mint_state U account_data of
             Some m \<Rightarrow> Inr (TEE_MintAccount (mst_base m) (mint_extensions E P m))
           | None \<Rightarrow> Inl BBE_InvalidDataLength))"

end
