(* ===== verification/AccountUpdate.thy ===== *)
theory AccountUpdate
  imports ExtensionParser Transformer TokenMetadata MplCore TokenInscription
begin

text \<open>
  \<open>handle_account_update\<close> of \<open>program_transformers/src/lib.rs\<close>: the owner of an account selects the parser, and
  the kind of the parsed account its handler.  The deserialisers that the parsers call are collected in
  \<open>account_parsers\<close>.
\<close>

record account_parsers =
  ap_bubblegum :: bubblegum_unpack
  ap_metadata :: metadata_unpack
  ap_spl :: spl_unpack
  ap_core :: core_env
  ap_state :: state_unpack
  ap_pod :: pod_env

text \<open>What \<open>handle_account\<close> of a parser returns; \<open>Unknown\<close> is \<open>NotUsed\<close>.\<close>

datatype AccountParseResult =
    APR_MplCore MplCoreAccountState
  | APR_TokenMetadata TokenMetadataAccountState
  | APR_TokenProgramEntity TokenProgramEntity
  | APR_TokenExtensionsProgramEntity TokenExtensionsProgramEntity
  | APR_TokenInscriptionAccount InscriptionData
  | APR_Unknown

fun handle_account ::
  "env \<Rightarrow> account_parsers \<Rightarrow> parser \<Rightarrow> bytes \<Rightarrow> (BlockbusterError + AccountParseResult) outcome" where
  "handle_account E A P_Bubblegum d = Done (Inr APR_Unknown)"
| "handle_account E A P_TokenMetadata d =
     Done (map_sum id APR_TokenMetadata (token_metadata_handle_account (ap_metadata A) d))"
| "handle_account E A P_Token d = Done (map_sum id APR_TokenProgramEntity (token_handle_account (ap_spl A) d))"
| "handle_account E A P_MplCore d = Done (map_sum id APR_MplCore (mpl_core_handle_account (ap_core A) d))"
| "handle_account E A P_TokenExtensions d =
     Done (map_sum id APR_TokenExtensionsProgramEntity (token_2022_handle_account E (ap_pod A) (ap_state A) d))"
| "handle_account E A P_TokenInscription d =
     out_bind (try_unpack_data E d) (\<lambda>r. Done (map_sum id APR_TokenInscriptionAccount r))"

fun handle_parsed_account ::
  "env \<Rightarrow> account_parsers \<Rightarrow> notifier \<Rightarrow> AccountInfo \<Rightarrow> AccountParseResult \<Rightarrow> unit handler" where
  "handle_parsed_account E A nt info (APR_TokenMetadata r) = handle_token_metadata_account E nt info r"
| "handle_parsed_account E A nt info (APR_TokenProgramEntity r) = handle_token_program_account info r"
| "handle_parsed_account E A nt info (APR_TokenExtensionsProgramEntity r) =
     handle_token_extensions_program_account nt info r"
| "handle_parsed_account E A nt info (APR_MplCore r) = handle_mpl_core_account E (ap_core A) nt info r"
| "handle_parsed_account E A nt info (APR_TokenInscriptionAccount r) =
     handle_token_inscription_program_update E info r"
| "handle_parsed_account E A nt info APR_Unknown = db_fail NotImplemented"

text \<open>\<open>Panic\<close> is the panic of the inscription parser.\<close>

definition handle_account_update ::
  "env \<Rightarrow> account_parsers \<Rightarrow> notifier \<Rightarrow> AccountInfo \<Rightarrow> unit handler outcome" where
  "handle_account_update E A nt info =
     (case match_program (ap_bubblegum A) (acc_owner info) of
        None \<Rightarrow> Done (db_return ())
      | Some program \<Rightarrow>
          out_bind (handle_account E A program (acc_data info)) (\<lambda>result. Done
            (case result of
               Inl e \<Rightarrow> db_fail (ParsingError (BlockbusterError_to_string e))
             | Inr parsing_result \<Rightarrow> handle_parsed_account E A nt info parsing_result)))"

section \<open>What account updates leave alone\<close>

text \<open>Any part of the database that no account statement writes.\<close>

lemma keeps_with_txn: "blind f \<Longrightarrow> keeps f m \<Longrightarrow> keeps f (with_txn m)"
  unfolding keeps_def
proof (intro allI impI)
  fix s r s'
  assume b: "blind f" and k: "\<forall>s r s'. m s = (r, s') \<longrightarrow> f s' = f s" and w: "with_txn m s = (r, s')"
  show "f s' = f s"
  proof (cases r)
    case (Inl e)
    then show ?thesis
      using with_txn_rollback [of m s e s'] w b by (auto simp: blind_def)
  next
    case (Inr x)
    then obtain fs s2 fs' where "m (s\<lparr>faults := fs\<rparr>) = (Inr x, s2)" "s' = s2\<lparr>faults := fs'\<rparr>"
      using with_txn_commit [of m s x s'] w by blast
    then show ?thesis
      using b k by (metis blind_def)
  qed
qed

definition change_log :: "db \<Rightarrow> cl_items_table \<times> cl_audits_table \<times> backfill_items_row list" where
  "change_log s = (cl_items s, cl_audits_v2 s, backfill_items s)"

lemma blind_change_log [simp]: "blind change_log"
  by (simp add: blind_def change_log_def)

lemmas keeps_rules = keeps_then keeps_bind keeps_map_err keeps_execute keeps_query keeps_with_txn keeps_find_model
  keeps_return keeps_fail blind_change_log

lemma keeps_seq: "(\<And>m. m \<in> set ms \<Longrightarrow> keeps f m) \<Longrightarrow> keeps f (db_seq ms)"
  by (induction ms) (auto intro: keeps_then)

lemma asset_statements_keep:
  "keeps change_log (upsert_assets_token_account_columns x)"
  "keeps change_log (upsert_assets_mint_account_columns y)"
  "keeps change_log (upsert_assets_metadata_account_columns z)"
  unfolding upsert_assets_token_account_columns_def upsert_assets_mint_account_columns_def
    upsert_assets_metadata_account_columns_def
  by (auto intro!: keeps_rules simp: change_log_def)

lemma metadata_statements_keep:
  "keeps change_log (save_attachment a)"
  "keeps change_log (upsert_v1_asset_data d)"
  "keeps change_log (insert_edition_attachment e slot)"
  "keeps change_log (upsert_v1_authority k au slot)"
  "keeps change_log (upsert_v1_collection E k co slot)"
  "keeps change_log (upsert_v1_creators rows)"
  "keeps change_log (upsert_asset_v1_account_attachments E k sl)"
  unfolding save_attachment_def upsert_v1_asset_data_def insert_edition_attachment_def upsert_v1_authority_def
    upsert_v1_collection_def upsert_v1_creators_def upsert_asset_v1_account_attachments_def Let_def
  by (auto intro!: keeps_rules simp: change_log_def split: option.split)

lemma token_statements_keep:
  "keeps change_log (save_token_account cols row)"
  "keeps change_log (save_mint mcols mrow)"
  "keeps change_log (index_token_owner info ta)"
  "keeps change_log (ext_upsert_asset_data m k slot)"
  unfolding save_token_account_def save_mint_def index_token_owner_def ext_upsert_asset_data_def
    upsert_assets_metadata_cols_def
  by (auto intro!: keeps_rules asset_statements_keep simp: change_log_def)

lemma save_v1_asset_keeps: "keeps change_log (save_v1_asset E m slot)"
  unfolding save_v1_asset_def index_and_fetch_mint_data_def index_token_account_data_def Let_def
  by (auto intro!: keeps_rules keeps_seq asset_statements_keep metadata_statements_keep
      split: option.split sum.split prod.split)

lemma group_update_keeps: "keeps change_log (update_group_asset_authorities E k a w)"
proof -
  have "change_log s' = change_log s" if "update_group_loop n gv a w after s = (r, s')" for n gv after s r s'
    using update_group_loop_any [OF that] by (auto simp: change_log_def update_authorities_def)
  then show ?thesis
    by (auto simp: keeps_def update_group_asset_authorities_def)
qed

lemma core_save_keeps: "keeps change_log (core_save_v1_asset E C k d slot)"
proof -
  have t: "keeps change_log (save_core_tables E C k d a au uri slot)" for a au uri
    unfolding save_core_tables_def upsert_core_grouping_def Let_def
    by (auto intro!: keeps_rules keeps_seq asset_statements_keep metadata_statements_keep
        simp: change_log_def split: option.split sum.split prod.split UpdateAuthority.split)
  show ?thesis
    unfolding core_save_v1_asset_def Let_def
    by (auto intro!: keeps_rules keeps_find_authority keeps_core_txn t group_update_keeps
        simp: change_log_def split: option.split)
qed

lemma handlers_keep:
  "keeps change_log (handle_token_program_account info r1)"
  "keeps change_log (handle_token_extensions_program_account nt info r2)"
  "keeps change_log (handle_token_metadata_account E nt info r3)"
  "keeps change_log (handle_mpl_core_account E C nt info r4)"
  "keeps change_log (handle_token_inscription_program_update E info r5)"
proof -
  note statements = asset_statements_keep metadata_statements_keep token_statements_keep
  show "keeps change_log (handle_token_program_account info r1)"
    by (cases r1) (auto intro!: keeps_rules statements)
  show "keeps change_log (handle_token_extensions_program_account nt info r2)"
    by (cases r2) (auto intro!: keeps_rules statements simp: Let_def split: option.split sum.split)
  show "keeps change_log (handle_token_metadata_account E nt info r3)"
    unfolding handle_token_metadata_account_def burn_v1_asset_def save_v1_master_edition_def
      save_v2_master_edition_def save_master_edition_def save_edition_def
    by (auto intro!: keeps_rules statements save_v1_asset_keeps simp: change_log_def
        split: TokenMetadataAccountData.split option.split sum.split)
  show "keeps change_log (handle_mpl_core_account E C nt info r4)"
    unfolding handle_mpl_core_account_def core_burn_v1_asset_def
    by (auto intro!: keeps_rules core_save_keeps simp: change_log_def
        split: MplCoreAccountData.split option.split sum.split)
  show "keeps change_log (handle_token_inscription_program_update E info r5)"
    unfolding handle_token_inscription_program_update_def
    by (auto intro!: keeps_rules simp: change_log_def split: sum.split)
qed

text \<open>
  A stream of account updates; an update that fails or panics is given up with the statements it has executed.
\<close>

fun index_accounts :: "env \<Rightarrow> account_parsers \<Rightarrow> notifier \<Rightarrow> AccountInfo list \<Rightarrow> db \<Rightarrow> db" where
  "index_accounts E A nt [] s = s"
| "index_accounts E A nt (info # infos) s =
     index_accounts E A nt infos
       (case handle_account_update E A nt info of Panic \<Rightarrow> s | Done h \<Rightarrow> snd (h s))"

lemma handle_account_update_keeps:
  "handle_account_update E A nt info = Done h \<Longrightarrow> keeps change_log h"
proof -
  have "keeps change_log (handle_parsed_account E A nt info r)" for r
    by (cases r) (auto intro: handlers_keep)
  then show "handle_account_update E A nt info = Done h \<Longrightarrow> ?thesis"
    by (auto simp: handle_account_update_def out_bind_def split: option.splits outcome.splits sum.splits)
qed

text \<open>
  Account updates never touch the change log.  Whatever accounts of whatever programs arrive, in whatever order,
  and whichever of their statements fail, the nodes of the trees, the audit rows and the backfill queue stay as the
  Bubblegum instructions left them.
\<close>

lemma account_updates_keep_change_log:
  "cl_items (index_accounts E A nt infos s) = cl_items s \<and>
   cl_audits_v2 (index_accounts E A nt infos s) = cl_audits_v2 s \<and>
   backfill_items (index_accounts E A nt infos s) = backfill_items s"
proof -
  have "change_log (index_accounts E A nt infos s) = change_log s"
  proof (induction infos arbitrary: s)
    case (Cons info infos)
    have "change_log (snd (h s)) = change_log s" if "handle_account_update E A nt info = Done h" for h
      using keepsD [OF handle_account_update_keeps [OF that], of s "fst (h s)" "snd (h s)"] by simp
    then show ?case
      using Cons by (auto split: outcome.split)
  qed simp
  then show ?thesis
    by (simp add: change_log_def)
qed

section \<open>Token 2022 mints\<close>

lemma ext_upsert_run:
  assumes "faults s = []"
  shows "\<exists>s'. ext_upsert_asset_data m k slot s = (Inr (if sm_uri m = [] then None
      else Some \<lparr>dmi_asset_data_id = k, dmi_uri = sm_uri m\<rparr>), s') \<and> tokens s' = tokens s \<and> faults s' = [] \<and>
    asset_data s' k = Some (row_upsert (ext_asset_data_row m k slot) ext_data_columns ext_data_where (asset_data s k))"
  using assms
  by (simp add: ext_upsert_asset_data_def upsert_assets_metadata_cols_def with_txn_def map_err_def execute_def
      statement_def db_then_def db_bind_def db_return_def upsert_eq)

lemma mint_extension_run:
  assumes "faults s = []" and "\<forall>i. nt i = Inr ()"
  shows "\<exists>s'. handle_token_extensions_program_account nt info (TEE_MintAccount m ext) s = (Inr (), s') \<and>
    tokens s' (acc_pubkey info) = Some (row_upsert (mint_row info m (mint_extension_json ext)) ext_tokens_columns
      tokens_where (tokens s (acc_pubkey info))) \<and>
    (\<forall>md. mx_metadata ext = Some md \<longrightarrow> asset_data s' (acc_pubkey info) = Some (row_upsert
      (ext_asset_data_row md (acc_pubkey info) (as_i64 (acc_slot info))) ext_data_columns ext_data_where
      (asset_data s (acc_pubkey info))))"
proof -
  let ?k = "acc_pubkey info"
  let ?first = "db_then (save_mint ext_tokens_columns (mint_row info m (mint_extension_json ext)))
    (with_txn (map_err from_DbErr (upsert_assets_mint_account_columns
       (asset_mint_columns info m (mint_extension_json ext)))))"
  have "\<exists>s1. ?first s = (Inr (), s1) \<and> faults s1 = [] \<and> asset_data s1 = asset_data s \<and>
      tokens s1 ?k = Some (row_upsert (mint_row info m (mint_extension_json ext)) ext_tokens_columns tokens_where
        (tokens s ?k))"
    using assms(1)
    by (simp add: save_mint_def upsert_assets_mint_account_columns_def with_txn_def map_err_def execute_def
        statement_def db_then_def db_bind_def upsert_eq mint_row_def)
  then obtain s1 where first: "?first s = (Inr (), s1)" "faults s1 = []" "asset_data s1 = asset_data s"
    "tokens s1 ?k = Some (row_upsert (mint_row info m (mint_extension_json ext)) ext_tokens_columns tokens_where
        (tokens s ?k))"
    by blast
  have "handle_token_extensions_program_account nt info (TEE_MintAccount m ext) s =
      (case mx_metadata ext of
         None \<Rightarrow> db_return ()
       | Some metadata \<Rightarrow>
           db_bind (ext_upsert_asset_data metadata ?k (as_i64 (acc_slot info))) (\<lambda>r.
           case r of
             None \<Rightarrow> db_return ()
           | Some i \<Rightarrow> (case nt i of Inl e \<Rightarrow> db_fail (DownloadMetadataNotify e) | Inr _ \<Rightarrow> db_return ()))) s1"
    using first(1) by (simp add: Let_def db_then_def db_bind_def split: prod.splits sum.splits)
  note run = this
  show ?thesis
  proof (cases "mx_metadata ext")
    case None
    then show ?thesis
      using run first by (simp add: db_return_def)
  next
    case (Some md)
    obtain s' where "ext_upsert_asset_data md ?k (as_i64 (acc_slot info)) s1 = (Inr (if sm_uri md = [] then None
        else Some \<lparr>dmi_asset_data_id = ?k, dmi_uri = sm_uri md\<rparr>), s')" "tokens s' = tokens s1"
      "asset_data s' ?k = Some (row_upsert (ext_asset_data_row md ?k (as_i64 (acc_slot info))) ext_data_columns
        ext_data_where (asset_data s ?k))"
      using ext_upsert_run [OF first(2), of md ?k "as_i64 (acc_slot info)"] first(3) by auto
    then show ?thesis
      using run first(4) Some assms(2) by (simp add: db_bind_def db_return_def)
  qed
qed


text \<open>A mint with a permanent delegate and the metadata extension; the other parsers accept nothing.\<close>

definition demo_mint_state :: mint_state where
  "demo_mint_state = \<lparr>mst_base = \<lparr>mt_mint_authority = Some [4], mt_supply = 7, mt_decimals = 2, mt_freeze_authority = None\<rparr>,
     mst_confidential_transfer_mint = None, mst_confidential_transfer_fee_config = None,
     mst_default_account_state = None, mst_interest_bearing_config = None, mst_transfer_fee_config = None,
     mst_mint_close_authority = None, mst_permanent_delegate = Some \<lparr>pd_delegate = [3]\<rparr>, mst_metadata_pointer = None,
     mst_metadata = Some \<lparr>tmd_update_authority = [4], tmd_mint = [5], tmd_name = ''N'', tmd_symbol = ''S'',
       tmd_uri = ''u'', tmd_additional_metadata = []\<rparr>,
     mst_group_pointer = None, mst_token_group = None, mst_group_member_pointer = None, mst_token_group_member = None,
     mst_transfer_hook = None, mst_non_transferable = None, mst_immutable_owner = None\<rparr>"

definition demo_parsers :: account_parsers where
  "demo_parsers = \<lparr>ap_bubblegum = demo_unpack,
     ap_metadata = \<lparr>unpack_key = (\<lambda>_. Inl ''e''), unpack_edition = (\<lambda>_. Inl ''e''),
       unpack_master_edition_v1 = (\<lambda>_. Inl ''e''), unpack_master_edition = (\<lambda>_. Inl ''e''),
       unpack_use_authority = (\<lambda>_. Inl ''e''), unpack_edition_marker = (\<lambda>_. Inl ''e''),
       unpack_collection_authority = (\<lambda>_. Inl ''e''), unpack_metadata = (\<lambda>_. Inl ''e'')\<rparr>,
     ap_spl = \<lparr>unpack_account = (\<lambda>_. None), unpack_mint = (\<lambda>_. None)\<rparr>, ap_core = demo_core_env,
     ap_state = \<lparr>unpack_account_state = (\<lambda>_. None), unpack_mint_state = (\<lambda>_. Some demo_mint_state)\<rparr>,
     ap_pod = \<lparr>pe_bool = (\<lambda>_. JNull), pe_u16 = (\<lambda>_. JNull), pe_i16 = (\<lambda>_. JNull), pe_u32 = (\<lambda>_. JNull),
       pe_u64 = (\<lambda>_. JNull), pe_i64 = (\<lambda>_. JNull), pe_key = (\<lambda>_. JString ''key''), pe_elgamal = (\<lambda>_. JNull)\<rparr>\<rparr>"

definition demo_mint_account :: AccountInfo where
  "demo_mint_account = \<lparr>acc_slot = 8, acc_pubkey = [5], acc_owner = parser_key demo_unpack P_TokenExtensions, acc_data = []\<rparr>"


end
