(* ===== verification/IngestStream.thy ===== *)
theory IngestStream
  imports AccountUpdate
begin

text \<open>
  The stream side of the ingester (\<open>nft_ingester/src\<close>): \<open>account_updates.rs\<close> and
  \<open>transaction_notifications.rs\<close> receive batches of messages and hand them to the program transformer,
  \<open>metrics.rs\<close> decides which results settle a message, \<open>ack.rs\<close> collects the settled messages and
  acknowledges them, \<open>plerkle.rs\<close> converts the messages, and \<open>main.rs\<close> and \<open>config.rs\<close> say which
  workers run.  The flatbuffer accessors and conversions of \<open>plerkle_serialization\<close> are parameters; log lines and
  metrics are left out.  The tasks of a batch run in any order, each as one unit.
\<close>

section \<open>Messages\<close>

record RecvData =
  rd_id :: string
  rd_tries :: nat
  rd_data :: bytes

text \<open>The objects of the flatbuffers; a table or vector inside them is kept as its bytes.\<close>

record fb_account =
  fba_slot :: u64
  fba_pubkey :: "bytes option"
  fba_owner :: "bytes option"
  fba_data :: "bytes option"

record fb_transaction =
  fbt_slot :: u64
  fbt_signature :: "string option"
  fbt_account_keys :: "bytes option"
  fbt_outer_instructions :: "bytes option"
  fbt_compiled_inner_instructions :: "bytes option"
  fbt_inner_instructions :: "bytes option"

text \<open>A failing conversion gives the message of its \<open>SolanaDeserializerError\<close>.\<close>

record plerkle =
  root_as_account_info :: "bytes \<Rightarrow> fb_account option"
  root_as_transaction_info :: "bytes \<Rightarrow> fb_transaction option"
  pl_pubkey :: "bytes \<Rightarrow> string + pubkey"
  pl_data :: "bytes option \<Rightarrow> string + bytes"
  pl_signature :: "string option \<Rightarrow> string + string"
  pl_account_keys :: "bytes option \<Rightarrow> string + pubkey list"
  pl_instructions :: "bytes \<Rightarrow> string + CompiledInstruction list"
  pl_compiled_inner :: "bytes \<Rightarrow> string + InnerInstructions list"
  pl_inner :: "bytes \<Rightarrow> string + InnerInstructions list"

datatype PlerkleDeserializerError = PD_NotFound | PD_Solana string

fun PlerkleDeserializerError_to_string :: "PlerkleDeserializerError \<Rightarrow> string" where
  "PlerkleDeserializerError_to_string PD_NotFound = ''Not found''"
| "PlerkleDeserializerError_to_string (PD_Solana e) = ''Solana error: '' @ e"

definition into_program_transformer_err :: "PlerkleDeserializerError \<Rightarrow> ProgramTransformerError" where
  "into_program_transformer_err e = DeserializationError (PlerkleDeserializerError_to_string e)"

definition res_bind :: "'e + 'a \<Rightarrow> ('a \<Rightarrow> 'e + 'b) \<Rightarrow> 'e + 'b" where
  "res_bind r f = (case r of Inl e \<Rightarrow> Inl e | Inr x \<Rightarrow> f x)"

definition ok_or_NotFound :: "'a option \<Rightarrow> PlerkleDeserializerError + 'a" where
  "ok_or_NotFound x = (case x of None \<Rightarrow> Inl PD_NotFound | Some y \<Rightarrow> Inr y)"

definition solana :: "string + 'a \<Rightarrow> PlerkleDeserializerError + 'a" where
  "solana = map_sum PD_Solana id"

definition AccountInfo_try_from :: "plerkle \<Rightarrow> fb_account \<Rightarrow> PlerkleDeserializerError + AccountInfo" where
  "AccountInfo_try_from K a =
     res_bind (res_bind (ok_or_NotFound (fba_pubkey a)) (\<lambda>k. solana (pl_pubkey K k))) (\<lambda>pubkey.
     res_bind (res_bind (ok_or_NotFound (fba_owner a)) (\<lambda>k. solana (pl_pubkey K k))) (\<lambda>owner.
     res_bind (solana (pl_data K (fba_data a))) (\<lambda>data.
     Inr \<lparr>acc_slot = fba_slot a, acc_pubkey = pubkey, acc_owner = owner, acc_data = data\<rparr>)))"

definition TransactionInfo_try_from ::
  "plerkle \<Rightarrow> fb_transaction \<Rightarrow> PlerkleDeserializerError + TransactionInfo" where
  "TransactionInfo_try_from K t =
     res_bind (solana (pl_signature K (fbt_signature t))) (\<lambda>sig.
     res_bind (solana (pl_account_keys K (fbt_account_keys t))) (\<lambda>keys.
     res_bind (res_bind (ok_or_NotFound (fbt_outer_instructions t)) (\<lambda>v. solana (pl_instructions K v))) (\<lambda>ixs.
     res_bind (case fbt_compiled_inner_instructions t of
                 Some c \<Rightarrow> solana (pl_compiled_inner K c)
               | None \<Rightarrow> res_bind (ok_or_NotFound (fbt_inner_instructions t)) (\<lambda>v. solana (pl_inner K v))) (\<lambda>inner.
     Inr \<lparr>tx_slot = fbt_slot t, tx_signature = sig, tx_account_keys = keys,
          tx_message_instructions = ixs, tx_meta_inner_instructions = inner\<rparr>))))"

section \<open>Handling a message\<close>

text \<open>Whether a message with this result is acknowledged.\<close>

fun capture_result :: "ProgramTransformerError + unit \<Rightarrow> bool" where
  "capture_result (Inr _) = True"
| "capture_result (Inl NotImplemented) = True"
| "capture_result (Inl (DeserializationError _)) = True"
| "capture_result (Inl (ParsingError _)) = True"
| "capture_result (Inl (DatabaseError _)) = False"
| "capture_result (Inl (AssetIndexError _)) = False"
| "capture_result (Inl _) = False"

record ingest_env =
  ie_env :: env
  ie_parsers :: account_parsers
  ie_notifier :: notifier
  ie_plerkle :: plerkle

definition ack_id :: "RecvData \<Rightarrow> (ProgramTransformerError + unit) \<times> db \<Rightarrow> string option outcome \<times> db" where
  "ack_id item rs = (Done (if capture_result (fst rs) then Some (rd_id item) else None), snd rs)"

text \<open>\<open>handle_account\<close>: a message without an owner panics at \<open>unwrap\<close>.\<close>

definition handle_account_item :: "ingest_env \<Rightarrow> RecvData \<Rightarrow> db \<Rightarrow> string option outcome \<times> db" where
  "handle_account_item X item s =
     (case root_as_account_info (ie_plerkle X) (rd_data item) of
        None \<Rightarrow> (Done None, s)
      | Some account_update \<Rightarrow>
          if fba_owner account_update = None then (Panic, s)
          else case AccountInfo_try_from (ie_plerkle X) account_update of
            Inl _ \<Rightarrow> (Done None, s)
          | Inr account_info \<Rightarrow>
              (case handle_account_update (ie_env X) (ie_parsers X) (ie_notifier X) account_info of
                 Panic \<Rightarrow> (Panic, s)
               | Done h \<Rightarrow> ack_id item (h s)))"

definition handle_transaction_item :: "ingest_env \<Rightarrow> RecvData \<Rightarrow> db \<Rightarrow> string option outcome \<times> db" where
  "handle_transaction_item X item s =
     (case root_as_transaction_info (ie_plerkle X) (rd_data item) of
        None \<Rightarrow> (Done None, s)
      | Some tx \<Rightarrow>
          (case map_sum into_program_transformer_err id (TransactionInfo_try_from (ie_plerkle X) tx) of
             Inl _ \<Rightarrow> (Done None, s)
           | Inr transaction_info \<Rightarrow>
               (case handle_transaction (ie_env X) (ie_notifier X) (ap_bubblegum (ie_parsers X)) transaction_info of
                  None \<Rightarrow> (Panic, s)
                | Some h \<Rightarrow> ack_id item (h s))))"

section \<open>The workers\<close>

datatype IngesterRole = R_All | R_Backfiller | R_BackgroundTaskRunner | R_Ingester

datatype WorkerType = WT_Account | WT_Transaction

datatype ConsumptionType = CT_New | CT_Redeliver

record WorkerConfig =
  stream_name :: string
  worker_type :: WorkerType
  worker_count :: nat

definition get_worker_config :: "WorkerConfig list option \<Rightarrow> WorkerConfig list" where
  "get_worker_config wc =
     (case wc of
        Some ws \<Rightarrow> ws
      | None \<Rightarrow> [\<lparr>stream_name = ''ACC'', worker_type = WT_Account, worker_count = 2\<rparr>,
                 \<lparr>stream_name = ''TXN'', worker_type = WT_Transaction, worker_count = 2\<rparr>])"

definition get_worker_count :: "WorkerConfig list option \<Rightarrow> nat" where
  "get_worker_count wc = fold (\<lambda>w count. count + worker_count w) (get_worker_config wc) 0"

record worker =
  wk_type :: WorkerType
  wk_stream :: string
  wk_consumption :: ConsumptionType
  wk_tasks :: "RecvData list"

definition workers_of :: "WorkerConfig \<Rightarrow> worker list" where
  "workers_of c = map (\<lambda>i. \<lparr>wk_type = worker_type c, wk_stream = stream_name c,
     wk_consumption = (if i = 0 then CT_Redeliver else CT_New), wk_tasks = []\<rparr>) [0..<worker_count c]"

definition start_workers :: "IngesterRole \<Rightarrow> WorkerConfig list option \<Rightarrow> worker list" where
  "start_workers role wc =
     (if role = R_Ingester \<or> role = R_All then concat (map workers_of (get_worker_config wc)) else [])"

fun handle_item :: "ingest_env \<Rightarrow> WorkerType \<Rightarrow> RecvData \<Rightarrow> db \<Rightarrow> string option outcome \<times> db" where
  "handle_item X WT_Account item s = handle_account_item X item s"
| "handle_item X WT_Transaction item s = handle_transaction_item X item s"

section \<open>The ingester\<close>

text \<open>
  \<open>in_channel\<close> is the channel to the acknowledging task, \<open>in_acks\<close> its \<open>HashMap\<close>, and \<open>in_acked\<close>
  the acknowledgements the messenger has accepted.  \<open>in_ack_alive\<close> tells whether the acknowledging task could
  connect; otherwise the receiving end of the channel is gone and every \<open>send\<close> fails.
\<close>

record ingester =
  in_db :: db
  in_workers :: "worker list"
  in_ack_alive :: bool
  in_channel :: "(string \<times> string) list"
  in_acks :: "string \<rightharpoonup> string list"
  in_acked :: "(string \<times> string) set"

definition start_ingester :: "IngesterRole \<Rightarrow> WorkerConfig list option \<Rightarrow> bool \<Rightarrow> db \<Rightarrow> ingester" where
  "start_ingester role wc alive s =
     \<lparr>in_db = s, in_workers = start_workers role wc, in_ack_alive = alive, in_channel = [],
      in_acks = Map.empty, in_acked = {}\<rparr>"

datatype event =
    Received nat "RecvData list"
  | Receive_Error nat
  | Handled string WorkerType RecvData "string option outcome" db db
  | Collected
  | Ticked "string \<Rightarrow> bool"

definition send_ack :: "string \<Rightarrow> string option outcome \<Rightarrow> ingester \<Rightarrow> ingester" where
  "send_ack stream r S =
     (case r of
        Done (Some mid) \<Rightarrow> if in_ack_alive S then S\<lparr>in_channel := in_channel S @ [(stream, mid)]\<rparr> else S
      | _ \<Rightarrow> S)"

definition collect_ack :: "string \<times> string \<Rightarrow> (string \<rightharpoonup> string list) \<Rightarrow> (string \<rightharpoonup> string list)" where
  "collect_ack m acks = (case m of (stream, mid) \<Rightarrow>
     acks(stream \<mapsto> (case acks stream of None \<Rightarrow> [] | Some ids \<Rightarrow> ids) @ [mid]))"

text \<open>A tick: \<open>accepts\<close> tells for which streams \<open>ack_msg\<close> succeeds; the messages are cleared in any case.\<close>

definition tick :: "(string \<Rightarrow> bool) \<Rightarrow> ingester \<Rightarrow> ingester" where
  "tick accepts S = S\<lparr>
     in_acked := in_acked S \<union> {(stream, mid). accepts stream \<and> (\<exists>ids. in_acks S stream = Some ids \<and> mid \<in> set ids)},
     in_acks := map_option (\<lambda>_. []) \<circ> in_acks S\<rparr>"

inductive ingest_step :: "ingest_env \<Rightarrow> ingester \<Rightarrow> event \<Rightarrow> ingester \<Rightarrow> bool" for X where
  receive:
    "i < length (in_workers S) \<Longrightarrow> wk_tasks (in_workers S ! i) = [] \<Longrightarrow>
     ingest_step X S (Received i items)
       (S\<lparr>in_workers := (in_workers S)[i := (in_workers S ! i)\<lparr>wk_tasks := items\<rparr>]\<rparr>)"
| receive_error:
    "i < length (in_workers S) \<Longrightarrow> wk_tasks (in_workers S ! i) = [] \<Longrightarrow> ingest_step X S (Receive_Error i) S"
| handle:
    "i < length (in_workers S) \<Longrightarrow> w = in_workers S ! i \<Longrightarrow> item \<in> set (wk_tasks w) \<Longrightarrow>
     handle_item X (wk_type w) item (in_db S) = (r, s') \<Longrightarrow>
     ingest_step X S (Handled (wk_stream w) (wk_type w) item r (in_db S) s')
       (send_ack (wk_stream w) r (S\<lparr>in_db := s',
          in_workers := (in_workers S)[i := w\<lparr>wk_tasks := remove1 item (wk_tasks w)\<rparr>]\<rparr>))"
| collect:
    "in_ack_alive S \<Longrightarrow> in_channel S = m # ms \<Longrightarrow>
     ingest_step X S Collected (S\<lparr>in_channel := ms, in_acks := collect_ack m (in_acks S)\<rparr>)"
| tick:
    "in_ack_alive S \<Longrightarrow> ingest_step X S (Ticked accepts) (tick accepts S)"

inductive ingest_run :: "ingest_env \<Rightarrow> ingester \<Rightarrow> event list \<Rightarrow> ingester \<Rightarrow> bool" for X where
  run_nil: "ingest_run X S [] S"
| run_snoc: "ingest_run X S tr S' \<Longrightarrow> ingest_step X S' e S'' \<Longrightarrow> ingest_run X S (tr @ [e]) S''"

inductive_cases ingest_stepE: "ingest_step X S e S'"

section \<open>Acknowledgements\<close>

lemma ingest_run_append:
  "ingest_run X S' tr' S'' \<Longrightarrow> ingest_run X S tr S' \<Longrightarrow> ingest_run X S (tr @ tr') S''"
  by (induction rule: ingest_run.induct) (auto simp flip: append_assoc intro: ingest_run.intros)

lemma ingest_run_single: "ingest_step X S e S' \<Longrightarrow> ingest_run X S [e] S'"
  using run_snoc [OF run_nil] by simp

text \<open>
  The results that end the processing of a message, and what it takes to get there: the message was decoded and its
  handler has run to such a result.
\<close>

definition final_result :: "ProgramTransformerError + unit \<Rightarrow> bool" where
  "final_result res \<longleftrightarrow> res = Inr () \<or> res = Inl NotImplemented \<or>
     (\<exists>m. res = Inl (DeserializationError m) \<or> res = Inl (ParsingError m))"

fun settled :: "ingest_env \<Rightarrow> WorkerType \<Rightarrow> RecvData \<Rightarrow> db \<Rightarrow> db \<Rightarrow> bool" where
  "settled X WT_Account item s s' \<longleftrightarrow>
     (\<exists>a info h res. root_as_account_info (ie_plerkle X) (rd_data item) = Some a \<and>
        AccountInfo_try_from (ie_plerkle X) a = Inr info \<and>
        handle_account_update (ie_env X) (ie_parsers X) (ie_notifier X) info = Done h \<and>
        h s = (res, s') \<and> final_result res)"
| "settled X WT_Transaction item s s' \<longleftrightarrow>
     (\<exists>t info h res. root_as_transaction_info (ie_plerkle X) (rd_data item) = Some t \<and>
        TransactionInfo_try_from (ie_plerkle X) t = Inr info \<and>
        handle_transaction (ie_env X) (ie_notifier X) (ap_bubblegum (ie_parsers X)) info = Some h \<and>
        h s = (res, s') \<and> final_result res)"

lemma capture_result_final: "capture_result res \<longleftrightarrow> final_result res"
  by (cases res rule: capture_result.cases) (simp_all add: final_result_def)

lemma ack_id_Some:
  "ack_id item rs = (Done (Some mid), s') \<longleftrightarrow> final_result (fst rs) \<and> mid = rd_id item \<and> s' = snd rs"
  by (auto simp: ack_id_def capture_result_final)

lemma handled_settled:
  assumes "handle_item X wt item s = (Done (Some mid), s')"
  shows "mid = rd_id item \<and> settled X wt item s s'"
proof (cases wt)
  case WT_Account
  with assms show ?thesis
    by (auto simp: handle_account_item_def ack_id_Some split: option.splits if_splits sum.splits outcome.splits)
      (metis prod.collapse)+
next
  case WT_Transaction
  with assms show ?thesis
    by (auto simp: handle_transaction_item_def ack_id_Some map_sum_def split: option.splits sum.splits)
      (metis prod.collapse)+
qed

text \<open>The places an acknowledgement passes on its way to the messenger.\<close>

definition waiting_acks :: "ingester \<Rightarrow> (string \<times> string) set" where
  "waiting_acks S = set (in_channel S) \<union> {(stream, mid). \<exists>ids. in_acks S stream = Some ids \<and> mid \<in> set ids}"

definition handled_ids :: "event list \<Rightarrow> (string \<times> string) set" where
  "handled_ids tr = {(stream, mid). \<exists>wt item s s'. Handled stream wt item (Done (Some mid)) s s' \<in> set tr}"

lemma waiting_collect:
  assumes "in_channel S = m # ms"
  shows "waiting_acks (S\<lparr>in_channel := ms, in_acks := collect_ack m (in_acks S)\<rparr>) = waiting_acks S"
  using assms by (cases m) (auto simp: waiting_acks_def collect_ack_def split: option.splits if_splits)

lemma waiting_tick: "waiting_acks (tick accepts S) = set (in_channel S)"
  by (auto simp: waiting_acks_def tick_def)

lemma waiting_send:
  "waiting_acks (send_ack stream r S) =
     waiting_acks S \<union> (case r of Done (Some mid) \<Rightarrow> if in_ack_alive S then {(stream, mid)} else {} | _ \<Rightarrow> {})"
  by (auto simp: waiting_acks_def send_ack_def split: outcome.split option.split)

lemma send_ack_simps [simp]:
  "in_acked (send_ack stream r S) = in_acked S" "in_ack_alive (send_ack stream r S) = in_ack_alive S"
  by (auto simp: send_ack_def split: outcome.split option.split)

lemma waiting_frame [simp]:
  "waiting_acks (S\<lparr>in_db := s\<rparr>) = waiting_acks S"
  "waiting_acks (S\<lparr>in_workers := ws\<rparr>) = waiting_acks S"
  by (simp_all add: waiting_acks_def)

lemma handled_ids_snoc:
  "handled_ids (tr @ [e]) = handled_ids tr \<union>
     (case e of Handled stream _ _ (Done (Some mid)) _ _ \<Rightarrow> {(stream, mid)} | _ \<Rightarrow> {})"
  by (auto simp: handled_ids_def split: event.split outcome.split option.split)

lemma run_acks:
  assumes "ingest_run X S0 tr S" and "waiting_acks S0 = {}" "in_acked S0 = {}"
  shows "waiting_acks S \<union> in_acked S \<subseteq> handled_ids tr"
  using assms
proof (induction rule: ingest_run.induct)
  case (run_nil S)
  then show ?case by simp
next
  case (run_snoc S tr S' e S'')
  note ih = run_snoc.IH [OF run_snoc.prems]
  from run_snoc.hyps(2) show ?case
  proof (cases rule: ingest_step.cases)
    case (handle i w item r s')
    with ih show ?thesis
      by (auto simp: waiting_send handled_ids_snoc split: outcome.splits option.splits if_splits)
  next
    case (collect m ms)
    with ih show ?thesis by (simp add: waiting_collect handled_ids_snoc)
  next
    case (tick accepts)
    with ih show ?thesis
      by (auto simp: waiting_tick handled_ids_snoc) (auto simp: waiting_acks_def tick_def)
  qed (use ih in \<open>simp_all add: handled_ids_snoc\<close>)
qed

lemma run_handled:
  assumes "ingest_run X S0 tr S" and "Handled stream wt item r s s' \<in> set tr"
  shows "handle_item X wt item s = (r, s')"
  using assms by (induction rule: ingest_run.induct) (auto elim!: ingest_stepE)

text \<open>
  C11: nothing is acknowledged unless it is settled.  In every run of the ingester, whatever the order of the tasks
  and whatever fails, an acknowledged identifier belongs to a message that was decoded and whose handler has run to the
  end or to an error that counts as final.  A message with a database error stays with the messenger.
\<close>

theorem acknowledged_is_settled:
  assumes "ingest_run X (start_ingester role wc alive s0) tr S" and "(stream, mid) \<in> in_acked S"
  shows "\<exists>wt item s s'. Handled stream wt item (Done (Some mid)) s s' \<in> set tr \<and> rd_id item = mid \<and>
    settled X wt item s s'"
proof -
  have "waiting_acks (start_ingester role wc alive s0) = {}" "in_acked (start_ingester role wc alive s0) = {}"
    by (simp_all add: start_ingester_def waiting_acks_def)
  from run_acks [OF assms(1) this] assms(2) have "(stream, mid) \<in> handled_ids tr"
    by blast
  then obtain wt item s s' where h: "Handled stream wt item (Done (Some mid)) s s' \<in> set tr"
    by (auto simp: handled_ids_def)
  from handled_settled [OF run_handled [OF assms(1) h]] h show ?thesis
    by blast
qed

lemma run_keeps_acks:
  assumes "ingest_run X S0 tr S" and "in_ack_alive S0"
    and "\<forall>accepts. Ticked accepts \<in> set tr \<longrightarrow> accepts stream"
  shows "in_ack_alive S \<and> ((stream, mid) \<in> handled_ids tr \<longrightarrow> (stream, mid) \<in> waiting_acks S \<union> in_acked S)"
  using assms
proof (induction rule: ingest_run.induct)
  case (run_nil S)
  then show ?case by (simp add: handled_ids_def)
next
  case (run_snoc S tr S' e S'')
  then have ih: "in_ack_alive S'" "(stream, mid) \<in> handled_ids tr \<longrightarrow> (stream, mid) \<in> waiting_acks S' \<union> in_acked S'"
    by auto
  from run_snoc.hyps(2) show ?case
  proof (cases rule: ingest_step.cases)
    case (handle i w item r s')
    with ih show ?thesis
      by (auto simp: waiting_send handled_ids_snoc split: outcome.splits option.splits if_splits)
  next
    case (collect m ms)
    with ih show ?thesis by (simp add: waiting_collect handled_ids_snoc)
  next
    case (tick accepts)
    with run_snoc.prems(2) have "accepts stream" by simp
    with tick ih show ?thesis
      by (auto simp: waiting_tick handled_ids_snoc) (auto simp: waiting_acks_def tick_def)
  qed (use ih in \<open>simp_all add: handled_ids_snoc\<close>)
qed

lemma collect_all:
  "in_ack_alive S \<Longrightarrow> \<exists>tr S'. ingest_run X S tr S' \<and> in_ack_alive S' \<and> in_channel S' = [] \<and>
     waiting_acks S' = waiting_acks S \<and> in_acked S' = in_acked S"
proof (induction "in_channel S" arbitrary: S)
  case Nil
  then show ?case by (metis run_nil)
next
  case (Cons m ms)
  let ?S = "S\<lparr>in_channel := ms, in_acks := collect_ack m (in_acks S)\<rparr>"
  have step: "ingest_step X S Collected ?S"
    using Cons by (intro collect) simp_all
  have "waiting_acks ?S = waiting_acks S"
    by (rule waiting_collect) (simp add: Cons.hyps(2) [symmetric])
  with Cons.hyps(1) [of ?S] Cons.prems obtain tr S' where S': "ingest_run X ?S tr S'" "in_ack_alive S'"
    "in_channel S' = []" "waiting_acks S' = waiting_acks S" "in_acked S' = in_acked S"
    by auto
  from ingest_run_append [OF S'(1) ingest_run_single [OF step]] S'(2-) show ?case
    by blast
qed


section \<open>Errors\<close>

text \<open>
  C13: the first error of a transaction decides about its message.  The effects of the instructions before it stay,
  those after it are not handled, and the message is acknowledged exactly when the error is one of
  \<open>NotImplemented\<close>, \<open>DeserializationError\<close> and \<open>ParsingError\<close>; then the rest of the transaction is never indexed.
\<close>

theorem first_error_settles_transaction:
  assumes "root_as_transaction_info (ie_plerkle X) (rd_data item) = Some t"
    and "TransactionInfo_try_from (ie_plerkle X) t = Inr tx"
    and "break_transaction (ap_bubblegum (ie_parsers X)) tx = Some (xs @ ix # ys)"
    and "handle_all (ie_env X) (ie_notifier X) (ap_bubblegum (ie_parsers X)) tx xs 0 s = (Inr n, s1)"
    and "handle_one (ie_env X) (ie_notifier X) (ap_bubblegum (ie_parsers X)) tx ix s1 = (Inl e, s2)"
  shows "handle_transaction_item X item s =
    (Done (if e = NotImplemented \<or> (\<exists>m. e = DeserializationError m \<or> e = ParsingError m) then Some (rd_id item) else None), s2)"
proof -
  obtain h where "handle_transaction (ie_env X) (ie_notifier X) (ap_bubblegum (ie_parsers X)) tx = Some h"
    "h s = (Inl e, s2)"
    using transaction_stops_at_error [OF assms(3-5)] by blast
  then show ?thesis
    using assms(1,2) by (simp add: handle_transaction_item_def ack_id_def capture_result_final final_result_def)
qed

text \<open>
  A transaction or account that cannot be converted is never acknowledged, although the error it is mapped to
  counts as final in \<open>capture_result\<close>.
\<close>

lemma conversion_failure_not_acknowledged:
  assumes "root_as_transaction_info (ie_plerkle X) (rd_data item) = Some t"
    and "TransactionInfo_try_from (ie_plerkle X) t = Inl e"
  shows "handle_transaction_item X item s = (Done None, s) \<and> capture_result (Inl (into_program_transformer_err e))"
  using assms by (simp add: handle_transaction_item_def into_program_transformer_err_def)

text \<open>The first worker of a stream takes redelivered messages only: a stream with one worker has no other.\<close>

lemma single_worker_only_redelivers:
  "worker_count c = 1 \<Longrightarrow> w \<in> set (workers_of c) \<Longrightarrow> wk_consumption w = CT_Redeliver"
  by (auto simp: workers_of_def)

section \<open>Samples\<close>

definition demo_plerkle :: plerkle where
  "demo_plerkle = \<lparr>root_as_account_info = (\<lambda>d. Some \<lparr>fba_slot = 5, fba_pubkey = Some [1], fba_owner = Some [9], fba_data = Some d\<rparr>),
     root_as_transaction_info = (\<lambda>d. Some \<lparr>fbt_slot = 5, fbt_signature = Some ''tx'', fbt_account_keys = None,
       fbt_outer_instructions = Some d, fbt_compiled_inner_instructions = Some [], fbt_inner_instructions = None\<rparr>),
     pl_pubkey = Inr, pl_data = (\<lambda>d. Inr (case d of None \<Rightarrow> [] | Some x \<Rightarrow> x)),
     pl_signature = (\<lambda>x. case x of None \<Rightarrow> Inl ''e'' | Some y \<Rightarrow> Inr y),
     pl_account_keys = (\<lambda>_. Inr (tx_account_keys (demo_tx []))),
     pl_instructions = (\<lambda>d. Inr (replicate 2 \<lparr>ci_program_id_index = 1, ci_accounts = [], ci_data = []\<rparr>)),
     pl_compiled_inner = (\<lambda>_. Inr []), pl_inner = (\<lambda>_. Inr [])\<rparr>"

definition demo_ingest_env :: ingest_env where
  "demo_ingest_env = \<lparr>ie_env = demo_env, ie_parsers = demo_parsers, ie_notifier = (\<lambda>_. Inr ()), ie_plerkle = demo_plerkle\<rparr>"

definition demo_message :: RecvData where
  "demo_message = \<lparr>rd_id = ''m'', rd_tries = 0, rd_data = [1]\<rparr>"

definition demo_events :: "event list" where
  "demo_events = [Received 0 [demo_message],
     Handled ''ACC'' WT_Account demo_message (Done (Some ''m'')) empty_db empty_db, Collected, Ticked (\<lambda>_. True)]"


lemma demo_handled: "handle_account_item demo_ingest_env demo_message empty_db = (Done (Some ''m''), empty_db)"
  by (simp add: handle_account_item_def demo_ingest_env_def demo_plerkle_def demo_message_def AccountInfo_try_from_def
      res_bind_def ok_or_NotFound_def solana_def handle_account_update_def match_program_def parsers_def
      demo_parsers_def demo_unpack_def ack_id_def db_return_def)

lemma demo_run:
  "\<exists>S. ingest_run demo_ingest_env (start_ingester R_Ingester None True empty_db) demo_events S \<and> (''ACC'', ''m'') \<in> in_acked S"
proof -
  let ?X = demo_ingest_env and ?S0 = "start_ingester R_Ingester None True empty_db"
  let ?w = "in_workers ?S0 ! 0"
  let ?S1 = "?S0\<lparr>in_workers := (in_workers ?S0)[0 := ?w\<lparr>wk_tasks := [demo_message]\<rparr>]\<rparr>"
  let ?w1 = "in_workers ?S1 ! 0"
  let ?S2 = "send_ack (wk_stream ?w1) (Done (Some ''m'')) (?S1\<lparr>in_db := empty_db,
    in_workers := (in_workers ?S1)[0 := ?w1\<lparr>wk_tasks := remove1 demo_message (wk_tasks ?w1)\<rparr>]\<rparr>)"
  let ?S3 = "?S2\<lparr>in_channel := [], in_acks := collect_ack (''ACC'', ''m'') (in_acks ?S2)\<rparr>"
  have w: "0 < length (in_workers ?S0)" "?w = \<lparr>wk_type = WT_Account, wk_stream = ''ACC'', wk_consumption = CT_Redeliver, wk_tasks = []\<rparr>"
    by (simp_all add: start_ingester_def start_workers_def get_worker_config_def workers_of_def upt_rec)
  then have w1: "0 < length (in_workers ?S1)" "?w1 = ?w\<lparr>wk_tasks := [demo_message]\<rparr>"
    by simp_all
  have alive: "in_ack_alive ?S2" "in_channel ?S2 = [(''ACC'', ''m'')]"
    using w by (simp_all add: send_ack_def start_ingester_def)
  have r1: "ingest_run ?X ?S0 [Received 0 [demo_message]] ?S1"
    using w by (intro ingest_run_single receive) simp_all
  have s2: "ingest_step ?X ?S1 (Handled (wk_stream ?w1) (wk_type ?w1) demo_message (Done (Some ''m'')) (in_db ?S1) empty_db) ?S2"
    using w w1 demo_handled by (intro handle) (simp_all add: start_ingester_def)
  have s3: "ingest_step ?X ?S2 Collected ?S3"
    using alive by (intro collect) simp_all
  have s4: "ingest_step ?X ?S3 (Ticked (\<lambda>_. True)) (IngestStream.tick (\<lambda>_. True) ?S3)"
    using alive by (intro ingest_step.tick) simp_all
  have ev: "demo_events = ((([Received 0 [demo_message]] @
      [Handled (wk_stream ?w1) (wk_type ?w1) demo_message (Done (Some ''m'')) (in_db ?S1) empty_db]) @ [Collected]) @ [Ticked (\<lambda>_. True)])"
    using w w1 by (simp add: demo_events_def start_ingester_def)
  have "(''ACC'', ''m'') \<in> in_acked (IngestStream.tick (\<lambda>_. True) ?S3)"
    by (simp add: tick_def collect_ack_def)
  with run_snoc [OF run_snoc [OF run_snoc [OF r1 s2] s3] s4] ev show ?thesis
    by (intro exI conjI) (simp_all only:)
qed

theorem acknowledged_is_settled_witness:
  "settled demo_ingest_env WT_Account demo_message empty_db empty_db"
proof -
  obtain S where S: "ingest_run demo_ingest_env (start_ingester R_Ingester None True empty_db) demo_events S"
    "(''ACC'', ''m'') \<in> in_acked S"
    using demo_run by blast
  obtain wt item s s' where "Handled ''ACC'' wt item (Done (Some ''m'')) s s' \<in> set demo_events" "rd_id item = ''m''"
    "settled demo_ingest_env wt item s s'"
    using acknowledged_is_settled [OF S] by blast
  then show ?thesis
    by (auto simp: demo_events_def simp del: settled.simps)
qed


definition demo_transfer_ix :: CompiledInstruction where
  "demo_transfer_ix = \<lparr>ci_program_id_index = 1, ci_accounts = [], ci_data = []\<rparr>"

lemma demo_break: "break_transaction demo_unpack (demo_tx [demo_transfer_ix, demo_transfer_ix]) =
    Some ([] @ (([22], demo_transfer_ix), Some []) # [(([22], demo_transfer_ix), Some [])])"
  by (simp add: break_transaction_def order_instructions_def order_one_def inner_of_def demo_tx_def
    program_of_def hoist_known_programs_def match_program_known demo_match Let_def demo_transfer_ix_def)

lemma demo_fails: "handle_one demo_env (\<lambda>_. Inr ()) demo_unpack (demo_tx [demo_transfer_ix, demo_transfer_ix]) (([22], demo_transfer_ix), Some []) s =
    (Inl (ParsingError ''Ix not parsed correctly''), s)"
proof -
  let ?b = "instruction_bundle (demo_tx [demo_transfer_ix, demo_transfer_ix]) (([22], demo_transfer_ix), Some [])"
  have "bubblegum_handle_instruction demo_unpack ?b = Inr (BubblegumInstruction_new IN_Transfer)"
    by (simp add: bubblegum_handle_instruction_def instruction_bundle_def Let_def parse_bind_def
      with_payload_def demo_unpack_def demo_transfer_ix_def)
  moreover have "ib_program ?b = [22]" by (simp add: instruction_bundle_def)
  ultimately show ?thesis
    by (simp add: handle_one_def max_account_def demo_match Let_def parse_bind_def db_then_def db_bind_def
      handle_bubblegum_instruction_def transfer_def db_fail_def parsing_error_def BubblegumInstruction_new_def demo_transfer_ix_def)
qed

theorem first_error_settles_transaction_witness:
  "handle_transaction_item demo_ingest_env demo_message empty_db = (Done (Some ''m''), empty_db)"
proof -
  have X: "ie_parsers demo_ingest_env = demo_parsers" "ap_bubblegum demo_parsers = demo_unpack"
    "ie_env demo_ingest_env = demo_env" "ie_notifier demo_ingest_env = (\<lambda>_. Inr ())" "ie_plerkle demo_ingest_env = demo_plerkle"
    by (simp_all add: demo_ingest_env_def demo_parsers_def)
  obtain t where t: "root_as_transaction_info demo_plerkle (rd_data demo_message) = Some t"
    "TransactionInfo_try_from demo_plerkle t = Inr (demo_tx [demo_transfer_ix, demo_transfer_ix])"
    by (simp add: demo_plerkle_def TransactionInfo_try_from_def res_bind_def ok_or_NotFound_def solana_def demo_tx_def
        demo_transfer_ix_def numeral_2_eq_2)
  show ?thesis
    using first_error_settles_transaction [of demo_ingest_env demo_message t "demo_tx [demo_transfer_ix, demo_transfer_ix]" "[]" _ _ empty_db
        0 empty_db, unfolded X, OF t demo_break _ demo_fails]
    by (simp add: db_return_def demo_message_def)
qed

end
