(* ===== verification/Backfiller.thy ===== *)
theory Backfiller
  imports DownloadTask BubblegumDb
begin

text \<open>
  The backfiller (\<open>nft_ingester/src/backfiller.rs\<close>): the finder queues the trees that exist on chain and not in the
  index, the filler takes the queued trees, finds the gaps in their sequence numbers in \<open>backfill_items\<close>, and sends
  the transactions of the blocks of each gap to the ingester again.  The RPC node, the block cache, the messenger and
  the decoders of transactions and tree headers are the fields of \<open>backfill_env\<close>; every attempt has an environment
  of its own.  Slots and sequence numbers are unbounded where the source computes with \<open>i64\<close>.  Delays, metrics and
  log lines are left out.
\<close>

section \<open>Data\<close>

definition NUM_TRIES :: nat where "NUM_TRIES = 5"
definition INITIAL_FAILURE_DELAY :: nat where "INITIAL_FAILURE_DELAY = 100"
definition MAX_FAILURE_DELAY_MS :: nat where "MAX_FAILURE_DELAY_MS = 10000"

record BackfillTree =
  bt_tree :: bytes
  bt_backfill_from_seq_1 :: bool
  bt_slot :: u64

record SimpleBackfillItem =
  sb_seq :: int
  sb_slot :: int

record GapInfo =
  gi_prev :: SimpleBackfillItem
  gi_curr :: SimpleBackfillItem

record MissingTree =
  ms_tree :: pubkey
  ms_slot :: u64

text \<open>A panic ends the task that the operation runs in.\<close>

datatype bf_fault = BF_Panic | BF_Error IngesterError

text \<open>What the source reads of a block and its transactions.\<close>

record TxMeta =
  txm_err :: bool
  txm_loaded_addresses :: "(string list \<times> string list) option"

record DecodedTx =
  dtx_signatures :: "string list"
  dtx_has_lookups :: bool
  dtx_static_keys :: "pubkey list"

record BlockTx =
  btx_meta :: "TxMeta option"
  btx_decoded :: "DecodedTx option"
  btx_raw :: bytes

record Block =
  blk_transactions :: "BlockTx list"
  blk_block_time :: "int option"

record tree_header =
  th_creation_slot :: u64
  th_tree_size :: "string + nat"
  th_valid_authority :: "pubkey \<Rightarrow> bool"

record backfill_env =
  be_program_accounts :: "string + (pubkey \<times> bytes) list"
  be_header_size :: nat
  be_header :: "bytes \<Rightarrow> string + tree_header"
  be_authority :: "pubkey \<Rightarrow> pubkey"
  be_signatures :: "pubkey \<Rightarrow> string option \<Rightarrow> string + (string \<times> u64) list"
  be_parse_signature :: "string \<Rightarrow> string + string"
  be_slot_order :: "u64 list \<Rightarrow> u64 list"
  be_blocks :: "u64 \<Rightarrow> u64 \<Rightarrow> string + u64 list"
  be_completion :: "(string + u64 list) list \<Rightarrow> (string + u64 list) list"
  be_block :: "u64 \<Rightarrow> string + Block"
  be_cache_get :: "u64 \<Rightarrow> Block option"
  be_cache_insert :: "u64 \<Rightarrow> Block \<Rightarrow> string + bool"
  be_cache_wait :: "string + unit"
  be_cache_after :: "u64 \<Rightarrow> Block \<Rightarrow> Block option"
  be_pubkey_error :: string
  be_decode_key :: "string \<Rightarrow> string + pubkey"
  be_bubblegum :: pubkey
  be_serialize :: "bytes \<Rightarrow> u64 \<Rightarrow> int option \<Rightarrow> string + bytes"
  be_send :: "bytes \<Rightarrow> string + unit"

function show_nat :: "nat \<Rightarrow> string" where
  "show_nat n = (if n < 10 then [char_of (48 + n)] else show_nat (n div 10) @ [char_of (48 + n mod 10)])"
  by pat_completeness auto
termination
  by (relation "measure id") auto

declare show_nat.simps [simp del]

definition show_int :: "int \<Rightarrow> string" where
  "show_int n = (if n < 0 then CHR ''-'' # show_nat (nat (- n)) else show_nat (nat n))"

section \<open>The queue\<close>

definition of_tree :: "bytes \<Rightarrow> db \<Rightarrow> backfill_items_row list" where
  "of_tree tree s = filter (\<lambda>r. bf_tree r = tree) (backfill_items s)"

definition update_tree :: "bytes \<Rightarrow> (backfill_items_row \<Rightarrow> backfill_items_row) \<Rightarrow> (DbErr, unit) dbm" where
  "update_tree tree f = execute (\<lambda>s.
     s\<lparr>backfill_items := map (\<lambda>r. if bf_tree r = tree then f r else r) (backfill_items s)\<rparr>)"

definition lock_tree :: "bytes \<Rightarrow> (DbErr, unit) dbm" where
  "lock_tree tree = update_tree tree (\<lambda>r. r\<lparr>bf_locked := True\<rparr>)"

definition unlock_tree :: "bytes \<Rightarrow> (DbErr, unit) dbm" where
  "unlock_tree tree = update_tree tree (\<lambda>r. r\<lparr>bf_locked := False\<rparr>)"

definition mark_tree_as_failed :: "bytes \<Rightarrow> (DbErr, unit) dbm" where
  "mark_tree_as_failed tree = update_tree tree (\<lambda>r. r\<lparr>bf_failed := True\<rparr>)"

definition mark_tree_as_backfilled :: "bytes \<Rightarrow> (DbErr, unit) dbm" where
  "mark_tree_as_backfilled tree = update_tree tree (\<lambda>r. r\<lparr>bf_backfilled := True\<rparr>)"

definition clear_force_chk_flag :: "bytes \<Rightarrow> (DbErr, unit) dbm" where
  "clear_force_chk_flag tree = update_tree tree (\<lambda>r. r\<lparr>bf_force_chk := False\<rparr>)"

text \<open>\<open>DbErr\<close> transactions: begin, body, commit, and the rollback of a failed body or commit.\<close>

definition db_txn :: "(DbErr, 'a) dbm \<Rightarrow> (DbErr, 'a) dbm" where
  "db_txn m s =
     (case execute (\<lambda>s. s) s of
        (Inl e, s1) \<Rightarrow> (Inl e, s1)
      | (Inr _, s1) \<Rightarrow>
          (case m s1 of
             (Inl e, s2) \<Rightarrow> (Inl e, s1\<lparr>faults := faults s2\<rparr>)
           | (Inr x, s2) \<Rightarrow>
               (case execute (\<lambda>s. s) s2 of
                  (Inl e, s3) \<Rightarrow> (Inl e, s1\<lparr>faults := faults s3\<rparr>)
                | (Inr _, s3) \<Rightarrow> (Inr x, s3))))"

definition free_row :: "backfill_items_row \<Rightarrow> bool" where
  "free_row r \<longleftrightarrow> \<not> bf_failed r \<and> \<not> bf_locked r"

definition force_chk_trees :: "db \<Rightarrow> (bytes \<times> int) list" where
  "force_chk_trees s = remdups (map (\<lambda>r. (bf_tree r, bf_slot r))
     (filter (\<lambda>r. bf_force_chk r \<and> free_row r) (backfill_items s)))"

definition multi_row_trees :: "db \<Rightarrow> (bytes \<times> int) list" where
  "multi_row_trees s =
     (let rows = filter free_row (backfill_items s);
          slots = (\<lambda>t. map bf_slot (filter (\<lambda>r. bf_tree r = t) rows))
      in map (\<lambda>t. (t, fold max (tl (slots t)) (hd (slots t))))
           (filter (\<lambda>t. 1 < length (slots t)) (remdups (map bf_tree rows))))"

definition get_trees_to_backfill :: "(DbErr, BackfillTree list) dbm" where
  "get_trees_to_backfill = db_txn
     (db_bind (query force_chk_trees) (\<lambda>forced.
      db_then (db_seq (map (lock_tree \<circ> fst) forced))
      (db_bind (query multi_row_trees) (\<lambda>multi.
       db_then (db_seq (map (lock_tree \<circ> fst) multi))
       (db_return
         (map (\<lambda>(t, slot). \<lparr>bt_tree = t, bt_backfill_from_seq_1 = True, bt_slot = word_of_int slot\<rparr>) forced @
          map (\<lambda>(t, slot). \<lparr>bt_tree = t, bt_backfill_from_seq_1 = False, bt_slot = word_of_int slot\<rparr>) multi))))))"

section \<open>Gaps\<close>

text \<open>The greatest sequence number of the backfilled rows, the default value of \<open>i64\<close> without one.\<close>

definition start_seq :: "bytes \<Rightarrow> db \<Rightarrow> int" where
  "start_seq tree s =
     (case map bf_seq (filter bf_backfilled (of_tree tree s)) of [] \<Rightarrow> 0 | q # qs \<Rightarrow> fold max qs q)"

definition get_max_seq :: "bytes \<Rightarrow> (DbErr, int option) dbm" where
  "get_max_seq tree = query (\<lambda>s.
     case map bf_seq (of_tree tree s) of [] \<Rightarrow> None | q # qs \<Rightarrow> Some (fold max qs q))"

definition missing_rows :: "bytes \<Rightarrow> int \<Rightarrow> db \<Rightarrow> SimpleBackfillItem list" where
  "missing_rows tree start s = sort_key sb_seq (remdups
     (map (\<lambda>r. \<lparr>sb_seq = bf_seq r, sb_slot = bf_slot r\<rparr>) (filter (\<lambda>r. start \<le> bf_seq r) (of_tree tree s))))"

fun find_gaps :: "SimpleBackfillItem list \<Rightarrow> DbErr + GapInfo list" where
  "find_gaps (p # c # rows) =
     (if sb_seq c = sb_seq p then
        Inl (''Custom Error: Error in DB, identical sequence numbers with different slots: '' @ show_int (sb_slot p) @
             '', '' @ show_int (sb_slot c))
      else case find_gaps (c # rows) of
        Inl e \<Rightarrow> Inl e
      | Inr gaps \<Rightarrow>
          Inr (if 1 < sb_seq c - sb_seq p then \<lparr>gi_prev = p, gi_curr = c\<rparr> # gaps else gaps))"
| "find_gaps _ = Inr []"

definition get_missing_data :: "bytes \<Rightarrow> (DbErr, int option \<times> GapInfo list) dbm" where
  "get_missing_data tree =
     db_bind (query (start_seq tree)) (\<lambda>start.
     db_bind (query (missing_rows tree start)) (\<lambda>rows.
     case find_gaps rows of
       Inl e \<Rightarrow> db_fail e
     | Inr gaps \<Rightarrow> db_return (if rows = [] then None else Some (sb_seq (last rows)), gaps)))"

section \<open>Blocks of a gap\<close>

text \<open>Division of \<open>i64\<close> by a positive constant truncates.\<close>

definition tdiv :: "int \<Rightarrow> int \<Rightarrow> int" where
  "tdiv a b = (if a < 0 then - ((- a) div b) else a div b)"

definition num_iter :: "int \<Rightarrow> int" where
  "num_iter diff = (let n = tdiv (diff + 250000) 500000 in if n = 0 then 1 else n)"

fun range_loop :: "nat \<Rightarrow> int \<Rightarrow> int \<Rightarrow> int \<Rightarrow> (int \<times> int) list" where
  "range_loop 0 start_slot end_slot last_slot = []"
| "range_loop (Suc n) start_slot end_slot last_slot =
     (start_slot, end_slot) # range_loop n end_slot (min (end_slot + 500000) last_slot) last_slot"

definition slot_ranges :: "GapInfo \<Rightarrow> (int \<times> int) list" where
  "slot_ranges gap =
     (let p = sb_slot (gi_prev gap); c = sb_slot (gi_curr gap); diff = c - p
      in range_loop (nat (num_iter diff)) p (p + min 500000 diff) c)"

definition oks :: "('e + 'a) list \<Rightarrow> 'a list" where
  "oks rs = List.map_filter (\<lambda>r. case r of Inl _ \<Rightarrow> None | Inr x \<Rightarrow> Some x) rs"

definition result_slots :: "backfill_env \<Rightarrow> GapInfo \<Rightarrow> u64 list" where
  "result_slots E gap = concat (oks (be_completion E
     (map (\<lambda>(a, b). be_blocks E (word_of_int a) (word_of_int b)) (slot_ranges gap))))"

definition block_key :: "u64 \<Rightarrow> string" where
  "block_key slot = ''block'' @ show_nat (unat slot)"

definition cached_block :: "backfill_env \<Rightarrow> u64 \<Rightarrow> IngesterError + Block" where
  "cached_block E slot =
     (case be_cache_get E slot of
        Some b \<Rightarrow> Inr b
      | None \<Rightarrow>
     (case be_block E slot of
        Inl e \<Rightarrow> Inl (IE_RpcGetDataError e)
      | Inr b \<Rightarrow>
     (case be_cache_insert E slot b of
        Inl e \<Rightarrow> Inl (IE_CacheStorageWriteError e)
      | Inr write \<Rightarrow>
          if \<not> write then
            Inl (IE_CacheStorageWriteError (''Cache Write Failed on '' @ block_key slot @ '' is missing.''))
          else
     (case be_cache_wait E of
        Inl e \<Rightarrow> Inl (IE_CacheStorageWriteError e)
      | Inr _ \<Rightarrow>
     (case be_cache_after E slot b of
        None \<Rightarrow> Inl (IE_CacheStorageWriteError (''Cache Procedure Failed '' @ block_key slot @ '' is missing.''))
      | Some b' \<Rightarrow> Inr b')))))"

fun decode_keys :: "backfill_env \<Rightarrow> string list \<Rightarrow> IngesterError + pubkey list" where
  "decode_keys E [] = Inr []"
| "decode_keys E (i # is) =
     (case be_decode_key E i of
        Inl e \<Rightarrow> Inl (IE_DeserializationError e)
      | Inr k \<Rightarrow> map_sum id ((#) k) (decode_keys E is))"

definition account_keys :: "backfill_env \<Rightarrow> TxMeta \<Rightarrow> DecodedTx \<Rightarrow> IngesterError + pubkey list" where
  "account_keys E meta tx =
     (if dtx_has_lookups tx then
        (case txm_loaded_addresses meta of
           None \<Rightarrow> Inr (dtx_static_keys tx)
         | Some (writable, readonly) \<Rightarrow> map_sum id ((@) (dtx_static_keys tx)) (decode_keys E (writable @ readonly)))
      else Inr (dtx_static_keys tx))"

text \<open>The message that a transaction gives, if it is of interest for the tree.\<close>

definition tx_message ::
  "backfill_env \<Rightarrow> bytes \<Rightarrow> u64 \<Rightarrow> int option \<Rightarrow> BlockTx \<Rightarrow> bf_fault + bytes option" where
  "tx_message E tree slot block_time tx =
     (case btx_meta tx of
        None \<Rightarrow> Inr None
      | Some meta \<Rightarrow>
          if txm_err meta then Inr None else
     (case btx_decoded tx of
        None \<Rightarrow> Inr None
      | Some d \<Rightarrow>
          if dtx_signatures d = [] then Inl BF_Panic
          else if length tree \<noteq> 32 then Inl (BF_Error (IE_DeserializationError (be_pubkey_error E)))
          else
     (case account_keys E meta d of
        Inl e \<Rightarrow> Inl (BF_Error e)
      | Inr keys \<Rightarrow>
          if tree \<notin> set keys \<and> be_bubblegum E \<notin> set keys then Inr None
          else
     (case be_serialize E (btx_raw tx) slot block_time of
        Inl e \<Rightarrow> Inl (BF_Error (IE_SerializatonError e))
      | Inr m \<Rightarrow> Inr (Some m)))))"

fun send_txs ::
  "backfill_env \<Rightarrow> bytes \<Rightarrow> u64 \<Rightarrow> int option \<Rightarrow> BlockTx list \<Rightarrow> bytes list \<Rightarrow> (bf_fault + unit) \<times> bytes list" where
  "send_txs E tree slot block_time [] sent = (Inr (), sent)"
| "send_txs E tree slot block_time (tx # txs) sent =
     (case tx_message E tree slot block_time tx of
        Inl f \<Rightarrow> (Inl f, sent)
      | Inr None \<Rightarrow> send_txs E tree slot block_time txs sent
      | Inr (Some m) \<Rightarrow>
          (case be_send E m of
             Inl e \<Rightarrow> (Inl (BF_Error (IE_MessengerError e)), sent)
           | Inr _ \<Rightarrow> send_txs E tree slot block_time txs (sent @ [m])))"

fun send_slots ::
  "backfill_env \<Rightarrow> bytes \<Rightarrow> u64 list \<Rightarrow> bytes list \<Rightarrow> (bf_fault + unit) \<times> bytes list" where
  "send_slots E tree [] sent = (Inr (), sent)"
| "send_slots E tree (slot # slots) sent =
     (case cached_block E slot of
        Inl e \<Rightarrow> (Inl (BF_Error e), sent)
      | Inr b \<Rightarrow>
          (case send_txs E tree slot (blk_block_time b) (blk_transactions b) sent of
             (Inl f, sent') \<Rightarrow> (Inl f, sent')
           | (Inr _, sent') \<Rightarrow> send_slots E tree slots sent'))"

definition plug_gap :: "backfill_env \<Rightarrow> bytes \<Rightarrow> GapInfo \<Rightarrow> bytes list \<Rightarrow> (bf_fault + unit) \<times> bytes list" where
  "plug_gap E tree gap sent = send_slots E tree (result_slots E gap) sent"

fun plug_gaps :: "backfill_env \<Rightarrow> bytes \<Rightarrow> GapInfo list \<Rightarrow> bytes list \<Rightarrow> (bf_fault + unit) \<times> bytes list" where
  "plug_gaps E tree [] sent = (Inr (), sent)"
| "plug_gaps E tree (gap # gaps) sent =
     (case plug_gap E tree gap sent of
        (Inl f, sent') \<Rightarrow> (Inl f, sent')
      | (Inr _, sent') \<Rightarrow> plug_gaps E tree gaps sent')"

section \<open>Backfilling a tree\<close>

text \<open>
  \<open>find_slots_via_address\<close>: the pages of signatures of an address, newest first, until a page has fewer than a
  thousand; \<open>None\<close> when the pages never end.
\<close>

fun read_page ::
  "backfill_env \<Rightarrow> (string \<times> u64) list \<Rightarrow> string option \<Rightarrow> u64 list \<Rightarrow>
   IngesterError + (string option \<times> u64 list)" where
  "read_page E [] last_sig slots = Inr (last_sig, slots)"
| "read_page E ((sig, slot) # sigs) last_sig slots =
     (case be_parse_signature E sig of
        Inl e \<Rightarrow> Inl (IE_RpcDataUnsupportedFormat (''Failed to parse signature '' @ e))
      | Inr parsed \<Rightarrow> read_page E sigs (Some parsed) (List.insert slot slots))"

partial_function (option) find_slots ::
  "backfill_env \<Rightarrow> pubkey \<Rightarrow> string option \<Rightarrow> u64 list \<Rightarrow> (IngesterError + u64 list) option" where
  "find_slots E address last_sig slots =
     (case be_signatures E address last_sig of
        Inl e \<Rightarrow> Some (Inl (IE_RpcGetDataError (''GetSignaturesForAddressWithConfig failed '' @ e)))
      | Inr sigs \<Rightarrow>
          (case read_page E sigs last_sig slots of
             Inl e \<Rightarrow> Some (Inl e)
           | Inr (last', slots') \<Rightarrow>
               if length sigs < 1000 then Some (Inr slots') else find_slots E address last' slots'))"

definition find_slots_via_address :: "backfill_env \<Rightarrow> pubkey \<Rightarrow> (IngesterError + u64 list) option" where
  "find_slots_via_address E address = map_option (map_sum id (be_slot_order E)) (find_slots E address None [])"

definition slot_gap :: "u64 \<Rightarrow> GapInfo" where
  "slot_gap slot = \<lparr>gi_prev = \<lparr>sb_seq = 0, sb_slot = as_i64 slot\<rparr>, gi_curr = \<lparr>sb_seq = 0, sb_slot = as_i64 slot\<rparr>\<rparr>"

definition backfill_tree_from_seq_1 ::
  "backfill_env \<Rightarrow> bytes \<Rightarrow> bytes list \<Rightarrow> ((bf_fault + int option) \<times> bytes list) option" where
  "backfill_tree_from_seq_1 E tree sent =
     (if length tree \<noteq> 32 then
        Some (Inl (BF_Error (IE_DeserializationError (''failed to parse pubkey: '' @ be_pubkey_error E))), sent)
      else case find_slots_via_address E tree of
        None \<Rightarrow> None
      | Some (Inl e) \<Rightarrow> Some (Inl (BF_Error e), sent)
      | Some (Inr slots) \<Rightarrow>
          Some (case plug_gaps E tree (map slot_gap slots) sent of
                  (Inl f, sent') \<Rightarrow> (Inl f, sent')
                | (Inr _, sent') \<Rightarrow> (Inr (Some 0), sent')))"

definition fetch_and_plug_gaps ::
  "backfill_env \<Rightarrow> bytes \<Rightarrow> bytes list \<Rightarrow> db \<Rightarrow> ((bf_fault + int option) \<times> bytes list) \<times> db" where
  "fetch_and_plug_gaps E tree sent s =
     (case get_missing_data tree s of
        (Inl e, s') \<Rightarrow> ((Inl (BF_Error (ingester_from_DbErr e)), sent), s')
      | (Inr (opt_max_seq, gaps), s') \<Rightarrow>
          ((case plug_gaps E tree gaps sent of
              (Inl f, sent') \<Rightarrow> (Inl f, sent')
            | (Inr _, sent') \<Rightarrow> (Inr opt_max_seq, sent')), s'))"

text \<open>Removal of all matching rows but the first, one statement per row.\<close>

fun delete_second :: "('r \<Rightarrow> bool) \<Rightarrow> bool \<Rightarrow> 'r list \<Rightarrow> 'r list" where
  "delete_second P seen [] = []"
| "delete_second P seen (r # rs) =
     (if P r then if seen then rs else r # delete_second P True rs else r # delete_second P seen rs)"

definition delete_extra_rows_and_mark_as_backfilled :: "bytes \<Rightarrow> int \<Rightarrow> (DbErr, unit) dbm" where
  "delete_extra_rows_and_mark_as_backfilled tree max_seq =
     (let extra = (\<lambda>r. bf_tree r = tree \<and> bf_seq r \<noteq> max_seq) in
      db_then (query (of_tree tree))
      (db_then (execute (\<lambda>s. s\<lparr>backfill_items := filter (\<lambda>r. \<not> extra r) (backfill_items s)\<rparr>))
      (db_bind (query (\<lambda>s. filter extra (backfill_items s))) (\<lambda>items.
       db_seq (replicate (length items - 1)
                 (execute (\<lambda>s. s\<lparr>backfill_items := delete_second extra False (backfill_items s)\<rparr>)) @
               [mark_tree_as_backfilled tree, clear_force_chk_flag tree, unlock_tree tree,
                db_then (query (of_tree tree)) (db_return ())])))))"

section \<open>The filler\<close>

record filler =
  fl_db :: db
  fl_sent :: "bytes list"
  fl_delay :: nat

definition try_db :: "(DbErr, 'a) dbm \<Rightarrow> filler \<Rightarrow> filler" where
  "try_db m fl = fl\<lparr>fl_db := snd (m (fl_db fl))\<rparr>"

definition clean_up_backfilled_tree :: "int option \<Rightarrow> bytes \<Rightarrow> filler \<Rightarrow> filler" where
  "clean_up_backfilled_tree opt_max_seq tree fl =
     (case opt_max_seq of
        Some max_seq \<Rightarrow>
          (case delete_extra_rows_and_mark_as_backfilled tree max_seq (fl_db fl) of
             (Inr _, s) \<Rightarrow> fl\<lparr>fl_db := s\<rparr>
           | (Inl _, s) \<Rightarrow> try_db (mark_tree_as_failed tree) (fl\<lparr>fl_db := s\<rparr>))
      | None \<Rightarrow> try_db (mark_tree_as_failed tree) fl)"

definition increase_delay :: "filler \<Rightarrow> filler" where
  "increase_delay fl = fl\<lparr>fl_delay := min MAX_FAILURE_DELAY_MS (min (2 ^ 64 - 1) (fl_delay fl * 2))\<rparr>"

definition reset_delay :: "filler \<Rightarrow> filler" where
  "reset_delay fl = fl\<lparr>fl_delay := INITIAL_FAILURE_DELAY\<rparr>"

definition attempt :: "backfill_env \<Rightarrow> BackfillTree \<Rightarrow> filler \<Rightarrow> ((bf_fault + int option) \<times> filler) option" where
  "attempt E bt fl =
     (if bt_backfill_from_seq_1 bt then
        map_option (\<lambda>(r, sent). (r, fl\<lparr>fl_sent := sent\<rparr>)) (backfill_tree_from_seq_1 E (bt_tree bt) (fl_sent fl))
      else case fetch_and_plug_gaps E (bt_tree bt) (fl_sent fl) (fl_db fl) of
        ((r, sent), s) \<Rightarrow> Some (r, fl\<lparr>fl_sent := sent, fl_db := s\<rparr>))"

text \<open>
  The attempts at one tree, the environment of each given by its number; \<open>None\<close> when the task panics or a request
  for signatures never ends.
\<close>

fun run_tree :: "(nat \<Rightarrow> backfill_env) \<Rightarrow> nat \<Rightarrow> BackfillTree \<Rightarrow> filler \<Rightarrow> filler option" where
  "run_tree Es 0 bt fl = Some fl"
| "run_tree Es (Suc left) bt fl =
     (case attempt (Es (NUM_TRIES - left)) bt fl of
        None \<Rightarrow> None
      | Some (Inl BF_Panic, fl') \<Rightarrow> None
      | Some (Inr opt_max_seq, fl') \<Rightarrow>
          Some (reset_delay (clean_up_backfilled_tree opt_max_seq (bt_tree bt) fl'))
      | Some (Inl (BF_Error e), fl') \<Rightarrow>
          if left = 0 then Some (try_db (mark_tree_as_failed (bt_tree bt)) fl')
          else run_tree Es left bt (increase_delay fl'))"

fun run_trees :: "(nat \<Rightarrow> nat \<Rightarrow> backfill_env) \<Rightarrow> nat \<Rightarrow> BackfillTree list \<Rightarrow> filler \<Rightarrow> filler option" where
  "run_trees Es n [] fl = Some fl"
| "run_trees Es n (bt # bts) fl = Option.bind (run_tree (Es n) NUM_TRIES bt fl) (run_trees Es (Suc n) bts)"

text \<open>One turn of the loop of \<open>run_filler\<close>.\<close>

definition filler_turn :: "(nat \<Rightarrow> nat \<Rightarrow> backfill_env) \<Rightarrow> filler \<Rightarrow> filler option" where
  "filler_turn Es fl =
     (case get_trees_to_backfill (fl_db fl) of
        (Inl e, s) \<Rightarrow> Some (increase_delay (fl\<lparr>fl_db := s\<rparr>))
      | (Inr trees, s) \<Rightarrow> run_trees Es 0 trees (fl\<lparr>fl_db := s\<rparr>))"

section \<open>The finder\<close>

text \<open>\<open>fetch_trees_by_gpa\<close>; the check of the authority comes after the tree has been added.\<close>

fun read_trees ::
  "backfill_env \<Rightarrow> (pubkey \<times> bytes) list \<Rightarrow> (pubkey \<times> u64 \<times> u64) list \<Rightarrow> bf_fault + (pubkey \<times> u64 \<times> u64) list" where
  "read_trees E [] trees = Inr trees"
| "read_trees E ((k, data) # accounts) trees =
     (if length data < be_header_size E then Inl BF_Panic
      else case be_header E (take (be_header_size E) data) of
        Inl e \<Rightarrow> Inl (BF_Error (IE_RpcGetDataError e))
      | Inr header \<Rightarrow>
          (case th_tree_size header of
             Inl e \<Rightarrow> Inl (BF_Error (IE_RpcGetDataError e))
           | Inr sz \<Rightarrow>
               if length data - be_header_size E < sz \<or> sz < 8 then Inl BF_Panic
               else
                 let sq = word_rcat (rev (take 8 (drop (be_header_size E) data)));
                     trees' = AList.update k (th_creation_slot header, sq) trees
                 in if \<not> th_valid_authority header (be_authority E k) then read_trees E accounts trees'
                    else read_trees E accounts trees'))"

definition fetch_trees_by_gpa :: "backfill_env \<Rightarrow> bf_fault + (pubkey \<times> u64 \<times> u64) list" where
  "fetch_trees_by_gpa E =
     (case be_program_accounts E of
        Inl e \<Rightarrow> Inl (BF_Error (IE_RpcGetDataError e))
      | Inr results \<Rightarrow> read_trees E results [])"

text \<open>\<open>only\<close> are the parsed keys of \<open>backfiller_trees\<close>; a stored tree is 32 bytes.\<close>

definition get_missing_trees ::
  "backfill_env \<Rightarrow> pubkey list option \<Rightarrow> (bf_fault, MissingTree list) dbm" where
  "get_missing_trees E only =
     db_bind (lift_result (fetch_trees_by_gpa E)) (\<lambda>all.
     let wanted = (case only of None \<Rightarrow> all | Some keys \<Rightarrow> filter (\<lambda>(k, _). k \<in> set keys) all) in
     db_bind (map_err (BF_Error \<circ> ingester_from_DbErr)
        (query (\<lambda>s. map bf_tree (filter (\<lambda>r. bf_failed r \<or> bf_locked r) (backfill_items s))))) (\<lambda>busy.
     if \<exists>t \<in> set busy. length t \<noteq> 32 then db_fail BF_Panic else
     db_bind (map_err (BF_Error \<circ> ingester_from_DbErr) (query (\<lambda>s. fst ` dom (cl_items s)))) (\<lambda>local.
     if \<exists>t \<in> local. length t \<noteq> 32 then db_fail BF_Panic else
     db_return (map (\<lambda>(k, slot, _). \<lparr>ms_tree = k, ms_slot = slot\<rparr>)
       (filter (\<lambda>(k, _). k \<notin> set busy \<and> k \<notin> local) wanted)))))"

definition force_backfill_missing_trees :: "MissingTree list \<Rightarrow> (DbErr, unit) dbm" where
  "force_backfill_missing_trees missing = execute (\<lambda>s. s\<lparr>backfill_items := backfill_items s @
     map (\<lambda>t. \<lparr>bf_tree = ms_tree t, bf_seq = 0, bf_slot = as_i64 (ms_slot t), bf_force_chk = True,
       bf_backfilled = False, bf_failed = False, bf_locked = False\<rparr>) missing\<rparr>)"

text \<open>One turn of the loop of \<open>run_finder\<close>; a failure to begin the transaction panics.\<close>

definition finder_turn :: "backfill_env \<Rightarrow> pubkey list option \<Rightarrow> db \<Rightarrow> db option" where
  "finder_turn E only s =
     (case get_missing_trees E only s of
        (Inl BF_Panic, _) \<Rightarrow> None
      | (Inl (BF_Error e), s1) \<Rightarrow> Some s1
      | (Inr missing, s1) \<Rightarrow>
          (case execute (\<lambda>s. s) s1 of
             (Inl e, _) \<Rightarrow> None
           | (Inr _, s2) \<Rightarrow>
               if missing = [] then Some s2
               else case force_backfill_missing_trees missing s2 of
                 (Inl e, s3) \<Rightarrow> Some (snd (execute (\<lambda>s. s) s3))
               | (Inr _, s3) \<Rightarrow>
                   (case execute (\<lambda>s. s) s3 of
                      (Inl e, s4) \<Rightarrow> Some (s2\<lparr>faults := faults s4\<rparr>)
                    | (Inr _, s4) \<Rightarrow> Some s4)))"

end
