(* ===== verification/BackfillProps.thy ===== *)
theory BackfillProps
  imports Backfiller BubblegumProps
begin

text \<open>
  Properties of the backfiller: the gaps it finds, the slots and the transactions it requests for them, and what its
  clean-up leaves in the queue.
\<close>

section \<open>A sample tree\<close>

definition demo_tree :: bytes where
  "demo_tree = replicate 32 1"

definition demo_row :: "int \<Rightarrow> bool \<Rightarrow> backfill_items_row" where
  "demo_row sq backfilled = \<lparr>bf_tree = demo_tree, bf_seq = sq, bf_slot = 10 * sq, bf_force_chk = False,
     bf_backfilled = backfilled, bf_failed = False, bf_locked = True\<rparr>"

definition demo_queue :: "backfill_items_row list \<Rightarrow> db" where
  "demo_queue rows = empty_db\<lparr>backfill_items := rows\<rparr>"

definition demo_gap :: GapInfo where
  "demo_gap = \<lparr>gi_prev = \<lparr>sb_seq = 1, sb_slot = 10\<rparr>, gi_curr = \<lparr>sb_seq = 4, sb_slot = 40\<rparr>\<rparr>"

definition demo_block_tx :: BlockTx where
  "demo_block_tx = \<lparr>btx_meta = Some \<lparr>txm_err = False, txm_loaded_addresses = None\<rparr>,
     btx_decoded = Some \<lparr>dtx_signatures = [''s''], dtx_has_lookups = False, dtx_static_keys = [demo_tree]\<rparr>,
     btx_raw = [42]\<rparr>"

definition demo_backfill_env :: backfill_env where
  "demo_backfill_env = \<lparr>be_program_accounts = Inr [], be_header_size = 0, be_header = (\<lambda>_. Inl ''e''),
     be_authority = (\<lambda>k. k), be_signatures = (\<lambda>_ before. Inr (take 1000 (case before of None \<Rightarrow> [(''s'', 5)] | Some _ \<Rightarrow> []))),
     be_parse_signature = Inr, be_slot_order = (\<lambda>slots. slots), be_blocks = (\<lambda>a b. Inr [a, b]),
     be_completion = (\<lambda>rs. rs),
     be_block = (\<lambda>_. Inr \<lparr>blk_transactions = [demo_block_tx], blk_block_time = None\<rparr>), be_cache_get = (\<lambda>_. None),
     be_cache_insert = (\<lambda>_ _. Inr True), be_cache_wait = Inr (), be_cache_after = (\<lambda>_ b. Some b),
     be_pubkey_error = ''e'', be_decode_key = (\<lambda>_. Inl ''e''), be_bubblegum = replicate 32 2,
     be_serialize = (\<lambda>raw _ _. Inr raw), be_send = (\<lambda>_. Inr ())\<rparr>"

lemmas demo_backfill_defs = demo_row_def demo_queue_def demo_gap_def demo_block_tx_def demo_backfill_env_def empty_db_def

section \<open>Gaps\<close>

definition missing_seqs :: "GapInfo list \<Rightarrow> int set" where
  "missing_seqs gaps = {q. \<exists>g \<in> set gaps. sb_seq (gi_prev g) < q \<and> q < sb_seq (gi_curr g)}"

lemma gap_union:
  fixes p c l :: int
  assumes "p < c" and "c \<le> l" and "c \<in> R" and "\<And>x. x \<in> R \<Longrightarrow> c \<le> x"
  shows "{q. p < q \<and> q < c} \<union> ({q. c < q \<and> q \<le> l} - R) = {q. p < q \<and> q \<le> l} - insert p R"
proof (rule set_eqI)
  fix q
  show "q \<in> {q. p < q \<and> q < c} \<union> ({q. c < q \<and> q \<le> l} - R) \<longleftrightarrow> q \<in> {q. p < q \<and> q \<le> l} - insert p R"
    using assms(1-3) assms(4) [of q] by (cases q c rule: linorder_cases) auto
qed

lemma sorted_hd_last: "sorted xs \<Longrightarrow> x \<in> set xs \<Longrightarrow> hd xs \<le> x \<and> x \<le> last xs"
  by (induction xs) (auto split: if_splits)

lemma find_gaps_spec:
  assumes "find_gaps rows = Inr gaps" and "sorted (map sb_seq rows)" and "rows \<noteq> []"
  shows "missing_seqs gaps = {q. sb_seq (hd rows) < q \<and> q \<le> sb_seq (last rows)} - sb_seq ` set rows"
  using assms
proof (induction rows arbitrary: gaps rule: find_gaps.induct)
  case (1 p c rows)
  have lt: "sb_seq p < sb_seq c"
    using "1.prems" by (auto split: if_splits)
  obtain gs where gs: "find_gaps (c # rows) = Inr gs"
    and gaps: "gaps = (if 1 < sb_seq c - sb_seq p then \<lparr>gi_prev = p, gi_curr = c\<rparr> # gs else gs)"
    using "1.prems"(1) by (auto split: if_splits sum.splits)
  have ih: "missing_seqs gs = {q. sb_seq c < q \<and> q \<le> sb_seq (last (c # rows))} - sb_seq ` set (c # rows)"
    using "1.IH" [OF _ gs] "1.prems"(2) lt by simp
  have above: "sb_seq c \<le> sb_seq x" if "x \<in> set (c # rows)" for x
    using "1.prems"(2) that by auto
  have u: "missing_seqs gaps = {q. sb_seq p < q \<and> q < sb_seq c} \<union> missing_seqs gs"
    unfolding gaps by (auto simp: missing_seqs_def)
  have l: "sb_seq c \<le> sb_seq (last (c # rows))"
    by (rule above) (rule last_in_set, simp)
  have "missing_seqs gaps = {q. sb_seq p < q \<and> q \<le> sb_seq (last (c # rows))} -
      insert (sb_seq p) (sb_seq ` set (c # rows))"
    unfolding u ih by (rule gap_union [OF lt l]) (use above in auto)
  then show ?case
    by simp
qed (auto simp: missing_seqs_def)

lemma missing_rows_seqs:
  "sb_seq ` set (missing_rows tree start s) = {q \<in> bf_seq ` set (of_tree tree s). start \<le> q}"
  by (force simp: missing_rows_def)

lemma missing_rows_sorted: "sorted (map sb_seq (missing_rows tree start s))"
  by (simp add: missing_rows_def)

lemma missing_data_cases:
  assumes "get_missing_data tree s = (Inr (mx, gaps), s')"
  obtains fs where "s' = s\<lparr>faults := fs\<rparr>" and "find_gaps (missing_rows tree (start_seq tree s) s) = Inr gaps"
    and "mx = (let rows = missing_rows tree (start_seq tree s) s in if rows = [] then None else Some (sb_seq (last rows)))"
proof -
  have blind: "start_seq tree (s\<lparr>faults := fs\<rparr>) = start_seq tree s"
    "missing_rows tree start (s\<lparr>faults := fs\<rparr>) = missing_rows tree start s" for fs start
    by (simp_all add: start_seq_def missing_rows_def of_tree_def)
  obtain start s1 where q1: "query (start_seq tree) s = (Inr start, s1)"
    and r1: "db_bind (query (missing_rows tree start)) (\<lambda>rows. case find_gaps rows of Inl e \<Rightarrow> db_fail e
      | Inr gaps \<Rightarrow> db_return (if rows = [] then None else Some (sb_seq (last rows)), gaps)) s1 = (Inr (mx, gaps), s')"
    using db_bind_result [OF assms [unfolded get_missing_data_def]] by auto
  obtain fs1 where s1: "s1 = s\<lparr>faults := fs1\<rparr>" "start = start_seq tree s"
    using query_cases [OF q1] blind by auto
  obtain rows s2 where q2: "query (missing_rows tree start) s1 = (Inr rows, s2)"
    and r2: "(case find_gaps rows of Inl e \<Rightarrow> db_fail e
      | Inr gaps \<Rightarrow> db_return (if rows = [] then None else Some (sb_seq (last rows)), gaps)) s2 = (Inr (mx, gaps), s')"
    using db_bind_result [OF r1] by auto
  obtain fs2 where s2: "s2 = s\<lparr>faults := fs2\<rparr>" "rows = missing_rows tree start s"
    using query_cases [OF q2] blind s1 by auto
  show thesis
    using that [of fs2] r2 s1(2) s2 by (auto simp: db_return_def db_fail_def Let_def split: sum.splits)
qed



section \<open>Slots of a gap\<close>

definition scanned :: "(int \<times> int) list \<Rightarrow> int set" where
  "scanned rs = (\<Union>(a, b) \<in> set rs. {a..b})"

lemma range_loop_scanned:
  assumes "a \<le> b" and "b \<le> c"
  shows "scanned (range_loop (Suc n) a b c) = {a..min c (b + 500000 * int n)}"
  using assms
proof (induction n arbitrary: a b)
  case (Suc n)
  have "scanned (range_loop (Suc (Suc n)) a b c) = {a..b} \<union> scanned (range_loop (Suc n) b (min (b + 500000) c) c)"
    by (simp add: scanned_def)
  also have "\<dots> = {a..b} \<union> {b..min c (min (b + 500000) c + 500000 * int n)}"
    using Suc.IH [of b "min (b + 500000) c"] Suc.prems by simp
  also have "\<dots> = {a..min c (b + 500000 * int (Suc n))}"
    using Suc.prems by auto
  finally show ?case .
qed (simp add: scanned_def)

lemma num_iter_pos: "0 \<le> diff \<Longrightarrow> num_iter diff = max 1 ((diff + 250000) div 500000)"
  by (auto simp: num_iter_def tdiv_def Let_def)

lemma slot_ranges_scanned:
  assumes "sb_slot (gi_prev gap) \<le> sb_slot (gi_curr gap)"
  defines "p \<equiv> sb_slot (gi_prev gap)" and "c \<equiv> sb_slot (gi_curr gap)"
  shows "scanned (slot_ranges gap) = {p..min c (p + 500000 * num_iter (c - p))}"
proof -
  have n: "1 \<le> num_iter (c - p)"
    using assms by (simp add: num_iter_pos)
  then obtain m where m2: "num_iter (c - p) = 1 + int m"
    using zle_iff_zadd by blast
  then have m: "nat (num_iter (c - p)) = Suc m" "num_iter (c - p) = 1 + int m"
    by simp_all
  have "scanned (slot_ranges gap) = {p..min c (p + min 500000 (c - p) + 500000 * int m)}"
    unfolding slot_ranges_def Let_def p_def [symmetric] c_def [symmetric] m(1)
    by (rule range_loop_scanned) (use assms in auto)
  moreover have "min c (p + min 500000 (c - p) + 500000 * int m) = min c (p + 500000 * num_iter (c - p))"
    using m(2) by (auto simp: min_def)
  ultimately show ?thesis
    by simp
qed

text \<open>
  C22: the requests for the blocks of a gap leave slots out.  The number of requests is rounded to the nearest
  multiple of half a million slots: they cover the gap exactly when it is not more than half a million slots long or
  its remainder is zero or at least a quarter of a million; otherwise the slots of the remainder are not requested.
\<close>

theorem gap_scanned_iff:
  assumes "sb_slot (gi_prev gap) \<le> sb_slot (gi_curr gap)"
  defines "d \<equiv> sb_slot (gi_curr gap) - sb_slot (gi_prev gap)"
  shows "((\<Union>(a, b) \<in> set (slot_ranges gap). {a..b}) = {sb_slot (gi_prev gap)..sb_slot (gi_curr gap)}) =
    (d \<le> 500000 \<or> d mod 500000 = 0 \<or> 250000 \<le> d mod 500000)"
proof -
  let ?p = "sb_slot (gi_prev gap)" and ?c = "sb_slot (gi_curr gap)"
  have "(\<Union>(a, b) \<in> set (slot_ranges gap). {a..b}) = {?p..min ?c (?p + 500000 * max 1 ((d + 250000) div 500000))}"
    using slot_ranges_scanned [OF assms(1)] assms by (simp add: scanned_def num_iter_pos)
  moreover have "({?p..min ?c (?p + 500000 * max 1 ((d + 250000) div 500000))} = {?p..?c}) =
      (?c \<le> ?p + 500000 * max 1 ((d + 250000) div 500000))"
    using assms by auto
  moreover have "(?c \<le> ?p + 500000 * max 1 ((d + 250000) div 500000)) =
      (d \<le> 500000 * max 1 ((d + 250000) div 500000))"
    by (auto simp: d_def)
  moreover have "(d \<le> 500000 * max 1 ((d + 250000) div 500000)) =
      (d \<le> 500000 \<or> d mod 500000 = 0 \<or> 250000 \<le> d mod 500000)"
  proof -
    obtain q r where d: "d = 500000 * q + r" "0 \<le> r" "r < 500000" "r = d mod 500000"
      using that [of "d div 500000" "d mod 500000"] by simp
    have "0 \<le> q"
      using d assms by linarith
    have "(d + 250000) div 500000 = q + (if 250000 \<le> r then 1 else 0)"
      using d by (cases "250000 \<le> r")
        (auto intro: int_div_pos_eq [where r = "r + 250000"] int_div_pos_eq [where r = "r - 250000"])
    then show ?thesis
      using d(1-3) \<open>0 \<le> q\<close> unfolding d(4) [symmetric] by (cases "q = 0") (auto simp: max_def)
  qed
  ultimately show ?thesis
    by simp
qed

theorem gap_scanned_iff_witness:
  "(\<Union>(a, b) \<in> set (slot_ranges \<lparr>gi_prev = \<lparr>sb_seq = 1, sb_slot = 0\<rparr>, gi_curr = \<lparr>sb_seq = 3, sb_slot = 700000\<rparr>\<rparr>). {a..b}) \<noteq>
     {0..700000}"
  using gap_scanned_iff [of "\<lparr>gi_prev = \<lparr>sb_seq = 1, sb_slot = 0\<rparr>, gi_curr = \<lparr>sb_seq = 3, sb_slot = 700000\<rparr>\<rparr>"]
  by simp

section \<open>Transactions of a gap\<close>

definition tx_messages :: "backfill_env \<Rightarrow> bytes \<Rightarrow> u64 \<Rightarrow> int option \<Rightarrow> BlockTx list \<Rightarrow> bytes list" where
  "tx_messages E tree slot block_time txs = List.map_filter
     (\<lambda>tx. case tx_message E tree slot block_time tx of Inr (Some m) \<Rightarrow> Some m | _ \<Rightarrow> None) txs"

definition slot_messages :: "backfill_env \<Rightarrow> bytes \<Rightarrow> u64 \<Rightarrow> bytes list" where
  "slot_messages E tree slot =
     (case be_block E slot of
        Inl _ \<Rightarrow> [] | Inr b \<Rightarrow> tx_messages E tree slot (blk_block_time b) (blk_transactions b))"

lemma send_txs_sent:
  "send_txs E tree slot bt txs sent = (Inr (), sent') \<Longrightarrow> sent' = sent @ tx_messages E tree slot bt txs"
  by (induction txs arbitrary: sent)
     (fastforce simp: tx_messages_def List.map_filter_simps split: sum.splits option.splits)+

lemma cached_block_is:
  assumes "cached_block E slot = Inr b"
    and "\<And>b. be_cache_get E slot = Some b \<Longrightarrow> be_block E slot = Inr b"
    and "\<And>b b'. be_cache_after E slot b = Some b' \<Longrightarrow> b' = b"
  shows "be_block E slot = Inr b"
  using assms by (auto simp: cached_block_def split: option.splits sum.splits if_splits)

lemma send_slots_sent:
  assumes "send_slots E tree slots sent = (Inr (), sent')"
    and "\<And>slot b. be_cache_get E slot = Some b \<Longrightarrow> be_block E slot = Inr b"
    and "\<And>slot b b'. be_cache_after E slot b = Some b' \<Longrightarrow> b' = b"
  shows "sent' = sent @ concat (map (slot_messages E tree) slots)"
  using assms(1)
proof (induction slots arbitrary: sent)
  case (Cons slot slots)
  obtain b sent1 where b: "cached_block E slot = Inr b"
    and tx: "send_txs E tree slot (blk_block_time b) (blk_transactions b) sent = (Inr (), sent1)"
    and rest: "send_slots E tree slots sent1 = (Inr (), sent')"
    using Cons.prems by (auto split: sum.splits prod.splits)
  have "be_block E slot = Inr b"
    using cached_block_is [OF b] assms(2,3) by blast
  then show ?case
    using Cons.IH [OF rest] send_txs_sent [OF tx] by (simp add: slot_messages_def)
qed simp


lemma demo_sends:
  "tx_message demo_backfill_env demo_tree slot bt demo_block_tx = Inr (Some [42])"
  "cached_block demo_backfill_env slot = Inr \<lparr>blk_transactions = [demo_block_tx], blk_block_time = None\<rparr>"
  "be_send demo_backfill_env m = Inr ()" "length demo_tree = 32"
  by (simp_all add: tx_message_def account_keys_def cached_block_def demo_backfill_defs demo_tree_def)


section \<open>The clean-up\<close>

lemma filter_update_tree:
  "filter (\<lambda>r. bf_tree r = tree) (map (\<lambda>r. if bf_tree r = tree then f r else r) rows) =
     map f (filter (\<lambda>r. bf_tree r = tree) rows)"
  if "\<And>r. bf_tree (f r) = bf_tree r"
  using that by (induction rows) auto

lemma update_tree_run [db_simps]:
  "faults s = [] \<Longrightarrow> update_tree tree f s = (Inr (), s\<lparr>backfill_items :=
     map (\<lambda>r. if bf_tree r = tree then f r else r) (backfill_items s)\<rparr>)"
  by (simp add: update_tree_def execute_ok)

lemma filter_kept:
  "filter (\<lambda>r. bf_tree r = tree) (filter (\<lambda>r. \<not> (bf_tree r = tree \<and> bf_seq r \<noteq> mx)) rows) =
     filter (\<lambda>r. bf_seq r = mx) (filter (\<lambda>r. bf_tree r = tree) rows)"
  by (induction rows) auto

definition cleaned_row :: "backfill_items_row \<Rightarrow> backfill_items_row" where
  "cleaned_row r = r\<lparr>bf_backfilled := True, bf_force_chk := False, bf_locked := False\<rparr>"

text \<open>Without a concurrent insert the second query finds nothing: the rows with the greatest number all remain.\<close>

lemma clean_up_run:
  assumes "faults s = []"
  shows "\<exists>s'. delete_extra_rows_and_mark_as_backfilled tree mx s = (Inr (), s') \<and> faults s' = [] \<and>
    of_tree tree s' = map cleaned_row (filter (\<lambda>r. bf_seq r = mx) (of_tree tree s)) \<and>
    s'\<lparr>backfill_items := backfill_items s\<rparr> = s"
proof -
  let ?kept = "filter (\<lambda>r. \<not> (bf_tree r = tree \<and> bf_seq r \<noteq> mx)) (backfill_items s)"
  let ?s1 = "s\<lparr>backfill_items := ?kept\<rparr>"
  let ?s' = "s\<lparr>backfill_items := map (\<lambda>r. if bf_tree r = tree then cleaned_row r else r) ?kept\<rparr>"
  have none: "filter (\<lambda>r. bf_tree r = tree \<and> bf_seq r \<noteq> mx) ?kept = []"
    by (auto simp: filter_empty_conv)
  have "delete_extra_rows_and_mark_as_backfilled tree mx s = (Inr (), ?s')"
    using assms none
    by (simp add: delete_extra_rows_and_mark_as_backfilled_def Let_def db_then_def db_bind_def query_ok execute_ok
        mark_tree_as_backfilled_def clear_force_chk_flag_def unlock_tree_def update_tree_run db_return_def
        cleaned_row_def comp_def if_distrib cong: if_cong)
  moreover have "of_tree tree ?s' = map cleaned_row (filter (\<lambda>r. bf_seq r = mx) (of_tree tree s))"
    using filter_update_tree [of cleaned_row tree ?kept] filter_kept [of tree mx "backfill_items s"]
    by (simp add: of_tree_def cleaned_row_def)
  ultimately show ?thesis
    using assms by (intro exI [of _ ?s']) simp
qed

section \<open>Selection of trees\<close>

definition lock_rows :: "bytes set \<Rightarrow> db \<Rightarrow> db" where
  "lock_rows ts s = s\<lparr>backfill_items :=
     map (\<lambda>r. if bf_tree r \<in> ts then r\<lparr>bf_locked := True\<rparr> else r) (backfill_items s)\<rparr>"

lemma items_lock_rows: "backfill_items (lock_rows ts s) =
    map (\<lambda>r. if bf_tree r \<in> ts then r\<lparr>bf_locked := True\<rparr> else r) (backfill_items s)"
  by (simp add: lock_rows_def)

lemma lock_all_run:
  "faults s = [] \<Longrightarrow> db_seq (map (lock_tree \<circ> fst) ts) s = (Inr (), lock_rows (fst ` set ts) s)"
proof (induction ts arbitrary: s)
  case (Cons x ts)
  let ?s1 = "lock_rows {fst x} s"
  have "lock_tree (fst x) s = (Inr (), ?s1)"
    using Cons.prems by (simp add: lock_tree_def update_tree_run lock_rows_def)
  moreover have "lock_rows (fst ` set ts) ?s1 = lock_rows (fst ` set (x # ts)) s"
    by (auto simp: lock_rows_def)
  ultimately show ?case
    using Cons by (simp add: db_then_def db_bind_def lock_rows_def)
qed (simp add: db_return_def lock_rows_def)

definition forced_tree :: "bytes \<times> int \<Rightarrow> BackfillTree" where
  "forced_tree x = \<lparr>bt_tree = fst x, bt_backfill_from_seq_1 = True, bt_slot = word_of_int (snd x)\<rparr>"

definition gapped_tree :: "bytes \<times> int \<Rightarrow> BackfillTree" where
  "gapped_tree x = \<lparr>bt_tree = fst x, bt_backfill_from_seq_1 = False, bt_slot = word_of_int (snd x)\<rparr>"

lemma get_trees_run:
  assumes "faults s = []"
  defines "s1 \<equiv> lock_rows (fst ` set (force_chk_trees s)) s"
  shows "get_trees_to_backfill s =
    (Inr (map forced_tree (force_chk_trees s) @ map gapped_tree (multi_row_trees s1)),
     lock_rows (fst ` set (multi_row_trees s1)) s1)"
proof -
  have h: "faults s1 = []" "faults (lock_rows ts s1) = []" for ts
    using assms by (simp_all add: lock_rows_def)
  have f: "(\<lambda>(t, slot). \<lparr>bt_tree = t, bt_backfill_from_seq_1 = b, bt_slot = word_of_int slot\<rparr>) =
      (\<lambda>x. \<lparr>bt_tree = fst x, bt_backfill_from_seq_1 = b, bt_slot = word_of_int (snd x)\<rparr>)" for b
    by auto
  show ?thesis
    using assms(1) h
    by (simp add: get_trees_to_backfill_def db_txn_def execute_ok db_bind_def db_then_def query_ok lock_all_run
        s1_def [symmetric] db_return_def f forced_tree_def [abs_def] gapped_tree_def [abs_def])
qed

lemma filter_lock:
  "tree \<notin> F \<Longrightarrow> filter (\<lambda>r. bf_tree r = tree) (filter free_row
      (map (\<lambda>r. if bf_tree r \<in> F then r\<lparr>bf_locked := True\<rparr> else r) rows)) =
    filter (\<lambda>r. bf_tree r = tree) (filter free_row rows)"
  by (induction rows) (auto simp: free_row_def)

lemma selected_again:
  assumes "faults s = []" and "1 < length (filter free_row (of_tree tree s))"
    and "\<forall>r \<in> set (of_tree tree s). \<not> bf_force_chk r"
  shows "\<exists>trees s' slot. get_trees_to_backfill s = (Inr trees, s') \<and> gapped_tree (tree, slot) \<in> set trees"
proof -
  let ?F = "fst ` set (force_chk_trees s)"
  let ?s1 = "lock_rows ?F s"
  have out: "tree \<notin> ?F"
    using assms(3) by (auto simp: force_chk_trees_def of_tree_def)
  let ?rows = "filter (\<lambda>r. bf_tree r = tree) (filter free_row (backfill_items ?s1))"
  have "?rows = filter (\<lambda>r. bf_tree r = tree) (filter free_row (backfill_items s))"
    using filter_lock [OF out, of "backfill_items s"] by (simp only: items_lock_rows)
  then have len: "1 < length (map bf_slot ?rows)"
    using assms(2) by (simp add: of_tree_def conj_commute)
  then have "?rows \<noteq> []"
    by (metis less_zeroE list.size(3) map_is_Nil_conv)
  then obtain r where "r \<in> set ?rows"
    by (meson last_in_set)
  then have "\<exists>slot. (tree, slot) \<in> set (multi_row_trees ?s1)"
    using len by (force simp: multi_row_trees_def Let_def)
  then show ?thesis
    using get_trees_run [OF assms(1)] by auto
qed

text \<open>
  Rows with the same sequence number keep a tree in the queue.  When a tree is backfilled without a concurrent
  insert, the rows with the greatest number all remain, because the query for duplicates asks for the other numbers;
  if there are two of them, the next turn of the filler selects the tree again, whatever its state is.
\<close>

lemma duplicates_keep_tree_queued:
  assumes "faults (fl_db fl) = []"
    and "1 < length (filter (\<lambda>r. bf_seq r = mx \<and> \<not> bf_failed r) (of_tree tree (fl_db fl)))"
  shows "\<exists>trees s' slot. get_trees_to_backfill (fl_db (clean_up_backfilled_tree (Some mx) tree fl)) = (Inr trees, s') \<and>
    \<lparr>bt_tree = tree, bt_backfill_from_seq_1 = False, bt_slot = slot\<rparr> \<in> set trees"
proof -
  let ?rows = "filter (\<lambda>r. bf_seq r = mx) (of_tree tree (fl_db fl))"
  obtain s1 where s1: "delete_extra_rows_and_mark_as_backfilled tree mx (fl_db fl) = (Inr (), s1)" "faults s1 = []"
    "of_tree tree s1 = map cleaned_row ?rows"
    using clean_up_run [OF assms(1)] by blast
  have "filter free_row (map cleaned_row ?rows) = map cleaned_row (filter (\<lambda>r. \<not> bf_failed r) ?rows)"
    by (simp add: filter_map comp_def free_row_def cleaned_row_def)
  then have "1 < length (filter free_row (of_tree tree s1))"
    using assms(2) s1(3) by (simp add: conj_commute)
  moreover have "\<forall>r \<in> set (of_tree tree s1). \<not> bf_force_chk r"
    using s1(3) by (auto simp: cleaned_row_def)
  ultimately show ?thesis
    using selected_again [OF s1(2)] s1(1) by (fastforce simp: clean_up_backfilled_tree_def gapped_tree_def)
qed

text \<open>
  A row that the indexer inserts between the search for gaps and the clean-up is marked with the others, so a gap below
  it is not found any more: once the rows of a tree are marked, the search reports no gap.
\<close>

lemma start_seq_max:
  assumes "r \<in> set (of_tree tree s)" and "bf_backfilled r"
  shows "bf_seq r \<le> start_seq tree s"
proof -
  have "x \<in> set (q # qs) \<Longrightarrow> x \<le> fold max qs q" for x q :: int and qs
    by (induction qs arbitrary: q x) (auto intro: order_trans [OF max.cobounded1] order_trans [OF max.cobounded2])
  moreover have "bf_seq r \<in> set (map bf_seq (filter bf_backfilled (of_tree tree s)))"
    using assms by auto
  ultimately show ?thesis
    unfolding start_seq_def by (cases "map bf_seq (filter bf_backfilled (of_tree tree s))") (simp, fastforce)
qed

lemma find_gaps_same: "find_gaps rows = Inr gaps \<Longrightarrow> sb_seq ` set rows \<subseteq> {q} \<Longrightarrow> gaps = []"
  by (cases rows rule: find_gaps.cases) simp_all

lemma marked_tree_has_no_gaps:
  assumes "mark_tree_as_backfilled tree s = (Inr (), s1)" and "get_missing_data tree s1 = (Inr (mx, gaps), s2)"
  shows "gaps = []"
proof -
  let ?rows = "missing_rows tree (start_seq tree s1) s1"
  have "backfill_items s1 = map (\<lambda>r. if bf_tree r = tree then r\<lparr>bf_backfilled := True\<rparr> else r) (backfill_items s)"
    using assms(1) by (auto simp: mark_tree_as_backfilled_def update_tree_def dest!: execute_cases)
  then have "of_tree tree s1 = map (\<lambda>r. r\<lparr>bf_backfilled := True\<rparr>) (of_tree tree s)"
    using filter_update_tree [of "\<lambda>r. r\<lparr>bf_backfilled := True\<rparr>" tree "backfill_items s"] by (simp add: of_tree_def)
  then have "\<forall>r \<in> set (of_tree tree s1). bf_backfilled r"
    by simp
  then have "\<forall>r \<in> set (of_tree tree s1). bf_seq r \<le> start_seq tree s1"
    using start_seq_max by blast
  then have "sb_seq ` set ?rows \<subseteq> {start_seq tree s1}"
    unfolding missing_rows_seqs by force
  moreover have "find_gaps ?rows = Inr gaps"
    by (rule missing_data_cases [OF assms(2)])
  ultimately show ?thesis
    using find_gaps_same by blast
qed

section \<open>Forced backfills\<close>

lemma forced_attempt:
  "attempt E bt fl = Some (Inr mx, fl') \<Longrightarrow> bt_backfill_from_seq_1 bt \<Longrightarrow> mx = Some 0 \<and> fl_db fl' = fl_db fl"
  by (auto simp: attempt_def backfill_tree_from_seq_1_def split: if_splits option.splits sum.splits prod.splits)

text \<open>
  A forced backfill is followed by another.  The attempt reports 0 as the greatest number, so the clean-up deletes
  the rows of a tree that the indexer has queued, whose numbers are positive; with no row left, the next change of the
  tree is marked for a forced check once more, and the filler will go through all transactions of the tree again.
\<close>

lemma forced_backfill_repeats:
  assumes "faults (fl_db fl) = []" and "bt_backfill_from_seq_1 bt" and "attempt E bt fl = Some (Inr mx, fl1)"
    and "\<forall>r \<in> set (of_tree (bt_tree bt) (fl_db fl)). bf_seq r \<noteq> 0"
    and "insert_change_log C ev slot txn_id instruction (fl_db (clean_up_backfilled_tree mx (bt_tree bt) fl1)) = (Inr (), s)"
    and "cle_id ev = bt_tree bt" and "1 < cle_seq ev" and "faults s = []"
  shows "of_tree (bt_tree bt) (fl_db (clean_up_backfilled_tree mx (bt_tree bt) fl1)) = [] \<and>
    (\<exists>trees s'. get_trees_to_backfill s = (Inr trees, s') \<and>
      (\<exists>t \<in> set trees. bt_tree t = bt_tree bt \<and> bt_backfill_from_seq_1 t))"
proof -
  let ?t = "bt_tree bt" and ?s1 = "fl_db (clean_up_backfilled_tree mx (bt_tree bt) fl1)"
  have fl1: "mx = Some 0" "fl_db fl1 = fl_db fl"
    using forced_attempt [OF assms(3,2)] by simp_all
  obtain s1 where "delete_extra_rows_and_mark_as_backfilled ?t 0 (fl_db fl) = (Inr (), s1)"
    "of_tree ?t s1 = map cleaned_row (filter (\<lambda>r. bf_seq r = 0) (of_tree ?t (fl_db fl)))"
    using clean_up_run [OF assms(1)] by blast
  then have none: "of_tree ?t ?s1 = []"
    using assms(4) fl1 by (simp add: clean_up_backfilled_tree_def filter_empty_conv)
  then have "backfill_items s = backfill_items ?s1 @ [new_backfill_item ev slot (backfill_items ?s1)]"
    "bf_force_chk (new_backfill_item ev slot (backfill_items ?s1))"
    using insert_change_log_backfill [OF assms(5)] assms(6,7)
    by (auto simp: new_backfill_item_def of_tree_def filter_empty_conv)
  then have "(?t, as_i64 slot) \<in> set (force_chk_trees s)"
    using assms(6) by (auto simp: force_chk_trees_def free_row_def new_backfill_item_def)
  then have "forced_tree (?t, as_i64 slot) \<in> set (map forced_tree (force_chk_trees s))"
    by simp
  moreover obtain trees s' where "get_trees_to_backfill s = (Inr (map forced_tree (force_chk_trees s) @ trees), s')"
    using get_trees_run [OF assms(8)] by blast
  moreover have "bt_tree (forced_tree (?t, as_i64 slot)) = ?t" "bt_backfill_from_seq_1 (forced_tree (?t, as_i64 slot))"
    by (simp_all add: forced_tree_def)
  ultimately show ?thesis
    using none by (metis UnI1 set_append)
qed

section \<open>Pages of signatures\<close>

lemma dropWhile_key:
  "distinct (map fst h) \<Longrightarrow> j < length h \<Longrightarrow> dropWhile (\<lambda>e. fst e \<noteq> fst (h ! j)) h = drop j h"
proof (induction h arbitrary: j)
  case (Cons e h)
  show ?case
  proof (cases j)
    case (Suc i)
    then have "fst e \<noteq> fst (h ! i)"
      using Cons.prems nth_mem [of i h] by auto
    then show ?thesis
      using Cons Suc by simp
  qed simp
qed simp

text \<open>The signatures after a given one, and the pages that a node serves of a history.\<close>

definition sigs_after :: "(string \<times> u64) list \<Rightarrow> string option \<Rightarrow> (string \<times> u64) list" where
  "sigs_after h before = (case before of None \<Rightarrow> h | Some x \<Rightarrow> tl (dropWhile (\<lambda>e. fst e \<noteq> x) h))"

definition serves_history :: "backfill_env \<Rightarrow> pubkey \<Rightarrow> (string \<times> u64) list \<Rightarrow> bool" where
  "serves_history E address h \<longleftrightarrow> distinct (map fst h) \<and> (\<forall>x \<in> fst ` set h. be_parse_signature E x = Inr x) \<and>
     (\<forall>before. be_signatures E address before = Inr (take 1000 (sigs_after h before)))"

definition position :: "(string \<times> u64) list \<Rightarrow> nat \<Rightarrow> string option" where
  "position h k = (if k = 0 then None else Some (fst (h ! (k - 1))))"

lemma sigs_after_position:
  "distinct (map fst h) \<Longrightarrow> k \<le> length h \<Longrightarrow> sigs_after h (position h k) = drop k h"
  using dropWhile_key [of h "k - 1"] by (auto simp: sigs_after_def position_def drop_Suc [symmetric] tl_drop simp flip: drop_Suc)

lemma read_page_run:
  "(\<forall>x \<in> fst ` set sigs. be_parse_signature E x = Inr x) \<Longrightarrow>
   read_page E sigs l slots =
     Inr (if sigs = [] then l else Some (fst (last sigs)), fold (\<lambda>e. List.insert (snd e)) sigs slots)"
  by (induction sigs arbitrary: l slots) auto

lemma find_slots_run:
  assumes "serves_history E address h"
  shows "k \<le> length h \<Longrightarrow> find_slots E address (position h k) slots =
    Some (Inr (fold (\<lambda>e. List.insert (snd e)) (drop k h) slots))"
proof (induction "length h - k" arbitrary: k slots rule: less_induct)
  case less
  let ?sigs = "take 1000 (drop k h)"
  have sigs: "be_signatures E address (position h k) = Inr ?sigs"
    using assms less.prems sigs_after_position by (simp add: serves_history_def)
  have "\<forall>x \<in> fst ` set ?sigs. be_parse_signature E x = Inr x"
    using assms by (auto simp: serves_history_def dest: in_set_takeD in_set_dropD)
  note page = read_page_run [OF this, of "position h k" slots]
  show ?case
  proof (cases "length ?sigs < 1000")
    case True
    then have "?sigs = drop k h"
      by simp
    then show ?thesis
      using sigs page True by (simp add: find_slots.simps)
  next
    case False
    then have k: "k + 1000 \<le> length h"
      by simp
    have pos: "(if ?sigs = [] then position h k else Some (fst (last ?sigs))) = position h (k + 1000)"
      using k by (auto simp: position_def last_conv_nth add.commute)
    have "find_slots E address (position h k) slots =
        find_slots E address (position h (k + 1000)) (fold (\<lambda>e. List.insert (snd e)) ?sigs slots)"
      using sigs page False unfolding pos by (simp add: find_slots.simps [of E address "position h k"])
    also have "\<dots> = Some (Inr (fold (\<lambda>e. List.insert (snd e)) (drop (k + 1000) h)
        (fold (\<lambda>e. List.insert (snd e)) ?sigs slots)))"
      using less.hyps [of "k + 1000"] k by simp
    also have "fold (\<lambda>e. List.insert (snd e)) (drop (k + 1000) h) (fold (\<lambda>e. List.insert (snd e)) ?sigs slots) =
        fold (\<lambda>e. List.insert (snd e)) (?sigs @ drop 1000 (drop k h)) slots"
      by (simp only: fold_append comp_apply drop_drop add.commute)
    also have "?sigs @ drop 1000 (drop k h) = drop k h"
      by (rule append_take_drop_id)
    finally show ?thesis .
  qed
qed

lemma fold_insert_set: "set (fold (\<lambda>e. List.insert (snd e)) h slots) = set slots \<union> snd ` set h"
  by (induction h arbitrary: slots) auto

lemma fold_insert_distinct: "distinct slots \<Longrightarrow> distinct (fold (\<lambda>e. List.insert (snd e)) h slots)"
  by (induction h arbitrary: slots) auto

text \<open>
  C21: the search for the slots of a tree ends and finds them all.  When the node serves a finite history of
  signatures in pages of a thousand, newest first, the loop over the pages ends with the slots of all signatures,
  each once.
\<close>

theorem slots_of_tree_found:
  assumes "serves_history E address h"
  shows "\<exists>slots. find_slots_via_address E address = Some (Inr (be_slot_order E slots)) \<and>
    set slots = snd ` set h \<and> distinct slots"
  using find_slots_run [OF assms, of 0 "[]"] fold_insert_set [of h "[]"] fold_insert_distinct [of "[]" h]
  by (intro exI [of _ "fold (\<lambda>e. List.insert (snd e)) h []"]) (simp add: find_slots_via_address_def position_def)

theorem slots_of_tree_found_witness:
  "\<exists>slots. find_slots_via_address demo_backfill_env demo_tree = Some (Inr slots) \<and> set slots = {5}"
proof -
  have "serves_history demo_backfill_env demo_tree [(''s'', 5)]"
    by (auto simp: serves_history_def sigs_after_def demo_backfill_env_def split: option.split)
  from slots_of_tree_found [OF this] show ?thesis
    by (auto simp: demo_backfill_env_def)
qed

text \<open>
  The authority of a tree has no influence on the list of trees: the check comes after the tree has been added.
\<close>

lemma authority_not_checked:
  "fetch_trees_by_gpa (E\<lparr>be_authority := f\<rparr>) = fetch_trees_by_gpa E"
proof -
  have "read_trees (E\<lparr>be_authority := f\<rparr>) accounts trees = read_trees E accounts trees" for accounts trees
    by (induction accounts arbitrary: trees) (auto simp: Let_def split: sum.split)
  then show ?thesis
    by (simp add: fetch_trees_by_gpa_def split: sum.split)
qed

text \<open>The finder queues a tree only when it is on chain and neither indexed nor locked nor failed.\<close>

lemma missing_trees_unknown:
  assumes "get_missing_trees E only s = (Inr missing, s')" and "t \<in> set missing"
  shows "(\<forall>r \<in> set (backfill_items s). bf_tree r = ms_tree t \<longrightarrow> \<not> bf_failed r \<and> \<not> bf_locked r) \<and>
    (\<forall>i. cl_items s (ms_tree t, i) = None)"
proof -
  let ?q = "\<lambda>f s. map_err (BF_Error \<circ> ingester_from_DbErr) (query f) s"
  have q: "\<exists>fs. s' = s\<lparr>faults := fs\<rparr> \<and> x = f s" if "?q f s = (Inr x, s')" "\<And>fs. f (s\<lparr>faults := fs\<rparr>) = f s"
    for f :: "db \<Rightarrow> 'x" and s x s'
    using that query_cases [of f s] by (fastforce simp: map_err_def split: prod.splits sum.splits)
  have "\<exists>busy local s1 s2. ?q (\<lambda>s. map bf_tree (filter (\<lambda>r. bf_failed r \<or> bf_locked r) (backfill_items s))) s = (Inr busy, s1) \<and>
      ?q (\<lambda>s. fst ` dom (cl_items s)) s1 = (Inr local, s2) \<and> ms_tree t \<notin> set busy \<and> ms_tree t \<notin> local"
    using assms
    by (auto simp: get_missing_trees_def lift_result_def db_bind_def db_fail_def db_return_def Let_def
        split: prod.splits sum.splits if_splits option.splits)
  then obtain busy local s1 s2 where
    "?q (\<lambda>s. map bf_tree (filter (\<lambda>r. bf_failed r \<or> bf_locked r) (backfill_items s))) s = (Inr busy, s1)"
    "?q (\<lambda>s. fst ` dom (cl_items s)) s1 = (Inr local, s2)" "ms_tree t \<notin> set busy" "ms_tree t \<notin> local"
    by blast
  then show ?thesis
    using q [of "\<lambda>s. map bf_tree (filter (\<lambda>r. bf_failed r \<or> bf_locked r) (backfill_items s))" s busy s1]
      q [of "\<lambda>s. fst ` dom (cl_items s)" s1 local s2] by force
qed

end
