(* ===== verification/OpsCore.thy ===== *)
theory OpsCore
  imports Db TokenInscription
begin

text \<open>
  What the operations tools take from \<open>core\<close>: the pool of messenger connections of
  \<open>plerkle_messenger_queue.rs\<close>, and the chunks of a slice.  The messenger itself is a parameter: a push is given
  with the outcome of its \<open>send\<close>.  The wrappers of \<open>solana_rpc.rs\<close> call the node with retries; their results
  are parameters of the tools.
\<close>

section \<open>Chunks\<close>

text \<open>\<open>slice::chunks\<close>, for a positive size.\<close>

function chunks :: "nat \<Rightarrow> 'a list \<Rightarrow> 'a list list" where
  "chunks n xs = (if n = 0 \<or> xs = [] then [] else take n xs # chunks n (drop n xs))"
  by pat_completeness auto
termination by (relation "measure (\<lambda>(n, xs). length xs)") auto

declare chunks.simps [simp del]

lemma chunks_Nil [simp]: "chunks n [] = []"
  by (simp add: chunks.simps)

lemma concat_chunks: "0 < n \<Longrightarrow> concat (chunks n xs) = xs"
proof (induction n xs rule: chunks.induct)
  case (1 n xs)
  then show ?case
    by (cases "xs = []") (simp_all add: chunks.simps [of n xs])
qed

lemma chunks_bound: "c \<in> set (chunks n xs) \<Longrightarrow> 0 < length c \<and> length c \<le> n"
proof (induction n xs rule: chunks.induct)
  case (1 n xs)
  then show ?case
    by (cases "n = 0 \<or> xs = []") (auto simp: chunks.simps [of n xs])
qed

text \<open>\<open>collect\<close> of results into a result.\<close>

fun collect_sum :: "('e + 'a) list \<Rightarrow> 'e + 'a list" where
  "collect_sum [] = Inr []"
| "collect_sum (Inl e # rs) = Inl e"
| "collect_sum (Inr x # rs) = map_sum id (Cons x) (collect_sum rs)"

lemma collect_sum_Inr: "collect_sum (map (\<lambda>x. Inr (f x)) xs) = Inr (map f xs)"
  by (induction xs) simp_all

section \<open>The pool of connections\<close>

datatype QueuePoolError = QE_Messenger string | QE_RecvMessengerConnection | QE_TryFromInt

text \<open>\<open>qp_idle\<close> are the connections in the channel, \<open>qp_sent\<close> what the messengers have sent.\<close>

record QueuePool =
  qp_size :: nat
  qp_idle :: nat
  qp_sent :: "(string \<times> bytes) list"

text \<open>The names of the streams are constants of \<open>plerkle_messenger\<close>.\<close>

record stream_keys =
  ACCOUNT_STREAM :: string
  ACCOUNT_BACKFILL_STREAM :: string
  SLOT_STREAM :: string
  TRANSACTION_STREAM :: string
  TRANSACTION_BACKFILL_STREAM :: string
  BLOCK_STREAM :: string

definition pool_streams :: "stream_keys \<Rightarrow> (string \<times> nat) list" where
  "pool_streams K = [(ACCOUNT_STREAM K, 100000000), (ACCOUNT_BACKFILL_STREAM K, 100000000),
     (SLOT_STREAM K, 100000), (TRANSACTION_STREAM K, 10000000), (TRANSACTION_BACKFILL_STREAM K, 10000000),
     (BLOCK_STREAM K, 100000)]"

text \<open>
  \<open>connect i\<close> is the outcome of opening connection \<open>i\<close>, \<open>add i k\<close> that of adding stream \<open>k\<close> to it.
  A channel of no connections panics.
\<close>

fun open_connections ::
  "stream_keys \<Rightarrow> (nat \<Rightarrow> string + unit) \<Rightarrow> (nat \<Rightarrow> string \<Rightarrow> string + unit) \<Rightarrow> nat \<Rightarrow> QueuePool \<Rightarrow> QueuePoolError + QueuePool" where
  "open_connections K connect add 0 q = Inr q"
| "open_connections K connect add (Suc n) q =
     (case connect n of
        Inl e \<Rightarrow> Inl (QE_Messenger e)
      | Inr _ \<Rightarrow>
          (case filter (\<lambda>(k, size). \<exists>e. add n k = Inl e) (pool_streams K) of
             (k, _) # _ \<Rightarrow> Inl (QE_Messenger (case add n k of Inl e \<Rightarrow> e | Inr _ \<Rightarrow> []))
           | [] \<Rightarrow> open_connections K connect add n (q\<lparr>qp_idle := qp_idle q + 1\<rparr>)))"

definition try_from_config ::
  "stream_keys \<Rightarrow> (nat \<Rightarrow> string + unit) \<Rightarrow> (nat \<Rightarrow> string \<Rightarrow> string + unit) \<Rightarrow> nat \<Rightarrow> (QueuePoolError + QueuePool) outcome" where
  "try_from_config K connect add connections =
     (if connections = 0 then Panic
      else Done (open_connections K connect add connections \<lparr>qp_size = connections, qp_idle = 0, qp_sent = []\<rparr>))"

text \<open>
  \<open>push\<close> takes a connection out of the channel, sends, and puts the connection back only when the send succeeded.
  The lock on the channel is held all the time, so nothing else can return a connection: with none left the push
  never ends (\<open>None\<close>).
\<close>

definition push :: "string \<Rightarrow> bytes \<Rightarrow> string + unit \<Rightarrow> QueuePool \<Rightarrow> ((QueuePoolError + unit) \<times> QueuePool) option" where
  "push stream_key bytes sent q =
     (if qp_idle q = 0 then None
      else let q' = q\<lparr>qp_idle := qp_idle q - 1\<rparr> in
        Some (case sent of
          Inl e \<Rightarrow> (Inl (QE_Messenger e), q')
        | Inr _ \<Rightarrow> (Inr (), q'\<lparr>qp_idle := qp_idle q' + 1, qp_sent := qp_sent q' @ [(stream_key, bytes)]\<rparr>)))"

definition push_account_backfill :: "stream_keys \<Rightarrow> bytes \<Rightarrow> string + unit \<Rightarrow> QueuePool \<Rightarrow> ((QueuePoolError + unit) \<times> QueuePool) option" where
  "push_account_backfill K = push (ACCOUNT_BACKFILL_STREAM K)"

definition push_transaction_backfill :: "stream_keys \<Rightarrow> bytes \<Rightarrow> string + unit \<Rightarrow> QueuePool \<Rightarrow> ((QueuePoolError + unit) \<times> QueuePool) option" where
  "push_transaction_backfill K = push (TRANSACTION_BACKFILL_STREAM K)"

definition push_account :: "stream_keys \<Rightarrow> bytes \<Rightarrow> string + unit \<Rightarrow> QueuePool \<Rightarrow> ((QueuePoolError + unit) \<times> QueuePool) option" where
  "push_account K = push (ACCOUNT_STREAM K)"

definition push_transaction :: "stream_keys \<Rightarrow> bytes \<Rightarrow> string + unit \<Rightarrow> QueuePool \<Rightarrow> ((QueuePoolError + unit) \<times> QueuePool) option" where
  "push_transaction K = push (TRANSACTION_STREAM K)"

section \<open>Failing sends\<close>

text \<open>A sequence of pushes, each with the outcome of its send.\<close>

fun push_all :: "(string \<times> bytes \<times> (string + unit)) list \<Rightarrow> QueuePool \<Rightarrow> QueuePool option" where
  "push_all [] q = Some q"
| "push_all ((key, bytes, sent) # ps) q =
     (case push key bytes sent q of None \<Rightarrow> None | Some (_, q') \<Rightarrow> push_all ps q')"

definition failed_sends :: "(string \<times> bytes \<times> (string + unit)) list \<Rightarrow> nat" where
  "failed_sends ps = length (filter (\<lambda>(_, _, sent). sent \<noteq> Inr ()) ps)"

lemma push_all_append:
  "push_all (ps @ ps') q = (case push_all ps q of None \<Rightarrow> None | Some q' \<Rightarrow> push_all ps' q')"
  by (induction ps q rule: push_all.induct) (auto split: option.split)

lemma push_all_idle: "push_all ps q = Some q' \<Longrightarrow> qp_idle q' + failed_sends ps = qp_idle q"
proof (induction ps q rule: push_all.induct)
  case (2 key bytes sent ps q)
  then show ?case
    by (cases sent) (auto simp: push_def failed_sends_def Let_def split: if_splits)
qed (simp add: failed_sends_def)

lemma push_all_returns: "failed_sends ps < qp_idle q \<Longrightarrow> \<exists>q'. push_all ps q = Some q'"
proof (induction ps q rule: push_all.induct)
  case (2 key bytes sent ps q)
  then show ?case
    by (cases sent) (auto simp: push_def failed_sends_def Let_def)
qed simp

text \<open>
  C24: failed sends use up the pool.  A pool of \<open>n\<close> connections serves pushes as long as fewer than \<open>n\<close>
  sends have failed; a failed send does not give its connection back, and once \<open>n\<close> sends have failed every further
  push waits forever, whatever the messenger would do.
\<close>

theorem failed_sends_exhaust_pool:
  assumes "qp_idle q = n" and "0 < n"
  shows "(\<exists>q'. push_all (ps @ [(key, bytes, sent)]) q = Some q') \<longleftrightarrow> failed_sends ps < n"
proof (cases "push_all ps q")
  case None
  then have "\<not> failed_sends ps < n"
    using push_all_returns [of ps q] assms(1) by auto
  with None show ?thesis by (simp add: push_all_append)
next
  case (Some q')
  then have "qp_idle q' + failed_sends ps = n"
    using push_all_idle assms(1) by blast
  with Some show ?thesis
    by (auto simp: push_all_append push_def Let_def split: sum.split)
qed

theorem failed_sends_exhaust_pool_witness:
  "\<not> (\<exists>q'. push_all ([(''T'', [1], Inl ''down''), (''T'', [2], Inl ''down'')] @ [(''T'', [3], Inr ())])
     \<lparr>qp_size = 2, qp_idle = 2, qp_sent = []\<rparr> = Some q')"
  using failed_sends_exhaust_pool [of "\<lparr>qp_size = 2, qp_idle = 2, qp_sent = []\<rparr>" 2
      "[(''T'', [1], Inl ''down''), (''T'', [2], Inl ''down'')]" "''T''" "[3]" "Inr ()"]
  by (simp add: failed_sends_def)

lemma fresh_pool_full:
  "open_connections K connect add n q = Inr q' \<Longrightarrow> qp_idle q' = qp_idle q + n"
  by (induction K connect add n q rule: open_connections.induct) (auto split: sum.splits list.splits)

end
