(* ===== verification/TreeCrawl.thy ===== *)
theory TreeCrawl
  imports OpsCore Backfiller
begin

text \<open>
  The tree crawler of the operations tools (\<open>ops/src/bubblegum/tree.rs\<close> and \<open>backfiller.rs\<close>): it reads the
  trees from the chain, finds the gaps in their recorded sequence numbers, reads the signatures of each gap from the
  node and queues their transactions again.  The node, the Merkle tree header of \<open>spl_account_compression\<close>, the
  serialiser and the messenger are parameters (\<open>crawl_env\<close>).  Workers run concurrently; here the trees, gaps and
  signatures are taken in the order in which they are sent.
\<close>

section \<open>Trees\<close>

definition GET_SIGNATURES_FOR_ADDRESS_LIMIT :: nat where "GET_SIGNATURES_FOR_ADDRESS_LIMIT = 1000"

datatype TreeErrorKind =
    TE_Rpc string | TE_PerkleSerialize string | TE_QueuePool QueuePoolError | TE_ParsePubkey string
  | TE_SerializeTreeResponse | TE_Database string | TE_TryFromPubkey | TE_TryFromSignature

record crawl_header = tree_header +
  th_max_depth :: u32
  th_max_buffer_size :: u32

record TreeHeaderResponse =
  max_depth :: u32
  max_buffer_size :: u32
  creation_slot :: u64
  tree_size :: nat

record TreeResponse =
  tr_pubkey :: pubkey
  tr_tree_header :: TreeHeaderResponse
  tr_seq :: u64

text \<open>One entry of \<open>getSignaturesForAddress\<close>.\<close>

record signature_status =
  ss_signature :: string
  ss_err :: "string option"

text \<open>
  \<open>ce_scan\<close> lists the rows of \<open>cl_audits_v2\<close> in the order in which the database reads them: rows with the same
  sequence number keep that order.
\<close>

record crawl_env =
  ce_scan :: "cl_audits_table \<Rightarrow> cl_audits_row list"
  ce_signatures :: "pubkey \<Rightarrow> bytes option \<Rightarrow> bytes option \<Rightarrow> string + signature_status list"
  ce_parse_signature :: "string \<Rightarrow> string + bytes"
  ce_program_accounts :: "string + (pubkey \<times> bytes) list"
  ce_accounts :: "pubkey list \<Rightarrow> string + bytes option list"
  ce_parse_pubkey :: "string \<Rightarrow> string + pubkey"
  ce_header_size :: nat
  ce_header :: "bytes \<Rightarrow> string + crawl_header"
  ce_authority :: "pubkey \<Rightarrow> pubkey"
  ce_authority_error :: string
  ce_transaction :: "bytes \<Rightarrow> string + bytes"
  ce_serialize :: "bytes \<Rightarrow> string + bytes"
  ce_send :: "bytes \<Rightarrow> string + unit"
  ce_streams :: stream_keys

definition TreeHeaderResponse_try_from :: "crawl_header \<Rightarrow> string + TreeHeaderResponse" where
  "TreeHeaderResponse_try_from payload =
     map_sum id (\<lambda>sz. \<lparr>max_depth = th_max_depth payload, max_buffer_size = th_max_buffer_size payload,
       creation_slot = th_creation_slot payload, tree_size = sz\<rparr>) (th_tree_size payload)"

text \<open>\<open>TreeResponse::try_from_rpc\<close>: an account shorter than its header says panics.\<close>

definition try_from_rpc :: "crawl_env \<Rightarrow> pubkey \<Rightarrow> bytes \<Rightarrow> (string + TreeResponse) outcome" where
  "try_from_rpc E k data =
     (if length data < ce_header_size E then Panic
      else case ce_header E (take (ce_header_size E) data) of
        Inl e \<Rightarrow> Done (Inl e)
      | Inr header \<Rightarrow>
          (case th_tree_size header of
             Inl e \<Rightarrow> Done (Inl e)
           | Inr sz \<Rightarrow>
               if length data - ce_header_size E < sz \<or> sz < 8 then Panic
               else if \<not> th_valid_authority header (ce_authority E k) then Done (Inl (ce_authority_error E))
               else Done (map_sum id
                 (\<lambda>th. \<lparr>tr_pubkey = k, tr_tree_header = th,
                        tr_seq = word_rcat (rev (take 8 (drop (ce_header_size E) data)))\<rparr>)
                 (TreeHeaderResponse_try_from header))))"

text \<open>\<open>TreeResponse::all\<close>: accounts that cannot be read are left out.\<close>

fun ok_trees :: "crawl_env \<Rightarrow> (pubkey \<times> bytes) list \<Rightarrow> TreeResponse list outcome" where
  "ok_trees E [] = Done []"
| "ok_trees E ((k, data) # accounts) =
     out_bind (try_from_rpc E k data) (\<lambda>r.
     out_bind (ok_trees E accounts) (\<lambda>trees. Done (case r of Inl _ \<Rightarrow> trees | Inr t \<Rightarrow> t # trees)))"

definition all_trees :: "crawl_env \<Rightarrow> (TreeErrorKind + TreeResponse list) outcome" where
  "all_trees E =
     (case ce_program_accounts E of
        Inl e \<Rightarrow> Done (Inl (TE_Rpc e))
      | Inr accounts \<Rightarrow> out_bind (ok_trees E accounts) (\<lambda>trees. Done (Inr trees)))"

text \<open>\<open>TreeResponse::find\<close>: the keys in batches of a hundred; a missing account is left out, an unreadable one is an error.\<close>

fun read_all :: "crawl_env \<Rightarrow> (pubkey \<times> bytes option) list \<Rightarrow> (TreeErrorKind + TreeResponse list) outcome" where
  "read_all E [] = Done (Inr [])"
| "read_all E ((k, None) # accounts) = read_all E accounts"
| "read_all E ((k, Some data) # accounts) =
     out_bind (try_from_rpc E k data) (\<lambda>r.
       case r of
         Inl _ \<Rightarrow> Done (Inl TE_SerializeTreeResponse)
       | Inr t \<Rightarrow> out_bind (read_all E accounts) (\<lambda>ts. Done (map_sum id (Cons t) ts)))"

definition find_trees :: "crawl_env \<Rightarrow> string list \<Rightarrow> (TreeErrorKind + TreeResponse list) outcome" where
  "find_trees E keys =
     (case collect_sum (map (ce_parse_pubkey E) keys) of
        Inl e \<Rightarrow> Done (Inl (TE_ParsePubkey e))
      | Inr pubkeys \<Rightarrow>
          (case collect_sum (map (\<lambda>batch. map_sum id (zip batch) (ce_accounts E batch)) (chunks 100 pubkeys)) of
             Inl e \<Rightarrow> Done (Inl (TE_Rpc e))
           | Inr result \<Rightarrow> read_all E (concat result)))"

section \<open>Gaps\<close>

record TreeGapModel =
  tg_tree :: bytes
  tg_start :: int
  tg_end :: int
  tg_lower :: bytes
  tg_upper :: bytes

record TreeGapFill =
  gf_tree :: pubkey
  gf_before :: "bytes option"
  gf_until :: "bytes option"

definition tree_audits :: "crawl_env \<Rightarrow> bytes \<Rightarrow> db \<Rightarrow> cl_audits_row list" where
  "tree_audits E tree s = filter (\<lambda>r. cla_tree r = tree) (ce_scan E (cl_audits_v2 s))"

text \<open>\<open>TREE_GAP_SQL\<close>: each row with the next one by sequence number (\<open>LEAD\<close>), where numbers are missing between them.\<close>

definition gap_models :: "cl_audits_row list \<Rightarrow> TreeGapModel list" where
  "gap_models rows =
     (let sequenced = sort_key cla_seq rows in
      map (\<lambda>(r, nx). \<lparr>tg_tree = cla_tree r, tg_start = cla_seq r, tg_end = cla_seq nx,
                      tg_lower = cla_tx r, tg_upper = cla_tx nx\<rparr>)
        (filter (\<lambda>(r, nx). cla_seq nx - cla_seq r > 1) (zip sequenced (tl sequenced))))"

definition TreeGapModel_find :: "crawl_env \<Rightarrow> bytes \<Rightarrow> (DbErr, TreeGapModel list) dbm" where
  "TreeGapModel_find E tree = query (\<lambda>s. gap_models (tree_audits E tree s))"

definition signature_of :: "bytes \<Rightarrow> TreeErrorKind + bytes" where
  "signature_of b = (if length b = 64 then Inr b else Inl TE_TryFromSignature)"

definition TreeGapFill_try_from :: "TreeGapModel \<Rightarrow> TreeErrorKind + TreeGapFill" where
  "TreeGapFill_try_from model =
     (if length (tg_tree model) \<noteq> 32 then Inl TE_TryFromPubkey
      else if length (tg_upper model) \<noteq> 64 then Inl TE_TryFromSignature
      else if length (tg_lower model) \<noteq> 64 then Inl TE_TryFromSignature
      else Inr \<lparr>gf_tree = tg_tree model, gf_before = Some (tg_upper model), gf_until = Some (tg_lower model)\<rparr>)"

text \<open>The gap worker of a tree; its result are the gaps it sends.\<close>

definition highest :: "cl_audits_row list \<Rightarrow> cl_audits_row option" where
  "highest rows = (case sort_key (\<lambda>r. - cla_seq r) rows of [] \<Rightarrow> None | r # _ \<Rightarrow> Some r)"

definition lowest :: "cl_audits_row list \<Rightarrow> cl_audits_row option" where
  "lowest rows = (case sort_key cla_seq rows of [] \<Rightarrow> None | r # _ \<Rightarrow> Some r)"

definition upper_fill :: "TreeResponse \<Rightarrow> cl_audits_row option \<Rightarrow> TreeErrorKind + TreeGapFill list" where
  "upper_fill tree upper =
     (case upper of
        Some r \<Rightarrow> map_sum id (\<lambda>sig. [\<lparr>gf_tree = tr_pubkey tree, gf_before = None, gf_until = Some sig\<rparr>]) (signature_of (cla_tx r))
      | None \<Rightarrow> Inr (if tr_seq tree > 0 then [\<lparr>gf_tree = tr_pubkey tree, gf_before = None, gf_until = None\<rparr>] else []))"

definition lower_fill :: "TreeResponse \<Rightarrow> cl_audits_row option \<Rightarrow> TreeErrorKind + TreeGapFill list" where
  "lower_fill tree lower =
     (case lower of
        Some r \<Rightarrow>
          if cla_seq r > 1 then
            map_sum id (\<lambda>sig. [\<lparr>gf_tree = tr_pubkey tree, gf_before = Some sig, gf_until = None\<rparr>]) (signature_of (cla_tx r))
          else Inr []
      | None \<Rightarrow> Inr [])"

definition gap_worker :: "crawl_env \<Rightarrow> TreeResponse \<Rightarrow> (TreeErrorKind, TreeGapFill list) dbm" where
  "gap_worker E tree =
     db_bind (map_err TE_Database (TreeGapModel_find E (tr_pubkey tree))) (\<lambda>models.
     db_bind (lift_result (collect_sum (map TreeGapFill_try_from models))) (\<lambda>gaps.
     db_bind (map_err TE_Database (query (\<lambda>s. highest (tree_audits E (tr_pubkey tree) s)))) (\<lambda>upper_known_seq.
     db_bind (map_err TE_Database (query (\<lambda>s. lowest (tree_audits E (tr_pubkey tree) s)))) (\<lambda>lower_known_seq.
     db_bind (lift_result (upper_fill tree upper_known_seq)) (\<lambda>up.
     db_bind (lift_result (lower_fill tree lower_known_seq)) (\<lambda>low.
     db_return (gaps @ up @ low)))))))"

section \<open>Signatures\<close>

text \<open>The successful signatures of a page are sent one by one, and the last one sent is where the next page starts.\<close>

fun send_page ::
  "crawl_env \<Rightarrow> signature_status list \<Rightarrow> bytes option \<Rightarrow> bytes list \<Rightarrow> (string + bytes option) \<times> bytes list" where
  "send_page E [] before sent = (Inr before, sent)"
| "send_page E (x # xs) before sent =
     (case ce_parse_signature E (ss_signature x) of
        Inl e \<Rightarrow> (Inl e, sent)
      | Inr sig \<Rightarrow> send_page E xs (Some sig) (sent @ [sig]))"

partial_function (option) crawl ::
  "crawl_env \<Rightarrow> TreeGapFill \<Rightarrow> bytes option \<Rightarrow> bytes list \<Rightarrow> ((string + unit) \<times> bytes list) option" where
  "crawl E gap before sent =
     (case ce_signatures E (gf_tree gap) before (gf_until gap) of
        Inl e \<Rightarrow> Some (Inl e, sent)
      | Inr sigs \<Rightarrow>
          (case send_page E (filter (\<lambda>x. ss_err x = None) sigs) before sent of
             (Inl e, sent') \<Rightarrow> Some (Inl e, sent')
           | (Inr before', sent') \<Rightarrow>
               if length sigs < GET_SIGNATURES_FOR_ADDRESS_LIMIT then Some (Inr (), sent')
               else crawl E gap before' sent'))"

text \<open>A crawl worker logs the error of its gap and goes on.\<close>

fun crawl_gaps :: "crawl_env \<Rightarrow> TreeGapFill list \<Rightarrow> bytes list \<Rightarrow> bytes list option" where
  "crawl_gaps E [] sent = Some sent"
| "crawl_gaps E (gap # gaps) sent =
     (case crawl E gap (gf_before gap) sent of None \<Rightarrow> None | Some (_, sent') \<Rightarrow> crawl_gaps E gaps sent')"

section \<open>Transactions and the whole run\<close>

definition queue_transaction :: "crawl_env \<Rightarrow> bytes \<Rightarrow> QueuePool \<Rightarrow> ((TreeErrorKind + unit) \<times> QueuePool) option" where
  "queue_transaction E signature q =
     (case ce_transaction E signature of
        Inl e \<Rightarrow> Some (Inl (TE_Rpc e), q)
      | Inr transaction \<Rightarrow>
          (case ce_serialize E transaction of
             Inl e \<Rightarrow> Some (Inl (TE_PerkleSerialize e), q)
           | Inr message \<Rightarrow>
               map_option (\<lambda>(r, q'). (map_sum TE_QueuePool id r, q'))
                 (push_transaction_backfill (ce_streams E) message (ce_send E message) q)))"

fun queue_transactions :: "crawl_env \<Rightarrow> bytes list \<Rightarrow> QueuePool \<Rightarrow> QueuePool option" where
  "queue_transactions E [] q = Some q"
| "queue_transactions E (sig # sigs) q =
     (case queue_transaction E sig q of None \<Rightarrow> None | Some (_, q') \<Rightarrow> queue_transactions E sigs q')"

text \<open>The error of a gap worker ends that worker only.\<close>

fun gap_workers :: "crawl_env \<Rightarrow> TreeResponse list \<Rightarrow> db \<Rightarrow> TreeGapFill list \<times> db" where
  "gap_workers E [] s = ([], s)"
| "gap_workers E (tree # trees) s =
     (case gap_worker E tree s of (r, s1) \<Rightarrow>
      case gap_workers E trees s1 of (gaps, s2) \<Rightarrow>
        ((case r of Inl _ \<Rightarrow> gaps | Inr gs \<Rightarrow> gs @ gaps), s2))"

definition crawler_run ::
  "crawl_env \<Rightarrow> string list option \<Rightarrow> QueuePool \<Rightarrow> db \<Rightarrow> (TreeErrorKind + QueuePool) outcome option" where
  "crawler_run E only_trees q s =
     (case (case only_trees of Some keys \<Rightarrow> find_trees E keys | None \<Rightarrow> all_trees E) of
        Panic \<Rightarrow> Some Panic
      | Done (Inl e) \<Rightarrow> Some (Done (Inl e))
      | Done (Inr trees) \<Rightarrow>
          (case crawl_gaps E (fst (gap_workers E trees s)) [] of
             None \<Rightarrow> None
           | Some sigs \<Rightarrow> map_option (\<lambda>q'. Done (Inr q')) (queue_transactions E sigs q)))"

end
