(* ===== verification/CrawlProps.thy ===== *)
theory CrawlProps
  imports TreeCrawl
begin

text \<open>
  Properties of the tree crawler: the crawl of a gap sends its successful signatures, and the gaps of a tree cover
  the transactions of the missing sequence numbers.
\<close>

section \<open>The history of a tree\<close>

text \<open>
  The node keeps the signatures of a tree as a list, newest first.  It answers with at most a thousand of those
  strictly between \<open>until\<close> and \<open>before\<close>.
\<close>

definition sig_of :: "crawl_env \<Rightarrow> signature_status \<Rightarrow> bytes" where
  "sig_of E x = (case ce_parse_signature E (ss_signature x) of Inl _ \<Rightarrow> [] | Inr b \<Rightarrow> b)"

definition pos :: "crawl_env \<Rightarrow> signature_status list \<Rightarrow> bytes \<Rightarrow> nat" where
  "pos E h b = length (takeWhile (\<lambda>x. sig_of E x \<noteq> b) h)"

definition between ::
  "crawl_env \<Rightarrow> signature_status list \<Rightarrow> bytes option \<Rightarrow> bytes option \<Rightarrow> signature_status list" where
  "between E h before until =
     drop (case before of None \<Rightarrow> 0 | Some b \<Rightarrow> Suc (pos E h b))
       (take (case until of None \<Rightarrow> length h | Some u \<Rightarrow> pos E h u) h)"

definition known :: "crawl_env \<Rightarrow> signature_status list \<Rightarrow> bytes option \<Rightarrow> bool" where
  "known E h b \<longleftrightarrow> set_option b \<subseteq> sig_of E ` set h"

definition serves_tree :: "crawl_env \<Rightarrow> pubkey \<Rightarrow> signature_status list \<Rightarrow> bool" where
  "serves_tree E tree h \<longleftrightarrow>
     (\<forall>x \<in> set h. \<exists>b. ce_parse_signature E (ss_signature x) = Inr b) \<and> distinct (map (sig_of E) h) \<and>
     (\<forall>before until. known E h before \<and> known E h until \<longrightarrow>
        ce_signatures E tree before until = Inr (take 1000 (between E h before until)))"

text \<open>No thousand consecutive failures.\<close>

definition dense :: "signature_status list \<Rightarrow> bool" where
  "dense xs \<longleftrightarrow> (\<forall>i. i + 1000 \<le> length xs \<longrightarrow> (\<exists>j < 1000. ss_err (xs ! (i + j)) = None))"

definition succeeded :: "crawl_env \<Rightarrow> signature_status list \<Rightarrow> bytes list" where
  "succeeded E xs = map (sig_of E) (filter (\<lambda>x. ss_err x = None) xs)"

lemma pos_split: "distinct (map (sig_of E) (ys @ x # zs)) \<Longrightarrow> pos E (ys @ x # zs) (sig_of E x) = length ys"
  by (subst pos_def, subst takeWhile_append2) (auto, metis imageI)

lemma pos_nth: "distinct (map (sig_of E) h) \<Longrightarrow> k < length h \<Longrightarrow> pos E h (sig_of E (h ! k)) = k"
  using pos_split [of E "take k h" "h ! k" "drop (Suc k) h"] id_take_nth_drop [of k h] by simp

lemma pos_known:
  assumes "b \<in> sig_of E ` set h"
  shows "pos E h b < length h \<and> sig_of E (h ! pos E h b) = b"
proof -
  have "takeWhile (\<lambda>x. sig_of E x \<noteq> b) h \<noteq> h"
    using assms by (auto simp: takeWhile_eq_all_conv)
  then have "pos E h b < length h"
    unfolding pos_def by (metis length_takeWhile_le le_neq_implies_less takeWhile_eq_take take_all order_refl)
  then show ?thesis
    using nth_length_takeWhile [of "\<lambda>x. sig_of E x \<noteq> b" h] by (simp add: pos_def)
qed

lemma set_drop_take: "x \<in> set (drop a (take e xs)) \<longleftrightarrow> (\<exists>k < length xs. x = xs ! k \<and> a \<le> k \<and> k < e)"
proof
  assume "x \<in> set (drop a (take e xs))"
  then obtain i where i: "i < length (drop a (take e xs))" "x = drop a (take e xs) ! i"
    by (metis in_set_conv_nth)
  then have "drop a (take e xs) ! i = xs ! (a + i)"
    by (subst nth_drop) auto
  with i show "\<exists>k < length xs. x = xs ! k \<and> a \<le> k \<and> k < e"
    by (intro exI [of _ "a + i"]) auto
next
  assume "\<exists>k < length xs. x = xs ! k \<and> a \<le> k \<and> k < e"
  then obtain k where "k < length xs" "x = xs ! k" "a \<le> k" "k < e" by blast
  then show "x \<in> set (drop a (take e xs))"
    by (auto simp: in_set_conv_nth intro!: exI [of _ "k - a"])
qed

lemma between_member:
  "(x \<in> set (between E h before until)) \<longleftrightarrow>
     (\<exists>k < length h. x = h ! k \<and> (\<forall>b. before = Some b \<longrightarrow> pos E h b < k) \<and> (\<forall>u. until = Some u \<longrightarrow> k < pos E h u))"
  unfolding between_def set_drop_take by (auto simp: Suc_le_eq split: option.split)

lemma between_next:
  assumes "distinct (map (sig_of E) h)" and "between E h before until = ys @ x # zs"
  shows "between E h (Some (sig_of E x)) until = zs"
proof -
  let ?a = "case before of None \<Rightarrow> 0 | Some b \<Rightarrow> Suc (pos E h b)"
  let ?e = "case until of None \<Rightarrow> length h | Some u \<Rightarrow> pos E h u"
  have d: "drop ?a (take ?e h) = ys @ x # zs"
    using assms(2) by (simp add: between_def)
  have T: "take ?e h = (take ?a (take ?e h) @ ys) @ x # zs"
    using append_take_drop_id [of ?a "take ?e h"] unfolding d by simp
  then have h: "h = (take ?a (take ?e h) @ ys) @ x # (zs @ drop ?e h)"
    by (metis append.assoc append_Cons append_take_drop_id)
  have "pos E h (sig_of E x) = length (take ?a (take ?e h) @ ys)"
    using pos_split [of E "take ?a (take ?e h) @ ys" x "zs @ drop ?e h"] assms(1) h by metis
  then show ?thesis
    unfolding between_def by (subst T) simp
qed

section \<open>The crawl of a gap\<close>

lemma send_page_run:
  "(\<forall>x \<in> set xs. \<exists>b. ce_parse_signature E (ss_signature x) = Inr b) \<Longrightarrow>
   send_page E xs before sent =
     (Inr (if xs = [] then before else Some (sig_of E (last xs))), sent @ map (sig_of E) xs)"
  by (induction xs arbitrary: before sent) (auto simp: sig_of_def)

lemma split_last_filter:
  "filter P xs \<noteq> [] \<Longrightarrow> \<exists>ys zs. xs = ys @ last (filter P xs) # zs \<and> filter P zs = [] \<and> P (last (filter P xs))"
proof (induction xs rule: rev_induct)
  case (snoc x xs)
  show ?case
  proof (cases "P x")
    case True
    then show ?thesis by (intro exI [of _ xs] exI [of _ "[]"]) simp
  next
    case False
    with snoc obtain ys zs where "xs = ys @ last (filter P xs) # zs" "filter P zs = []" "P (last (filter P xs))"
      by auto
    with False show ?thesis by (intro exI [of _ ys] exI [of _ "zs @ [x]"]) auto
  qed
qed simp

lemma dense_append: "dense (ys @ zs) \<Longrightarrow> dense zs"
  unfolding dense_def
proof (intro allI impI)
  fix i
  assume d: "\<forall>i. i + 1000 \<le> length (ys @ zs) \<longrightarrow> (\<exists>j<1000. ss_err ((ys @ zs) ! (i + j)) = None)" and "i + 1000 \<le> length zs"
  then obtain j where "j < 1000" "ss_err ((ys @ zs) ! (length ys + i + j)) = None"
    by (auto dest: spec [of _ "length ys + i"])
  then show "\<exists>j<1000. ss_err (zs ! (i + j)) = None"
    by (auto simp: nth_append add.assoc)
qed

lemma dense_prefix: "dense (ys @ zs) \<Longrightarrow> dense ys"
  unfolding dense_def
proof (intro allI impI)
  fix i
  assume d: "\<forall>i. i + 1000 \<le> length (ys @ zs) \<longrightarrow> (\<exists>j<1000. ss_err ((ys @ zs) ! (i + j)) = None)" and l: "i + 1000 \<le> length ys"
  then obtain j where "j < 1000" "ss_err ((ys @ zs) ! (i + j)) = None"
    by (auto dest: spec [of _ i])
  with l show "\<exists>j<1000. ss_err (ys ! (i + j)) = None"
    by (auto simp: nth_append)
qed

lemma dense_between: "dense h \<Longrightarrow> dense (between E h before until)"
  unfolding between_def by (metis append_take_drop_id dense_append dense_prefix)

lemma dense_page: "dense xs \<Longrightarrow> 1000 \<le> length xs \<Longrightarrow> filter (\<lambda>x. ss_err x = None) (take 1000 xs) \<noteq> []"
proof -
  assume "dense xs" and l: "1000 \<le> length xs"
  then obtain j where "j < 1000" "ss_err (xs ! j) = None"
    unfolding dense_def by (metis add_0)
  moreover from this l have "xs ! j \<in> set (take 1000 xs)"
    by (auto simp: in_set_conv_nth intro!: exI [of _ j])
  ultimately show ?thesis by (auto simp: filter_empty_conv)
qed

lemma crawl_run:
  assumes "serves_tree E (gf_tree g) h" and "known E h (gf_until g)"
  shows "known E h before \<Longrightarrow> dense (between E h before (gf_until g)) \<Longrightarrow>
    crawl E g before sent = Some (Inr (), sent @ succeeded E (between E h before (gf_until g)))"
proof (induction "length (between E h before (gf_until g))" arbitrary: before sent rule: less_induct)
  case less
  let ?seg = "between E h before (gf_until g)"
  let ?page = "take 1000 ?seg" and ?ok = "\<lambda>x. ss_err x = None"
  have page: "ce_signatures E (gf_tree g) before (gf_until g) = Inr ?page"
    using assms less.prems(1) by (simp add: serves_tree_def)
  have "set ?seg \<subseteq> set h"
    by (auto simp: between_def dest: in_set_dropD in_set_takeD)
  then have "\<forall>x \<in> set (filter ?ok ?page). \<exists>b. ce_parse_signature E (ss_signature x) = Inr b"
    using assms(1) by (auto simp: serves_tree_def dest!: in_set_takeD)
  note sent = send_page_run [OF this, of before sent]
  show ?case
  proof (cases "length ?seg < 1000")
    case True
    then show ?thesis
      using page sent by (simp add: crawl.simps GET_SIGNATURES_FOR_ADDRESS_LIMIT_def succeeded_def)
  next
    case False
    then have ne: "filter ?ok ?page \<noteq> []"
      using dense_page less.prems(2) by simp
    let ?x = "last (filter ?ok ?page)"
    obtain ys zs where s: "?page = ys @ ?x # zs" "filter ?ok zs = []" "?ok ?x"
      using split_last_filter [OF ne] by blast
    have seg: "?seg = ys @ ?x # (zs @ drop 1000 ?seg)"
      using append_take_drop_id [of 1000 ?seg] s(1) by (metis append.assoc append_Cons)
    have nx: "between E h (Some (sig_of E ?x)) (gf_until g) = zs @ drop 1000 ?seg"
      using between_next [OF _ seg] assms(1) by (simp add: serves_tree_def)
    have "?x \<in> set ?page"
      using s(1) by (metis in_set_conv_decomp)
    then have k: "known E h (Some (sig_of E ?x))"
      using \<open>set ?seg \<subseteq> set h\<close> by (auto simp: known_def dest!: in_set_takeD)
    have len: "length (zs @ drop 1000 ?seg) < length ?seg"
      by (subst (2) seg) simp
    have dn: "dense (zs @ drop 1000 ?seg)"
      using dense_append [of "ys @ [?x]"] less.prems(2) seg by (metis append.assoc append_Cons append_Nil)
    have "crawl E g before sent = crawl E g (Some (sig_of E ?x)) (sent @ map (sig_of E) (filter ?ok ?page))"
      using page sent ne False by (simp add: crawl.simps [of E g before] GET_SIGNATURES_FOR_ADDRESS_LIMIT_def)
    also have "\<dots> = Some (Inr (), (sent @ map (sig_of E) (filter ?ok ?page)) @ succeeded E (zs @ drop 1000 ?seg))"
      using less.hyps [of "Some (sig_of E ?x)", unfolded nx, OF len k dn] by simp
    also have "filter ?ok ?page = filter ?ok (ys @ [?x])"
      using s by (metis (no_types, lifting) append.assoc append_Cons append_Nil append_Nil2 filter_append)
    also have "(sent @ map (sig_of E) (filter ?ok (ys @ [?x]))) @ succeeded E (zs @ drop 1000 ?seg) = sent @ succeeded E ?seg"
      using arg_cong [OF seg, of "succeeded E"] by (simp add: succeeded_def)
    finally show ?thesis .
  qed
qed

text \<open>
  A full page without a successful transaction does not move the crawl: it reads the same page for ever.
\<close>

definition stuck :: "crawl_env \<Rightarrow> TreeGapFill \<Rightarrow> bytes option \<Rightarrow> bool" where
  "stuck E g before \<longleftrightarrow>
     (\<exists>page. ce_signatures E (gf_tree g) before (gf_until g) = Inr page \<and> 1000 \<le> length page \<and>
        filter (\<lambda>x. ss_err x = None) page = [])"

lemma crawl_returns_moving: "crawl E g before sent = Some y \<Longrightarrow> \<not> stuck E g before"
proof (rule crawl.raw_induct [where P = "\<lambda>E g before sent y. \<not> stuck E g before"])
  fix crawl :: "crawl_env \<Rightarrow> TreeGapFill \<Rightarrow> bytes option \<Rightarrow> bytes list \<Rightarrow> ((string + unit) \<times> bytes list) option"
    and E g before sent y
  assume ih: "\<And>E g before sent y. crawl E g before sent = Some y \<Longrightarrow> \<not> stuck E g before"
    and y: "(case ce_signatures E (gf_tree g) before (gf_until g) of Inl e \<Rightarrow> Some (Inl e, sent)
      | Inr sigs \<Rightarrow>
          (case send_page E (filter (\<lambda>x. ss_err x = None) sigs) before sent of
             (Inl e, sent') \<Rightarrow> Some (Inl e, sent')
           | (Inr before', sent') \<Rightarrow>
               if length sigs < GET_SIGNATURES_FOR_ADDRESS_LIMIT then Some (Inr (), sent')
               else crawl E g before' sent')) = Some y"
  show "\<not> stuck E g before"
  proof
    assume st: "stuck E g before"
    then have "crawl E g before sent = Some y"
      using y by (auto simp: stuck_def GET_SIGNATURES_FOR_ADDRESS_LIMIT_def)
    with ih st show False by blast
  qed
qed

lemma failed_page_never_ends:
  assumes "ce_signatures E (gf_tree g) before (gf_until g) = Inr page" and "1000 \<le> length page"
    and "\<forall>x \<in> set page. ss_err x \<noteq> None"
  shows "crawl E g before sent = None"
  using crawl_returns_moving [of E g before sent] assms
  by (cases "crawl E g before sent") (auto simp: stuck_def filter_empty_conv)

section \<open>The gaps of a tree\<close>

text \<open>
  \<open>tx n\<close> is the transaction of change \<open>n\<close>.  Later changes are in the same or in newer transactions, and the
  rows of the tree name the transactions of their changes.
\<close>

definition tells_history ::
  "crawl_env \<Rightarrow> signature_status list \<Rightarrow> int \<Rightarrow> (int \<Rightarrow> bytes) \<Rightarrow> cl_audits_row list \<Rightarrow> bool" where
  "tells_history E h N tx rows \<longleftrightarrow>
     (\<forall>n. 1 \<le> n \<and> n \<le> N \<longrightarrow> tx n \<in> sig_of E ` set h) \<and>
     (\<forall>m n. 1 \<le> m \<and> m \<le> n \<and> n \<le> N \<longrightarrow> pos E h (tx n) \<le> pos E h (tx m)) \<and>
     (\<forall>r \<in> set rows. 1 \<le> cla_seq r \<and> cla_seq r \<le> N \<and> cla_tx r = tx (cla_seq r) \<and> length (cla_tx r) = 64)"

lemma tells_pos:
  assumes "tells_history E h N tx rows" and "r \<in> set rows" and "1 \<le> n" "n \<le> N" and "tx n \<noteq> cla_tx r"
  shows "n < cla_seq r \<Longrightarrow> pos E h (cla_tx r) < pos E h (tx n)" "cla_seq r < n \<Longrightarrow> pos E h (tx n) < pos E h (cla_tx r)"
proof -
  have r: "1 \<le> cla_seq r" "cla_seq r \<le> N" "cla_tx r = tx (cla_seq r)"
    using assms(1,2) by (auto simp: tells_history_def)
  have mono: "pos E h (tx k) \<le> pos E h (tx m)" if "1 \<le> m" "m \<le> k" "k \<le> N" for m k
    using assms(1) that unfolding tells_history_def by blast
  have "pos E h (tx n) \<noteq> pos E h (cla_tx r)"
    using assms(1,3-5) r pos_known [of "tx n" E h] pos_known [of "tx (cla_seq r)" E h]
    unfolding tells_history_def by metis
  then show "n < cla_seq r \<Longrightarrow> pos E h (cla_tx r) < pos E h (tx n)" "cla_seq r < n \<Longrightarrow> pos E h (tx n) < pos E h (cla_tx r)"
    using mono [of n "cla_seq r"] mono [of "cla_seq r" n] assms(3,4) r by auto
qed

lemma consecutive:
  fixes f :: "'a \<Rightarrow> int"
  assumes "sorted (map f xs)" and "x \<in> set xs" "f x < n" and "y \<in> set xs" "n < f y" and "n \<notin> f ` set xs"
  shows "\<exists>(a, b) \<in> set (zip xs (tl xs)). f a < n \<and> n < f b"
  using assms
proof (induction xs arbitrary: x y)
  case (Cons a xs)
  show ?case
  proof (cases "\<exists>x \<in> set xs. f x < n")
    case True
    then obtain x where x: "x \<in> set xs" "f x < n" by blast
    have "y \<in> set xs"
      using Cons.prems x by auto
    then have "\<exists>(a, b) \<in> set (zip xs (tl xs)). f a < n \<and> n < f b"
      using Cons.IH [OF _ x] Cons.prems by auto
    then show ?thesis
      by (cases xs) auto
  next
    case False
    then have "f a < n" "y \<in> set xs"
      using Cons.prems by auto
    then show ?thesis
      using False Cons.prems by (cases xs) force+
  qed
qed simp

lemma hd_sort:
  assumes "xs \<noteq> []"
  obtains y ys where "sort_key f xs = y # ys" "y \<in> set xs" "\<forall>x \<in> set xs. f y \<le> f x"
proof -
  obtain y ys where ys: "sort_key f xs = y # ys"
    using assms by (metis list.exhaust length_0_conv length_sort)
  have "sorted (map f (y # ys))" "set (y # ys) = set xs"
    using sorted_sort_key [of f xs] set_sort [of f xs] ys by simp_all
  then have "y \<in> set xs" "\<forall>x \<in> set xs. f y \<le> f x"
    by auto
  with ys that show thesis by blast
qed

lemma highest_Some:
  assumes "rows \<noteq> []"
  obtains r where "r \<in> set rows" "highest rows = Some r" "\<forall>x \<in> set rows. cla_seq x \<le> cla_seq r"
  by (rule hd_sort [OF assms, of "\<lambda>r. - cla_seq r"]) (use that in \<open>auto simp: highest_def\<close>)

lemma lowest_Some:
  assumes "rows \<noteq> []"
  obtains r where "r \<in> set rows" "lowest rows = Some r" "\<forall>x \<in> set rows. cla_seq r \<le> cla_seq x"
  by (rule hd_sort [OF assms, of cla_seq]) (use that in \<open>auto simp: lowest_def\<close>)

lemma known_ends_None: "highest [] = None" "lowest [] = None"
  by (simp_all add: highest_def lowest_def)

definition gap_fill :: "bytes \<Rightarrow> cl_audits_row \<times> cl_audits_row \<Rightarrow> TreeGapFill" where
  "gap_fill tree p = \<lparr>gf_tree = tree, gf_before = Some (cla_tx (snd p)), gf_until = Some (cla_tx (fst p))\<rparr>"

definition tree_fills :: "TreeResponse \<Rightarrow> cl_audits_row list \<Rightarrow> TreeGapFill list" where
  "tree_fills t rows =
     (let sequenced = sort_key cla_seq rows in
      map (gap_fill (tr_pubkey t)) (filter (\<lambda>(r, nx). cla_seq nx - cla_seq r > 1) (zip sequenced (tl sequenced)))) @
     (case highest rows of
        Some r \<Rightarrow> [\<lparr>gf_tree = tr_pubkey t, gf_before = None, gf_until = Some (cla_tx r)\<rparr>]
      | None \<Rightarrow> if tr_seq t > 0 then [\<lparr>gf_tree = tr_pubkey t, gf_before = None, gf_until = None\<rparr>] else []) @
     (case lowest rows of
        Some r \<Rightarrow> if cla_seq r > 1 then [\<lparr>gf_tree = tr_pubkey t, gf_before = Some (cla_tx r), gf_until = None\<rparr>] else []
      | None \<Rightarrow> [])"

lemma gap_models_fills:
  assumes "\<forall>r \<in> set rows. cla_tree r = tree \<and> length (cla_tx r) = 64" and "length tree = 32"
  shows "collect_sum (map TreeGapFill_try_from (gap_models rows)) =
    Inr (let sequenced = sort_key cla_seq rows in
      map (gap_fill tree) (filter (\<lambda>(r, nx). cla_seq nx - cla_seq r > 1) (zip sequenced (tl sequenced))))"
proof -
  let ?q = "sort_key cla_seq rows"
  have in_rows: "r \<in> set rows \<and> nx \<in> set rows" if "(r, nx) \<in> set (zip ?q (tl ?q))" for r nx
    using set_zip_leftD [OF that] set_zip_rightD [OF that] list.set_sel(2) [of ?q nx] by (cases "?q = []") simp_all
  have "map TreeGapFill_try_from (gap_models rows) =
      map (\<lambda>p. Inr (gap_fill tree p)) (filter (\<lambda>(r, nx). cla_seq nx - cla_seq r > 1) (zip ?q (tl ?q)))"
    using assms by (auto simp: gap_models_def Let_def TreeGapFill_try_from_def gap_fill_def dest!: in_rows)
  then show ?thesis
    by (simp add: collect_sum_Inr Let_def)
qed

lemma gap_worker_run:
  assumes "faults s = []" and "length (tr_pubkey t) = 32" and "\<forall>r \<in> set (tree_audits E (tr_pubkey t) s). length (cla_tx r) = 64"
  shows "gap_worker E t s = (Inr (tree_fills t (tree_audits E (tr_pubkey t) s)), s)"
proof -
  let ?rows = "tree_audits E (tr_pubkey t) s"
  have rows: "\<forall>r \<in> set ?rows. cla_tree r = tr_pubkey t \<and> length (cla_tx r) = 64"
    using assms(3) by (auto simp: tree_audits_def)
  have up: "upper_fill t (highest ?rows) = Inr (case highest ?rows of
        Some r \<Rightarrow> [\<lparr>gf_tree = tr_pubkey t, gf_before = None, gf_until = Some (cla_tx r)\<rparr>]
      | None \<Rightarrow> if tr_seq t > 0 then [\<lparr>gf_tree = tr_pubkey t, gf_before = None, gf_until = None\<rparr>] else [])"
    using rows by (cases "?rows = []")
      (auto simp: upper_fill_def signature_of_def known_ends_None elim!: highest_Some)
  have low: "lower_fill t (lowest ?rows) = Inr (case lowest ?rows of
        Some r \<Rightarrow> if cla_seq r > 1 then [\<lparr>gf_tree = tr_pubkey t, gf_before = Some (cla_tx r), gf_until = None\<rparr>] else []
      | None \<Rightarrow> [])"
    using rows by (cases "?rows = []")
      (auto simp: lower_fill_def signature_of_def known_ends_None elim!: lowest_Some)
  show ?thesis
    using assms(1) up low gap_models_fills [OF rows assms(2)]
    by (simp add: gap_worker_def TreeGapModel_find_def db_bind_def map_err_def query_ok lift_result_def db_return_def tree_fills_def Let_def)
qed

lemma tells_rows:
  assumes "tells_history E h N tx rows" and "r \<in> set rows"
  shows "cla_tx r \<in> sig_of E ` set h"
    "r' \<in> set rows \<Longrightarrow> cla_seq r \<le> cla_seq r' \<Longrightarrow> pos E h (cla_tx r') \<le> pos E h (cla_tx r)"
  using assms unfolding tells_history_def by metis+

lemma zip_tl_rows: "(a, b) \<in> set (zip (sort_key f rows) (tl (sort_key f rows))) \<Longrightarrow> a \<in> set rows \<and> b \<in> set rows"
  using set_zip_leftD [of a b "sort_key f rows"] set_zip_rightD [of a b "sort_key f rows"] list.set_sel(2) [of "sort_key f rows" b]
  by (cases "sort_key f rows = []") fastforce+

lemma consecutive_outside:
  "sorted (map f xs) \<Longrightarrow> (a, b) \<in> set (zip xs (tl xs)) \<Longrightarrow> x \<in> set xs \<Longrightarrow> f x \<le> f a \<or> f b \<le> (f x :: int)"
proof (induction xs)
  case (Cons y ys)
  show ?case
  proof (cases ys)
    case (Cons z zs)
    with Cons.prems(2) consider "a = y" "b = z" | "(a, b) \<in> set (zip ys (tl ys))"
      by auto
    then show ?thesis
    proof cases
      case 1
      with Cons Cons.prems(1,3) show ?thesis by auto
    next
      case 2
      then have "a \<in> set ys"
        by (rule set_zip_leftD)
      with 2 Cons.IH Cons.prems(1,3) show ?thesis by auto
    qed
  qed (use Cons.prems in simp)
qed simp

lemma missing_in_fill:
  assumes "tells_history E h N tx rows" and "N = uint (tr_seq t)" and "1 \<le> n" "n \<le> N" and "tx n \<notin> cla_tx ` set rows"
  shows "\<exists>g \<in> set (tree_fills t rows). h ! pos E h (tx n) \<in> set (between E h (gf_before g) (gf_until g))"
proof -
  let ?q = "sort_key cla_seq rows"
  have k: "pos E h (tx n) < length h"
    using assms(1,3,4) pos_known [of "tx n" E h] by (simp add: tells_history_def)
  have new: "tx n \<noteq> cla_tx r" if "r \<in> set rows" for r
    using assms(5) that by auto
  have seqs: "n \<notin> cla_seq ` set rows"
    using assms(1) new by (auto simp: tells_history_def)
  note older = tells_pos(1) [OF assms(1) _ assms(3,4) new] and newer = tells_pos(2) [OF assms(1) _ assms(3,4) new]
  show ?thesis
  proof (cases "rows = []")
    case True
    with assms(2-4) have "tr_seq t > 0"
      by (simp add: word_less_def)
    with True k show ?thesis
      by (auto simp: tree_fills_def known_ends_None between_member)
  next
    case False
    obtain up where up: "up \<in> set rows" "highest rows = Some up" "\<forall>x \<in> set rows. cla_seq x \<le> cla_seq up"
      using highest_Some [OF False] .
    obtain lo where lo: "lo \<in> set rows" "lowest rows = Some lo" "\<forall>x \<in> set rows. cla_seq lo \<le> cla_seq x"
      using lowest_Some [OF False] .
    consider "cla_seq up < n" | "n < cla_seq lo" | "cla_seq lo < n" "n < cla_seq up"
      using seqs up lo by (metis imageI linorder_less_linear)
    then show ?thesis
    proof cases
      case 1
      with newer [OF up(1) up(1)] k up show ?thesis
        by (auto simp: tree_fills_def between_member)
    next
      case 2
      with older [OF lo(1) lo(1)] k lo assms(3) show ?thesis
        by (auto simp: tree_fills_def between_member)
    next
      case 3
      obtain a b where ab: "(a, b) \<in> set (zip ?q (tl ?q))" "cla_seq a < n" "n < cla_seq b"
        using consecutive [of cla_seq ?q lo n up] seqs up lo 3 by auto
      then have "gap_fill (tr_pubkey t) (a, b) \<in> set (tree_fills t rows)"
        by (auto simp: tree_fills_def Let_def intro!: image_eqI [of _ _ "(a, b)"])
      moreover have "h ! pos E h (tx n) \<in> set (between E h (Some (cla_tx b)) (Some (cla_tx a)))"
        using older [of b] newer [of a] zip_tl_rows [OF ab(1)] ab(2,3) k by (auto simp: between_member)
      ultimately show ?thesis
        by (intro bexI [of _ "gap_fill (tr_pubkey t) (a, b)"]) (simp_all add: gap_fill_def)
    qed
  qed
qed

lemma fills_known:
  assumes "tells_history E h N tx rows" and "g \<in> set (tree_fills t rows)"
  shows "gf_tree g = tr_pubkey t \<and> known E h (gf_before g) \<and> known E h (gf_until g)"
proof -
  have k: "known E h (Some (cla_tx r))" if "r \<in> set rows" for r
    using tells_rows(1) [OF assms(1) that] by (simp add: known_def)
  show ?thesis
  proof (cases "rows = []")
    case True
    with assms(2) show ?thesis
      by (auto simp: tree_fills_def known_ends_None known_def split: if_splits)
  next
    case False
    obtain up lo where "up \<in> set rows" "highest rows = Some up" "lo \<in> set rows" "lowest rows = Some lo"
      using highest_Some [OF False] lowest_Some [OF False] by metis
    with assms(2) k show ?thesis
      by (auto simp: tree_fills_def Let_def gap_fill_def known_def dest!: zip_tl_rows split: if_splits)
  qed
qed

lemma recorded_not_in_fill:
  assumes "distinct (map (sig_of E) h)" and "tells_history E h N tx rows" and "g \<in> set (tree_fills t rows)" and "r \<in> set rows"
  shows "cla_tx r \<notin> sig_of E ` set (between E h (gf_before g) (gf_until g))"
proof
  assume "cla_tx r \<in> sig_of E ` set (between E h (gf_before g) (gf_until g))"
  then obtain k where "k < length h" "cla_tx r = sig_of E (h ! k)" "\<forall>b. gf_before g = Some b \<longrightarrow> pos E h b < k"
    "\<forall>u. gf_until g = Some u \<longrightarrow> k < pos E h u"
    by (auto simp: between_member)
  then have p: "\<forall>b. gf_before g = Some b \<longrightarrow> pos E h b < pos E h (cla_tx r)"
    "\<forall>u. gf_until g = Some u \<longrightarrow> pos E h (cla_tx r) < pos E h u"
    using pos_nth [OF assms(1)] by simp_all
  note mono = tells_rows(2) [OF assms(2)]
  have False if "(a, b) \<in> set (zip (sort_key cla_seq rows) (tl (sort_key cla_seq rows)))" "g = gap_fill (tr_pubkey t) (a, b)" for a b
    using consecutive_outside [of cla_seq "sort_key cla_seq rows" a b r] that assms(4) zip_tl_rows [OF that(1)] p
      mono [of r a] mono [of b r] by (auto simp: gap_fill_def)
  moreover have False if "highest rows = Some up" "g = \<lparr>gf_tree = tr_pubkey t, gf_before = None, gf_until = Some (cla_tx up)\<rparr>" for up
    using that assms(4) p mono [of r up] by (cases "rows = []") (auto elim!: highest_Some)
  moreover have False if "lowest rows = Some lo" "g = \<lparr>gf_tree = tr_pubkey t, gf_before = Some (cla_tx lo), gf_until = None\<rparr>" for lo
    using that assms(4) p mono [of lo r] by (cases "rows = []") (auto elim!: lowest_Some)
  moreover obtain up lo where "highest rows = Some up" "lowest rows = Some lo"
    using assms(4) highest_Some [of rows] lowest_Some [of rows] by (metis empty_iff list.set(1))
  ultimately show False
    using assms(3) by (auto simp: tree_fills_def Let_def split: if_splits)
qed

lemma crawl_gaps_run:
  assumes "serves_tree E tree h" and "dense h"
  shows "\<forall>g \<in> set gaps. gf_tree g = tree \<and> known E h (gf_before g) \<and> known E h (gf_until g) \<Longrightarrow>
    crawl_gaps E gaps sent = Some (sent @ concat (map (\<lambda>g. succeeded E (between E h (gf_before g) (gf_until g))) gaps))"
proof (induction gaps arbitrary: sent)
  case (Cons g gaps)
  have "crawl E g (gf_before g) sent = Some (Inr (), sent @ succeeded E (between E h (gf_before g) (gf_until g)))"
    using assms Cons.prems by (intro crawl_run) (simp_all add: dense_between)
  with Cons show ?case by simp
qed simp


section \<open>Samples\<close>

definition demo_history :: "signature_status list" where
  "demo_history = [\<lparr>ss_signature = ''aaa'', ss_err = None\<rparr>, \<lparr>ss_signature = ''aa'', ss_err = None\<rparr>, \<lparr>ss_signature = ''a'', ss_err = None\<rparr>]"

definition demo_tx_of :: "int \<Rightarrow> bytes" where
  "demo_tx_of n = replicate 64 (word_of_int n)"

definition demo_audit :: "int \<Rightarrow> cl_audits_row" where
  "demo_audit n = \<lparr>cla_tree = replicate 32 1, cla_leaf_idx = 0, cla_seq = n, cla_tx = demo_tx_of n, cla_instruction = Ix_Transfer\<rparr>"

definition demo_crawl_base :: crawl_env where
  "demo_crawl_base = \<lparr>ce_scan = (\<lambda>_. [demo_audit 3, demo_audit 1]), ce_signatures = (\<lambda>_ _ _. Inl ''e''),
     ce_parse_signature = (\<lambda>x. Inr (demo_tx_of (int (length x)))), ce_program_accounts = Inr [], ce_accounts = (\<lambda>_. Inr []),
     ce_parse_pubkey = (\<lambda>_. Inl ''e''), ce_header_size = 56, ce_header = (\<lambda>_. Inl ''e''), ce_authority = (\<lambda>k. k),
     ce_authority_error = ''e'', ce_transaction = Inr, ce_serialize = Inr, ce_send = (\<lambda>_. Inr ()),
     ce_streams = \<lparr>ACCOUNT_STREAM = ''1'', ACCOUNT_BACKFILL_STREAM = ''2'', SLOT_STREAM = ''3'', TRANSACTION_STREAM = ''4'',
       TRANSACTION_BACKFILL_STREAM = ''5'', BLOCK_STREAM = ''6''\<rparr>\<rparr>"

definition demo_crawl_env :: crawl_env where
  "demo_crawl_env = demo_crawl_base\<lparr>ce_signatures := (\<lambda>_ before until. Inr (take 1000 (between demo_crawl_base demo_history before until)))\<rparr>"

definition demo_tree_response :: TreeResponse where
  "demo_tree_response = \<lparr>tr_pubkey = replicate 32 1,
     tr_tree_header = \<lparr>max_depth = 14, max_buffer_size = 64, creation_slot = 1, tree_size = 100\<rparr>, tr_seq = 3\<rparr>"

lemma demo_sig_of [simp]: "sig_of demo_crawl_env x = demo_tx_of (int (length (ss_signature x)))"
  "sig_of demo_crawl_base x = demo_tx_of (int (length (ss_signature x)))"
  by (simp_all add: sig_of_def demo_crawl_env_def demo_crawl_base_def)

lemma demo_env_simps:
  "ce_parse_signature demo_crawl_env x = Inr (demo_tx_of (int (length x)))"
  "ce_signatures demo_crawl_env tree before until = Inr (take 1000 (between demo_crawl_env demo_history before until))"
proof -
  have "pos demo_crawl_env = pos demo_crawl_base"
    by (simp add: pos_def fun_eq_iff)
  then have "between demo_crawl_env demo_history before until = between demo_crawl_base demo_history before until"
    by (simp only: between_def)
  moreover have "ce_signatures demo_crawl_env tree before until = Inr (take 1000 (between demo_crawl_base demo_history before until))"
    by (simp add: demo_crawl_env_def)
  ultimately show "ce_signatures demo_crawl_env tree before until = Inr (take 1000 (between demo_crawl_env demo_history before until))"
    by simp
qed (simp add: demo_crawl_env_def demo_crawl_base_def)

lemma demo_tx_inj: "demo_tx_of 1 \<noteq> demo_tx_of 2" "demo_tx_of 1 \<noteq> demo_tx_of 3" "demo_tx_of 2 \<noteq> demo_tx_of 3"
  by (simp_all add: demo_tx_of_def)

lemma demo_serves: "serves_tree demo_crawl_env (replicate 32 1) demo_history" "dense demo_history"
  using demo_tx_inj by (simp_all add: serves_tree_def demo_env_simps dense_def) (simp_all add: demo_history_def)

lemma demo_pos:
  "pos demo_crawl_env demo_history (demo_tx_of 1) = 2" "pos demo_crawl_env demo_history (demo_tx_of 2) = 1"
  "pos demo_crawl_env demo_history (demo_tx_of 3) = 0"
  using demo_tx_inj by (simp_all add: pos_def demo_history_def)

lemma demo_audits: "tree_audits demo_crawl_env (replicate 32 1) s = [demo_audit 3, demo_audit 1]"
  by (simp add: tree_audits_def demo_crawl_env_def demo_crawl_base_def demo_audit_def)

lemma demo_tells: "tells_history demo_crawl_env demo_history 3 demo_tx_of [demo_audit 3, demo_audit 1]"
proof -
  have three: "n = 1 \<or> n = 2 \<or> n = 3" if "1 \<le> n" "n \<le> 3" for n :: int
    using that by auto
  have "demo_tx_of n \<in> sig_of demo_crawl_env ` set demo_history" if "1 \<le> n" "n \<le> 3" for n
    using three [OF that] by (auto simp: demo_history_def)
  moreover have "pos demo_crawl_env demo_history (demo_tx_of n) \<le> pos demo_crawl_env demo_history (demo_tx_of m)"
    if "1 \<le> m" "m \<le> n" "n \<le> 3" for m n
    using three [of m] three [of n] that by (auto simp: demo_pos)
  moreover have "length (demo_tx_of n) = 64" for n
    by (simp add: demo_tx_of_def)
  ultimately show ?thesis
    by (simp add: tells_history_def demo_audit_def)
qed


end
