(* ===== verification/AccountFill.thy ===== *)
theory AccountFill
  imports OpsCore
begin

text \<open>
  The account commands of the operations tools (\<open>ops/src/account\<close>): the accounts of a program, or a single account,
  are read from the node and queued again.  The node, the serialiser and the messenger are parameters.
\<close>

record rpc_account =
  ra_lamports :: u64
  ra_data :: bytes
  ra_owner :: pubkey
  ra_executable :: bool
  ra_rent_epoch :: u64

record ReplicaAccountInfoV2 =
  ri_pubkey :: pubkey
  ri_lamports :: u64
  ri_owner :: pubkey
  ri_executable :: bool
  ri_rent_epoch :: u64
  ri_data :: bytes
  ri_write_version :: u64
  ri_txn_signature :: "bytes option"

record AccountDetails =
  ad_account :: rpc_account
  ad_slot :: u64
  ad_pubkey :: pubkey

datatype fill_error = FE_Rpc string | FE_NotFound pubkey | FE_Queue QueuePoolError

record fill_env =
  fe_program_accounts :: "pubkey \<Rightarrow> string + (pubkey \<times> rpc_account) list"
  fe_account :: "pubkey \<Rightarrow> string + u64 \<times> rpc_account option"
  fe_serialize :: "ReplicaAccountInfoV2 \<Rightarrow> u64 \<Rightarrow> bool \<Rightarrow> bytes"
  fe_send :: "bytes \<Rightarrow> string + unit"
  fe_streams :: stream_keys

definition AccountDetails_fetch :: "fill_env \<Rightarrow> pubkey \<Rightarrow> fill_error + AccountDetails" where
  "AccountDetails_fetch E k =
     (case fe_account E k of
        Inl e \<Rightarrow> Inl (FE_Rpc e)
      | Inr (slot, None) \<Rightarrow> Inl (FE_NotFound k)
      | Inr (slot, Some account) \<Rightarrow> Inr \<lparr>ad_account = account, ad_slot = slot, ad_pubkey = k\<rparr>)"

definition account_message :: "fill_env \<Rightarrow> AccountDetails \<Rightarrow> bytes" where
  "account_message E d =
     (let account = ad_account d in
      fe_serialize E \<lparr>ri_pubkey = ad_pubkey d, ri_lamports = ra_lamports account, ri_owner = ra_owner account,
        ri_executable = ra_executable account, ri_rent_epoch = ra_rent_epoch account, ri_data = ra_data account,
        ri_write_version = 0, ri_txn_signature = None\<rparr> (ad_slot d) False)"

definition push_details :: "fill_env \<Rightarrow> AccountDetails \<Rightarrow> QueuePool \<Rightarrow> ((fill_error + unit) \<times> QueuePool) option" where
  "push_details E d q =
     map_option (\<lambda>(r, q'). (map_sum FE_Queue id r, q'))
       (push_account_backfill (fe_streams E) (account_message E d) (fe_send E (account_message E d)) q)"

fun push_batch :: "fill_env \<Rightarrow> AccountDetails list \<Rightarrow> QueuePool \<Rightarrow> ((fill_error + unit) \<times> QueuePool) option" where
  "push_batch E [] q = Some (Inr (), q)"
| "push_batch E (d # ds) q =
     (case push_details E d q of
        None \<Rightarrow> None
      | Some (Inl e, q') \<Rightarrow> Some (Inl e, q')
      | Some (Inr _, q') \<Rightarrow> push_batch E ds q')"

fun fill_batches :: "fill_env \<Rightarrow> (pubkey \<times> rpc_account) list list \<Rightarrow> QueuePool \<Rightarrow> ((fill_error + unit) \<times> QueuePool) option" where
  "fill_batches E [] q = Some (Inr (), q)"
| "fill_batches E (batch # batches) q =
     (case collect_sum (map (\<lambda>(k, _). AccountDetails_fetch E k) batch) of
        Inl e \<Rightarrow> Some (Inl e, q)
      | Inr results \<Rightarrow>
          (case push_batch E results q of
             None \<Rightarrow> None
           | Some (Inl e, q') \<Rightarrow> Some (Inl e, q')
           | Some (Inr _, q') \<Rightarrow> fill_batches E batches q'))"

text \<open>The command \<open>program\<close>; batches of size zero panic.\<close>

definition fill_program ::
  "fill_env \<Rightarrow> nat \<Rightarrow> pubkey \<Rightarrow> QueuePool \<Rightarrow> ((fill_error + unit) outcome \<times> QueuePool) option" where
  "fill_program E batch_size program q =
     (case fe_program_accounts E program of
        Inl e \<Rightarrow> Some (Done (Inl (FE_Rpc e)), q)
      | Inr accounts \<Rightarrow>
          if batch_size = 0 then Some (Panic, q)
          else map_option (\<lambda>(r, q'). (Done r, q')) (fill_batches E (chunks batch_size accounts) q))"

text \<open>The command \<open>single\<close>.\<close>

definition fill_single :: "fill_env \<Rightarrow> pubkey \<Rightarrow> QueuePool \<Rightarrow> ((fill_error + unit) \<times> QueuePool) option" where
  "fill_single E k q =
     (case AccountDetails_fetch E k of Inl e \<Rightarrow> Some (Inl e, q) | Inr d \<Rightarrow> push_details E d q)"

section \<open>A healthy run\<close>

lemma push_batch_run:
  assumes "\<forall>m. fe_send E m = Inr ()"
  shows "0 < qp_idle q \<Longrightarrow> push_batch E ds q =
    Some (Inr (), q\<lparr>qp_sent := qp_sent q @ map (\<lambda>d. (ACCOUNT_BACKFILL_STREAM (fe_streams E), account_message E d)) ds\<rparr>)"
proof (induction ds arbitrary: q)
  case (Cons d ds)
  have "push_details E d q =
      Some (Inr (), q\<lparr>qp_sent := qp_sent q @ [(ACCOUNT_BACKFILL_STREAM (fe_streams E), account_message E d)]\<rparr>)"
    using Cons.prems assms by (simp add: push_details_def push_account_backfill_def push_def Let_def)
  with Cons show ?case by simp
qed simp

lemma fill_batches_run:
  assumes "\<forall>m. fe_send E m = Inr ()"
  shows "\<forall>b \<in> set batches. \<forall>(k, a) \<in> set b. AccountDetails_fetch E k = Inr (details k) \<Longrightarrow> 0 < qp_idle q \<Longrightarrow>
    fill_batches E batches q = Some (Inr (), q\<lparr>qp_sent := qp_sent q @
      map (\<lambda>(k, a). (ACCOUNT_BACKFILL_STREAM (fe_streams E), account_message E (details k))) (concat batches)\<rparr>)"
proof (induction batches arbitrary: q)
  case (Cons b batches)
  have "map (\<lambda>(k, _). AccountDetails_fetch E k) b = map (\<lambda>p. Inr (details (fst p))) b"
    using Cons.prems(1) by (auto intro!: map_cong)
  then have "collect_sum (map (\<lambda>(k, _). AccountDetails_fetch E k) b) = Inr (map (\<lambda>p. details (fst p)) b)"
    by (simp only: collect_sum_Inr)
  with Cons push_batch_run [OF assms, of q] show ?case
    by (simp add: o_def split_def)
qed simp

text \<open>With every account readable and every send accepted, each account of the program is queued once, in order.\<close>

lemma program_accounts_queued:
  assumes "fe_program_accounts E program = Inr accounts" and "0 < batch_size" and "0 < qp_idle q"
    and "\<forall>m. fe_send E m = Inr ()" and "\<forall>(k, a) \<in> set accounts. AccountDetails_fetch E k = Inr (details k)"
  shows "fill_program E batch_size program q = Some (Done (Inr ()), q\<lparr>qp_sent := qp_sent q @
    map (\<lambda>(k, a). (ACCOUNT_BACKFILL_STREAM (fe_streams E), account_message E (details k))) accounts\<rparr>)"
proof -
  have "\<forall>b \<in> set (chunks batch_size accounts). \<forall>(k, a) \<in> set b. AccountDetails_fetch E k = Inr (details k)"
  proof
    fix b
    assume "b \<in> set (chunks batch_size accounts)"
    then have "set b \<subseteq> set (concat (chunks batch_size accounts))"
      by auto
    with assms(5) show "\<forall>(k, a) \<in> set b. AccountDetails_fetch E k = Inr (details k)"
      by (auto simp only: concat_chunks [OF assms(2)])
  qed
  from fill_batches_run [OF assms(4) this assms(3)] assms(1,2) show ?thesis
    by (simp add: fill_program_def concat_chunks)
qed

end
