(* ===== verification/Purge.thy ===== *)
theory Purge
  imports OpsCore
begin

text \<open>
  The purge of closed accounts (\<open>ops/src/purge/purger.rs\<close>): pages of keys are read from the database, the node is
  asked for their accounts, and the rows of accounts that are gone are removed.  The three stages run concurrently and
  are connected by channels; a schedule says which stage moves next.  The node is a parameter: \<open>pg_accounts\<close> gives
  the owners of the accounts of a request.
\<close>

section \<open>The stages\<close>

definition TOKEN_PROGRAM_ID :: pubkey where
  "TOKEN_PROGRAM_ID = [6, 221, 246, 225, 215, 101, 161, 147, 217, 203, 225, 70, 206, 235, 121, 172,
     28, 180, 133, 237, 95, 91, 55, 145, 58, 140, 245, 133, 126, 255, 0, 169]"

definition TOKEN_2022_PROGRAM_ID :: pubkey where
  "TOKEN_2022_PROGRAM_ID = [6, 221, 246, 225, 238, 117, 143, 222, 24, 66, 93, 188, 228, 108,
     205, 218, 182, 26, 252, 77, 131, 185, 13, 39, 254, 189, 249, 40, 216, 161, 139, 252]"

definition MAX_GET_MULTIPLE_ACCOUNTS :: nat where "MAX_GET_MULTIPLE_ACCOUNTS = 100"

text \<open>Which table is purged.  The queries have no order: \<open>pg_mints\<close> is the order in which the mints are read.\<close>

datatype purge_kind = Token_Accounts | Mints

record purge_env =
  pg_mints :: "tokens_table \<Rightarrow> bytes list"
  pg_accounts :: "pubkey list \<Rightarrow> string + pubkey option list"

fun purge_rows :: "purge_env \<Rightarrow> purge_kind \<Rightarrow> db \<Rightarrow> bytes list" where
  "purge_rows E Token_Accounts s = map fst (token_accounts s)"
| "purge_rows E Mints s = pg_mints E (tokens s)"

text \<open>One page of the paginator: \<open>LIMIT\<close> and \<open>OFFSET\<close>.\<close>

definition fetch_page :: "purge_env \<Rightarrow> purge_kind \<Rightarrow> nat \<Rightarrow> nat \<Rightarrow> (DbErr, bytes list) dbm" where
  "fetch_page E kind batch_size page = query (\<lambda>s. take batch_size (drop (page * batch_size) (purge_rows E kind s)))"

definition parse_keys :: "bytes list \<Rightarrow> pubkey list" where
  "parse_keys records = filter (\<lambda>k. length k = 32) records"

definition to_remove :: "pubkey option \<Rightarrow> bool" where
  "to_remove acc =
     (case acc of
        Some owner \<Rightarrow> owner \<noteq> TOKEN_PROGRAM_ID \<and> owner \<noteq> TOKEN_2022_PROGRAM_ID
      | None \<Rightarrow> True)"

definition mark_chunk :: "purge_env \<Rightarrow> pubkey list \<Rightarrow> pubkey list" where
  "mark_chunk E chunk =
     (case pg_accounts E chunk of
        Inl _ \<Rightarrow> []
      | Inr accounts \<Rightarrow> map fst (filter (\<lambda>(key, acc). to_remove acc) (zip chunk accounts)))"

definition mark_keys :: "purge_env \<Rightarrow> pubkey list \<Rightarrow> pubkey list list" where
  "mark_keys E keys = filter (\<lambda>remove. remove \<noteq> []) (map (mark_chunk E) (chunks MAX_GET_MULTIPLE_ACCOUNTS keys))"

text \<open>The statements of a purge; their errors are logged.\<close>

definition token_account_purge :: "pubkey list \<Rightarrow> db \<Rightarrow> db" where
  "token_account_purge keys s =
     snd (execute (\<lambda>s. s\<lparr>token_accounts := filter (\<lambda>(k, _). k \<notin> set keys) (token_accounts s)\<rparr>) s)"

definition mark_burnt :: "pubkey list \<Rightarrow> asset_table \<Rightarrow> asset_table" where
  "mark_burnt keys t = (\<lambda>k. if k \<in> set keys then
     map_option (\<lambda>r. if a_burnt r = False then r\<lparr>a_burnt := True\<rparr> else r) (t k) else t k)"

definition mint_purge :: "pubkey list \<Rightarrow> db \<Rightarrow> db" where
  "mint_purge keys s =
     (let s1 = snd (execute (\<lambda>s. s\<lparr>tokens := (tokens s) |` (- set keys)\<rparr>) s)
      in snd (execute (\<lambda>s. s\<lparr>asset := mark_burnt keys (asset s)\<rparr>) s1))"

fun purge :: "purge_kind \<Rightarrow> pubkey list \<Rightarrow> db \<Rightarrow> db" where
  "purge Token_Accounts keys s = token_account_purge keys s"
| "purge Mints keys s = mint_purge keys s"

section \<open>The pipeline\<close>

text \<open>
  \<open>ps_page\<close> is the next page, or \<open>None\<close> when the pagination has ended; \<open>ps_keys\<close> and \<open>ps_marked\<close> are the two
  channels.  The marked keys are purged by several workers, in any order.
\<close>

record purge_state =
  ps_db :: db
  ps_page :: "nat option"
  ps_keys :: "pubkey list list"
  ps_marked :: "pubkey list list"

datatype purge_event = Fetch | Mark | Purge nat

definition start_purge :: "nat \<Rightarrow> db \<Rightarrow> purge_state" where
  "start_purge batch_size s =
     \<lparr>ps_db = s, ps_page = (if batch_size = 0 then None else Some 0), ps_keys = [], ps_marked = []\<rparr>"

fun purge_step :: "purge_env \<Rightarrow> purge_kind \<Rightarrow> nat \<Rightarrow> purge_event \<Rightarrow> purge_state \<Rightarrow> purge_state option" where
  "purge_step E kind b Fetch S =
     (case ps_page S of
        None \<Rightarrow> None
      | Some n \<Rightarrow>
          Some (case fetch_page E kind b n (ps_db S) of
            (Inl _, s) \<Rightarrow> S\<lparr>ps_db := s, ps_page := None\<rparr>
          | (Inr records, s) \<Rightarrow>
              if records = [] then S\<lparr>ps_db := s, ps_page := None\<rparr>
              else S\<lparr>ps_db := s, ps_page := Some (n + 1), ps_keys := ps_keys S @ [parse_keys records]\<rparr>))"
| "purge_step E kind b Mark S =
     (case ps_keys S of
        [] \<Rightarrow> None
      | keys # rest \<Rightarrow> Some (S\<lparr>ps_keys := rest, ps_marked := ps_marked S @ mark_keys E keys\<rparr>))"
| "purge_step E kind b (Purge i) S =
     (if i < length (ps_marked S) then
        Some (S\<lparr>ps_db := purge kind (ps_marked S ! i) (ps_db S),
                ps_marked := take i (ps_marked S) @ drop (Suc i) (ps_marked S)\<rparr>)
      else None)"

fun purge_run :: "purge_env \<Rightarrow> purge_kind \<Rightarrow> nat \<Rightarrow> purge_event list \<Rightarrow> purge_state \<Rightarrow> purge_state option" where
  "purge_run E kind b [] S = Some S"
| "purge_run E kind b (e # es) S =
     (case purge_step E kind b e S of None \<Rightarrow> None | Some S' \<Rightarrow> purge_run E kind b es S')"

definition purge_finished :: "purge_state \<Rightarrow> bool" where
  "purge_finished S \<longleftrightarrow> ps_page S = None \<and> ps_keys S = [] \<and> ps_marked S = []"

section \<open>Nothing alive is purged\<close>

text \<open>The node answers with the accounts of the requested keys, in their order; it may also fail.\<close>

definition answers :: "purge_env \<Rightarrow> (pubkey \<rightharpoonup> pubkey) \<Rightarrow> bool" where
  "answers E chain \<longleftrightarrow> (\<forall>ks accs. pg_accounts E ks = Inr accs \<longrightarrow> accs = map chain ks)"

lemma mark_chunk_dead: "answers E chain \<Longrightarrow> k \<in> set (mark_chunk E chunk) \<Longrightarrow> to_remove (chain k)"
proof (cases "pg_accounts E chunk")
  case (Inr accs)
  moreover assume "answers E chain"
  ultimately have "accs = map chain chunk"
    by (simp add: answers_def)
  moreover assume "k \<in> set (mark_chunk E chunk)"
  ultimately show ?thesis
    using Inr by (auto simp: mark_chunk_def in_set_zip)
qed (simp add: mark_chunk_def)

lemma mark_keys_dead: "answers E chain \<Longrightarrow> y \<in> set (mark_keys E keys) \<Longrightarrow> k \<in> set y \<Longrightarrow> to_remove (chain k)"
  by (auto simp: mark_keys_def dest: mark_chunk_dead)

text \<open>What a state keeps of a key.\<close>

definition kept :: "bytes \<Rightarrow> db \<Rightarrow> db \<Rightarrow> bool" where
  "kept k s s' \<longleftrightarrow> map_of (token_accounts s') k = map_of (token_accounts s) k \<and> tokens s' k = tokens s k \<and>
     asset s' k = asset s k"

lemma kept_refl: "kept k s s" "kept k s (s\<lparr>faults := fs\<rparr>)"
  by (simp_all add: kept_def)

lemma kept_trans: "kept k s s1 \<Longrightarrow> kept k s1 s2 \<Longrightarrow> kept k s s2"
  by (simp add: kept_def)

lemma map_of_filter_key: "k \<notin> K \<Longrightarrow> map_of (filter (\<lambda>(k, _). k \<notin> K) xs) k = map_of xs k"
  by (induction xs) auto

lemma execute_kept:
  assumes "\<And>s. kept k s (f s)"
  shows "kept k s (snd (execute f s))"
proof -
  obtain r s' where e: "execute f s = (r, s')"
    by fastforce
  from execute_cases [OF e] show ?thesis
    using e by (auto intro: kept_trans [OF kept_refl(2) assms] kept_refl(2))
qed

lemma purge_kept: "k \<notin> set keys \<Longrightarrow> kept k s (purge kind keys s)"
proof (cases kind)
  case Token_Accounts
  moreover assume "k \<notin> set keys"
  ultimately show ?thesis
    by (simp add: token_account_purge_def) (rule execute_kept, simp add: kept_def map_of_filter_key)
next
  case Mints
  moreover assume k: "k \<notin> set keys"
  ultimately show ?thesis
    by (simp add: mint_purge_def Let_def)
      (rule kept_trans [OF execute_kept execute_kept]; simp add: kept_def mark_burnt_def)
qed

lemma purge_run_append:
  "purge_run E kind b (es @ es') S = (case purge_run E kind b es S of None \<Rightarrow> None | Some S' \<Rightarrow> purge_run E kind b es' S')"
  by (induction es arbitrary: S) (auto split: option.split)

lemma purge_run_snoc:
  "purge_run E kind b (es @ [e]) S = Some S' \<longleftrightarrow>
     (\<exists>S1. purge_run E kind b es S = Some S1 \<and> purge_step E kind b e S1 = Some S')"
  by (auto simp: purge_run_append split: option.split)

lemma fetch_page_db: "fetch_page E kind b n s = (r, s') \<Longrightarrow> \<exists>fs. s' = s\<lparr>faults := fs\<rparr>"
  unfolding fetch_page_def using query_state by blast

lemma step_spares:
  assumes "answers E chain" and "\<not> to_remove (chain k)" and "purge_step E kind b e S = Some S'"
    and "\<forall>x \<in> set (concat (ps_marked S)). to_remove (chain x)"
  shows "kept k (ps_db S) (ps_db S') \<and> (\<forall>x \<in> set (concat (ps_marked S')). to_remove (chain x))"
proof (cases e)
  case Fetch
  with assms(3,4) show ?thesis
    by (auto split: option.splits prod.splits sum.splits if_splits dest!: fetch_page_db intro: kept_refl)
next
  case Mark
  with assms(1,3,4) show ?thesis
    by (auto simp: kept_refl split: list.splits dest: mark_keys_dead [of E chain])
next
  case (Purge i)
  with assms(3) have i: "i < length (ps_marked S)" "ps_db S' = purge kind (ps_marked S ! i) (ps_db S)"
    "ps_marked S' = take i (ps_marked S) @ drop (Suc i) (ps_marked S)"
    by (auto split: if_splits)
  have "k \<notin> set (ps_marked S ! i)"
    using assms(2,4) i(1) by (auto dest: nth_mem)
  then show ?thesis
    using i assms(4) by (auto simp: purge_kept dest!: in_set_takeD in_set_dropD)
qed

text \<open>
  C25: the purge spares live accounts.  Whatever the schedule of the stages and whatever requests and statements
  fail, a key whose account is owned by one of the token programs keeps its token account row, its token row and its
  asset row.
\<close>

theorem purge_spares_live_accounts:
  assumes "answers E chain" and "chain k = Some owner" and "owner = TOKEN_PROGRAM_ID \<or> owner = TOKEN_2022_PROGRAM_ID"
    and "purge_run E kind b es (start_purge b s) = Some S"
  shows "map_of (token_accounts (ps_db S)) k = map_of (token_accounts s) k \<and> tokens (ps_db S) k = tokens s k \<and>
    asset (ps_db S) k = asset s k"
proof -
  have live: "\<not> to_remove (chain k)"
    using assms(2,3) by (auto simp: to_remove_def)
  have "kept k s (ps_db S) \<and> (\<forall>x \<in> set (concat (ps_marked S)). to_remove (chain x))"
    using assms(4)
  proof (induction es arbitrary: S rule: rev_induct)
    case Nil
    then show ?case by (auto simp: start_purge_def kept_refl)
  next
    case (snoc e es)
    then obtain S1 where "purge_run E kind b es (start_purge b s) = Some S1" "purge_step E kind b e S1 = Some S"
      by (auto simp: purge_run_snoc)
    with snoc.IH step_spares [OF assms(1) live] kept_trans show ?case by blast
  qed
  then show ?thesis by (simp add: kept_def)
qed

section \<open>What is purged\<close>

text \<open>A healthy run: the node answers every request, and the query returns every mint of a table.\<close>

definition healthy :: "purge_env \<Rightarrow> (pubkey \<rightharpoonup> pubkey) \<Rightarrow> tokens_table \<Rightarrow> bool" where
  "healthy E chain T \<longleftrightarrow> (\<forall>ks. pg_accounts E ks = Inr (map chain ks)) \<and>
     (\<forall>t. t \<subseteq>\<^sub>m T \<longrightarrow> set (pg_mints E t) = dom t)"

lemma mark_keys_all:
  assumes "healthy E chain T"
  shows "set (concat (mark_keys E keys)) = {k \<in> set keys. to_remove (chain k)}"
proof -
  have chunk: "mark_chunk E c = filter (\<lambda>k. to_remove (chain k)) c" for c
  proof -
    have "zip c (map chain c) = map (\<lambda>x. (x, chain x)) c"
      by (induction c) simp_all
    then show ?thesis
      using assms by (simp add: healthy_def mark_chunk_def filter_map o_def)
  qed
  have "set (concat (mark_keys E keys)) = (\<Union>c \<in> set (chunks 100 keys). set (mark_chunk E c))"
    by (auto simp: mark_keys_def MAX_GET_MULTIPLE_ACCOUNTS_def)
  also have "\<dots> = {k \<in> set (concat (chunks 100 keys)). to_remove (chain k)}"
    by (auto simp: chunk)
  finally show ?thesis by (simp add: concat_chunks)
qed

lemma purge_removes:
  assumes "healthy E chain T" and "tokens s \<subseteq>\<^sub>m T" and "faults s = []"
  shows "faults (purge kind keys s) = []" "tokens (purge kind keys s) \<subseteq>\<^sub>m T"
    "set (purge_rows E kind (purge kind keys s)) = set (purge_rows E kind s) - set keys"
proof -
  have sub: "tokens s |` (- set keys) \<subseteq>\<^sub>m T"
    using assms(2) by (auto simp: map_le_def restrict_map_def)
  then have mints: "set (pg_mints E (tokens s |` (- set keys))) = set (pg_mints E (tokens s)) - set keys"
    using assms(1,2) by (auto simp: healthy_def)
  show "faults (purge kind keys s) = []" "tokens (purge kind keys s) \<subseteq>\<^sub>m T"
    using assms(2,3) sub by (cases kind; simp add: token_account_purge_def mint_purge_def execute_ok Let_def)+
  show "set (purge_rows E kind (purge kind keys s)) = set (purge_rows E kind s) - set keys"
    using assms(3) mints by (cases kind) (force simp: token_account_purge_def mint_purge_def execute_ok Let_def)+
qed

text \<open>The schedules in which the pagination has ended before anything is deleted.\<close>

definition fetch_first :: "purge_event list \<Rightarrow> bool" where
  "fetch_first es \<longleftrightarrow> (\<forall>ys zs. es = ys @ Fetch # zs \<longrightarrow> (\<forall>i. Purge i \<notin> set ys))"

definition covered :: "nat \<Rightarrow> bytes list \<Rightarrow> purge_state \<Rightarrow> bytes set" where
  "covered b rows S = (case ps_page S of None \<Rightarrow> set rows | Some n \<Rightarrow> set (take (n * b) rows))"

definition pending ::
  "purge_env \<Rightarrow> purge_kind \<Rightarrow> (pubkey \<rightharpoonup> pubkey) \<Rightarrow> tokens_table \<Rightarrow> nat \<Rightarrow> bytes list \<Rightarrow> purge_state \<Rightarrow> bool" where
  "pending E kind chain T b rows S \<longleftrightarrow> faults (ps_db S) = [] \<and> tokens (ps_db S) \<subseteq>\<^sub>m T \<and> set (purge_rows E kind (ps_db S)) \<subseteq> set rows \<and>
     (\<forall>k \<in> covered b rows S. length k = 32 \<longrightarrow> to_remove (chain k) \<longrightarrow>
        k \<in> set (concat (ps_keys S)) \<or> k \<in> set (concat (ps_marked S)) \<or> k \<notin> set (purge_rows E kind (ps_db S)))"

lemma fetch_first_snoc:
  "fetch_first (es @ [e]) \<Longrightarrow> fetch_first es" "fetch_first (es @ [Fetch]) \<Longrightarrow> Purge i \<notin> set es"
  unfolding fetch_first_def by (metis append.assoc append_Cons) blast

lemma unpurged_db:
  assumes "faults s = []" and "\<forall>i. Purge i \<notin> set es" and "purge_run E kind b es (start_purge b s) = Some S"
  shows "ps_db S = s"
  using assms(2,3)
proof (induction es arbitrary: S rule: rev_induct)
  case (snoc e es)
  then obtain S1 where S1: "ps_db S1 = s" "purge_step E kind b e S1 = Some S"
    by (auto simp: purge_run_snoc)
  with snoc.prems(1) assms(1) show ?case
    by (cases e) (auto simp: fetch_page_def query_ok split: option.splits list.splits if_splits)
qed (simp add: start_purge_def)

lemma pending_fetch:
  assumes "pending E kind chain T b rows S" and "purge_rows E kind (ps_db S) = rows" and "0 < b"
    and "purge_step E kind b Fetch S = Some S'"
  shows "pending E kind chain T b rows S'"
proof -
  obtain n where n: "ps_page S = Some n"
    using assms(4) by (auto split: option.splits)
  let ?records = "take b (drop (n * b) rows)"
  have q: "fetch_page E kind b n (ps_db S) = (Inr ?records, ps_db S)"
    using assms(1,2) by (simp add: fetch_page_def query_ok pending_def)
  show ?thesis
  proof (cases "?records = []")
    case True
    then have "take (n * b) rows = rows"
      using assms(3) by simp
    with True assms(1,4) n q show ?thesis
      by (auto simp: pending_def covered_def)
  next
    case False
    have "set (take ((n + 1) * b) rows) = set (take (n * b) rows) \<union> set ?records"
      using arg_cong [OF take_add [of "n * b" b rows], of set] by (simp add: algebra_simps)
    with False assms(1,4) n q show ?thesis
      by (auto simp: pending_def covered_def parse_keys_def)
  qed
qed

lemma pending_mark:
  assumes "healthy E chain T" and "pending E kind chain T b rows S" and "purge_step E kind b Mark S = Some S'"
  shows "pending E kind chain T b rows S'"
proof -
  obtain keys rest where "ps_keys S = keys # rest" "S' = S\<lparr>ps_keys := rest, ps_marked := ps_marked S @ mark_keys E keys\<rparr>"
    using assms(3) by (auto split: list.splits)
  with assms(2) mark_keys_all [OF assms(1), of keys] show ?thesis
    by (auto simp: pending_def covered_def)
qed

lemma pending_purge:
  assumes "healthy E chain T" and "pending E kind chain T b rows S" and "purge_step E kind b (Purge i) S = Some S'"
  shows "pending E kind chain T b rows S'"
proof -
  let ?keys = "ps_marked S ! i"
  have i: "i < length (ps_marked S)" and S': "S' = S\<lparr>ps_db := purge kind ?keys (ps_db S),
      ps_marked := take i (ps_marked S) @ drop (Suc i) (ps_marked S)\<rparr>"
    using assms(3) by (auto split: if_splits)
  have m: "set (concat (ps_marked S)) \<subseteq> set (concat (ps_marked S')) \<union> set ?keys"
    using arg_cong [OF id_take_nth_drop [OF i], of "\<lambda>m. set (concat m)"] by (auto simp: S')
  have eqs: "ps_db S' = purge kind ?keys (ps_db S)" "ps_keys S' = ps_keys S" "covered b rows S' = covered b rows S"
    by (simp_all add: S' covered_def)
  have p: "faults (ps_db S) = []" "tokens (ps_db S) \<subseteq>\<^sub>m T" "set (purge_rows E kind (ps_db S)) \<subseteq> set rows"
    using assms(2) by (simp_all add: pending_def)
  note r = purge_removes [OF assms(1) p(2,1), of kind ?keys]
  show ?thesis
    unfolding pending_def eqs r
  proof (intro conjI ballI impI)
    fix k
    assume "k \<in> covered b rows S" "length k = 32" "to_remove (chain k)"
    then have "k \<in> set (concat (ps_keys S)) \<or> k \<in> set (concat (ps_marked S)) \<or> k \<notin> set (purge_rows E kind (ps_db S))"
      using assms(2) unfolding pending_def by blast
    with m show "k \<in> set (concat (ps_keys S)) \<or> k \<in> set (concat (ps_marked S')) \<or>
        k \<notin> set (purge_rows E kind (ps_db S)) - set ?keys"
      by blast
  qed (use p r in auto)
qed

text \<open>
  C26: the purge is complete when it deletes after reading.  In a healthy run in which the pagination has ended before
  the first deletion, the finished purge leaves no row of an account that is gone or owned by another program.
\<close>

theorem purge_complete_after_reading:
  assumes "healthy E chain (tokens s)" and "0 < b" and "faults s = []" and "fetch_first es"
    and "purge_run E kind b es (start_purge b s) = Some S" and "purge_finished S"
    and "k \<in> set (purge_rows E kind (ps_db S))" and "length k = 32"
  shows "\<exists>owner. chain k = Some owner \<and> (owner = TOKEN_PROGRAM_ID \<or> owner = TOKEN_2022_PROGRAM_ID)"
proof -
  let ?rows = "purge_rows E kind s"
  have "pending E kind chain (tokens s) b ?rows S"
    using assms(4,5)
  proof (induction es arbitrary: S rule: rev_induct)
    case Nil
    with assms(2,3) show ?case by (auto simp: start_purge_def pending_def covered_def)
  next
    case (snoc e es)
    then obtain S1 where S1: "purge_run E kind b es (start_purge b s) = Some S1" "purge_step E kind b e S1 = Some S"
      by (auto simp: purge_run_snoc)
    have p: "pending E kind chain (tokens s) b ?rows S1"
      using snoc.IH snoc.prems(1) S1(1) fetch_first_snoc(1) by blast
    show ?case
    proof (cases e)
      case Fetch
      with snoc.prems(1) have "\<forall>i. Purge i \<notin> set es"
        using fetch_first_snoc(2) by blast
      with unpurged_db [OF assms(3) _ S1(1)] have "ps_db S1 = s" by blast
      with pending_fetch [OF p _ assms(2)] S1(2) Fetch show ?thesis by simp
    qed (use p S1(2) pending_mark [OF assms(1)] pending_purge [OF assms(1)] in blast)+
  qed
  then have "\<not> to_remove (chain k)"
    using assms(6-8) by (auto simp: pending_def covered_def purge_finished_def)
  then show ?thesis
    by (auto simp: to_remove_def split: option.splits)
qed

section \<open>Samples\<close>

text \<open>Two closed token accounts, read one at a time.\<close>

definition demo_purge_env :: purge_env where
  "demo_purge_env = \<lparr>pg_mints = (\<lambda>_. []),
     pg_accounts = (\<lambda>ks. Inr (map (\<lambda>k. if hd k = 9 then Some TOKEN_PROGRAM_ID else None) ks))\<rparr>"

definition demo_closed_account :: "u8 \<Rightarrow> bytes \<times> token_accounts_row" where
  "demo_closed_account k = (replicate 32 k,
     \<lparr>ta_pubkey = replicate 32 k, ta_mint = [1], ta_amount = 1, ta_owner = [2], ta_frozen = False, ta_close_authority = None,
      ta_delegate = None, ta_delegated_amount = 0, ta_slot_updated = 5, ta_token_program = TOKEN_PROGRAM_ID, ta_extensions = None\<rparr>)"

definition demo_purge_db :: "u8 list \<Rightarrow> db" where
  "demo_purge_db ks = empty_db\<lparr>token_accounts := map demo_closed_account ks\<rparr>"

lemmas demo_purge_defs = demo_purge_env_def demo_purge_db_def demo_closed_account_def empty_db_def start_purge_def fetch_page_def
  query_def execute_def statement_def parse_keys_def mark_keys_def mark_chunk_def chunks.simps MAX_GET_MULTIPLE_ACCOUNTS_def
  to_remove_def token_account_purge_def purge_finished_def

text \<open>
  Reading and deleting at the same time leaves rows behind: after the first account is deleted, the second page is empty,
  because the second account has moved to the first page.
\<close>

lemma interleaved_purge_skips:
  "\<exists>S. purge_run demo_purge_env Token_Accounts 1 [Fetch, Mark, Purge 0, Fetch] (start_purge 1 (demo_purge_db [3, 4])) = Some S \<and>
     purge_finished S \<and> ps_db S = demo_purge_db [4]"
  by (simp add: demo_purge_defs)

theorem purge_spares_live_accounts_witness:
  "\<exists>S. purge_run demo_purge_env Token_Accounts 2 [Fetch, Mark, Purge 0] (start_purge 2 (demo_purge_db [3, 9])) = Some S \<and>
     map_of (token_accounts (ps_db S)) (replicate 32 9) = Some (snd (demo_closed_account 9))"
proof -
  let ?s = "demo_purge_db [3, 9]" and ?chain = "\<lambda>k. if hd k = 9 then Some TOKEN_PROGRAM_ID else None"
  obtain S where S: "purge_run demo_purge_env Token_Accounts 2 [Fetch, Mark, Purge 0] (start_purge 2 ?s) = Some S"
    by (simp add: demo_purge_defs)
  have "answers demo_purge_env ?chain" "?chain (replicate 32 9) = Some TOKEN_PROGRAM_ID"
    by (auto simp: answers_def demo_purge_env_def)
  from purge_spares_live_accounts [OF this disjI1 [OF refl] S] S show ?thesis
    by (auto simp: demo_purge_db_def demo_closed_account_def)
qed

theorem purge_complete_after_reading_witness:
  "\<exists>S. purge_run demo_purge_env Token_Accounts 1 [Fetch, Fetch, Fetch, Mark, Mark, Purge 1, Purge 0]
       (start_purge 1 (demo_purge_db [3, 4])) = Some S \<and>
     replicate 32 4 \<notin> set (purge_rows demo_purge_env Token_Accounts (ps_db S))"
proof -
  let ?s = "demo_purge_db [3, 4]" and ?chain = "\<lambda>k :: pubkey. if hd k = 9 then Some TOKEN_PROGRAM_ID else None"
  let ?es = "[Fetch, Fetch, Fetch, Mark, Mark, Purge 1, Purge 0]"
  obtain S where S: "purge_run demo_purge_env Token_Accounts 1 ?es (start_purge 1 ?s) = Some S" "purge_finished S"
    by (simp add: demo_purge_defs)
  have h: "healthy demo_purge_env ?chain (tokens ?s)" "faults ?s = []"
    by (auto simp: healthy_def demo_purge_env_def demo_purge_db_def empty_db_def dest!: map_le_implies_dom_le)
  have f: "fetch_first ?es"
    by (auto simp: fetch_first_def Cons_eq_append_conv)
  have "\<not> (\<exists>owner. ?chain (replicate 32 4) = Some owner)"
    by simp
  with purge_complete_after_reading [OF h(1) _ h(2) f S, of "replicate 32 4"] S(1) show ?thesis
    by fastforce
qed

end
