(* ===== verification/TreeStatus.thy ===== *)
theory TreeStatus
  imports Backfiller TokenInscription
begin

text \<open>
  The tool that compares indexed trees with the chain (\<open>tools/tree-status\<close>) and the search for signatures it
  takes from \<open>tools/txn_forwarder/src/lib.rs\<close>.  The node, the decoders of accounts, transactions and events, and the
  order in which the database reads its rows are parameters (\<open>status_env\<close>); the printed lines are values of
  \<open>status_line\<close> and \<open>leaf_line\<close>.
\<close>

section \<open>Signatures\<close>

record found_signature =
  fs_signature :: string
  fs_confirmed :: bool
  fs_err :: bool

datatype UiInstruction = UI_Compiled u8 string | UI_Parsed

record ui_meta =
  um_err :: bool
  um_inner :: "UiInstruction list list option"
  um_loaded :: "(string list \<times> string list) option"

record ui_transaction =
  ut_meta :: "ui_meta option"
  ut_static_keys :: "pubkey list option"

record status_env =
  se_account :: "pubkey \<Rightarrow> string + bytes option"
  se_header_size :: nat
  se_header :: "bytes \<Rightarrow> string + tree_header"
  se_signatures :: "pubkey \<Rightarrow> bytes option \<Rightarrow> string + found_signature list"
  se_parse_signature :: "string \<Rightarrow> string + bytes"
  se_transaction :: "bytes \<Rightarrow> string + ui_transaction"
  se_parse_pubkey :: "string \<Rightarrow> string + pubkey"
  se_decode :: "string \<Rightarrow> string + bytes"
  se_noop :: pubkey
  se_change_log :: "bytes \<Rightarrow> ChangeLogEventV1 option"
  se_items :: "cl_items_table \<Rightarrow> cl_items_row list"
  se_assets :: "asset_table \<Rightarrow> asset_row list"
  se_null_error :: string

fun note_page ::
  "status_env \<Rightarrow> found_signature list \<Rightarrow> bytes option \<Rightarrow> (string + bytes) list \<Rightarrow> bytes option \<times> (string + bytes) list" where
  "note_page E [] last_signature sent = (last_signature, sent)"
| "note_page E (tx # txs) last_signature sent =
     (case se_parse_signature E (fs_signature tx) of
        Inr signature \<Rightarrow>
          note_page E txs (Some signature) (if fs_confirmed tx \<and> \<not> fs_err tx then sent @ [Inr signature] else sent)
      | Inl error \<Rightarrow> note_page E txs last_signature (sent @ [Inl error]))"

text \<open>The loop ends at an empty page; a failing request is reported and made again.\<close>

partial_function (option) find_signatures ::
  "status_env \<Rightarrow> pubkey \<Rightarrow> bytes option \<Rightarrow> (string + bytes) list \<Rightarrow> (string + bytes) list option" where
  "find_signatures E address last_signature sent =
     (case se_signatures E address last_signature of
        Inr page \<Rightarrow>
          (case note_page E page last_signature sent of
             (last', sent') \<Rightarrow> if page = [] then Some sent' else find_signatures E address last' sent')
      | Inl error \<Rightarrow> find_signatures E address last_signature (sent @ [Inl error]))"

section \<open>Transactions\<close>

datatype ParseError = PE_TransactionMeta | PE_Transaction | PE_Instruction string | PE_Pubkey string

text \<open>A leaf is given by its index; its hash is not used.\<close>

definition leaf_of :: "ChangeLogEventV1 \<Rightarrow> int option" where
  "leaf_of cl_data =
     (case cle_path cl_data of
        [] \<Rightarrow> None
      | node # _ \<Rightarrow> Some (node_idx_to_leaf_idx (u32_as_i64 (pn_index node)) (length (cle_path cl_data) - 1)))"

fun push_keys :: "status_env \<Rightarrow> string list \<Rightarrow> pubkey list \<Rightarrow> ParseError + pubkey list" where
  "push_keys E [] keys = Inr keys"
| "push_keys E (k # ks) keys =
     (case se_parse_pubkey E k of Inl e \<Rightarrow> Inl (PE_Pubkey e) | Inr key \<Rightarrow> push_keys E ks (keys @ [key]))"

fun read_events ::
  "status_env \<Rightarrow> pubkey list \<Rightarrow> UiInstruction list \<Rightarrow> (pubkey \<rightharpoonup> (u64 \<times> int option) list) \<Rightarrow>
     ParseError + (pubkey \<rightharpoonup> (u64 \<times> int option) list)" where
  "read_events E keys [] updates = Inr updates"
| "read_events E keys (UI_Parsed # ixs) updates = read_events E keys ixs updates"
| "read_events E keys (UI_Compiled i d # ixs) updates =
     (if unat i < length keys \<and> keys ! unat i = se_noop E then
        (case se_decode E d of
           Inl e \<Rightarrow> Inl (PE_Instruction e)
         | Inr data \<Rightarrow>
             (case se_change_log E data of
                None \<Rightarrow> read_events E keys ixs updates
              | Some cl_data \<Rightarrow>
                  read_events E keys ixs (updates(cle_id cl_data \<mapsto>
                    (case updates (cle_id cl_data) of None \<Rightarrow> [] | Some us \<Rightarrow> us) @ [(cle_seq cl_data, leaf_of cl_data)]))))
      else read_events E keys ixs updates)"

definition parse_tx_sequence ::
  "status_env \<Rightarrow> ui_transaction \<Rightarrow> ParseError + (pubkey \<rightharpoonup> (u64 \<times> int option) list)" where
  "parse_tx_sequence E tx =
     (case ut_meta tx of
        None \<Rightarrow> Inr Map.empty
      | Some meta \<Rightarrow>
          if um_err meta then Inr Map.empty
          else case um_inner meta of
            None \<Rightarrow> Inr Map.empty
          | Some inner \<Rightarrow>
              (case ut_static_keys tx of
                 None \<Rightarrow> Inl PE_Transaction
               | Some static_keys \<Rightarrow>
                   (case (case um_loaded meta of None \<Rightarrow> Inr static_keys
                          | Some (writable, readonly) \<Rightarrow> push_keys E (writable @ readonly) static_keys) of
                      Inl e \<Rightarrow> Inl e
                    | Inr keys \<Rightarrow> read_events E keys (concat inner) Map.empty)))"

datatype status_error = SE_Signature string | SE_Rpc string | SE_Parse ParseError | SE_Db string | SE_NoAccount | SE_NoTree

definition process_tx :: "status_env \<Rightarrow> bytes \<Rightarrow> status_error + (pubkey \<rightharpoonup> (u64 \<times> int option) list)" where
  "process_tx E signature =
     (case se_transaction E signature of Inl e \<Rightarrow> Inl (SE_Rpc e) | Inr tx \<Rightarrow> map_sum SE_Parse id (parse_tx_sequence E tx))"

text \<open>
  The events of a tree, one entry for every signature; the first error ends the reading.  The workers that share the
  queue of signatures are one here; the greatest numbers below do not depend on the order of the entries.
\<close>

fun tree_events ::
  "status_env \<Rightarrow> pubkey \<Rightarrow> (string + bytes) list \<Rightarrow> status_error + (bytes \<times> (u64 \<times> int option) list) list" where
  "tree_events E tree [] = Inr []"
| "tree_events E tree (Inl e # sigs) = Inl (SE_Signature e)"
| "tree_events E tree (Inr signature # sigs) =
     (case process_tx E signature of
        Inl e \<Rightarrow> Inl e
      | Inr m \<Rightarrow> map_sum id (Cons (signature, case m tree of None \<Rightarrow> [] | Some seqs \<Rightarrow> seqs)) (tree_events E tree sigs))"

section \<open>Sequence numbers\<close>

record MaxSeqItem =
  max_seq :: int
  cnt_seq :: int

datatype status_line =
    S_NotFullyIndexed int int | S_IndexerError int int | S_HasGaps int int | S_Complete int | S_Failed int int int
  | S_MissingSeq "int list" | S_MissingSeqError string

definition get_tree_latest_seq :: "status_env \<Rightarrow> pubkey \<Rightarrow> (status_error + u64) outcome" where
  "get_tree_latest_seq E address =
     (case se_account E address of
        Inl e \<Rightarrow> Done (Inl (SE_Rpc e))
      | Inr None \<Rightarrow> Done (Inl SE_NoAccount)
      | Inr (Some data) \<Rightarrow>
          if length data < se_header_size E then Panic
          else case se_header E (take (se_header_size E) data) of
            Inl e \<Rightarrow> Done (Inl (SE_Rpc e))
          | Inr header \<Rightarrow>
              (case th_tree_size header of
                 Inl e \<Rightarrow> Done (Inl (SE_Rpc e))
               | Inr sz \<Rightarrow>
                   if length data - se_header_size E < sz \<or> sz < 8 then Panic
                   else Done (Inr (word_rcat (rev (take 8 (drop (se_header_size E) data)))))))"

definition tree_seqs :: "status_env \<Rightarrow> pubkey \<Rightarrow> db \<Rightarrow> int list" where
  "tree_seqs E tree s = map cl_seq (filter (\<lambda>r. cl_tree r = tree) (se_items E (cl_items s)))"

text \<open>An aggregate query has one row; without rows its maximum is \<open>NULL\<close>, which is no \<open>i64\<close>.\<close>

definition get_tree_max_seq :: "status_env \<Rightarrow> pubkey \<Rightarrow> (DbErr, MaxSeqItem option) dbm" where
  "get_tree_max_seq E tree =
     db_bind (query (tree_seqs E tree)) (\<lambda>seqs.
     if seqs = [] then db_fail (se_null_error E)
     else db_return (Some \<lparr>max_seq = fold max (tl seqs) (hd seqs), cnt_seq = int (length (remdups seqs))\<rparr>))"

definition get_missing_seq :: "status_env \<Rightarrow> pubkey \<Rightarrow> int \<Rightarrow> (DbErr, int list) dbm" where
  "get_missing_seq E tree upper = query (\<lambda>s. filter (\<lambda>n. n \<notin> set (tree_seqs E tree s)) [1..upper])"

definition check_tree :: "status_env \<Rightarrow> pubkey \<Rightarrow> db \<Rightarrow> (status_error + status_line list) outcome \<times> db" where
  "check_tree E tree s =
     (case get_tree_latest_seq E tree of
        Panic \<Rightarrow> (Panic, s)
      | Done (Inl e) \<Rightarrow> (Done (Inl e), s)
      | Done (Inr u) \<Rightarrow>
          if 2 ^ 63 \<le> unat u then (Panic, s)
          else let sq = int (unat u) in
            (case get_tree_max_seq E tree s of
               (Inl e, s1) \<Rightarrow> (Done (Inl (SE_Db e)), s1)
             | (Inr None, s1) \<Rightarrow> (Done (Inl SE_NoTree), s1)
             | (Inr (Some indexed), s1) \<Rightarrow>
                 let tip = (if max_seq indexed < sq then [S_NotFullyIndexed (max_seq indexed) sq]
                            else if max_seq indexed = sq then [] else [S_IndexerError (max_seq indexed) sq]);
                     gaps = (if max_seq indexed \<noteq> cnt_seq indexed then [S_HasGaps (max_seq indexed) (cnt_seq indexed)] else [])
                 in if max_seq indexed = sq \<and> max_seq indexed = cnt_seq indexed then
                      (Done (Inr (tip @ gaps @ [S_Complete sq])), s1)
                    else
                      (case get_missing_seq E tree sq s1 of
                         (r, s2) \<Rightarrow> (Done (Inr (tip @ gaps @ [S_Failed sq (max_seq indexed) (cnt_seq indexed),
                            (case r of Inl e \<Rightarrow> S_MissingSeqError e | Inr seqs \<Rightarrow> S_MissingSeq seqs)])), s2))))"

section \<open>Leaves\<close>

datatype leaf_line = L_InvalidSeq int int u64 bytes | L_NotOnChain int

fun note_leaf :: "bytes \<Rightarrow> u64 \<times> int option \<Rightarrow> (int \<rightharpoonup> bytes \<times> u64) \<Rightarrow> (int \<rightharpoonup> bytes \<times> u64)" where
  "note_leaf signature (sq, None) leafs = leafs"
| "note_leaf signature (sq, Some idx) leafs =
     (case leafs idx of
        None \<Rightarrow> leafs(idx \<mapsto> (signature, sq))
      | Some (_, old) \<Rightarrow> if old < sq then leafs(idx \<mapsto> (signature, sq)) else leafs)"

definition chain_leafs :: "(bytes \<times> (u64 \<times> int option) list) list \<Rightarrow> (int \<rightharpoonup> bytes \<times> u64)" where
  "chain_leafs events = fold (\<lambda>(signature, seqs) leafs. fold (note_leaf signature) seqs leafs) events Map.empty"

text \<open>The join of the assets of the tree with its leaves by sequence number, grouped by leaf.\<close>

definition joined_leafs :: "status_env \<Rightarrow> pubkey \<Rightarrow> db \<Rightarrow> (int \<times> int) list" where
  "joined_leafs E tree s =
     concat (map (\<lambda>a. List.map_filter (\<lambda>c.
         case (cl_leaf_idx c, a_seq a) of
           (Some idx, Some sq) \<Rightarrow> if a_tree_id a = Some tree \<and> cl_tree c = tree \<and> cl_seq c = sq then Some (idx, sq) else None
         | _ \<Rightarrow> None) (se_items E (cl_items s))) (se_assets E (asset s)))"

definition db_leafs :: "status_env \<Rightarrow> pubkey \<Rightarrow> db \<Rightarrow> (int \<times> int) list" where
  "db_leafs E tree s =
     (let rows = joined_leafs E tree s in
      map (\<lambda>idx. (idx, Max (snd ` set (filter (\<lambda>r. fst r = idx) rows)))) (remdups (map fst rows)))"

fun compare_leafs :: "(int \<times> int) list \<Rightarrow> (int \<rightharpoonup> bytes \<times> u64) \<Rightarrow> leaf_line list \<times> (int \<rightharpoonup> bytes \<times> u64)" where
  "compare_leafs [] leafs = ([], leafs)"
| "compare_leafs ((idx, sq) # rows) leafs =
     (case compare_leafs rows (leafs(idx := None)) of (lines, rest) \<Rightarrow>
        ((case leafs idx of
            Some (signature, chain_sq) \<Rightarrow> if sq \<noteq> as_i64 chain_sq then [L_InvalidSeq idx sq chain_sq signature] else []
          | None \<Rightarrow> [L_NotOnChain idx]) @ lines, rest))"

text \<open>The lines, the leaves that are missing in the database, and the state.\<close>

definition check_tree_leafs ::
  "status_env \<Rightarrow> pubkey \<Rightarrow> (string + bytes) list \<Rightarrow> db \<Rightarrow> (status_error + leaf_line list \<times> (int \<rightharpoonup> bytes \<times> u64)) \<times> db" where
  "check_tree_leafs E tree sigs s =
     (case tree_events E tree sigs of
        Inl e \<Rightarrow> (Inl e, s)
      | Inr events \<Rightarrow>
          (case query (db_leafs E tree) s of
             (Inl e, s1) \<Rightarrow> (Inl (SE_Db e), s1)
           | (Inr rows, s1) \<Rightarrow> (Inr (compare_leafs rows (chain_leafs events)), s1)))"

text \<open>
  \<open>read_tree\<close> prints the events in the order of their numbers: an event that is not the next one waits, at most one
  waiting event is printed for every event received, and the rest follows at the end.
\<close>

fun print_events :: "(nat \<times> 'a) list \<Rightarrow> nat \<Rightarrow> (nat \<rightharpoonup> 'a) \<Rightarrow> (nat \<times> 'a) list" where
  "print_events [] next_id waiting = map (\<lambda>i. (i, the (waiting i))) (sorted_list_of_set (dom waiting))"
| "print_events ((i, x) # events) next_id waiting =
     (let waiting' = waiting(i \<mapsto> x) in
      case waiting' next_id of
        Some y \<Rightarrow> (next_id, y) # print_events events (next_id + 1) (waiting'(next_id := None))
      | None \<Rightarrow> print_events events next_id waiting')"

definition read_tree :: "(nat \<times> 'a) list \<Rightarrow> (nat \<times> 'a) list" where
  "read_tree events = print_events events 0 Map.empty"

section \<open>Properties\<close>

lemma fold_max_Max: "xs \<noteq> [] \<Longrightarrow> fold max (tl xs) (hd xs) = Max (set xs)"
  using Max.set_eq_fold [of "hd xs" "tl xs"] by (cases xs) simp_all

lemma full_range:
  fixes A :: "int set"
  assumes "finite A" and "A \<noteq> {}" and "\<forall>x \<in> A. 1 \<le> x"
  shows "Max A = N \<and> int (card A) = N \<longleftrightarrow> A = {1..N}"
proof
  assume m: "Max A = N \<and> int (card A) = N"
  then have "A \<subseteq> {1..N}"
    using assms by auto
  moreover have "card {1..N} \<le> card A"
    using m by auto
  ultimately show "A = {1..N}"
    by (simp add: card_seteq)
next
  assume A: "A = {1..N}"
  with assms(2) have "1 \<le> N" by simp
  with A show "Max A = N \<and> int (card A) = N"
    by (auto intro!: Max_eqI)
qed

text \<open>
  A tree is called complete exactly when its nodes carry all sequence numbers up to that of the chain; otherwise the
  numbers listed are those that no node carries.
\<close>

lemma check_tree_complete_iff:
  assumes "faults s = []" and "get_tree_latest_seq E tree = Done (Inr u)" and "unat u < 2 ^ 63"
    and "tree_seqs E tree s \<noteq> []" and "\<forall>q \<in> set (tree_seqs E tree s). 1 \<le> q"
  shows "\<exists>lines. check_tree E tree s = (Done (Inr lines), s) \<and>
    (S_Complete (int (unat u)) \<in> set lines \<longleftrightarrow> set (tree_seqs E tree s) = {1..int (unat u)}) \<and>
    (\<forall>m. S_MissingSeq m \<in> set lines \<longrightarrow> set m = {1..int (unat u)} - set (tree_seqs E tree s))"
proof -
  let ?qs = "tree_seqs E tree s" and ?N = "int (unat u)"
  have max: "get_tree_max_seq E tree s = (Inr (Some \<lparr>max_seq = Max (set ?qs), cnt_seq = int (card (set ?qs))\<rparr>), s)"
    using assms(1,4) by (simp add: get_tree_max_seq_def db_bind_def query_ok db_return_def fold_max_Max length_remdups_card_conv)
  have missing: "get_missing_seq E tree ?N s = (Inr (filter (\<lambda>n. n \<notin> set ?qs) [1..?N]), s)"
    using assms(1) by (simp add: get_missing_seq_def query_ok)
  have iff: "Max (set ?qs) = ?N \<and> Max (set ?qs) = int (card (set ?qs)) \<longleftrightarrow> set ?qs = {1..?N}"
    using full_range [of "set ?qs" ?N] assms(4,5) by auto
  show ?thesis
  proof (cases "set ?qs = {1..?N}")
    case True
    with iff max assms(2,3) show ?thesis
      by (auto simp: check_tree_def Let_def)
  next
    case False
    with iff have "\<not> (Max (set ?qs) = ?N \<and> Max (set ?qs) = int (card (set ?qs)))" by simp
    with max missing False assms(2,3) show ?thesis
      by (auto simp: check_tree_def Let_def split: if_splits)
  qed
qed

text \<open>
  The node serves a finite history in pages: after the first \<open>k\<close> signatures come the next ones.  The search ends with
  the successful ones, whether or not there are pages without any.
\<close>

definition serves_pages :: "status_env \<Rightarrow> pubkey \<Rightarrow> nat \<Rightarrow> (bytes \<times> found_signature) list \<Rightarrow> bool" where
  "serves_pages E address n h \<longleftrightarrow> 0 < n \<and>
     (\<forall>(b, x) \<in> set h. se_parse_signature E (fs_signature x) = Inr b) \<and>
     (\<forall>k \<le> length h. se_signatures E address (if k = 0 then None else Some (fst (h ! (k - 1)))) =
        Inr (map snd (take n (drop k h))))"

definition successful :: "(bytes \<times> found_signature) list \<Rightarrow> (string + bytes) list" where
  "successful h = map (\<lambda>(b, _). Inr b) (filter (\<lambda>(_, x). fs_confirmed x \<and> \<not> fs_err x) h)"

lemma note_page_run:
  "\<forall>(b, x) \<in> set h. se_parse_signature E (fs_signature x) = Inr b \<Longrightarrow>
   note_page E (map snd h) l sent = (if h = [] then l else Some (fst (last h)), sent @ successful h)"
  by (induction h arbitrary: l sent) (auto simp: successful_def split: if_splits)

lemma find_signatures_run:
  assumes "serves_pages E address n h" and "k \<le> length h"
  shows "find_signatures E address (if k = 0 then None else Some (fst (h ! (k - 1)))) sent = Some (sent @ successful (drop k h))"
  using assms(2)
proof (induction "length h - k" arbitrary: k sent rule: less_induct)
  case less
  let ?page = "take n (drop k h)" and ?last = "\<lambda>k. if k = 0 then None else Some (fst (h ! (k - 1)))"
  have page: "se_signatures E address (?last k) = Inr (map snd ?page)" and n: "0 < n"
    using assms(1) less.prems by (auto simp: serves_pages_def)
  have "\<forall>(b, x) \<in> set ?page. se_parse_signature E (fs_signature x) = Inr b"
    using assms(1) by (auto simp: serves_pages_def dest!: in_set_takeD in_set_dropD)
  note noted = note_page_run [OF this, of "?last k" sent]
  show ?case
  proof (cases "k = length h")
    case True
    then show ?thesis
      using page noted by (simp add: find_signatures.simps successful_def)
  next
    case False
    with less.prems have k: "k < length h" by simp
    let ?k = "min (k + n) (length h)"
    have ne: "?page \<noteq> []"
      using k n by simp
    then have "last ?page = drop k h ! (length ?page - 1)"
      by (subst last_conv_nth) (auto simp: min_def)
    also have "\<dots> = h ! (?k - 1)"
      using k n by (subst nth_drop) (auto simp: min_def intro!: arg_cong [of _ _ "(!) h"])
    finally have "last ?page = h ! (?k - 1)" .
    then have "?last ?k = Some (fst (last ?page))"
      using k n by auto
    then have "find_signatures E address (?last k) sent = find_signatures E address (?last ?k) (sent @ successful ?page)"
      using page noted ne by (subst find_signatures.simps) simp
    also have "\<dots> = Some (sent @ (successful ?page @ successful (drop ?k h)))"
      using less.hyps [of ?k "sent @ successful ?page"] k n by simp
    also have "successful ?page @ successful (drop ?k h) = successful (drop k h)"
    proof -
      have "drop ?k h = drop n (drop k h)"
        by (simp add: min_def add.commute)
      then show ?thesis
        using append_take_drop_id [of n "drop k h"] by (metis (no_types, lifting) filter_append map_append successful_def)
    qed
    finally show ?thesis .
  qed
qed

lemma signatures_found:
  "serves_pages E address n h \<Longrightarrow> find_signatures E address None [] = Some (successful h)"
  using find_signatures_run [of E address n h 0 "[]"] by simp

text \<open>The leaves of the chain carry the greatest sequence number of their events, and its transaction.\<close>

definition leaf_seqs :: "(bytes \<times> (u64 \<times> int option) list) list \<Rightarrow> int \<Rightarrow> (bytes \<times> u64) set" where
  "leaf_seqs events idx = {(signature, sq). \<exists>seqs. (signature, seqs) \<in> set events \<and> (sq, Some idx) \<in> set seqs}"

definition newest :: "(bytes \<times> u64) set \<Rightarrow> (bytes \<times> u64) option \<Rightarrow> bool" where
  "newest A r \<longleftrightarrow> (case r of None \<Rightarrow> A = {} | Some x \<Rightarrow> x \<in> A \<and> (\<forall>y \<in> A. snd y \<le> snd x))"

lemma newest_note:
  assumes "newest A (leafs idx)"
  shows "newest (A \<union> (if snd e = Some idx then {(signature, fst e)} else {})) (note_leaf signature e leafs idx)"
  using assms by (cases e rule: prod.exhaust; cases "snd e")
    (auto simp: newest_def split: option.splits if_splits)

lemma newest_seqs:
  "newest A (leafs idx) \<Longrightarrow>
   newest (A \<union> {(signature, sq) |sq. (sq, Some idx) \<in> set seqs}) (fold (note_leaf signature) seqs leafs idx)"
proof (induction seqs arbitrary: A leafs)
  case (Cons e seqs)
  have "A \<union> {(signature, sq) |sq. (sq, Some idx) \<in> set (e # seqs)} =
      (A \<union> (if snd e = Some idx then {(signature, fst e)} else {})) \<union> {(signature, sq) |sq. (sq, Some idx) \<in> set seqs}"
    by (cases e) auto
  moreover have "newest ((A \<union> (if snd e = Some idx then {(signature, fst e)} else {})) \<union> {(signature, sq) |sq. (sq, Some idx) \<in> set seqs})
      (fold (note_leaf signature) seqs (note_leaf signature e leafs) idx)"
    by (rule Cons.IH) (rule newest_note, rule Cons.prems)
  ultimately show ?case by simp
qed simp

lemma chain_leafs_newest: "newest (leaf_seqs events idx) (chain_leafs events idx)"
proof -
  have "newest (A \<union> leaf_seqs events idx)
      (fold (\<lambda>(signature, seqs) leafs. fold (note_leaf signature) seqs leafs) events leafs idx)"
    if "newest A (leafs idx)" for A leafs
    using that
  proof (induction events arbitrary: A leafs)
    case Nil
    then show ?case by (simp add: leaf_seqs_def)
  next
    case (Cons ev events)
    obtain signature seqs where ev: "ev = (signature, seqs)" by fastforce
    have "A \<union> leaf_seqs (ev # events) idx = (A \<union> {(signature, sq) |sq. (sq, Some idx) \<in> set seqs}) \<union> leaf_seqs events idx"
      by (auto simp: leaf_seqs_def ev)
    moreover have "newest ((A \<union> {(signature, sq) |sq. (sq, Some idx) \<in> set seqs}) \<union> leaf_seqs events idx)
        (fold (\<lambda>(signature, seqs) leafs. fold (note_leaf signature) seqs leafs) events (fold (note_leaf signature) seqs leafs) idx)"
      by (rule Cons.IH) (rule newest_seqs, rule Cons.prems)
    ultimately show ?case by (simp add: ev)
  qed
  from this [of "{}" Map.empty] show ?thesis
    by (simp add: newest_def chain_leafs_def)
qed

text \<open>The leaves that remain are those of the chain that the join does not have.\<close>

lemma compare_leafs_rest: "snd (compare_leafs rows leafs) = leafs |` (- fst ` set rows)"
proof (induction rows leafs rule: compare_leafs.induct)
  case (2 idx sq rows leafs)
  have "snd (compare_leafs ((idx, sq) # rows) leafs) = snd (compare_leafs rows (leafs(idx := None)))"
    by (simp split: prod.split)
  also have "\<dots> = leafs(idx := None) |` (- fst ` set rows)"
    by (rule 2)
  finally show ?case
    by (auto simp: restrict_map_def fun_eq_iff)
qed simp

lemma missing_leafs:
  assumes "faults s = []" and "tree_events E tree sigs = Inr events"
  shows "\<exists>lines. check_tree_leafs E tree sigs s = (Inr (lines, chain_leafs events |` (- fst ` set (joined_leafs E tree s))), s)"
proof -
  have "fst ` set (db_leafs E tree s) = fst ` set (joined_leafs E tree s)"
    by (force simp: db_leafs_def Let_def)
  then show ?thesis
    using assms compare_leafs_rest [of "db_leafs E tree s" "chain_leafs events"]
    by (cases "compare_leafs (db_leafs E tree s) (chain_leafs events)") (simp add: check_tree_leafs_def query_ok)
qed

text \<open>However the workers deliver the events, they are printed once each, in the order of their numbers.\<close>

definition queue_ok :: "(nat \<times> 'a) list \<Rightarrow> nat \<Rightarrow> (nat \<rightharpoonup> 'a) \<Rightarrow> bool" where
  "queue_ok events next_id waiting \<longleftrightarrow> finite (dom waiting) \<and> (\<forall>i \<in> dom waiting \<union> fst ` set events. next_id \<le> i) \<and>
     distinct (map fst events) \<and> dom waiting \<inter> fst ` set events = {}"

lemma queue_receives:
  "queue_ok ((i, x) # events) next_id waiting \<Longrightarrow> queue_ok events next_id (waiting(i \<mapsto> x)) \<and> i \<notin> dom waiting"
  by (auto simp: queue_ok_def)

lemma queue_prints: "queue_ok events next_id waiting \<Longrightarrow> waiting next_id = Some y \<Longrightarrow>
    queue_ok events (next_id + 1) (waiting(next_id := None))"
proof -
  assume ok: "queue_ok events next_id waiting" and y: "waiting next_id = Some y"
  then have "next_id \<notin> fst ` set events"
    unfolding queue_ok_def by blast
  then have "next_id + 1 \<le> i" if "i \<in> dom (waiting(next_id := None)) \<union> fst ` set events" for i
  proof -
    have "next_id \<le> i" and "i \<noteq> next_id"
      using that ok \<open>next_id \<notin> fst ` set events\<close> unfolding queue_ok_def by auto
    then show ?thesis by simp
  qed
  then show ?thesis
    using ok unfolding queue_ok_def by auto
qed

lemma print_events_sorted:
  assumes "queue_ok events next_id waiting"
  shows "sorted_wrt (<) (map fst (print_events events next_id waiting)) \<and>
    set (print_events events next_id waiting) = Map.graph waiting \<union> set events \<and>
    (\<forall>i \<in> fst ` set (print_events events next_id waiting). next_id \<le> i)"
  using assms
proof (induction events next_id waiting rule: print_events.induct)
  case (1 next_id waiting)
  have "map fst (print_events [] next_id waiting) = sorted_list_of_set (dom waiting)"
    by (simp add: comp_def)
  moreover have "set (print_events [] next_id waiting) = Map.graph waiting"
    using 1 by (auto simp: queue_ok_def Map.graph_def)
  ultimately show ?case
    using 1 by (auto simp: queue_ok_def Map.graph_def)
next
  case (2 i x events next_id waiting)
  let ?w = "waiting(i \<mapsto> x)"
  note ok = queue_receives [OF 2(3)]
  have graph: "Map.graph ?w = insert (i, x) (Map.graph waiting)"
    using ok by (auto simp: Map.graph_def domIff split: if_splits)
  show ?case
  proof (cases "?w next_id")
    case None
    have "print_events ((i, x) # events) next_id waiting = print_events events next_id ?w"
      using None by (simp only: print_events.simps Let_def option.case)
    moreover have "Map.graph ?w \<union> set events = Map.graph waiting \<union> set ((i, x) # events)"
      by (simp only: graph set_simps Un_insert_left Un_insert_right)
    ultimately show ?thesis
      using 2(1) [OF refl None conjunct1 [OF ok]] by metis
  next
    case (Some y)
    let ?u = "?w(next_id := None)"
    have printed: "print_events ((i, x) # events) next_id waiting = (next_id, y) # print_events events (next_id + 1) ?u"
      using Some by (simp only: print_events.simps Let_def option.case)
    let ?ps = "print_events events (next_id + 1) ?u"
    have IH: "sorted_wrt (<) (map fst ?ps)" "set ?ps = Map.graph ?u \<union> set events" "\<forall>j \<in> fst ` set ?ps. next_id + 1 \<le> j"
      using 2(2) [OF refl Some queue_prints [OF conjunct1 [OF ok] Some]] by blast+
    have "Map.graph ?w = insert (next_id, y) (Map.graph ?u)"
      using Some by (auto simp: Map.graph_def split: if_splits)
    then have "set ((next_id, y) # ?ps) = Map.graph waiting \<union> set ((i, x) # events)"
      using graph by (simp only: IH(2) set_simps) blast
    moreover have above: "\<forall>j \<in> set (map fst ?ps). next_id < j"
      using IH(3) by (simp only: set_map) (simp add: Suc_le_eq)
    then have "sorted_wrt (<) (map fst ((next_id, y) # ?ps))"
      using IH(1) by (simp only: list.map sorted_wrt.simps fst_conv simp_thms)
    moreover have "\<forall>j \<in> fst ` set ((next_id, y) # ?ps). next_id \<le> j"
      using above by (simp only: set_map set_simps image_insert fst_conv) (simp add: less_imp_le)
    ultimately show ?thesis
      by (simp only: printed simp_thms)
  qed
qed

lemma tree_events_printed:
  assumes "distinct (map fst events)"
  shows "sorted_wrt (<) (map fst (read_tree events)) \<and> set (read_tree events) = set events"
  using print_events_sorted [of events 0 Map.empty] assms by (simp add: read_tree_def queue_ok_def)

text \<open>
  A node keeps only the latest of its changes, so a tree whose changes are all indexed need not carry all sequence
  numbers: after two changes of the same leaf no node has the first number, and the tree is called incomplete.
\<close>

definition demo_path :: "path_node list" where
  "demo_path = [\<lparr>pn_node = [1], pn_index = 2\<rparr>, \<lparr>pn_node = [2], pn_index = 1\<rparr>]"

definition demo_two_changes :: db where
  "demo_two_changes = snd (insert_path [7] 2 1 0 demo_path (snd (insert_path [7] 1 1 0 demo_path empty_db)))"

lemma demo_nodes: "k \<in> {1, 2} \<Longrightarrow> map_option cl_seq (cl_items demo_two_changes ([7], k)) = Some 2"
  by (auto simp: demo_two_changes_def demo_path_def db_then_def db_bind_def map_err_def execute_def statement_def db_return_def
      empty_db_def upsert_cl_item_def upsert_def cl_item_def cl_items_where_def cl_items_columns_def Let_def sql_gt_def sql_cmp_def
      sql_holds_def u32_as_i64_def)

end
