(* ===== verification/TaskCreator.thy ===== *)
theory TaskCreator
  imports BgSteps TokenInscription OpsCore "HOL-Library.List_Lexorder"
begin

text \<open>
  The tool that creates background tasks (\<open>tools/bgtask_creator\<close>): its selection of asset data and its four
  commands \<open>reindex\<close>, \<open>show\<close>, \<open>create\<close> and \<open>delete\<close>.  The order in which the database reads its rows and the
  parser of keys are parameters (\<open>creator_env\<close>).  A selection is a function of the database; its pages are read
  while no other process writes the selected rows.
\<close>

section \<open>Selections\<close>

record creator_env =
  ce_asset_data :: "asset_data_table \<Rightarrow> asset_data_row list"
  ce_assets :: "asset_table \<Rightarrow> asset_row list"
  ce_creators :: "asset_creators_table \<Rightarrow> asset_creators_row list"
  ce_parse_key :: "string \<Rightarrow> pubkey option"

record selection_args =
  sa_authority :: "string option"
  sa_collection :: "string option"
  sa_creator :: "string option"
  sa_mint :: "string option"

text \<open>An inner join: a row comes once for every partner.\<close>

definition joined_rows :: "('r \<Rightarrow> 'p \<Rightarrow> bool) \<Rightarrow> 'p list \<Rightarrow> 'r list \<Rightarrow> 'r list" where
  "joined_rows on partners rows = concat (map (\<lambda>r. replicate (length (filter (on r) partners)) r) rows)"

definition parsed_key :: "creator_env \<Rightarrow> string \<Rightarrow> (pubkey \<Rightarrow> 'a) \<Rightarrow> 'a outcome" where
  "parsed_key C key f = (case ce_parse_key C key of None \<Rightarrow> Panic | Some k \<Rightarrow> Done (f k))"

definition by_authority :: "creator_env \<Rightarrow> (asset_data_row \<Rightarrow> bool) \<Rightarrow> pubkey \<Rightarrow> db \<Rightarrow> asset_data_row list" where
  "by_authority C condition k s =
     filter (\<lambda>r. (case asset_authority s (ad_id r) of Some a \<Rightarrow> aa_authority a = k | None \<Rightarrow> False) \<and> condition r)
       (ce_asset_data C (asset_data s))"

definition by_collection :: "creator_env \<Rightarrow> (asset_data_row \<Rightarrow> bool) \<Rightarrow> string \<Rightarrow> db \<Rightarrow> asset_data_row list" where
  "by_collection C condition collection s =
     joined_rows (\<lambda>r g. ag_asset_id g = ad_id r \<and> ag_group_value g = Some collection \<and> condition r)
       (map snd (asset_grouping s)) (ce_asset_data C (asset_data s))"

definition by_mint_authority :: "creator_env \<Rightarrow> (asset_data_row \<Rightarrow> bool) \<Rightarrow> pubkey \<Rightarrow> db \<Rightarrow> asset_data_row list" where
  "by_mint_authority C condition k s =
     joined_rows (\<lambda>r a. a_asset_data a = Some (ad_id r) \<and>
         (case a_supply_mint a of
            Some m \<Rightarrow> (case tokens s m of Some t \<Rightarrow> t_mint_authority t = Some k | None \<Rightarrow> False)
          | None \<Rightarrow> False) \<and> condition r)
       (ce_assets C (asset s)) (ce_asset_data C (asset_data s))"

definition by_creator :: "creator_env \<Rightarrow> (asset_data_row \<Rightarrow> bool) \<Rightarrow> pubkey \<Rightarrow> db \<Rightarrow> asset_data_row list" where
  "by_creator C condition k s =
     joined_rows (\<lambda>r c. ac_asset_id c = ad_id r \<and> ac_creator c = k \<and> condition r)
       (ce_creators C (asset_creators s)) (ce_asset_data C (asset_data s))"

definition find_by_type ::
  "creator_env \<Rightarrow> selection_args \<Rightarrow> (asset_data_row \<Rightarrow> bool) \<Rightarrow> ((db \<Rightarrow> asset_data_row list) \<times> string) outcome" where
  "find_by_type C args condition =
     (case sa_authority args of
        Some authority \<Rightarrow> parsed_key C authority (\<lambda>k. (by_authority C condition k, authority))
      | None \<Rightarrow>
     (case sa_collection args of
        Some collection \<Rightarrow> Done (by_collection C condition collection, collection)
      | None \<Rightarrow>
     (case sa_mint args of
        Some mint \<Rightarrow> parsed_key C mint (\<lambda>k. (by_mint_authority C condition k, mint))
      | None \<Rightarrow>
     (case sa_creator args of
        Some creator \<Rightarrow> parsed_key C creator (\<lambda>k. (by_creator C condition k, creator))
      | None \<Rightarrow> Done (\<lambda>s. filter condition (ce_asset_data C (asset_data s)), ''all'')))))"

text \<open>
  The stream of pages: one statement for every page and one for the empty page that ends it.  The value says which
  pages were read, and whether a failing statement made the tool panic.
\<close>

fun read_pages :: "'a list list \<Rightarrow> db \<Rightarrow> ('a list list \<times> bool) \<times> db" where
  "read_pages [] s = (case query (\<lambda>_. ()) s of (Inl _, s') \<Rightarrow> (([], False), s') | (Inr _, s') \<Rightarrow> (([], True), s'))"
| "read_pages (p # ps) s =
     (case query (\<lambda>_. p) s of
        (Inl _, s') \<Rightarrow> (([], False), s')
      | (Inr page, s') \<Rightarrow> (case read_pages ps s' of ((pages, ended), s'') \<Rightarrow> ((page # pages, ended), s'')))"

definition pages_of :: "nat \<Rightarrow> (db \<Rightarrow> asset_data_row list) \<Rightarrow> db \<Rightarrow> asset_data_row list list" where
  "pages_of batch_size sel s = chunks batch_size (sort_key ad_id (sel s))"

section \<open>Commands\<close>

definition is_missing :: "asset_data_row \<Rightarrow> bool" where
  "is_missing r \<longleftrightarrow> ad_metadata r = JString ''processing''"

definition to_reindex :: "asset_data_row \<Rightarrow> bool" where
  "to_reindex r \<longleftrightarrow> ad_reindex r = Some True"

definition mark_reindex :: "asset_data_row \<Rightarrow> asset_data_row" where
  "mark_reindex r = (if is_missing r \<and> ad_reindex r = Some False then r\<lparr>ad_reindex := Some True\<rparr> else r)"

definition reindex_command :: "creator_env \<Rightarrow> db \<Rightarrow> nat outcome \<times> db" where
  "reindex_command C s =
     (case statement (\<lambda>s. (length (filter (\<lambda>r. is_missing r \<and> ad_reindex r = Some False) (ce_asset_data C (asset_data s))),
             s\<lparr>asset_data := map_option mark_reindex \<circ> asset_data s\<rparr>)) s of
        (Inl _, s') \<Rightarrow> (Panic, s')
      | (Inr n, s') \<Rightarrow> (Done n, s'))"

text \<open>A failing count shows as \<open>0\<close>, for the assets to index again as \<open>-1\<close>.\<close>

record show_result =
  sh_type :: string
  sh_reindexing :: int
  sh_finished :: nat
  sh_missing :: nat
  sh_total :: nat

definition show_counts ::
  "nat \<Rightarrow> (db \<Rightarrow> asset_data_row list) \<Rightarrow> (db \<Rightarrow> asset_data_row list) \<Rightarrow> (db \<Rightarrow> asset_data_row list) \<Rightarrow> string \<Rightarrow> db \<Rightarrow>
     show_result outcome \<times> db" where
  "show_counts batch_size ended processing reindex tp s =
     (if batch_size = 0 then (Panic, s)
      else case query (\<lambda>s. length (ended s)) s of (data_count, s1) \<Rightarrow>
        (case query (\<lambda>s. length (reindex s)) s1 of (reindexing, s2) \<Rightarrow>
          (case read_pages (pages_of batch_size processing s2) s2 of
             ((pages, False), s3) \<Rightarrow> (Panic, s3)
           | ((pages, True), s3) \<Rightarrow>
               let i = sum_list (map length pages);
                   total_finished = (case data_count of Inl _ \<Rightarrow> 0 | Inr n \<Rightarrow> n)
               in (Done \<lparr>sh_type = tp, sh_reindexing = (case reindexing of Inl _ \<Rightarrow> -1 | Inr n \<Rightarrow> int n),
                     sh_finished = total_finished, sh_missing = i, sh_total = i + total_finished\<rparr>, s3))))"

definition show_command :: "creator_env \<Rightarrow> selection_args \<Rightarrow> nat \<Rightarrow> db \<Rightarrow> show_result outcome \<times> db" where
  "show_command C args batch_size s =
     (case (find_by_type C args (\<lambda>r. \<not> is_missing r), find_by_type C args is_missing, find_by_type C args to_reindex) of
        (Done (ended, _), Done (processing, tp), Done (reindex, _)) \<Rightarrow>
          show_counts batch_size ended processing reindex tp s
      | _ \<Rightarrow> (Panic, s))"

definition delete_command :: "DbErr option \<Rightarrow> tasks_table \<Rightarrow> (IngesterError + nat) \<times> tasks_table" where
  "delete_command fault t = (case fault of Some e \<Rightarrow> (Inl (ingester_from_DbErr e), t) | None \<Rightarrow> (Inr (length t), []))"

definition creator_manager :: "task_env \<Rightarrow> BackgroundTaskRunnerConfig option \<Rightarrow> string \<Rightarrow> TaskManager" where
  "creator_manager E config name =
     (let c = (case config of Some c \<Rightarrow> c | None \<Rightarrow> default_runner_config) in
      \<lparr>mgr_instance_name = name,
       mgr_task_types = registered_task_types [download_task_type E
         \<lparr>dt_lock_duration = rc_lock_duration c, dt_max_attempts = rc_max_attempts c,
          dt_timeout = Some (case rc_timeout c of Some t \<Rightarrow> t | None \<Rightarrow> 3)\<rparr>],
       mgr_process_on_receive = False, mgr_config = config\<rparr>)"

text \<open>The task of an asset, with the time at which its row is met.\<close>

definition created_task :: "(asset_data_row \<Rightarrow> int) \<Rightarrow> asset_data_row \<Rightarrow> TaskData" where
  "created_task clock r =
     into_task_data (DownloadMetadata_sanitize
       \<lparr>dm_asset_data_id = ad_id r, dm_uri = ad_metadata_url r, dm_created_at = Some (clock r)\<rparr>)"

text \<open>The tasks that are spawned, and whether the reading of the pages panicked.\<close>

definition create_command ::
  "task_env \<Rightarrow> creator_env \<Rightarrow> selection_args \<Rightarrow> nat \<Rightarrow> (asset_data_row \<Rightarrow> int) \<Rightarrow> db \<Rightarrow> (TaskData list \<times> bool) \<times> db" where
  "create_command E C args batch_size clock s =
     (case find_by_type C args to_reindex of
        Panic \<Rightarrow> (([], False), s)
      | Done (sel, _) \<Rightarrow>
          if batch_size = 0 then (([], False), s)
          else case read_pages (pages_of batch_size sel s) s of
            ((pages, ended), s') \<Rightarrow>
              ((filter (\<lambda>td. \<not> isl (TaskData_hash E td)) (map (created_task clock) (concat pages)), ended), s'))"

text \<open>
  A spawned task looks for a row that is no longer pending, going on when the query fails, and inserts its own; the
  handler's own error lies within the result of its join, so that every insertion counts as completed.
\<close>

datatype create_line = CL_Duplicate | CL_Completed

record create_job_run =
  cr_task :: TaskData
  cr_find_fault :: "DbErr option"
  cr_insert_fault :: "DbErr option"
  cr_now :: int

definition create_job :: "task_env \<Rightarrow> TaskManager \<Rightarrow> create_job_run \<Rightarrow> tasks_table \<Rightarrow> create_line \<times> tasks_table" where
  "create_job E m j t =
     (if cr_find_fault j = None \<and>
         (case TaskData_hash E (cr_task j) of
            Inl _ \<Rightarrow> False
          | Inr h \<Rightarrow> (case find_task h t of Some r \<Rightarrow> tk_status r \<noteq> TS_Pending | None \<Rightarrow> False))
      then (CL_Duplicate, t)
      else (CL_Completed,
        (case new_task_handler E m (cr_now j) (cr_task j) t of
           Inl _ \<Rightarrow> t
         | Inr t' \<Rightarrow> if cr_insert_fault j = None then t' else t)))"

text \<open>The spawned tasks in the order in which they reach the table, and the final counts.\<close>

fun create_jobs :: "task_env \<Rightarrow> TaskManager \<Rightarrow> create_job_run list \<Rightarrow> tasks_table \<Rightarrow> create_line list \<times> tasks_table" where
  "create_jobs E m [] t = ([], t)"
| "create_jobs E m (j # js) t =
     (case create_job E m j t of (l, t1) \<Rightarrow> (case create_jobs E m js t1 of (ls, t2) \<Rightarrow> (l # ls, t2)))"

definition create_summary :: "create_line list \<Rightarrow> nat \<times> nat" where
  "create_summary lines = (length lines, 0)"

section \<open>Properties\<close>

lemma joined_rows_set: "set (joined_rows on partners rows) = {r \<in> set rows. \<exists>p \<in> set partners. on r p}"
  by (auto simp: joined_rows_def filter_empty_conv set_replicate_conv_if)

lemma read_pages_ok: "faults s = [] \<Longrightarrow> read_pages ps s = ((ps, True), s)"
  by (induction ps) (simp_all add: query_ok)

lemma concat_pages: "0 < n \<Longrightarrow> concat (pages_of n sel s) = sort_key ad_id (sel s)"
  by (simp add: pages_of_def concat_chunks)

lemma create_command_tasks:
  assumes "faults s = []" and "0 < n" and "find_by_type C args to_reindex = Done (sel, tp)"
    and "r \<in> set (sel s)" and "\<not> isl (TaskData_hash E (created_task clock r))"
  shows "\<exists>tds. create_command E C args n clock s = ((tds, True), s) \<and> created_task clock r \<in> set tds"
  using assms by (simp add: create_command_def read_pages_ok concat_pages)

text \<open>A task of the tool leaves the rows it finds as they are and sees to it that there is one with its own key.\<close>

lemma create_job_rows:
  assumes "create_job E m j t = (l, t')"
  shows "\<exists>new. t' = t @ new \<and> (\<forall>r \<in> set new. tk_attempts r = 0)"
proof -
  have "new_task_handler E m (cr_now j) (cr_task j) t = Inr u \<Longrightarrow> \<exists>r. u = t @ [r] \<and> tk_attempts r = 0" for u
    by (auto simp: new_task_handler_def insert_task_def new_task_model_def update_columns_def lock_task_def into_active_def
        Let_def split: option.splits sum.splits if_splits)
  with assms show ?thesis
    by (force simp: create_job_def split: if_splits sum.splits)
qed

lemma find_task_kept: "find_task h t \<noteq> None \<Longrightarrow> find_task h (t @ new) \<noteq> None"
  by (auto simp: find_task_None)

lemma create_job_has_row:
  assumes "create_job E m j t = (l, t')" and "TaskData_hash E (cr_task j) = Inr h"
    and "mgr_task_types m (td_name (cr_task j)) \<noteq> None" and "cr_insert_fault j = None"
  shows "find_task h t' \<noteq> None"
proof (cases "find_task h t")
  case None
  have "tk_id (new_task_model m d h td now) = h" for d td now
    by (simp add: new_task_model_def update_columns_def into_active_def lock_task_def Let_def)
  then show ?thesis
    using assms None by (auto simp: create_job_def new_task_handler_def insert_task_def find_task_None)
next
  case (Some r)
  obtain new where "t' = t @ new"
    using create_job_rows [OF assms(1)] by blast
  then show ?thesis
    using Some find_task_kept [of h t new] by simp
qed

lemma create_jobs_rows:
  assumes "create_jobs E m js t = (ls, t')"
  shows "\<exists>new. t' = t @ new \<and> (\<forall>r \<in> set new. tk_attempts r = 0)"
  using assms
proof (induction js arbitrary: t ls)
  case (Cons j js)
  obtain l t1 where j: "create_job E m j t = (l, t1)" by fastforce
  obtain ls1 where js: "create_jobs E m js t1 = (ls1, t')"
    using Cons.prems j by (auto split: prod.splits)
  obtain new new1 where "t1 = t @ new" and "t' = t1 @ new1" and "\<forall>r \<in> set new \<union> set new1. tk_attempts r = 0"
    using create_job_rows [OF j] Cons.IH [OF js] by blast
  then show ?case by auto
qed simp

lemma create_jobs_have_rows:
  assumes "create_jobs E m js t = (ls, t')" and "j \<in> set js" and "TaskData_hash E (cr_task j) = Inr h"
    and "mgr_task_types m (td_name (cr_task j)) \<noteq> None" and "cr_insert_fault j = None"
  shows "find_task h t' \<noteq> None"
  using assms(1,2)
proof (induction js arbitrary: t ls)
  case (Cons i js)
  obtain l t1 where i: "create_job E m i t = (l, t1)" by fastforce
  obtain ls1 t2 where js: "create_jobs E m js t1 = (ls1, t2)" by fastforce
  have t': "t' = t2"
    using Cons.prems(1) i js by simp
  show ?case
  proof (cases "j = i")
    case True
    then have "find_task h t1 \<noteq> None"
      using create_job_has_row [OF i] assms(3-5) by simp
    then show ?thesis
      using create_jobs_rows [OF js] find_task_kept t' by blast
  next
    case False
    then show ?thesis
      using Cons.IH [OF js [folded t']] Cons.prems(2) by simp
  qed
qed simp

lemma creator_manager_types: "mgr_task_types (creator_manager E config name) (td_name (created_task clock r)) \<noteq> None"
  by (simp add: creator_manager_def Let_def registered_task_types_def download_task_type_def created_task_def into_task_data_def)

text \<open>
  Every selected asset that is marked for a download has a row after the command; rows that are there, failed ones
  too, stay as they are.
\<close>

lemma created_tasks_stored:
  assumes "faults s = []" and "0 < n" and "find_by_type C args to_reindex = Done (sel, tp)"
    and "r \<in> set (sel s)" and "TaskData_hash E (created_task clock r) = Inr h"
    and "create_command E C args n clock s = ((tds, True), s)" and "map cr_task js = tds"
    and "\<forall>j \<in> set js. cr_insert_fault j = None"
    and "create_jobs E (creator_manager E config name) js t = (ls, t')"
  shows "find_task h t' \<noteq> None \<and> take (length t) t' = t"
proof -
  have "created_task clock r \<in> set (map cr_task js)"
    using create_command_tasks [OF assms(1-4), of E clock] assms(5-7) by auto
  then obtain j where j: "j \<in> set js" "cr_task j = created_task clock r"
    by auto
  moreover have "mgr_task_types (creator_manager E config name) (td_name (cr_task j)) \<noteq> None"
    using creator_manager_types by (simp only: j(2)) blast
  ultimately have "find_task h t' \<noteq> None"
    using create_jobs_have_rows [OF assms(9) j(1)] assms(5,8) by simp
  moreover have "take (length t) t' = t"
    using create_jobs_rows [OF assms(9)] by auto
  ultimately show ?thesis by simp
qed

text \<open>The failure of an insertion is reported as a completed task.\<close>

lemma failed_insert_completed:
  assumes "find_task h t = None" and "TaskData_hash E (cr_task j) = Inr h" and "cr_insert_fault j = Some e"
  shows "create_job E m j t = (CL_Completed, t)"
  using assms by (simp add: create_job_def split: sum.split)

text \<open>A task that runs after a successful request clears the mark, when its address needed no cleaning.\<close>

lemma created_task_clears_mark:
  assumes "faults s = []" and "asset_data s k = Some r" and "ad_id r = k"
    and "remove_nul (trim (ad_metadata_url r)) = ad_metadata_url r"
    and "te_url_parses E (ad_metadata_url r)" and "request_metadata out = Inr body"
  shows "DownloadMetadataTask_task E out (td_data (created_task clock r)) s =
    (Inr (), s\<lparr>asset_data := (asset_data s)(k \<mapsto> r\<lparr>ad_metadata := body, ad_reindex := Some False\<rparr>)\<rparr>)"
proof -
  let ?d = "DownloadMetadata_sanitize \<lparr>dm_asset_data_id = ad_id r, dm_uri = ad_metadata_url r, dm_created_at = Some (clock r)\<rparr>"
  have "DownloadMetadata_from_value E (td_data (created_task clock r)) = Inr (?d\<lparr>dm_created_at := None\<rparr>)"
    by (simp add: created_task_def into_task_data_def from_value_to_value)
  from task_healthy [OF assms(1) this, of r out body] assms show ?thesis
    by (simp add: DownloadMetadata_sanitize_def)
qed

text \<open>\<open>reindex\<close> marks the rows whose metadata is missing, but for those whose mark is \<open>NULL\<close>.\<close>

lemma reindex_marks:
  assumes "faults s = []" and "reindex_command C s = (res, s')"
  shows "\<exists>n. res = Done n \<and> asset_data s' = map_option mark_reindex \<circ> asset_data s"
  using assms by (auto simp: reindex_command_def statement_ok)

lemma null_mark_stays: "ad_reindex r = None \<Longrightarrow> mark_reindex r = r"
  by (simp add: mark_reindex_def)

lemma reindexed_missing: "is_missing r \<Longrightarrow> ad_reindex r \<noteq> None \<Longrightarrow> to_reindex (mark_reindex r)"
  by (auto simp: mark_reindex_def to_reindex_def)

text \<open>The totals of \<open>show\<close> are the number of the selected rows, each once for every partner of its join.\<close>

lemma length_join_split:
  "length (joined_rows (\<lambda>r p. on r p \<and> \<not> c r) ps rows) + length (joined_rows (\<lambda>r p. on r p \<and> c r) ps rows) =
   length (joined_rows on ps rows)"
proof (induction rows)
  case (Cons r rows)
  then show ?case
    by (cases "c r") (auto simp: joined_rows_def)
qed (simp add: joined_rows_def)

lemma length_filter_split:
  "length (filter (\<lambda>r. P r \<and> \<not> c r) xs) + length (filter (\<lambda>r. P r \<and> c r) xs) = length (filter P xs)"
  by (induction xs) auto

definition splits :: "((asset_data_row \<Rightarrow> bool) \<Rightarrow> 'k \<Rightarrow> db \<Rightarrow> asset_data_row list) \<Rightarrow> bool" where
  "splits by \<longleftrightarrow> (\<forall>c k s. length (by (\<lambda>r. \<not> c r) k s) + length (by c k s) = length (by (\<lambda>_. True) k s))"

lemma authority_splits: "splits (by_authority C)"
  by (simp add: splits_def by_authority_def length_filter_split)

lemma join_splits:
  assumes "\<And>c k s. by c k s = joined_rows (\<lambda>r p. on s k r p \<and> c r) (partners s) (rows s)"
  shows "splits by"
  by (simp add: splits_def assms length_join_split)

lemma collection_splits: "splits (by_collection C)"
  by (rule join_splits [where on = "\<lambda>s x r g. ag_asset_id g = ad_id r \<and> ag_group_value g = Some x"])
    (simp only: by_collection_def conj_assoc)

lemma creator_splits: "splits (by_creator C)"
  by (rule join_splits [where on = "\<lambda>s k r a. ac_asset_id a = ad_id r \<and> ac_creator a = k"])
    (simp only: by_creator_def conj_assoc)

lemma mint_authority_splits: "splits (by_mint_authority C)"
  by (rule join_splits [where on = "\<lambda>s k r a. a_asset_data a = Some (ad_id r) \<and>
      (case a_supply_mint a of
         Some m \<Rightarrow> (case tokens s m of Some t \<Rightarrow> t_mint_authority t = Some k | None \<Rightarrow> False) | None \<Rightarrow> False)"])
    (simp only: by_mint_authority_def conj_assoc)

lemma selection_split:
  assumes "find_by_type C args (\<lambda>r. \<not> c r) = Done (f, tp)" and "find_by_type C args c = Done (g, tp')"
    and "find_by_type C args (\<lambda>_. True) = Done (h, tp'')"
  shows "length (f s) + length (g s) = length (h s)"
  using assms authority_splits [of C] collection_splits [of C] creator_splits [of C] mint_authority_splits [of C]
    length_filter_split [of "\<lambda>_. True" c "ce_asset_data C (asset_data s)"]
  by (auto simp: find_by_type_def parsed_key_def splits_def split: option.splits)

lemma show_totals:
  assumes "faults s = []" and "0 < n" and "find_by_type C args (\<lambda>_. True) = Done (sel, tp)"
  shows "\<exists>res. show_command C args n s = (Done res, s) \<and> sh_total res = length (sel s)"
proof -
  have "\<exists>f. find_by_type C args c = Done (f, tp)" for c
    using assms(3) by (auto simp: find_by_type_def parsed_key_def split: option.splits)
  then obtain f g h where sel: "find_by_type C args (\<lambda>r. \<not> is_missing r) = Done (f, tp)"
      "find_by_type C args is_missing = Done (g, tp)" "find_by_type C args to_reindex = Done (h, tp)"
    by metis
  have "sum_list (map length (pages_of n g s)) = length (g s)"
    using concat_pages [OF assms(2), of g s] by (metis length_concat length_sort)
  moreover have "length (f s) + length (g s) = length (sel s)"
    by (rule selection_split [OF sel(1,2) assms(3)])
  ultimately show ?thesis
    using assms(1,2) sel by (simp add: show_command_def show_counts_def query_ok read_pages_ok Let_def)
qed

end
