(* ===== verification/TaskContract.thy ===== *)
theory TaskContract
  imports BgSteps
begin

text \<open>
  The contract of a task type (the trait \<open>BgTask\<close> of \<open>nft_ingester/src/tasks/mod.rs\<close>): its executions write no table of
  the index but \<open>asset_data\<close>.  The download task meets it, so the runs of the task manager cannot disturb the
  convergence of the index.
\<close>

section \<open>The contract\<close>

text \<open>
  What the manager may rely on of a task type: whatever happens to its request and its statements, it writes
  no table but \<open>asset_data\<close>.  An execution of the task then leaves the rest of the index alone.
\<close>

definition same_index :: "db \<Rightarrow> db \<Rightarrow> bool" where
  "same_index s s' \<longleftrightarrow> s' = s\<lparr>faults := faults s', asset_data := asset_data s'\<rparr>"

lemma same_index_refl [simp]: "same_index s s"
  by (simp add: same_index_def)

lemma same_index_faults [simp]: "same_index s (s\<lparr>faults := fs\<rparr>)"
  by (simp add: same_index_def)

lemma same_index_trans: "same_index s s1 \<Longrightarrow> same_index s1 s2 \<Longrightarrow> same_index s s2"
  unfolding same_index_def by (cases s; cases s1; cases s2) simp

locale bg_task =
  fixes d :: BgTask
  assumes task_index: "bt_task d out data s = (r, s') \<Longrightarrow> same_index s s'"
begin

lemma execute_index: "execute_task d out t0 t1 am s = (r, s') \<Longrightarrow> same_index s s'"
  by (auto simp: execute_task_def Let_def dest: task_index split: option.splits prod.splits)

lemma execute_keeps_assets:
  "execute_task d out t0 t1 am s = (r, s') \<Longrightarrow> asset s' = asset s \<and> cl_items s' = cl_items s \<and> backfill_items s' = backfill_items s"
  using execute_index [of out t0 t1 am s r s'] by (cases s; cases s') (simp add: same_index_def)

end

lemma stored_index: "metadata_stored k uri body s s' \<Longrightarrow> same_index s s'"
  by (auto simp: metadata_stored_def same_index_def)

interpretation download: bg_task "download_task_type E t" for E t
proof
  fix out data s r s'
  assume "bt_task (download_task_type E t) out data s = (r, s')"
  then show "same_index s s'"
    using store_metadata_cases [of E _ _ s r s'] stored_index [of _ _ _ s s']
    by (fastforce simp: download_task_type_def DownloadMetadataTask_task_def db_bind_def lift_result_def split: sum.splits)
qed

section \<open>Runs\<close>

text \<open>Managers whose task types keep the contract; a locked job holds the type it will run.\<close>

definition safe_manager :: "TaskManager \<Rightarrow> bool" where
  "safe_manager m \<longleftrightarrow> (\<forall>n d. mgr_task_types m n = Some d \<longrightarrow> bg_task d)"

fun safe_job :: "job \<Rightarrow> bool" where
  "safe_job (Insert_Job m td) = True"
| "safe_job (Selected_Job m r) = safe_manager m"
| "safe_job (Locked_Job m d am) = bg_task d"
| "safe_job (Executed_Job m am) = True"

definition safe_world :: "task_world \<Rightarrow> bool" where
  "safe_world w \<longleftrightarrow> (\<forall>j \<in> set (w_jobs w). safe_job j)"

lemma download_manager_safe: "mgr_task_types m = registered_task_types [download_task_type E cfg] \<Longrightarrow> safe_manager m"
  by (auto simp: safe_manager_def registered_task_types_def download.bg_task_axioms split: if_splits)

lemma bg_step_index:
  assumes "bg_step E Ms w l w'" and "\<forall>m \<in> Ms. safe_manager m" and "safe_world w" and "l \<noteq> L_Ingest"
  shows "safe_world w' \<and> same_index (w_db w) (w_db w')"
  using assms
proof (cases rule: bg_step.cases)
  case (run js m d am js' i out t0 t1 am' s)
  then have "bg_task d"
    using assms(3) by (simp add: safe_world_def)
  then have "same_index (w_db w) s"
    using run by (blast intro: bg_task.execute_index)
  then show ?thesis
    using run assms(3) by (simp add: safe_world_def)
next
  case (lock js m r js' d am t)
  then show ?thesis
    using assms(3) by (auto simp: safe_world_def safe_manager_def)
qed (auto simp: safe_world_def)

text \<open>Between two writes of the indexer, whatever the task manager does leaves the tables of the index as they are.\<close>

lemma tasks_leave_index:
  assumes "bg_steps E Ms w ls w'" and "\<forall>m \<in> Ms. safe_manager m" and "safe_world w" and "L_Ingest \<notin> set ls"
  shows "safe_world w' \<and> same_index (w_db w) (w_db w')"
  using assms(1,3,4)
proof induction
  case (one_step w l w1 ls w')
  then have "safe_world w1" and "same_index (w_db w) (w_db w1)"
    using bg_step_index [OF one_step(1) assms(2)] by (metis list.set_intros(1))+
  then show ?case
    using one_step same_index_trans by auto
qed simp

end
