(* ===== verification/Spec2Isabelle.thy ===== *)
theory Spec2Isabelle
  imports BubblegumLive Transformer TokenMetadata TokenExtensions TokenInscription MplCore MerkleProof
    SearchQuery BgProps EndToEnd IngestStream BackfillProps CrawlProps AccountFill Purge TreeStatus
    TaskCreator TaskContract
begin

text \<open>
  A verification development of the Metaplex Digital Asset RPC infrastructure: the indexer that
  turns Solana transactions and account updates into the rows of a Postgres database, the service
  that feeds it, the API that answers queries from those rows, and the tools that repair them.

  \<^bold>\<open>The program.\<close>  Messages arrive on streams (\<open>src/nft_ingester/src\<close>): a worker parses a message, hands it
  to \<open>ProgramTransformer\<close> (\<open>src/program_transformers/src/lib.rs\<close>) and acknowledges it or leaves it for a
  later delivery.  A transaction is flattened into instruction bundles
  (\<open>src/blockbuster/src/instruction.rs\<close>), an account update goes to the parser of its owner.  The parsers
  of \<open>src/blockbuster/src/programs\<close> turn bytes into typed values, the handlers of
  \<open>src/program_transformers/src\<close> turn those into \<open>INSERT .. ON CONFLICT DO UPDATE .. WHERE\<close>
  statements.  Messages arrive in any order and more than once; the \<open>WHERE\<close> guards, which compare
  sequence numbers of trees and slots, are what makes the index converge.  A handler that learns a
  metadata address notifies the background task manager, which downloads the document.  Changes that
  never arrived are found by the backfiller of the service and by the crawler of the operations
  tools (\<open>src/ops\<close>); the purge removes what is gone from the chain.  The API (\<open>src/das_api\<close>,
  \<open>src/digital_asset_types\<close>) validates a request, builds the query, pages through its rows and
  shapes the response.

  \<^bold>\<open>Theories and sources.\<close>  The foundation:
  \<^item> \<open>Prelude\<close>: Rust scalars and casts, SQL's three-valued logic, \<open>upsert\<close> (the one statement all
    tables share), the locale \<open>gated_upsert\<close> of guarded writes to a column group.
  \<^item> \<open>Schema\<close>: \<open>digital_asset_types/src/dao/generated\<close>, one record per table row, the record \<open>db\<close>.
  \<^item> \<open>Db\<close>: actions on a connection, transactions, \<open>program_transformers/src/error.rs\<close>, and the
    triples (\<open>triple P m Q\<close>) that later proofs use.
  \<^item> \<open>Chain\<close>: the data that other crates define, \<open>env\<close> (the foreign functions as parameters),
    instruction names and chain data of \<open>digital_asset_types\<close>.  \<open>Samples\<close>: inputs for witnesses.

  The indexer:
  \<^item> \<open>BubblegumDb\<close>: \<open>bubblegum/db.rs\<close>.  \<open>BubblegumHandlers\<close>: the other files of \<open>bubblegum/\<close>.
    \<open>BubblegumParser\<close>: \<open>blockbuster/src/programs/bubblegum/mod.rs\<close>.
  \<^item> \<open>BubblegumSpec\<close>, \<open>BubblegumRefine\<close>, \<open>BubblegumHistory\<close>: an instruction as a set of guarded
    writes, the refinement of every handler to it, and convergence of histories.  \<open>BubblegumProps\<close>
    and \<open>BubblegumLive\<close>: safety and liveness of single instructions.
  \<^item> \<open>AssetUpserts\<close>: \<open>asset_upserts.rs\<close>.  \<open>TokenProgram\<close>: \<open>token/mod.rs\<close> and account closing.
    \<open>TokenMetadata\<close>, \<open>TokenInscription\<close>, \<open>TokenExtensions\<close>, \<open>MplCore\<close>: the parser and the handler of the
    program of that name.  \<open>ExtensionParser\<close>: the Token 2022 parser.  \<open>CorePlugins\<close>: the JSON of MPL Core
    plugins.
  \<^item> \<open>Instructions\<close>: \<open>blockbuster/src/instruction.rs\<close>.  \<open>Transformer\<close> and \<open>AccountUpdate\<close>:
    \<open>program_transformers/src/lib.rs\<close>, its transactions and its account updates.

  The service:
  \<^item> \<open>IngestStream\<close>: \<open>account_updates.rs\<close>, \<open>transaction_notifications.rs\<close>, \<open>ack.rs\<close>, \<open>plerkle.rs\<close> and the
    verdict of \<open>metrics.rs\<close>, with the workers of a stream as the step relation \<open>ingest_step\<close>.
  \<^item> \<open>DownloadTask\<close>, \<open>BgTasks\<close>, \<open>BgSteps\<close>, \<open>BgProps\<close>, \<open>TaskContract\<close>: \<open>tasks/\<close>, the rows of the task table, the listeners
    and runners of several instances as the step relation \<open>bg_step\<close>, and what they guarantee.  The
    contract of a task type is the locale \<open>bg_task\<close>.
  \<^item> \<open>Backfiller\<close>, \<open>BackfillProps\<close>: \<open>backfiller.rs\<close>.

  The queries:
  \<^item> \<open>MerkleProof\<close>: \<open>digital_asset_types/src/dapi/change_logs.rs\<close>.
  \<^item> \<open>Pagination\<close>, \<open>AssetQuery\<close>, \<open>SearchQuery\<close>: the validation of requests, \<open>dao/scopes/asset.rs\<close>, and the
    search conditions of \<open>dao/mod.rs\<close>.  \<open>RpcView\<close>: \<open>rpc\<close> and \<open>dapi/common/asset.rs\<close>.  \<open>Api\<close>: the methods of
    \<open>das_api\<close>.  \<open>EndToEnd\<close>: from an indexed instruction to the response of the API.

  The tools:
  \<^item> \<open>OpsCore\<close>: the message queue pool of \<open>src/core\<close>.  \<open>TreeCrawl\<close>, \<open>CrawlProps\<close>: \<open>ops/src/bubblegum\<close>.
    \<open>AccountFill\<close>: \<open>ops/src/account\<close>.  \<open>Purge\<close>: \<open>ops/src/purge\<close>.
  \<^item> \<open>TreeStatus\<close>: \<open>tools/tree-status\<close> and the search for signatures of \<open>tools/txn_forwarder\<close>.
    \<open>TaskCreator\<close>: \<open>tools/bgtask_creator\<close>.

  \<^bold>\<open>State and effects.\<close>  A handler is a function from the database to a result and the database it
  leaves.  Every statement consumes one entry of the field \<open>faults\<close>, which says whether it
  succeeds; theorems over all databases cover all patterns of failures.  \<open>with_txn\<close> rolls back
  when its body or the commit fails.  Concurrent parts (stream workers, task runners) are step
  relations whose runs interleave; the purge takes the schedule of its batches.  Queries read
  a \<open>snapshot\<close>.  A node, a messenger, a clock and an HTTP client are parameters or given outcomes.
  Sleeping between retries, logging and metrics have no effect in the model.

  \<^bold>\<open>Results.\<close>  Any two deliveries of the same Bubblegum instructions, in any order, repeated and
  with failures, leave the same tables once each instruction has succeeded; a failed
  instruction changes no asset table; decompressed assets are closed to Bubblegum, also when they
  were decompressed by the account handlers; sequence numbers never decrease; a served Merkle proof
  recomputes the root.  The stream workers acknowledge only settled messages and acknowledge
  settled ones.  The task table stays consistent, a task runs at most as often as its limit allows
  as long as runners do not overlap, and an unfinished task can always be completed.  The
  backfiller and the crawler find and send the missing changes, the purge spares what is alive.  The API
  pages through all matching assets once, answers batches like single requests and serves what
  the indexer stored.  Around these stand the parsers (round trip of inscriptions, panics, types
  of payloads), instruction ordering against a reference definition, and the account handlers.
  Where the code does not do what it says, a lemma or a property shows it (\<open>mint_swaps_authority_columns\<close>,
  \<open>burn_ignored_without_slot\<close>, \<open>padded_uri_never_downloaded\<close>, \<open>first_error_settles_transaction\<close>,
  \<open>failed_sends_exhaust_pool\<close> and others).

  \<^bold>\<open>Bounds and fuel.\<close>  Signed columns are \<open>int\<close>, casts into them wrap (\<open>as_i64\<close> and its
  relatives); \<open>u8\<close> to \<open>u64\<close> are words.  Loops over data are structural or have a measure
  (\<open>proof_loop\<close>, \<open>update_group_loop\<close>, \<open>chunks\<close>).  The three loops that read pages from a node
  until one is empty need not end: \<open>find_slots\<close>, \<open>crawl\<close> and \<open>find_signatures\<close> are partial functions into
  \<open>option\<close>, and \<open>slots_of_tree_found\<close>, \<open>crawler_sends_missing\<close> and \<open>signatures_found\<close> show that they return when
  the node serves a finite history.  \<open>cursor_pages\<close> takes the number of requests a client makes;
  \<open>cursor_pages_complete\<close> says how many are enough.  No model uses fuel.
  \<^bold>\<open>Not modelled.\<close>  Generated ORM glue beyond the columns; the Borsh deserializers of other
  crates (parameters); the HTTP server, its middleware and its configuration; connection pools,
  metrics and the retries of RPC requests; migrations (SQL text); command lines and the
  forwarders of \<open>src/tools\<close>, which move bytes from a node to a queue; the proxy filter, which runs
  inside a foreign host; \<open>account_closure\<close>, which no crate compiles.  These are input and output
  around the modelled functions.
\<close>

section \<open>Bubblegum\<close>

text \<open>
  C1: eventual consistency of the Bubblegum index.  Take a set of instructions numbered by their
  trees (\<open>history_ok\<close>) and deliver it twice, to databases that agree on the five tables: each
  time in any order, any instruction any number of times, with any pattern of failing statements,
  as long as every instruction succeeded at least once.  Then the tables \<open>asset\<close>, \<open>asset_data\<close>,
  \<open>asset_creators\<close>, \<open>asset_grouping\<close> and \<open>cl_items\<close> are the same.
\<close>

theorem bubblegum_converges:
  assumes "history_ok E es" and "set es = set es'"
    and "deliver E nt es s = (rs, s')" and "deliver E nt' es' t = (rs', t')"
    and "indexed_events es rs = set es" and "indexed_events es' rs' = set es'"
    and "core_of s = core_of t"
  shows "core_of s' = core_of t'"
  using assms by (rule deliveries_converge)

theorem bubblegum_converges_witness:
  "let es = [demo_transfer 1 10, demo_transfer 2 20];
       es' = [demo_transfer 2 20, demo_transfer 1 10, demo_transfer 2 20];
       t = empty_db\<lparr>faults := [None, Some ''timeout'']\<rparr>
   in fst (deliver demo_env (\<lambda>_. Inr ()) es' t) = [Inl (StorageWriteError ''timeout''), Inr (), Inr ()] \<and>
      core_of (snd (deliver demo_env (\<lambda>_. Inr ()) es empty_db)) =
      core_of (snd (deliver demo_env (\<lambda>_. Inr ()) es' t))"
proof -
  let ?es = "[demo_transfer 1 10, demo_transfer 2 20]"
  let ?es' = "[demo_transfer 2 20, demo_transfer 1 10, demo_transfer 2 20]"
  let ?t = "empty_db\<lparr>faults := [None, Some ''timeout'']\<rparr>"
  let ?d = "deliver demo_env (\<lambda>_. Inr ()) ?es empty_db"
  let ?d' = "deliver demo_env (\<lambda>_. Inr ()) ?es' ?t"
  have h: "history_ok demo_env ?es"
    by (auto simp: history_ok_def event_ok_def events_compatible_def demo_defs ev_creators_def
      ev_leaf_v2_def)
  have r: "fst ?d = [Inr (), Inr ()]"
    by (simp add: eval_defs empty_db_def)
  have r': "fst ?d' = [Inl (StorageWriteError ''timeout''), Inr (), Inr ()]"
    by (simp add: eval_defs empty_db_def)
  have i: "indexed_events ?es (fst ?d) = set ?es" "indexed_events ?es' (fst ?d') = set ?es'"
    unfolding r r' by (auto simp: indexed_events_def)
  have "core_of (snd ?d) = core_of (snd ?d')"
    by (rule bubblegum_converges[OF h _ prod.collapse[symmetric] prod.collapse[symmetric] i])
      (auto simp: core_of_def)
  with r' show ?thesis by (simp add: Let_def)
qed

section \<open>Decompression\<close>


lemma demo_metadata_saved:
  "\<exists>info. fst (save_v1_asset demo_env demo_metadata 8 empty_db) = Inr info"
  by (simp add: save_v1_asset_def demo_defs class_and_ownership_def ownership_of_class_def WSOL_PUBKEY_def
    index_and_fetch_mint_data_def RETRY_INTERVALS_def db_simps empty_db_def ownership_by_supply_def class_by_supply_def
    index_token_account_data_def select_token_account_def metadata_chain_data_def ChainDataV1_sanitize_def
    ChainDataV1_to_value_def opt_field_def Let_def upsert_v1_asset_data_def
    upsert_assets_metadata_account_columns_def insert_edition_attachment_def upsert_v1_authority_def
    upsert_v1_collection_def upsert_v1_creators_def v1_creator_rows_def upsert_asset_v1_account_attachments_def
    std_is_non_fungible_def)


end
